(* ===== verification/Mcp_Prelude.thy ===== *)
theory Mcp_Prelude
  imports Main "HOL-Library.AList"
begin

text \<open>
  Shared vocabulary of the development: hash maps as association lists, the two clocks
  the program reads (\<open>std::time::Instant\<close> and \<open>std::time::SystemTime\<close>), the string
  operations of the standard library that the code uses, JSON values as
  \<open>serde_json::Value\<close> presents them, and HTTP answers as \<open>reqwest\<close> presents them.
  The named collections \<open>hm\<close> (hash maps) and \<open>time\<close> (durations) are what the
  component proofs pass to the simplifier.
\<close>

named_theorems hm
named_theorems time

section \<open>Hash maps\<close>

text \<open>
  A \<open>HashMap\<close> is an association list with distinct keys (\<open>hm_ok\<close>). The list order
  stands for the unspecified iteration order of the map: every theorem holds for all orders.
\<close>

definition hm_get :: "('k \<times> 'v) list \<Rightarrow> 'k \<Rightarrow> 'v option" where
  "hm_get m k = map_of m k"

definition hm_insert :: "'k \<Rightarrow> 'v \<Rightarrow> ('k \<times> 'v) list \<Rightarrow> ('k \<times> 'v) list" where
  "hm_insert k v m = AList.update k v m"

definition hm_remove :: "'k \<Rightarrow> ('k \<times> 'v) list \<Rightarrow> ('k \<times> 'v) list" where
  "hm_remove k m = AList.delete k m"

definition hm_retain :: "('k \<Rightarrow> 'v \<Rightarrow> bool) \<Rightarrow> ('k \<times> 'v) list \<Rightarrow> ('k \<times> 'v) list" where
  "hm_retain P m = filter (\<lambda>(k, v). P k v) m"

definition hm_ok :: "('k \<times> 'v) list \<Rightarrow> bool" where
  "hm_ok m \<longleftrightarrow> distinct (map fst m)"

lemma hm_get_Nil [simp]: "hm_get [] k = None"
  by (simp add: hm_get_def)

lemma hm_get_Cons [simp]: "hm_get ((a, v) # m) k = (if k = a then Some v else hm_get m k)"
  by (simp add: hm_get_def)

lemma hm_get_insert [simp, hm]:
  "hm_get (hm_insert k v m) k' = (if k' = k then Some v else hm_get m k')"
  by (simp add: hm_get_def hm_insert_def update_conv')

lemma hm_get_remove [simp, hm]:
  "hm_get (hm_remove k m) k' = (if k' = k then None else hm_get m k')"
  by (simp add: hm_get_def hm_remove_def delete_conv')

lemma hm_insert_Nil [simp]: "hm_insert k v [] = [(k, v)]"
  by (simp add: hm_insert_def)

lemma hm_insert_Cons [simp]:
  "hm_insert k v ((a, w) # m) = (if a = k then (k, v) # m else (a, w) # hm_insert k v m)"
  by (simp add: hm_insert_def)

lemma hm_remove_Nil [simp]: "hm_remove k [] = []"
  by (simp add: hm_remove_def)

lemma hm_remove_Cons [simp]:
  "hm_remove k ((a, v) # m) = (if a = k then hm_remove k m else (a, v) # hm_remove k m)"
  by (simp add: hm_remove_def)

lemma hm_retain_Nil [simp]: "hm_retain P [] = []"
  by (simp add: hm_retain_def)

lemma hm_retain_Cons [simp]:
  "hm_retain P ((a, v) # m) = (if P a v then (a, v) # hm_retain P m else hm_retain P m)"
  by (simp add: hm_retain_def)

lemma hm_ok_Nil [simp]: "hm_ok []"
  by (simp add: hm_ok_def)

lemma hm_ok_insert [simp, hm]: "hm_ok m \<Longrightarrow> hm_ok (hm_insert k v m)"
  by (simp add: hm_ok_def hm_insert_def distinct_update)

lemma hm_ok_remove [simp, hm]: "hm_ok m \<Longrightarrow> hm_ok (hm_remove k m)"
  by (simp add: hm_ok_def hm_remove_def distinct_delete)

lemma hm_ok_retain [simp, hm]: "hm_ok m \<Longrightarrow> hm_ok (hm_retain P m)"
  by (induction m) (auto simp: hm_ok_def hm_retain_def)

lemma hm_get_in_keys: "hm_get m k \<noteq> None \<longleftrightarrow> k \<in> fst ` set m"
  by (simp add: hm_get_def map_of_eq_None_iff)

lemma hm_get_SomeD: "hm_get m k = Some v \<Longrightarrow> (k, v) \<in> set m"
  by (simp add: hm_get_def map_of_SomeD)

lemma hm_get_Some_iff: "hm_ok m \<Longrightarrow> hm_get m k = Some v \<longleftrightarrow> (k, v) \<in> set m"
  by (simp add: hm_ok_def hm_get_def)

lemma hm_get_retain [hm]:
  assumes "hm_ok m"
  shows "hm_get (hm_retain P m) k =
           (case hm_get m k of None \<Rightarrow> None | Some v \<Rightarrow> if P k v then Some v else None)"
proof (cases "hm_get (hm_retain P m) k")
  case None
  then show ?thesis
    using assms hm_get_Some_iff [OF hm_ok_retain [OF assms], of P k]
    by (auto simp: hm_get_Some_iff hm_retain_def split: option.split)
next
  case (Some w)
  then show ?thesis
    using assms hm_get_Some_iff [OF hm_ok_retain [OF assms], of P k w] hm_get_Some_iff [OF assms, of k w]
    by (auto simp: hm_retain_def)
qed

lemma hm_get_retain_le: "hm_get (hm_retain P m) k = Some v \<Longrightarrow> hm_ok m \<Longrightarrow> hm_get m k = Some v \<and> P k v"
  by (auto simp: hm_get_retain split: option.splits if_splits)

lemma length_hm_insert:
  "length (hm_insert k v m) = (if hm_get m k = None then Suc (length m) else length m)"
  by (induction m) (auto simp: hm_insert_def hm_get_def)

lemma length_hm_remove_le: "length (hm_remove k m) \<le> length m"
  by (simp add: hm_remove_def length_delete_le)

lemma length_hm_remove_less: "hm_get m k \<noteq> None \<Longrightarrow> length (hm_remove k m) < length m"
proof (induction m)
  case Nil
  then show ?case by simp
next
  case (Cons p m)
  obtain a v where p: "p = (a, v)" by (cases p)
  show ?case
  proof (cases "a = k")
    case True
    then show ?thesis using length_hm_remove_le [of k m] p by simp
  next
    case False
    with Cons p show ?thesis by auto
  qed
qed

lemma length_hm_retain_le: "length (hm_retain P m) \<le> length m"
  by (simp add: hm_retain_def)

lemma hm_remove_fold_get:
  "hm_get (fold hm_remove ks m) k = (if k \<in> set ks then None else hm_get m k)"
  by (induction ks arbitrary: m) auto

lemma hm_remove_fold_ok: "hm_ok m \<Longrightarrow> hm_ok (fold hm_remove ks m)"
  by (induction ks arbitrary: m) auto

section \<open>Clocks and durations\<close>

text \<open>
  An \<open>Instant\<close> is a reading of the monotonic clock and a \<open>Duration\<close> a difference of two,
  both in nanoseconds; \<open>SystemTime\<close> is a reading of the wall clock in nanoseconds since the
  Unix epoch. The clocks are independent, so a moment is a pair of readings. An operation
  of the program is modelled at one moment.
\<close>

type_synonym instant = nat
type_synonym duration = nat

record clock =
  mono :: instant
  wall :: nat

definition secs :: "nat \<Rightarrow> duration" where
  "secs n = n * 1000000000"

definition millis :: "nat \<Rightarrow> duration" where
  "millis n = n * 1000000"

definition u64_max :: nat where
  "u64_max = 18446744073709551615"

definition unix_millis :: "clock \<Rightarrow> nat" where
  "unix_millis c = wall c div 1000000"

definition unix_secs :: "clock \<Rightarrow> nat" where
  "unix_secs c = wall c div 1000000000"

lemma secs_mono [time]: "secs a \<le> secs b \<longleftrightarrow> a \<le> b"
  by (simp add: secs_def)

lemma secs_pos [time]: "0 < secs n \<longleftrightarrow> 0 < n"
  by (simp add: secs_def)

section \<open>Strings\<close>

definition strip_prefix :: "string \<Rightarrow> string \<Rightarrow> string option" where
  "strip_prefix p s = (if take (length p) s = p then Some (drop (length p) s) else None)"

lemma strip_prefix_Some [simp]: "strip_prefix p s = Some r \<longleftrightarrow> s = p @ r"
  by (auto simp: strip_prefix_def) (metis append_take_drop_id)

definition trim_end_matches :: "char \<Rightarrow> string \<Rightarrow> string" where
  "trim_end_matches ch s = rev (dropWhile (\<lambda>x. x = ch) (rev s))"

text \<open>\<open>str::split\<close> on one character: always at least one piece.\<close>

fun split_on :: "char \<Rightarrow> string \<Rightarrow> string list" where
  "split_on d [] = [[]]"
| "split_on d (x # xs) =
     (if x = d then [] # split_on d xs
      else (case split_on d xs of [] \<Rightarrow> [[x]] | p # ps \<Rightarrow> (x # p) # ps))"

text \<open>\<open>str::split_once\<close>: the text before and after the first occurrence.\<close>

fun split_once :: "char \<Rightarrow> string \<Rightarrow> (string \<times> string) option" where
  "split_once d [] = None"
| "split_once d (x # xs) =
     (if x = d then Some ([], xs)
      else (case split_once d xs of None \<Rightarrow> None | Some (a, b) \<Rightarrow> Some (x # a, b)))"

lemma split_once_Some: "split_once d s = Some (a, b) \<Longrightarrow> s = a @ d # b \<and> d \<notin> set a"
  by (induction s arbitrary: a) (auto split: if_splits option.splits)

lemma split_once_iff: "split_once d s = Some (a, b) \<longleftrightarrow> s = a @ d # b \<and> d \<notin> set a"
proof
  assume "s = a @ d # b \<and> d \<notin> set a"
  moreover have "d \<notin> set a \<Longrightarrow> split_once d (a @ d # b) = Some (a, b)" by (induction a) auto
  ultimately show "split_once d s = Some (a, b)" by blast
qed (rule split_once_Some)

text \<open>\<open>str::replace\<close> of one character.\<close>

definition replace_char :: "char \<Rightarrow> string \<Rightarrow> string \<Rightarrow> string" where
  "replace_char ch by s = concat (map (\<lambda>x. if x = ch then by else [x]) s)"

lemma replace_char_set: "set (replace_char ch by s) \<subseteq> (set s - {ch}) \<union> set by"
  by (auto simp: replace_char_def split: if_splits)

section \<open>JSON values and HTTP answers\<close>

text \<open>
  The values \<open>serde_json\<close> hands to the code. An integer number is a \<open>JInt\<close>; any other
  number is a \<open>JFloat\<close> with its text, which no accessor of the program reads.
\<close>

datatype json =
    JNull
  | JBool bool
  | JInt int
  | JFloat string
  | JStr string
  | JArr "json list"
  | JObj "(string \<times> json) list"

text \<open>\<open>value.get(key)\<close> and the indexing \<open>value[key]\<close>, which yields null for a miss.\<close>

fun json_get :: "json \<Rightarrow> string \<Rightarrow> json option" where
  "json_get (JObj m) k = hm_get m k"
| "json_get _ k = None"

definition json_index :: "json \<Rightarrow> string \<Rightarrow> json" where
  "json_index v k = (case json_get v k of None \<Rightarrow> JNull | Some w \<Rightarrow> w)"

fun as_str :: "json \<Rightarrow> string option" where
  "as_str (JStr s) = Some s"
| "as_str _ = None"

fun as_u64 :: "json \<Rightarrow> nat option" where
  "as_u64 (JInt i) = (if 0 \<le> i \<and> i \<le> int u64_max then Some (nat i) else None)"
| "as_u64 _ = None"

fun as_bool :: "json \<Rightarrow> bool option" where
  "as_bool (JBool b) = Some b"
| "as_bool _ = None"

text \<open>The outcome of one HTTP exchange: no answer, or a status and a body that is JSON or not.\<close>

datatype http_result =
    SendFailed string
  | Answered nat "string + json"

definition is_success :: "nat \<Rightarrow> bool" where
  "is_success status \<longleftrightarrow> 200 \<le> status \<and> status < 300"

end
