(* ===== verification/Persistence.thy ===== *)
theory Persistence
  imports Mcp_Prelude
begin

text \<open>
  The persistence layer, \<open>src/src/persistence.rs\<close>: the \<open>PersistenceBackend\<close> trait as a
  record of operations over a backend state, its default methods, the
  \<open>InMemoryBackend\<close>, the write-through helpers \<open>persist\<close> and \<open>persist_raw\<close>, and the
  conversions between monotonic deadlines and portable Unix timestamps. The locales
  \<open>kv_backend\<close> and \<open>lock_backend\<close> state what the stores may rely on; both are interpreted on
  the \<open>InMemoryBackend\<close>.
\<close>

section \<open>Portable deadlines\<close>

definition instant_to_unix_millis :: "clock \<Rightarrow> instant \<Rightarrow> nat" where
  "instant_to_unix_millis c deadline =
     (let remaining = deadline - mono c
      in min ((wall c + remaining) div 1000000) u64_max)"

definition remaining_until_unix_millis :: "clock \<Rightarrow> nat \<Rightarrow> duration" where
  "remaining_until_unix_millis c deadline_ms =
     (let now_ms = unix_millis c
      in millis (deadline_ms - min now_ms u64_max))"

text \<open>
  Round trip of a deadline through its persisted form, read back at the same moment: the
  timestamp never lies after the deadline, and it loses less than a millisecond before it,
  plus the sub-millisecond part of the wall clock at which it was written.
\<close>

lemma millis_split:
  fixes w r :: nat
  shows "w div 1000000 \<le> (w + r) div 1000000 \<and> (w + r) div 1000000 * 1000000 \<le> w + r \<and>
    w + r < (w + r) div 1000000 * 1000000 + 1000000 \<and>
    w < w div 1000000 * 1000000 + 1000000 \<and> w div 1000000 * 1000000 \<le> w"
  by (auto intro: div_le_mono simp: dividend_less_div_times mult.commute)

lemma capped_div_diff_upper:
  fixes w r u :: nat
  shows "(min ((w + r) div 1000000) u - min (w div 1000000) u) * 1000000 < r + 1000000"
proof -
  let ?q = "(w + r) div 1000000" and ?p = "w div 1000000"
  have "(min ?q u - min ?p u) * 1000000 \<le> (?q - ?p) * 1000000"
    by (rule mult_le_mono1) linarith
  also have "\<dots> = ?q * 1000000 - ?p * 1000000" by (rule diff_mult_distrib)
  also have "\<dots> < r + 1000000" using millis_split [of w r] by linarith
  finally show ?thesis .
qed

lemma capped_div_diff_lower:
  fixes w r u :: nat
  assumes "(w + r) div 1000000 \<le> u"
  shows "r < (min ((w + r) div 1000000) u - min (w div 1000000) u) * 1000000 + 1000000"
proof -
  let ?q = "(w + r) div 1000000" and ?p = "w div 1000000"
  have "?p \<le> ?q" using millis_split [of w r] by blast
  with assms have "min ?q u - min ?p u = ?q - ?p" by simp
  moreover have "r < (?q * 1000000 - ?p * 1000000) + 1000000"
    using millis_split [of w r] by linarith
  ultimately show ?thesis by (simp only: diff_mult_distrib)
qed

lemma persisted_remaining:
  "remaining_until_unix_millis c (instant_to_unix_millis c d) =
     (min ((wall c + (d - mono c)) div 1000000) u64_max - min (wall c div 1000000) u64_max) * 1000000"
  by (simp add: remaining_until_unix_millis_def instant_to_unix_millis_def unix_millis_def
        millis_def Let_def)

lemma deadline_roundtrip_upper:
  "remaining_until_unix_millis c (instant_to_unix_millis c d) < (d - mono c) + millis 1"
  unfolding persisted_remaining using capped_div_diff_upper by (simp add: millis_def)

lemma deadline_roundtrip_lower:
  assumes "(wall c + (d - mono c)) div 1000000 \<le> u64_max"
  shows "d - mono c < remaining_until_unix_millis c (instant_to_unix_millis c d) + millis 1"
  unfolding persisted_remaining using capped_div_diff_lower [OF assms] by (simp add: millis_def)

section \<open>The \<open>PersistenceBackend\<close> trait\<close>

type_synonym persistence_error = string

datatype touch = Armed | Missing | Unsupported

text \<open>
  One field per method of the trait. Every method may fail with an error; a method that
  writes also yields the next backend state, whatever its outcome. The first argument is the
  moment of the call on the monotonic clock, which expiring entries and locks depend on.
  \<open>'v\<close> is the type of stored byte strings.
\<close>

record ('b, 'v) backend_ops =
  be_get :: "instant \<Rightarrow> string \<Rightarrow> string \<Rightarrow> 'b \<Rightarrow> persistence_error + 'v option"
  be_set :: "instant \<Rightarrow> string \<Rightarrow> string \<Rightarrow> 'v \<Rightarrow> duration option \<Rightarrow> 'b \<Rightarrow>
    (persistence_error + unit) \<times> 'b"
  be_delete :: "instant \<Rightarrow> string \<Rightarrow> string \<Rightarrow> 'b \<Rightarrow> (persistence_error + unit) \<times> 'b"
  be_keys :: "instant \<Rightarrow> string \<Rightarrow> 'b \<Rightarrow> persistence_error + string list"
  be_touch :: "instant \<Rightarrow> string \<Rightarrow> string \<Rightarrow> duration \<Rightarrow> 'b \<Rightarrow> (persistence_error + touch) \<times> 'b"
  be_try_acquire_lock :: "instant \<Rightarrow> string \<Rightarrow> string \<Rightarrow> string \<Rightarrow> duration \<Rightarrow> 'b \<Rightarrow>
    (persistence_error + bool) \<times> 'b"
  be_release_lock :: "instant \<Rightarrow> string \<Rightarrow> string \<Rightarrow> string \<Rightarrow> 'b \<Rightarrow>
    (persistence_error + unit) \<times> 'b"

text \<open>The trait's default methods: a backend that overrides none of them.\<close>

definition default_touch ::
    "instant \<Rightarrow> string \<Rightarrow> string \<Rightarrow> duration \<Rightarrow> 'b \<Rightarrow> (persistence_error + touch) \<times> 'b" where
  "default_touch now ns key ttl b = (Inr Unsupported, b)"

definition default_try_acquire_lock ::
    "instant \<Rightarrow> string \<Rightarrow> string \<Rightarrow> string \<Rightarrow> duration \<Rightarrow> 'b \<Rightarrow> (persistence_error + bool) \<times> 'b" where
  "default_try_acquire_lock now ns key token ttl b = (Inr True, b)"

definition default_release_lock ::
    "instant \<Rightarrow> string \<Rightarrow> string \<Rightarrow> string \<Rightarrow> 'b \<Rightarrow> (persistence_error + unit) \<times> 'b" where
  "default_release_lock now ns key token b = (Inr (), b)"

section \<open>The in-memory backend\<close>

type_synonym data_key = "string \<times> string"
type_synonym lock_entry = "string \<times> instant"

record 'v in_memory_backend =
  data :: "(data_key \<times> 'v) list"
  locks :: "(data_key \<times> lock_entry) list"

definition im_new :: "'v in_memory_backend" where
  "im_new = \<lparr>data = [], locks = []\<rparr>"

definition im_get :: "instant \<Rightarrow> string \<Rightarrow> string \<Rightarrow> 'v in_memory_backend \<Rightarrow>
    persistence_error + 'v option" where
  "im_get now ns key b = Inr (hm_get (data b) (ns, key))"

definition im_set :: "instant \<Rightarrow> string \<Rightarrow> string \<Rightarrow> 'v \<Rightarrow> duration option \<Rightarrow>
    'v in_memory_backend \<Rightarrow> (persistence_error + unit) \<times> 'v in_memory_backend" where
  "im_set now ns key v ttl b = (Inr (), b\<lparr>data := hm_insert (ns, key) v (data b)\<rparr>)"

definition im_touch :: "instant \<Rightarrow> string \<Rightarrow> string \<Rightarrow> duration \<Rightarrow> 'v in_memory_backend \<Rightarrow>
    (persistence_error + touch) \<times> 'v in_memory_backend" where
  "im_touch now ns key ttl b =
     (Inr (if hm_get (data b) (ns, key) \<noteq> None then Armed else Missing), b)"

definition im_delete :: "instant \<Rightarrow> string \<Rightarrow> string \<Rightarrow> 'v in_memory_backend \<Rightarrow>
    (persistence_error + unit) \<times> 'v in_memory_backend" where
  "im_delete now ns key b = (Inr (), b\<lparr>data := hm_remove (ns, key) (data b)\<rparr>)"

definition im_keys :: "instant \<Rightarrow> string \<Rightarrow> 'v in_memory_backend \<Rightarrow>
    persistence_error + string list" where
  "im_keys now ns b = Inr (map snd (filter (\<lambda>(n, _). n = ns) (map fst (data b))))"

definition im_try_acquire_lock :: "instant \<Rightarrow> string \<Rightarrow> string \<Rightarrow> string \<Rightarrow> duration \<Rightarrow>
    'v in_memory_backend \<Rightarrow> (persistence_error + bool) \<times> 'v in_memory_backend" where
  "im_try_acquire_lock now ns key token ttl b =
     (let acquire = (Inr True, b\<lparr>locks := hm_insert (ns, key) (token, now + ttl) (locks b)\<rparr>)
      in case hm_get (locks b) (ns, key) of
           Some (_, expiry) \<Rightarrow> if expiry > now then (Inr False, b) else acquire
         | None \<Rightarrow> acquire)"

definition im_release_lock :: "instant \<Rightarrow> string \<Rightarrow> string \<Rightarrow> string \<Rightarrow> 'v in_memory_backend \<Rightarrow>
    (persistence_error + unit) \<times> 'v in_memory_backend" where
  "im_release_lock now ns key token b =
     (case hm_get (locks b) (ns, key) of
        Some (held, _) \<Rightarrow>
          if held = token then (Inr (), b\<lparr>locks := hm_remove (ns, key) (locks b)\<rparr>) else (Inr (), b)
      | None \<Rightarrow> (Inr (), b))"

definition in_memory_ops :: "('v in_memory_backend, 'v) backend_ops" where
  "in_memory_ops = \<lparr>be_get = im_get, be_set = im_set, be_delete = im_delete, be_keys = im_keys,
     be_touch = im_touch, be_try_acquire_lock = im_try_acquire_lock,
     be_release_lock = im_release_lock\<rparr>"

lemma in_memory_ops_simps [simp]:
  "be_get in_memory_ops = im_get" "be_set in_memory_ops = im_set"
  "be_delete in_memory_ops = im_delete" "be_keys in_memory_ops = im_keys"
  "be_touch in_memory_ops = im_touch"
  "be_try_acquire_lock in_memory_ops = im_try_acquire_lock"
  "be_release_lock in_memory_ops = im_release_lock"
  by (simp_all add: in_memory_ops_def)

lemmas im_defs = im_get_def im_set_def im_delete_def im_keys_def im_touch_def

section \<open>Write-through helpers\<close>

text \<open>
  Both swallow errors (they are only logged): a failed write leaves whatever state the
  backend is in. \<open>persist\<close> takes the already encoded value, or \<open>None\<close> when
  \<open>serde_json::to_vec\<close> failed.
\<close>

definition persist_raw :: "('b, 'v) backend_ops \<Rightarrow> clock \<Rightarrow> string \<Rightarrow> string \<Rightarrow> 'v \<Rightarrow>
    duration option \<Rightarrow> 'b \<Rightarrow> 'b" where
  "persist_raw ops c ns key v ttl b = snd (be_set ops (mono c) ns key v ttl b)"

definition persist :: "('b, 'v) backend_ops \<Rightarrow> clock \<Rightarrow> string \<Rightarrow> string \<Rightarrow> 'v option \<Rightarrow>
    duration option \<Rightarrow> 'b \<Rightarrow> 'b" where
  "persist ops c ns key encoded ttl b =
     (case encoded of Some bytes \<Rightarrow> persist_raw ops c ns key bytes ttl b | None \<Rightarrow> b)"

text \<open>A deletion whose result the caller ignores.\<close>

definition discard :: "('b, 'v) backend_ops \<Rightarrow> clock \<Rightarrow> string \<Rightarrow> string \<Rightarrow> 'b \<Rightarrow> 'b" where
  "discard ops c ns key b = snd (be_delete ops (mono c) ns key b)"

section \<open>The contract of a key-value backend\<close>

text \<open>
  What the stores rely on: reads see the latest write of a key until its TTL lapses or it is
  deleted, and operations on one key leave the others alone. \<open>look\<close> is the content visible
  at a moment.
\<close>

locale kv_backend =
  fixes ops :: "('b, 'v) backend_ops"
    and binv :: "'b \<Rightarrow> bool"
    and look :: "instant \<Rightarrow> 'b \<Rightarrow> data_key \<Rightarrow> 'v option"
  assumes get_law: "binv b \<Longrightarrow> be_get ops now ns k b = Inr (look now b (ns, k))"
    and set_inv: "binv b \<Longrightarrow> binv (snd (be_set ops now ns k v ttl b))"
    and set_same: "binv b \<Longrightarrow> now \<le> t \<Longrightarrow> (\<And>d. ttl = Some d \<Longrightarrow> t < now + d) \<Longrightarrow>
      look t (snd (be_set ops now ns k v ttl b)) (ns, k) = Some v"
    and set_range: "binv b \<Longrightarrow> look t (snd (be_set ops now ns k v ttl b)) (ns, k) \<in> {None, Some v}"
    and set_other: "binv b \<Longrightarrow> p \<noteq> (ns, k) \<Longrightarrow>
      look t (snd (be_set ops now ns k v ttl b)) p = look t b p"
    and delete_inv: "binv b \<Longrightarrow> binv (snd (be_delete ops now ns k b))"
    and delete_same: "binv b \<Longrightarrow> look t (snd (be_delete ops now ns k b)) (ns, k) = None"
    and delete_other: "binv b \<Longrightarrow> p \<noteq> (ns, k) \<Longrightarrow>
      look t (snd (be_delete ops now ns k b)) p = look t b p"
    and keys_law: "binv b \<Longrightarrow>
      \<exists>ks. be_keys ops now ns b = Inr ks \<and> set ks = {k. look now b (ns, k) \<noteq> None}"
begin

lemma persist_raw_inv: "binv b \<Longrightarrow> binv (persist_raw ops c ns k v ttl b)"
  by (simp add: persist_raw_def set_inv)

lemma persist_inv: "binv b \<Longrightarrow> binv (persist ops c ns k v ttl b)"
  by (simp add: persist_def persist_raw_inv split: option.split)

lemma discard_inv: "binv b \<Longrightarrow> binv (discard ops c ns k b)"
  by (simp add: discard_def delete_inv)

lemma persist_raw_same:
  "binv b \<Longrightarrow> mono c \<le> t \<Longrightarrow> (\<And>d. ttl = Some d \<Longrightarrow> t < mono c + d) \<Longrightarrow>
     look t (persist_raw ops c ns k v ttl b) (ns, k) = Some v"
  unfolding persist_raw_def by (rule set_same)

lemma persist_raw_other:
  "binv b \<Longrightarrow> p \<noteq> (ns, k) \<Longrightarrow> look t (persist_raw ops c ns k v ttl b) p = look t b p"
  by (simp add: persist_raw_def set_other)

lemma persist_same:
  "binv b \<Longrightarrow> mono c \<le> t \<Longrightarrow> (\<And>d. ttl = Some d \<Longrightarrow> t < mono c + d) \<Longrightarrow>
     look t (persist ops c ns k (Some v) ttl b) (ns, k) = Some v"
  unfolding persist_def by (simp add: persist_raw_same)

lemma persist_raw_same_ttl:
  "binv b \<Longrightarrow> mono c \<le> t \<Longrightarrow> t < mono c + d \<Longrightarrow>
     look t (persist_raw ops c ns k v (Some d) b) (ns, k) = Some v"
  by (rule persist_raw_same) auto

lemma persist_same_ttl:
  "binv b \<Longrightarrow> mono c \<le> t \<Longrightarrow> t < mono c + d \<Longrightarrow>
     look t (persist ops c ns k (Some v) (Some d) b) (ns, k) = Some v"
  by (rule persist_same) auto

lemma persist_raw_range: "binv b \<Longrightarrow> look t (persist_raw ops c ns k v ttl b) (ns, k) \<in> {None, Some v}"
  by (simp only: persist_raw_def set_range)

lemma persist_other:
  "binv b \<Longrightarrow> p \<noteq> (ns, k) \<Longrightarrow> look t (persist ops c ns k v ttl b) p = look t b p"
  by (simp add: persist_def persist_raw_other split: option.split)

lemma discard_same: "binv b \<Longrightarrow> look t (discard ops c ns k b) (ns, k) = None"
  by (simp add: discard_def delete_same)

lemma discard_other:
  "binv b \<Longrightarrow> p \<noteq> (ns, k) \<Longrightarrow> look t (discard ops c ns k b) p = look t b p"
  by (simp add: discard_def delete_other)

lemma discard_look:
  "binv b \<Longrightarrow> look t (discard ops c ns k b) p = (if p = (ns, k) then None else look t b p)"
  by (simp add: discard_same discard_other)

end

interpretation im: kv_backend in_memory_ops "\<lambda>b. hm_ok (data b)" "\<lambda>_ b. hm_get (data b)"
proof unfold_locales
  fix b :: "'v in_memory_backend" and now ns
  assume ok: "hm_ok (data b)"
  have "set (map snd (filter (\<lambda>(n, _). n = ns) (map fst (data b))))
      = {k. hm_get (data b) (ns, k) \<noteq> None}"
    by (force simp: hm_get_Some_iff [OF ok])
  then show "\<exists>ks. be_keys in_memory_ops now ns b = Inr ks \<and>
      set ks = {k. hm_get (data b) (ns, k) \<noteq> None}"
    by (simp add: im_keys_def)
qed (simp_all add: im_defs)

section \<open>The contract of a lock service\<close>

text \<open>
  \<open>holder\<close> is the token under which a lock is held at a moment. Acquisition succeeds exactly
  on a free lock and lasts until the TTL; only the holder's token releases it.
\<close>

locale lock_backend =
  fixes ops :: "('b, 'v) backend_ops"
    and holder :: "instant \<Rightarrow> 'b \<Rightarrow> data_key \<Rightarrow> string option"
  assumes acquire_result: "fst (be_try_acquire_lock ops now ns k tok ttl b) =
      Inr (holder now b (ns, k) = None)"
    and acquire_free: "holder now b (ns, k) = None \<Longrightarrow> now \<le> t \<Longrightarrow> t < now + ttl \<Longrightarrow>
      holder t (snd (be_try_acquire_lock ops now ns k tok ttl b)) (ns, k) = Some tok"
    and acquire_busy: "holder now b (ns, k) \<noteq> None \<Longrightarrow>
      snd (be_try_acquire_lock ops now ns k tok ttl b) = b"
    and release_foreign: "holder now b (ns, k) = Some other \<Longrightarrow> other \<noteq> tok \<Longrightarrow>
      snd (be_release_lock ops now ns k tok b) = b"
    and release_own: "holder now b (ns, k) = Some tok \<Longrightarrow>
      holder t (snd (be_release_lock ops now ns k tok b)) (ns, k) = None"
begin

text \<open>Mutual exclusion: while one token holds the lock, nobody acquires it.\<close>

lemma exclusive:
  assumes "fst (be_try_acquire_lock ops now ns k tok1 ttl b) = Inr True"
    and "now \<le> t" "t < now + ttl"
  shows "fst (be_try_acquire_lock ops t ns k tok2 ttl'
           (snd (be_try_acquire_lock ops now ns k tok1 ttl b))) = Inr False"
proof -
  from assms(1) have "holder now b (ns, k) = None" by (simp add: acquire_result)
  with assms(2,3) show ?thesis by (simp add: acquire_result acquire_free)
qed

text \<open>A late release by a former holder does not touch the lock its successor holds.\<close>

lemma late_release_harmless:
  assumes "fst (be_try_acquire_lock ops now ns k tok2 ttl b) = Inr True"
    and "now \<le> t" "t < now + ttl" "tok1 \<noteq> tok2"
  shows "holder t (snd (be_release_lock ops t ns k tok1
           (snd (be_try_acquire_lock ops now ns k tok2 ttl b)))) (ns, k) = Some tok2"
proof -
  from assms(1) have "holder now b (ns, k) = None" by (simp add: acquire_result)
  then have "holder t (snd (be_try_acquire_lock ops now ns k tok2 ttl b)) (ns, k) = Some tok2"
    using assms(2,3) by (rule acquire_free)
  with assms(4) show ?thesis by (simp add: release_foreign)
qed

end

definition im_holder :: "instant \<Rightarrow> 'v in_memory_backend \<Rightarrow> data_key \<Rightarrow> string option" where
  "im_holder now b p = (case hm_get (locks b) p of
     Some (tok, expiry) \<Rightarrow> if expiry > now then Some tok else None
   | None \<Rightarrow> None)"

interpretation im_lock: lock_backend in_memory_ops im_holder
  by unfold_locales
     (auto simp: im_try_acquire_lock_def im_release_lock_def im_holder_def Let_def
       split: option.splits if_splits)

section \<open>A backend whose locks leave the records alone\<close>

locale coordinated_backend = kv_backend ops binv look
  for ops :: "('b, 'v) backend_ops" and binv :: "'b \<Rightarrow> bool" and look :: "instant \<Rightarrow> 'b \<Rightarrow> data_key \<Rightarrow> 'v option" +
  assumes acquire_inv: "binv b \<Longrightarrow> binv (snd (be_try_acquire_lock ops now ns k tok ttl b))"
    and acquire_look: "binv b \<Longrightarrow> p \<noteq> (ns, k) \<Longrightarrow>
      look t (snd (be_try_acquire_lock ops now ns k tok ttl b)) p = look t b p"
    and release_inv: "binv b \<Longrightarrow> binv (snd (be_release_lock ops now ns k tok b))"
    and release_look: "binv b \<Longrightarrow> p \<noteq> (ns, k) \<Longrightarrow>
      look t (snd (be_release_lock ops now ns k tok b)) p = look t b p"
begin

lemma acquire_other_ns:
  "binv b \<Longrightarrow> ns' \<noteq> ns \<Longrightarrow> look t (snd (be_try_acquire_lock ops now ns k tok ttl b)) (ns', k') = look t b (ns', k')"
  by (simp add: acquire_look)

lemma release_other_ns:
  "binv b \<Longrightarrow> ns' \<noteq> ns \<Longrightarrow> look t (snd (be_release_lock ops now ns k tok b)) (ns', k') = look t b (ns', k')"
  by (simp add: release_look)

end

interpretation im_co: coordinated_backend in_memory_ops "\<lambda>b. hm_ok (data b)" "\<lambda>_ b. hm_get (data b)"
  by unfold_locales
     (auto simp: im_try_acquire_lock_def im_release_lock_def Let_def split: option.split prod.split)

section \<open>A backend that can re-arm what expires\<close>

text \<open>
  The contract of \<open>get\<close>, \<open>set\<close>, \<open>delete\<close> and \<open>touch\<close> on the names a backend supports (\<open>good\<close>); \<open>effective\<close> is the
  TTL a backend really arms. Content only goes away as time passes; \<open>touch\<close> re-arms what is there and
  never brings back what is not.
\<close>

locale expiring_backend =
  fixes ops :: "('b, 'v) backend_ops"
    and binv :: "'b \<Rightarrow> bool"
    and look :: "instant \<Rightarrow> 'b \<Rightarrow> data_key \<Rightarrow> 'v option"
    and good :: "data_key \<Rightarrow> bool"
    and effective :: "duration \<Rightarrow> duration"
  assumes get_law: "binv b \<Longrightarrow> good (ns, k) \<Longrightarrow> be_get ops now ns k b = Inr (look now b (ns, k))"
    and fades: "binv b \<Longrightarrow> now \<le> t \<Longrightarrow> look t b p \<noteq> None \<Longrightarrow> look now b p = look t b p"
    and set_law: "binv b \<Longrightarrow> good (ns, k) \<Longrightarrow>
      fst (be_set ops now ns k v ttl b) = Inr () \<and> binv (snd (be_set ops now ns k v ttl b))"
    and set_same: "binv b \<Longrightarrow> good (ns, k) \<Longrightarrow> (\<And>d. ttl = Some d \<Longrightarrow> t < now + effective d) \<Longrightarrow>
      look t (snd (be_set ops now ns k v ttl b)) (ns, k) = Some v"
    and set_other: "binv b \<Longrightarrow> good (ns, k) \<Longrightarrow> good p \<Longrightarrow> p \<noteq> (ns, k) \<Longrightarrow>
      look t (snd (be_set ops now ns k v ttl b)) p = look t b p"
    and delete_law: "binv b \<Longrightarrow> good (ns, k) \<Longrightarrow>
      fst (be_delete ops now ns k b) = Inr () \<and> binv (snd (be_delete ops now ns k b))"
    and delete_look: "binv b \<Longrightarrow> good (ns, k) \<Longrightarrow> good p \<Longrightarrow>
      look t (snd (be_delete ops now ns k b)) p = (if p = (ns, k) then None else look t b p)"
    and touch_law: "binv b \<Longrightarrow> good (ns, k) \<Longrightarrow>
      fst (be_touch ops now ns k d b) = Inr (if look now b (ns, k) = None then Missing else Armed) \<and>
      binv (snd (be_touch ops now ns k d b))"
    and touch_same: "binv b \<Longrightarrow> good (ns, k) \<Longrightarrow> look now b (ns, k) = Some v \<Longrightarrow> t < now + effective d \<Longrightarrow>
      look t (snd (be_touch ops now ns k d b)) (ns, k) = Some v"
    and touch_gone: "binv b \<Longrightarrow> good (ns, k) \<Longrightarrow> look now b (ns, k) = None \<Longrightarrow>
      look t (snd (be_touch ops now ns k d b)) p = look t b p"
    and touch_other: "binv b \<Longrightarrow> good (ns, k) \<Longrightarrow> good p \<Longrightarrow> p \<noteq> (ns, k) \<Longrightarrow>
      look t (snd (be_touch ops now ns k d b)) p = look t b p"

interpretation im_ex: expiring_backend in_memory_ops "\<lambda>b. hm_ok (data b)" "\<lambda>_ b. hm_get (data b)" "\<lambda>_. True" "\<lambda>d. d"
  by unfold_locales (auto simp: im_defs)

end
