(* ===== verification/Tokens.thy ===== *)
theory Tokens
  imports Persistence
begin

text \<open>
  The data of the token store, the first part of \<open>src/src/auth/store.rs\<close>: stored tokens and
  their persisted form, pending and proxied authorizations, and the opaque-token index with
  its two operations. The invariant \<open>index_sound\<close> says that every opaque token the index
  resolves is the one its session's mapping names.
\<close>

section \<open>Durations\<close>

definition TOKEN_EXPIRY_BUFFER :: duration where "TOKEN_EXPIRY_BUFFER = secs 30"
definition PENDING_AUTH_TIMEOUT :: duration where "PENDING_AUTH_TIMEOUT = secs 300"
definition PROXIED_AUTH_TIMEOUT :: duration where "PROXIED_AUTH_TIMEOUT = secs 600"
definition OPAQUE_ACCESS_TTL :: duration where "OPAQUE_ACCESS_TTL = secs 3600"
definition OPAQUE_REFRESH_TTL :: duration where "OPAQUE_REFRESH_TTL = secs (30 * 24 * 3600)"
definition REFRESH_LOCK_TTL :: duration where "REFRESH_LOCK_TTL = secs 15"
definition REFRESH_LOCK_WAIT :: duration where "REFRESH_LOCK_WAIT = secs 20"

section \<open>Stored tokens\<close>

record 'c stored_token =
  access_token :: string
  refresh_token :: "string option"
  expires_at :: "instant option"
  decoded_claims :: "'c option"

definition stored_token_new :: "string \<Rightarrow> string option \<Rightarrow> instant option \<Rightarrow> 'c stored_token" where
  "stored_token_new a r e =
     \<lparr>access_token = a, refresh_token = r, expires_at = e, decoded_claims = None\<rparr>"

text \<open>\<open>from_token_response\<close>: the fields of the \<open>oauth2\<close> crate's response are its arguments.\<close>

definition from_token_response :: "clock \<Rightarrow> string \<Rightarrow> string option \<Rightarrow> duration option \<Rightarrow>
    'c stored_token" where
  "from_token_response c acc ref expires_in =
     \<lparr>access_token = acc, refresh_token = ref,
      expires_at = map_option (\<lambda>d. mono c + d) expires_in, decoded_claims = None\<rparr>"

definition is_expired :: "clock \<Rightarrow> 'c stored_token \<Rightarrow> bool" where
  "is_expired c t = (case expires_at t of
     Some e \<Rightarrow> mono c + TOKEN_EXPIRY_BUFFER > e
   | None \<Rightarrow> False)"

record pending_auth =
  pkce_verifier :: string
  created_at :: instant

definition pending_is_expired :: "clock \<Rightarrow> pending_auth \<Rightarrow> bool" where
  "pending_is_expired c p \<longleftrightarrow> mono c > created_at p + PENDING_AUTH_TIMEOUT"

record proxied_authorization =
  pa_redirect_uri :: string
  pa_client_state :: "string option"
  pa_issuer :: string

section \<open>Persisted tokens\<close>

record persisted_token =
  p_access_token :: string
  p_refresh_token :: "string option"
  p_expires_at_unix_ms :: "nat option"
  p_expires_in_secs :: "nat option"

definition from_stored :: "clock \<Rightarrow> 'c stored_token \<Rightarrow> persisted_token" where
  "from_stored c t =
     \<lparr>p_access_token = access_token t, p_refresh_token = refresh_token t,
      p_expires_at_unix_ms = map_option (instant_to_unix_millis c) (expires_at t),
      p_expires_in_secs = None\<rparr>"

definition into_stored :: "clock \<Rightarrow> persisted_token \<Rightarrow> 'c stored_token" where
  "into_stored c p =
     \<lparr>access_token = p_access_token p, refresh_token = p_refresh_token p,
      expires_at =
        (case p_expires_at_unix_ms p of
           Some deadline \<Rightarrow> Some (mono c + remaining_until_unix_millis c deadline)
         | None \<Rightarrow> map_option (\<lambda>s. mono c + secs s) (p_expires_in_secs p)),
      decoded_claims = None\<rparr>"

lemma into_from_stored [simp]:
  "access_token (into_stored c' (from_stored c t)) = access_token t"
  "refresh_token (into_stored c' (from_stored c t)) = refresh_token t"
  "decoded_claims (into_stored c' (from_stored c t)) = None"
  by (simp_all add: into_stored_def from_stored_def)

lemma expires_at_into_from:
  "expires_at (into_stored c' (from_stored c t)) =
     map_option (\<lambda>e. mono c' + remaining_until_unix_millis c' (instant_to_unix_millis c e)) (expires_at t)"
  by (cases "expires_at t") (simp_all add: into_stored_def from_stored_def)

section \<open>The opaque-token index\<close>

record persisted_opaque =
  opaque_access :: string
  opaque_refresh :: string
  access_expires_at_unix_ms :: nat
  refresh_expires_at_unix_ms :: nat

record opaque_binding =
  bind_session :: string
  bind_expires_at :: instant

record opaque_index =
  access_to_session :: "(string \<times> opaque_binding) list"
  refresh_to_session :: "(string \<times> opaque_binding) list"
  session_to_opaques :: "(string \<times> persisted_opaque) list"

definition empty_opaque_index :: opaque_index where
  "empty_opaque_index = \<lparr>access_to_session = [], refresh_to_session = [], session_to_opaques = []\<rparr>"

definition index_remove_session :: "string \<Rightarrow> opaque_index \<Rightarrow> persisted_opaque option \<times> opaque_index" where
  "index_remove_session sid idx =
     (case hm_get (session_to_opaques idx) sid of
        Some m \<Rightarrow>
          (Some m, idx\<lparr>session_to_opaques := hm_remove sid (session_to_opaques idx),
                      access_to_session := hm_remove (opaque_access m) (access_to_session idx),
                      refresh_to_session := hm_remove (opaque_refresh m) (refresh_to_session idx)\<rparr>)
      | None \<Rightarrow> (None, idx))"

definition index_insert :: "clock \<Rightarrow> string \<Rightarrow> persisted_opaque \<Rightarrow> opaque_index \<Rightarrow> bool \<times> opaque_index" where
  "index_insert c sid m idx =
     (let access_remaining = remaining_until_unix_millis c (access_expires_at_unix_ms m);
          refresh_remaining = remaining_until_unix_millis c (refresh_expires_at_unix_ms m)
      in if refresh_remaining = 0 then (False, idx)
         else
           (let idx1 = snd (index_remove_session sid idx);
                idx2 = (if access_remaining \<noteq> 0
                        then idx1\<lparr>access_to_session := hm_insert (opaque_access m)
                               \<lparr>bind_session = sid, bind_expires_at = mono c + access_remaining\<rparr>
                               (access_to_session idx1)\<rparr>
                        else idx1);
                idx3 = idx2\<lparr>refresh_to_session := hm_insert (opaque_refresh m)
                          \<lparr>bind_session = sid, bind_expires_at = mono c + refresh_remaining\<rparr>
                          (refresh_to_session idx2)\<rparr>
            in (True, idx3\<lparr>session_to_opaques := hm_insert sid m (session_to_opaques idx3)\<rparr>)))"

text \<open>
  The invariant of the index: the keys of its maps are distinct, and a token that resolves to
  a session is the one the session's mapping holds.
\<close>

definition index_sound :: "opaque_index \<Rightarrow> bool" where
  "index_sound idx \<longleftrightarrow>
     hm_ok (access_to_session idx) \<and> hm_ok (refresh_to_session idx) \<and> hm_ok (session_to_opaques idx) \<and>
     (\<forall>a b. hm_get (access_to_session idx) a = Some b \<longrightarrow>
        (\<exists>m. hm_get (session_to_opaques idx) (bind_session b) = Some m \<and> opaque_access m = a)) \<and>
     (\<forall>r b. hm_get (refresh_to_session idx) r = Some b \<longrightarrow>
        (\<exists>m. hm_get (session_to_opaques idx) (bind_session b) = Some m \<and> opaque_refresh m = r))"

lemma index_sound_empty [simp]: "index_sound empty_opaque_index"
  by (simp add: index_sound_def empty_opaque_index_def)

lemma index_sound_access:
  "index_sound idx \<Longrightarrow> hm_get (access_to_session idx) a = Some b \<Longrightarrow>
     \<exists>m. hm_get (session_to_opaques idx) (bind_session b) = Some m \<and> opaque_access m = a"
  by (simp add: index_sound_def)

lemma index_sound_refresh:
  "index_sound idx \<Longrightarrow> hm_get (refresh_to_session idx) r = Some b \<Longrightarrow>
     \<exists>m. hm_get (session_to_opaques idx) (bind_session b) = Some m \<and> opaque_refresh m = r"
  by (simp add: index_sound_def)

lemma index_remove_session_sound: "index_sound idx \<Longrightarrow> index_sound (snd (index_remove_session sid idx))"
  unfolding index_remove_session_def
  by (auto simp: index_sound_def split: option.split) (metis option.inject)+

lemma index_remove_session_mapping:
  "hm_get (session_to_opaques (snd (index_remove_session sid idx))) s =
     (if s = sid then None else hm_get (session_to_opaques idx) s)"
  by (auto simp: index_remove_session_def split: option.split)

lemma index_remove_session_fst: "fst (index_remove_session sid idx) = hm_get (session_to_opaques idx) sid"
  by (simp add: index_remove_session_def split: option.split)

text \<open>After its removal no token, access or refresh, resolves to the session.\<close>

lemma index_remove_session_revokes:
  assumes "index_sound idx"
  shows "hm_get (access_to_session (snd (index_remove_session sid idx))) a = Some b \<Longrightarrow> bind_session b \<noteq> sid"
    and "hm_get (refresh_to_session (snd (index_remove_session sid idx))) r = Some b \<Longrightarrow> bind_session b \<noteq> sid"
proof -
  note sound = index_remove_session_sound [OF assms, of sid]
  show "hm_get (access_to_session (snd (index_remove_session sid idx))) a = Some b \<Longrightarrow> bind_session b \<noteq> sid"
    using index_sound_access [OF sound, of a b] by (auto simp: index_remove_session_mapping)
  show "hm_get (refresh_to_session (snd (index_remove_session sid idx))) r = Some b \<Longrightarrow> bind_session b \<noteq> sid"
    using index_sound_refresh [OF sound, of r b] by (auto simp: index_remove_session_mapping)
qed

lemma index_insert_sound:
  assumes "index_sound idx"
  shows "index_sound (snd (index_insert c sid m idx))"
proof -
  let ?idx1 = "snd (index_remove_session sid idx)"
  have "index_sound ?idx1" by (rule index_remove_session_sound [OF assms])
  moreover have "\<And>a b. hm_get (access_to_session ?idx1) a = Some b \<Longrightarrow> bind_session b \<noteq> sid"
    and "\<And>r b. hm_get (refresh_to_session ?idx1) r = Some b \<Longrightarrow> bind_session b \<noteq> sid"
    using index_remove_session_revokes [OF assms] by blast+
  ultimately show ?thesis
    using assms by (auto simp: index_insert_def index_sound_def Let_def)
qed

lemma index_insert_refused:
  "remaining_until_unix_millis c (refresh_expires_at_unix_ms m) = 0 \<Longrightarrow>
     index_insert c sid m idx = (False, idx)"
  by (simp add: index_insert_def)

lemma index_insert_lookup:
  assumes "remaining_until_unix_millis c (refresh_expires_at_unix_ms m) \<noteq> 0"
  shows "hm_get (access_to_session (snd (index_insert c sid m idx))) a =
      (if a = opaque_access m \<and> remaining_until_unix_millis c (access_expires_at_unix_ms m) \<noteq> 0
       then Some \<lparr>bind_session = sid,
                  bind_expires_at = mono c + remaining_until_unix_millis c (access_expires_at_unix_ms m)\<rparr>
       else hm_get (access_to_session (snd (index_remove_session sid idx))) a)"
    and "hm_get (refresh_to_session (snd (index_insert c sid m idx))) r =
      (if r = opaque_refresh m
       then Some \<lparr>bind_session = sid,
                  bind_expires_at = mono c + remaining_until_unix_millis c (refresh_expires_at_unix_ms m)\<rparr>
       else hm_get (refresh_to_session (snd (index_remove_session sid idx))) r)"
    and "hm_get (session_to_opaques (snd (index_insert c sid m idx))) s =
      (if s = sid then Some m else hm_get (session_to_opaques idx) s)"
  using assms by (simp_all add: index_insert_def Let_def index_remove_session_mapping)

end
