(* ===== verification/Jwks.thy ===== *)
theory Jwks
  imports Mcp_Prelude
begin

text \<open>
  Local validation of bearers against the issuer's published keys, \<open>src/src/auth/jwks.rs\<close>:
  the key cache with its TTL and its fetch cooldown, discovery and fetching, and
  \<open>validate\<close>. The network and the crates \<open>jsonwebtoken\<close> and \<open>serde\<close> are the fields of a
  \<open>jwks_lib\<close>; error messages are kept as structured values instead of formatted text.
\<close>

definition JWKS_CACHE_TTL :: duration where "JWKS_CACHE_TTL = secs 600"
definition JWKS_REFRESH_COOLDOWN :: duration where "JWKS_REFRESH_COOLDOWN = secs 60"
definition JWKS_CLOCK_SKEW_LEEWAY_SECS :: nat where "JWKS_CLOCK_SKEW_LEEWAY_SECS = 30"

datatype algorithm =
    HS256 | HS384 | HS512
  | ES256 | ES384
  | RS256 | RS384 | RS512
  | PS256 | PS384 | PS512
  | EdDSA

definition ACCEPTED_ALGORITHMS :: "algorithm list" where
  "ACCEPTED_ALGORITHMS = [RS256, RS384, RS512, PS256, PS384, PS512, ES256, ES384]"

datatype fetch_error =
    GetFailed string string
  | GetStatus string nat
  | GetUnparsable string
  | NoUsableKey string

datatype jwks_rejection =
    NotAJwt
  | UnsupportedAlgorithm algorithm
  | UnknownKey
  | Unavailable fetch_error
  | Invalid string

definition may_fall_back :: "jwks_rejection \<Rightarrow> bool" where
  "may_fall_back r = (case r of Invalid _ \<Rightarrow> False | _ \<Rightarrow> True)"

record validated_jwt =
  vj_subject :: "string option"
  vj_expires_at :: "instant option"
  vj_audiences :: "string list"
  vj_authorized_party :: "string option"

datatype audience = One string | Many "string list"

record registered_claims =
  rc_sub :: "string option"
  rc_exp :: "nat option"
  rc_azp :: "string option"
  rc_aud :: "audience option"

fun audience_into_vec :: "audience \<Rightarrow> string list" where
  "audience_into_vec (One one) = [one]"
| "audience_into_vec (Many many) = many"

text \<open>The \<open>Validation\<close> handed to \<open>jsonwebtoken::decode\<close>; no audience list means \<open>aud\<close> is unchecked.\<close>

record validation =
  va_algorithm :: algorithm
  va_issuer :: string
  va_validate_exp :: bool
  va_validate_nbf :: bool
  va_leeway :: nat
  va_required :: "string list"
  va_audience :: "string list option"

text \<open>
  The outside world of the validator: the two \<open>jsonwebtoken\<close> entry points (the second also
  reads the wall clock), an HTTP GET, and the shapes \<open>serde\<close> recognises in a body. A JWK is
  its \<open>kid\<close> and what \<open>DecodingKey::from_jwk\<close> makes of it.
\<close>

record 'k jwks_lib =
  decode_header :: "string \<Rightarrow> (algorithm \<times> string option) option"
  decode_verify :: "nat \<Rightarrow> string \<Rightarrow> 'k \<Rightarrow> validation \<Rightarrow> string + registered_claims"
  http_get :: "string \<Rightarrow> http_result"
  parse_discovery :: "json \<Rightarrow> string option"
  parse_jwk_set :: "json \<Rightarrow> (string option \<times> (string + 'k)) list option"

record 'k key_cache =
  keys :: "(string \<times> 'k) list"
  fetched_at :: "instant option"
  attempted_at :: "instant option"
  last_error :: "fetch_error option"

record jwks_validator =
  issuer :: string
  discovery_url :: string
  expected_audiences :: "string list"

definition empty_key_cache :: "'k key_cache" where
  "empty_key_cache = \<lparr>keys = [], fetched_at = None, attempted_at = None, last_error = None\<rparr>"

definition jwks_validator_new :: "string \<Rightarrow> string list \<Rightarrow> jwks_validator" where
  "jwks_validator_new issuer_url audiences =
     (let i = trim_end_matches (CHR ''/'') issuer_url
      in \<lparr>issuer = i, discovery_url = i @ ''/.well-known/openid-configuration'',
          expected_audiences = audiences\<rparr>)"

definition is_stale :: "instant \<Rightarrow> 'k key_cache \<Rightarrow> bool" where
  "is_stale now cache = (case fetched_at cache of
     Some at \<Rightarrow> now - at \<ge> JWKS_CACHE_TTL
   | None \<Rightarrow> True)"

definition cooldown_elapsed :: "instant \<Rightarrow> 'k key_cache \<Rightarrow> bool" where
  "cooldown_elapsed now cache = (case attempted_at cache of
     Some at \<Rightarrow> now - at \<ge> JWKS_REFRESH_COOLDOWN
   | None \<Rightarrow> True)"

definition fetch_json :: "'k jwks_lib \<Rightarrow> (json \<Rightarrow> 'a option) \<Rightarrow> string \<Rightarrow> fetch_error + 'a" where
  "fetch_json L parse url =
     (case http_get L url of
        SendFailed e \<Rightarrow> Inl (GetFailed url e)
      | Answered status body \<Rightarrow>
          if \<not> is_success status then Inl (GetStatus url status)
          else (case body of
                  Inl e \<Rightarrow> Inl (GetUnparsable url)
                | Inr j \<Rightarrow> (case parse j of None \<Rightarrow> Inl (GetUnparsable url) | Some v \<Rightarrow> Inr v)))"

definition jwk_kid :: "string option \<Rightarrow> string" where
  "jwk_kid key_id = (case key_id of Some k \<Rightarrow> k | None \<Rightarrow> '''')"

text \<open>The loop over \<open>jwks.keys\<close>: unusable entries are skipped, a later \<open>kid\<close> wins.\<close>

fun collect_keys :: "(string option \<times> (string + 'k)) list \<Rightarrow> (string \<times> 'k) list \<Rightarrow> (string \<times> 'k) list" where
  "collect_keys [] acc = acc"
| "collect_keys ((kid, Inr key) # js) acc = collect_keys js (hm_insert (jwk_kid kid) key acc)"
| "collect_keys ((kid, Inl e) # js) acc = collect_keys js acc"

definition fetch_keys :: "'k jwks_lib \<Rightarrow> jwks_validator \<Rightarrow> fetch_error + (string \<times> 'k) list" where
  "fetch_keys L v =
     (case fetch_json L (parse_discovery L) (discovery_url v) of
        Inl e \<Rightarrow> Inl e
      | Inr jwks_uri \<Rightarrow>
          (case fetch_json L (parse_jwk_set L) jwks_uri of
             Inl e \<Rightarrow> Inl e
           | Inr jwks \<Rightarrow>
               (let ks = collect_keys jwks []
                in if ks = [] then Inl (NoUsableKey jwks_uri) else Inr ks)))"

text \<open>
  \<open>refresh_keys\<close> yields its result and the next cache; the last component is a ghost that
  records whether the network was consulted.
\<close>

definition refresh_keys :: "'k jwks_lib \<Rightarrow> jwks_validator \<Rightarrow> clock \<Rightarrow> 'k key_cache \<Rightarrow>
    (jwks_rejection + unit) \<times> 'k key_cache \<times> bool" where
  "refresh_keys L v c cache =
     (if \<not> cooldown_elapsed (mono c) cache then
        (case last_error cache of
           Some e \<Rightarrow> if keys cache = [] then (Inl (Unavailable e), cache, False)
                     else (Inr (), cache, False)
         | None \<Rightarrow> (Inr (), cache, False))
      else
        (case fetch_keys L v of
           Inr ks \<Rightarrow> (Inr (), cache\<lparr>keys := ks, fetched_at := Some (mono c),
                                   attempted_at := Some (mono c), last_error := None\<rparr>, True)
         | Inl e \<Rightarrow> (Inl (Unavailable e),
                     cache\<lparr>attempted_at := Some (mono c), last_error := Some e\<rparr>, True)))"

definition cached_key :: "instant \<Rightarrow> 'k key_cache \<Rightarrow> string \<Rightarrow> 'k option" where
  "cached_key now cache kid = (if is_stale now cache then None else hm_get (keys cache) kid)"

definition remaining_from_unix_secs :: "clock \<Rightarrow> nat \<Rightarrow> instant option" where
  "remaining_from_unix_secs c exp =
     (if exp < unix_secs c then None else Some (mono c + secs (exp - unix_secs c)))"

definition validation_for :: "jwks_validator \<Rightarrow> algorithm \<Rightarrow> validation" where
  "validation_for v alg =
     \<lparr>va_algorithm = alg, va_issuer = issuer v, va_validate_exp = True, va_validate_nbf = True,
      va_leeway = JWKS_CLOCK_SKEW_LEEWAY_SECS, va_required = [''exp'', ''iss''],
      va_audience = (if expected_audiences v = [] then None else Some (expected_audiences v))\<rparr>"

text \<open>The lookup of the signing key: the cache, then one refresh, then the refreshed cache.\<close>

definition find_key :: "'k jwks_lib \<Rightarrow> jwks_validator \<Rightarrow> clock \<Rightarrow> string \<Rightarrow> 'k key_cache \<Rightarrow>
    (jwks_rejection + 'k) \<times> 'k key_cache \<times> bool" where
  "find_key L v c kid cache =
     (case cached_key (mono c) cache kid of
        Some key \<Rightarrow> (Inr key, cache, False)
      | None \<Rightarrow>
          (case refresh_keys L v c cache of
             (Inl e, cache', f) \<Rightarrow> (Inl e, cache', f)
           | (Inr _, cache', f) \<Rightarrow>
               (case hm_get (keys cache') kid of
                  Some key \<Rightarrow> (Inr key, cache', f)
                | None \<Rightarrow> (Inl UnknownKey, cache', f))))"

definition jwks_validate :: "'k jwks_lib \<Rightarrow> jwks_validator \<Rightarrow> clock \<Rightarrow> string \<Rightarrow> 'k key_cache \<Rightarrow>
    (jwks_rejection + validated_jwt) \<times> 'k key_cache \<times> bool" where
  "jwks_validate L v c token cache =
     (case decode_header L token of
        None \<Rightarrow> (Inl NotAJwt, cache, False)
      | Some (alg, kid_opt) \<Rightarrow>
          if alg \<notin> set ACCEPTED_ALGORITHMS then (Inl (UnsupportedAlgorithm alg), cache, False)
          else
            (case find_key L v c (jwk_kid kid_opt) cache of
               (Inl e, cache', f) \<Rightarrow> (Inl e, cache', f)
             | (Inr key, cache', f) \<Rightarrow>
                 (case decode_verify L (unix_secs c) token key (validation_for v alg) of
                    Inl e \<Rightarrow> (Inl (Invalid e), cache', f)
                  | Inr claims \<Rightarrow>
                      (Inr \<lparr>vj_subject = rc_sub claims,
                            vj_expires_at = Option.bind (rc_exp claims) (remaining_from_unix_secs c),
                            vj_audiences = (case rc_aud claims of None \<Rightarrow> [] | Some a \<Rightarrow> audience_into_vec a),
                            vj_authorized_party = rc_azp claims\<rparr>, cache', f))))"

section \<open>What an accepted token has passed\<close>

text \<open>The characteristic equations of \<open>find_key\<close>.\<close>

lemma find_key_cached:
  "cached_key (mono c) cache kid = Some key \<Longrightarrow> find_key L v c kid cache = (Inr key, cache, False)"
  by (simp add: find_key_def)

lemma find_key_unavailable:
  "cached_key (mono c) cache kid = None \<Longrightarrow> refresh_keys L v c cache = (Inl e, c0, f0) \<Longrightarrow>
     find_key L v c kid cache = (Inl e, c0, f0)"
  by (simp add: find_key_def)

lemma find_key_refreshed:
  "cached_key (mono c) cache kid = None \<Longrightarrow> refresh_keys L v c cache = (Inr (), c0, f0) \<Longrightarrow>
     find_key L v c kid cache =
       ((case hm_get (keys c0) kid of Some key \<Rightarrow> Inr key | None \<Rightarrow> Inl UnknownKey), c0, f0)"
  by (simp add: find_key_def split: option.split)

lemma find_key_cases:
  assumes "find_key L v c kid cache = (r, cache', f)"
  obtains (cached) key where "cached_key (mono c) cache kid = Some key" "r = Inr key" "cache' = cache" "\<not> f"
  | (unavailable) e where "refresh_keys L v c cache = (Inl e, cache', f)" "r = Inl e"
  | (refreshed) "refresh_keys L v c cache = (Inr (), cache', f)"
      "r = (case hm_get (keys cache') kid of Some key \<Rightarrow> Inr key | None \<Rightarrow> Inl UnknownKey)"
proof (cases "cached_key (mono c) cache kid")
  case (Some key)
  from assms have "r = Inr key" "cache' = cache" "\<not> f"
    unfolding find_key_cached [OF Some] by blast+
  with Some show thesis by (rule cached)
next
  case None
  obtain r0 c0 f0 where rk: "refresh_keys L v c cache = (r0, c0, f0)"
    by (cases "refresh_keys L v c cache")
  show thesis
  proof (cases r0)
    case (Inl e)
    with rk assms find_key_unavailable [OF None] show thesis using unavailable by auto
  next
    case (Inr u)
    with rk assms find_key_refreshed [OF None] show thesis using refreshed by auto
  qed
qed

lemma find_key_source:
  assumes "find_key L v c kid cache = (Inr key, cache', f)"
  shows "hm_get (keys cache') kid = Some key"
  using assms
  by (cases rule: find_key_cases) (auto simp: cached_key_def split: if_splits option.splits)

text \<open>The characteristic equations of \<open>jwks_validate\<close>, one per branch.\<close>

lemma jwks_validate_not_a_jwt:
  "decode_header L token = None \<Longrightarrow> jwks_validate L v c token cache = (Inl NotAJwt, cache, False)"
  by (simp add: jwks_validate_def)

lemma jwks_validate_algorithm:
  "decode_header L token = Some (alg, kid) \<Longrightarrow> alg \<notin> set ACCEPTED_ALGORITHMS \<Longrightarrow>
     jwks_validate L v c token cache = (Inl (UnsupportedAlgorithm alg), cache, False)"
  by (simp add: jwks_validate_def)

lemma jwks_validate_no_key:
  "decode_header L token = Some (alg, kid) \<Longrightarrow> alg \<in> set ACCEPTED_ALGORITHMS \<Longrightarrow>
     find_key L v c (jwk_kid kid) cache = (Inl e, c0, f0) \<Longrightarrow>
     jwks_validate L v c token cache = (Inl e, c0, f0)"
  by (simp add: jwks_validate_def)

lemma jwks_validate_invalid:
  "decode_header L token = Some (alg, kid) \<Longrightarrow> alg \<in> set ACCEPTED_ALGORITHMS \<Longrightarrow>
     find_key L v c (jwk_kid kid) cache = (Inr key, c0, f0) \<Longrightarrow>
     decode_verify L (unix_secs c) token key (validation_for v alg) = Inl e \<Longrightarrow>
     jwks_validate L v c token cache = (Inl (Invalid e), c0, f0)"
  by (simp add: jwks_validate_def)

lemma jwks_validate_accept:
  "decode_header L token = Some (alg, kid) \<Longrightarrow> alg \<in> set ACCEPTED_ALGORITHMS \<Longrightarrow>
     find_key L v c (jwk_kid kid) cache = (Inr key, c0, f0) \<Longrightarrow>
     decode_verify L (unix_secs c) token key (validation_for v alg) = Inr claims \<Longrightarrow>
     \<exists>jwt. jwks_validate L v c token cache = (Inr jwt, c0, f0) \<and> vj_subject jwt = rc_sub claims"
  by (simp add: jwks_validate_def)

lemma jwks_validate_sound:
  assumes res: "jwks_validate L v c token cache = (Inr jwt, cache', f)"
  shows "\<exists>alg kid key claims. decode_header L token = Some (alg, kid) \<and>
    alg \<in> set ACCEPTED_ALGORITHMS \<and> hm_get (keys cache') (jwk_kid kid) = Some key \<and>
    decode_verify L (unix_secs c) token key (validation_for v alg) = Inr claims \<and>
    vj_subject jwt = rc_sub claims"
proof (cases "decode_header L token")
  case None
  with res show ?thesis by (simp add: jwks_validate_not_a_jwt)
next
  case (Some h)
  obtain alg kid where h: "h = (alg, kid)" by (cases h)
  with Some have hdr: "decode_header L token = Some (alg, kid)" by simp
  have acc: "alg \<in> set ACCEPTED_ALGORITHMS"
    using res jwks_validate_algorithm [OF hdr] by fastforce
  obtain r0 c0 f0 where fk: "find_key L v c (jwk_kid kid) cache = (r0, c0, f0)"
    by (cases "find_key L v c (jwk_kid kid) cache")
  show ?thesis
  proof (cases r0)
    case (Inl e)
    with jwks_validate_no_key [OF hdr acc] fk res show ?thesis by simp
  next
    case (Inr key)
    with fk have fk': "find_key L v c (jwk_kid kid) cache = (Inr key, c0, f0)" by simp
    show ?thesis
    proof (cases "decode_verify L (unix_secs c) token key (validation_for v alg)")
      case (Inl e)
      with jwks_validate_invalid [OF hdr acc fk'] res show ?thesis by simp
    next
      case (Inr claims)
      from jwks_validate_accept [OF hdr acc fk' Inr] res
      have "cache' = c0" "vj_subject jwt = rc_sub claims" by auto
      with hdr acc Inr find_key_source [OF fk'] show ?thesis by blast
    qed
  qed
qed

section \<open>The fetch cooldown\<close>

text \<open>Network contact moves \<open>attempted_at\<close> to now and happens only past the cooldown.\<close>

lemma refresh_keys_contact:
  "refresh_keys L v c cache = (r, cache', f) \<Longrightarrow>
     (f \<longrightarrow> cooldown_elapsed (mono c) cache \<and> attempted_at cache' = Some (mono c)) \<and>
     (\<not> f \<longrightarrow> cache' = cache)"
  by (auto simp: refresh_keys_def split: if_splits option.splits sum.splits)

lemma find_key_contact:
  assumes "find_key L v c kid cache = (r, cache', f)"
  shows "(f \<longrightarrow> cooldown_elapsed (mono c) cache \<and> attempted_at cache' = Some (mono c)) \<and>
     (\<not> f \<longrightarrow> cache' = cache)"
  using assms by (cases rule: find_key_cases) (simp, (rule refresh_keys_contact, assumption)+)

lemma jwks_validate_contact:
  assumes "jwks_validate L v c token cache = (r, cache', f)"
  shows "(f \<longrightarrow> cooldown_elapsed (mono c) cache \<and> attempted_at cache' = Some (mono c)) \<and>
     (\<not> f \<longrightarrow> cache' = cache)"
proof (cases "decode_header L token")
  case None
  with assms show ?thesis by (simp add: jwks_validate_def)
next
  case (Some h)
  obtain alg kid where h: "h = (alg, kid)" by (cases h)
  obtain r0 c0 f0 where fk: "find_key L v c (jwk_kid kid) cache = (r0, c0, f0)"
    by (cases "find_key L v c (jwk_kid kid) cache")
  have "(cache' = cache \<and> \<not> f) \<or> (cache' = c0 \<and> f = f0)"
    using assms Some h fk by (cases r0) (simp_all add: jwks_validate_def split: if_splits sum.splits)
  then show ?thesis using find_key_contact [OF fk] by blast
qed

text \<open>
  A run of requests, each with the network it would meet and its moment; the moments at which
  the issuer was actually contacted are collected in order.
\<close>

fun jwks_run :: "jwks_validator \<Rightarrow> ('k jwks_lib \<times> clock \<times> string) list \<Rightarrow> 'k key_cache \<Rightarrow> instant list" where
  "jwks_run v [] cache = []"
| "jwks_run v ((L, c, token) # reqs) cache =
     (case jwks_validate L v c token cache of
        (_, cache', f) \<Rightarrow> (if f then [mono c] else []) @ jwks_run v reqs cache')"

fun spaced :: "duration \<Rightarrow> instant list \<Rightarrow> bool" where
  "spaced d (a # b # ts) = (a + d \<le> b \<and> spaced d (b # ts))"
| "spaced d _ = True"

definition spaced_after :: "duration \<Rightarrow> instant option \<Rightarrow> instant list \<Rightarrow> bool" where
  "spaced_after d prev ts =
     (spaced d ts \<and> (case prev of None \<Rightarrow> True | Some a \<Rightarrow> (case ts of [] \<Rightarrow> True | b # _ \<Rightarrow> a + d \<le> b)))"

lemma spaced_after_Cons:
  "spaced_after d prev (b # ts) \<longleftrightarrow>
     (case prev of None \<Rightarrow> True | Some a \<Rightarrow> a + d \<le> b) \<and> spaced_after d (Some b) ts"
  by (cases ts) (auto simp: spaced_after_def split: option.splits)

lemma jwks_run_spaced: "spaced_after JWKS_REFRESH_COOLDOWN (attempted_at cache) (jwks_run v reqs cache)"
proof (induction reqs arbitrary: cache)
  case Nil
  show ?case by (simp add: spaced_after_def split: option.split)
next
  case (Cons req reqs)
  obtain L c token where req: "req = (L, c, token)" by (cases req)
  obtain r cache' f where step: "jwks_validate L v c token cache = (r, cache', f)"
    by (cases "jwks_validate L v c token cache")
  note contact = jwks_validate_contact [OF step]
  have pos: "0 < JWKS_REFRESH_COOLDOWN" by (simp add: JWKS_REFRESH_COOLDOWN_def secs_def)
  show ?case
  proof (cases f)
    case True
    with contact pos have "case attempted_at cache of None \<Rightarrow> True | Some a \<Rightarrow> a + JWKS_REFRESH_COOLDOWN \<le> mono c"
      by (auto simp: cooldown_elapsed_def split: option.splits)
    moreover from True contact have "attempted_at cache' = Some (mono c)" by blast
    ultimately show ?thesis
      using True Cons.IH [of cache'] by (simp add: req step spaced_after_Cons)
  next
    case False
    with contact show ?thesis using Cons.IH [of cache] by (simp add: req step)
  qed
qed

text \<open>Keys survive an unreachable issuer: they are replaced only by a successful refresh.\<close>

lemma refresh_keys_keeps:
  assumes "refresh_keys L v c cache = (Inl e, cache', f)"
  shows "keys cache' = keys cache \<and> fetched_at cache' = fetched_at cache"
  using assms by (auto simp: refresh_keys_def split: if_splits option.splits sum.splits)

end
