(* ===== verification/Credential_Identity.thy ===== *)
theory Credential_Identity
  imports Mcp_Prelude "HOL-Library.Word"
begin

text \<open>
  Reading a bearer without verifying it, \<open>src/src/auth/middleware.rs\<close>: what counts as a JWT
  (\<open>jwt_payload\<close>), its claims, the ordering of two bearers, and the stable session identity
  derived from a credential (\<open>credential_session_key\<close>). The crates used (\<open>base64\<close>,
  \<open>serde_json\<close>, \<open>sha2\<close>) are the fields of a \<open>jwt_lib\<close>, an argument of every definition.
\<close>

record jwt_lib =
  b64url_decode :: "string \<Rightarrow> string option"
  parse_json :: "string \<Rightarrow> json option"
  sha256 :: "string \<Rightarrow> 8 word list"

section \<open>Claims of an unverified token\<close>

definition decode_jwt_segment :: "jwt_lib \<Rightarrow> string \<Rightarrow> (string \<times> json) list option" where
  "decode_jwt_segment L segment =
     (if segment = [] then None
      else case b64url_decode L segment of
             None \<Rightarrow> None
           | Some decoded \<Rightarrow>
               (case parse_json L decoded of
                  Some (JObj m) \<Rightarrow> Some m
                | _ \<Rightarrow> None))"

definition jwt_payload :: "jwt_lib \<Rightarrow> string \<Rightarrow> (string \<times> json) list option" where
  "jwt_payload L token =
     (case split_on (CHR ''.'') token of
        [header, payload, signature] \<Rightarrow>
          if signature = [] then None
          else (case decode_jwt_segment L header of
                  None \<Rightarrow> None
                | Some h \<Rightarrow>
                    (case hm_get h ''alg'' of
                       Some (JStr _) \<Rightarrow> decode_jwt_segment L payload
                     | _ \<Rightarrow> None))
      | _ \<Rightarrow> None)"

definition jwt_claim :: "jwt_lib \<Rightarrow> string \<Rightarrow> string \<Rightarrow> string option" where
  "jwt_claim L token claim =
     (case jwt_payload L token of
        None \<Rightarrow> None
      | Some m \<Rightarrow> (case hm_get m claim of None \<Rightarrow> None | Some v \<Rightarrow> as_str v))"

definition jwt_timestamp :: "jwt_lib \<Rightarrow> string \<Rightarrow> string \<Rightarrow> nat option" where
  "jwt_timestamp L token claim =
     (case jwt_payload L token of
        None \<Rightarrow> None
      | Some m \<Rightarrow> (case hm_get m claim of None \<Rightarrow> None | Some v \<Rightarrow> as_u64 v))"

definition jwt_subject :: "jwt_lib \<Rightarrow> string \<Rightarrow> string option" where
  "jwt_subject L token = jwt_claim L token ''sub''"

definition jwt_is_expired :: "jwt_lib \<Rightarrow> clock \<Rightarrow> string \<Rightarrow> bool option" where
  "jwt_is_expired L c token =
     (case jwt_timestamp L token ''exp'' of
        None \<Rightarrow> None
      | Some exp \<Rightarrow> Some (unix_secs c \<ge> exp))"

text \<open>The loop over \<open>["iat", "exp"]\<close>: the first claim both tokens carry decides.\<close>

fun newer_by_claims :: "jwt_lib \<Rightarrow> string list \<Rightarrow> string \<Rightarrow> string \<Rightarrow> bool option" where
  "newer_by_claims L [] candidate incumbent = None"
| "newer_by_claims L (claim # claims) candidate incumbent =
     (case (jwt_timestamp L candidate claim, jwt_timestamp L incumbent claim) of
        (Some new, Some old) \<Rightarrow> Some (new > old)
      | _ \<Rightarrow> newer_by_claims L claims candidate incumbent)"

definition jwt_is_strictly_newer :: "jwt_lib \<Rightarrow> string \<Rightarrow> string \<Rightarrow> bool option" where
  "jwt_is_strictly_newer L candidate incumbent =
     newer_by_claims L [''iat'', ''exp''] candidate incumbent"

lemma newer_by_claims_asym:
  "newer_by_claims L cs a b = Some True \<Longrightarrow> newer_by_claims L cs b a = Some False"
  by (induction cs) (auto split: option.splits)

lemma newer_by_claims_answered_sym:
  "newer_by_claims L cs a b = None \<longleftrightarrow> newer_by_claims L cs b a = None"
  by (induction cs) (auto split: option.splits)

section \<open>The derived session identity\<close>

definition hex_digit :: "nat \<Rightarrow> char" where
  "hex_digit n = ''0123456789abcdef'' ! n"

text \<open>The format \<open>{b:02x}\<close>.\<close>

definition hex_byte :: "8 word \<Rightarrow> string" where
  "hex_byte b = [hex_digit (unat b div 16), hex_digit (unat b mod 16)]"

definition short_hash :: "jwt_lib \<Rightarrow> string \<Rightarrow> string" where
  "short_hash L value = concat (map hex_byte (take 16 (sha256 L value)))"

definition credential_session_key :: "jwt_lib \<Rightarrow> string \<Rightarrow> string" where
  "credential_session_key L credential =
     (case jwt_claim L credential ''sid'' of
        Some sid \<Rightarrow> ''cred-sid-'' @ short_hash L sid
      | None \<Rightarrow>
          (case jwt_claim L credential ''sub'' of
             Some sub \<Rightarrow> ''cred-sub-'' @ short_hash L sub
           | None \<Rightarrow> ''cred-'' @ short_hash L credential))"

text \<open>What the identity is taken from: the abstract view of the three key families.\<close>

datatype identity_source = SidClaim string | SubClaim string | RawBytes string

definition identity_source :: "jwt_lib \<Rightarrow> string \<Rightarrow> identity_source" where
  "identity_source L credential =
     (case jwt_claim L credential ''sid'' of
        Some sid \<Rightarrow> SidClaim sid
      | None \<Rightarrow> (case jwt_claim L credential ''sub'' of
                   Some sub \<Rightarrow> SubClaim sub
                 | None \<Rightarrow> RawBytes credential))"

fun same_identity :: "jwt_lib \<Rightarrow> identity_source \<Rightarrow> identity_source \<Rightarrow> bool" where
  "same_identity L (SidClaim a) (SidClaim b) = (short_hash L a = short_hash L b)"
| "same_identity L (SubClaim a) (SubClaim b) = (short_hash L a = short_hash L b)"
| "same_identity L (RawBytes a) (RawBytes b) = (short_hash L a = short_hash L b)"
| "same_identity L _ _ = False"

lemma hex_digit_not_s: "n < 16 \<Longrightarrow> hex_digit n \<noteq> CHR ''s''"
proof -
  assume "n < 16"
  then have "hex_digit n \<in> set ''0123456789abcdef''" by (simp only: hex_digit_def) (rule nth_mem, simp)
  then show ?thesis by auto
qed

lemma hex_byte_no_s: "CHR ''s'' \<notin> set (hex_byte b)"
proof -
  have "unat b < 256" by (rule order_less_le_trans [OF unsigned_less]) simp
  then have "unat b div 16 < 16" by (simp add: less_mult_imp_div_less)
  moreover have "unat b mod 16 < 16" by simp
  ultimately show ?thesis
    using hex_digit_not_s [of "unat b div 16"] hex_digit_not_s [of "unat b mod 16"]
    by (simp add: hex_byte_def)
qed

lemma short_hash_no_s: "CHR ''s'' \<notin> set (short_hash L v)"
  by (simp add: short_hash_def hex_byte_no_s)

lemma hash_not_family [simp]:
  "short_hash L v \<noteq> CHR ''s'' # r" "CHR ''s'' # r \<noteq> short_hash L v"
  using short_hash_no_s [of L v] by (metis list.set_intros(1))+

lemma key_eq_iff:
  "credential_session_key L a = credential_session_key L b \<longleftrightarrow>
     same_identity L (identity_source L a) (identity_source L b)"
  by (auto simp: credential_session_key_def identity_source_def split: option.split)

end
