(* ===== verification/Auth_Config.thy ===== *)
theory Auth_Config
  imports Mcp_Prelude
begin

text \<open>
  The OAuth configuration, \<open>src/src/auth/config.rs\<close>: the token modes, the policy for bearers
  the proxy did not issue, how both are read from the environment, and the boot-time check.
  The environment is an argument: \<open>std::env::var\<close> is a function from names to values.
\<close>

datatype token_mode = Passthrough | Opaque | ResourceServer

datatype unknown_token_validation = Jwks | Introspection | JwksThenIntrospection | Reject

record oauth_config =
  oc_client_id :: string
  oc_client_secret :: "string option"
  oc_issuer_url :: string
  oc_redirect_url :: string
  oc_scopes :: "string list"
  oc_token_mode :: token_mode
  oc_unknown_token_validation :: unknown_token_validation
  oc_expected_audiences :: "string list"
  oc_allowed_redirect_uris :: "string list"

type_synonym env_var = "string \<Rightarrow> string option"

text \<open>\<open>str::trim\<close> on ASCII text.\<close>

definition is_ws :: "char \<Rightarrow> bool" where
  "is_ws ch \<longleftrightarrow> ch = CHR '' '' \<or> ch = CHR 0x09 \<or> ch = CHR 0x0A \<or> ch = CHR 0x0B \<or> ch = CHR 0x0C \<or> ch = CHR 0x0D"

definition str_trim :: "string \<Rightarrow> string" where
  "str_trim s = rev (dropWhile is_ws (rev (dropWhile is_ws s)))"

definition env_list :: "env_var \<Rightarrow> string \<Rightarrow> string list" where
  "env_list env name =
     (case env name of
        None \<Rightarrow> []
      | Some raw \<Rightarrow> filter (\<lambda>s. s \<noteq> []) (map str_trim (split_on (CHR '','') raw)))"

definition token_mode_from_env :: "env_var \<Rightarrow> token_mode" where
  "token_mode_from_env env =
     (case map_option str_trim (env ''MCP_TOKEN_MODE'') of
        Some v \<Rightarrow>
          if v = ''opaque'' then Opaque
          else if v = ''resource_server'' \<or> v = ''resource-server'' then ResourceServer
          else Passthrough
      | None \<Rightarrow> Passthrough)"

definition is_stateful :: "token_mode \<Rightarrow> bool" where
  "is_stateful m \<longleftrightarrow> m \<noteq> ResourceServer"

definition validation_from_env :: "env_var \<Rightarrow> unknown_token_validation" where
  "validation_from_env env =
     (case map_option str_trim (env ''OAUTH_UNKNOWN_TOKEN_VALIDATION'') of
        Some v \<Rightarrow>
          if v = ''jwks'' then Jwks
          else if v = ''introspection'' then Introspection
          else if v = ''reject'' then Reject
          else JwksThenIntrospection
      | None \<Rightarrow> JwksThenIntrospection)"

definition allows_jwks :: "unknown_token_validation \<Rightarrow> bool" where
  "allows_jwks p \<longleftrightarrow> p = Jwks \<or> p = JwksThenIntrospection"

definition allows_introspection :: "unknown_token_validation \<Rightarrow> bool" where
  "allows_introspection p \<longleftrightarrow> p = Introspection \<or> p = JwksThenIntrospection"

lemma allows_simps [simp]:
  "allows_jwks Jwks" "allows_jwks JwksThenIntrospection"
  "\<not> allows_jwks Introspection" "\<not> allows_jwks Reject"
  "allows_introspection Introspection" "allows_introspection JwksThenIntrospection"
  "\<not> allows_introspection Jwks" "\<not> allows_introspection Reject"
  by (simp_all add: allows_jwks_def allows_introspection_def)

definition oauth_config_from_env :: "env_var \<Rightarrow> string + oauth_config" where
  "oauth_config_from_env env =
     (case env ''OAUTH_CLIENT_ID'' of
        None \<Rightarrow> Inl ''OAUTH_CLIENT_ID not set''
      | Some client_id \<Rightarrow>
     (case env ''OAUTH_ISSUER_URL'' of
        None \<Rightarrow> Inl ''OAUTH_ISSUER_URL not set''
      | Some issuer_url \<Rightarrow>
     (case env ''OAUTH_REDIRECT_URL'' of
        None \<Rightarrow> Inl ''OAUTH_REDIRECT_URL not set''
      | Some redirect_url \<Rightarrow>
          Inr \<lparr>oc_client_id = client_id,
               oc_client_secret = env ''OAUTH_CLIENT_SECRET'',
               oc_issuer_url = issuer_url,
               oc_redirect_url = redirect_url,
               oc_scopes = map str_trim (split_on (CHR '','')
                 (case env ''OAUTH_SCOPES'' of None \<Rightarrow> ''openid,profile,email'' | Some s \<Rightarrow> s)),
               oc_token_mode = token_mode_from_env env,
               oc_unknown_token_validation = validation_from_env env,
               oc_expected_audiences = env_list env ''OAUTH_EXPECTED_AUDIENCE'',
               oc_allowed_redirect_uris = env_list env ''OAUTH_ALLOWED_REDIRECT_URIS''\<rparr>)))"

text \<open>The reasons a configuration is refused at boot.\<close>

datatype config_error =
    AudienceRequired
  | RejectIncompatible
  | IntrospectionIncompatible

definition validate_config :: "oauth_config \<Rightarrow> config_error + unit" where
  "validate_config cfg =
     (if oc_token_mode cfg \<noteq> ResourceServer then Inr ()
      else if oc_expected_audiences cfg = [] then Inl AudienceRequired
      else case oc_unknown_token_validation cfg of
             Reject \<Rightarrow> Inl RejectIncompatible
           | Introspection \<Rightarrow> Inl IntrospectionIncompatible
           | JwksThenIntrospection \<Rightarrow> Inr ()
           | Jwks \<Rightarrow> Inr ())"

definition effective_unknown_token_validation :: "oauth_config \<Rightarrow> unknown_token_validation" where
  "effective_unknown_token_validation cfg =
     (if oc_token_mode cfg = ResourceServer then Jwks else oc_unknown_token_validation cfg)"

lemma validate_config_ok:
  "validate_config cfg = Inr () \<longleftrightarrow>
     (oc_token_mode cfg = ResourceServer \<longrightarrow>
        oc_expected_audiences cfg \<noteq> [] \<and> allows_jwks (oc_unknown_token_validation cfg))"
  by (cases "oc_unknown_token_validation cfg") (auto simp: validate_config_def)

section \<open>Basic authentication\<close>

record basic_auth_config =
  ba_username :: string
  ba_password :: string

definition basic_auth_config_from_env :: "env_var \<Rightarrow> string + basic_auth_config" where
  "basic_auth_config_from_env env =
     (case env ''BASIC_AUTH_USERNAME'' of
        None \<Rightarrow> Inl ''BASIC_AUTH_USERNAME not set''
      | Some username \<Rightarrow>
          (case env ''BASIC_AUTH_PASSWORD'' of
             None \<Rightarrow> Inl ''BASIC_AUTH_PASSWORD not set''
           | Some password \<Rightarrow> Inr \<lparr>ba_username = username, ba_password = password\<rparr>))"

end
