(* ===== verification/Token_Store.thy ===== *)
theory Token_Store
  imports Tokens Jwks Credential_Identity Auth_Config
begin

text \<open>
  The token store, \<open>src/src/auth/store.rs\<close>: its state, and one definition per operation on
  tokens, opaque tokens, grants, parked authorizations and registered clients, each with its
  write-through to the persistence backend and its read-through on a memory miss. Refreshing
  and the validation of unknown bearers are in \<open>Token_Refresh\<close> and \<open>Bearer_Validation\<close>.
\<close>

section \<open>State and environment\<close>

definition NS_TOKENS :: string where "NS_TOKENS = ''tokens''"
definition NS_OPAQUE :: string where "NS_OPAQUE = ''opaque''"
definition NS_OPAQUE_ACCESS :: string where "NS_OPAQUE_ACCESS = ''opaque_access''"
definition NS_OPAQUE_REFRESH :: string where "NS_OPAQUE_REFRESH = ''opaque_refresh''"
definition NS_GRANT_REFRESH :: string where "NS_GRANT_REFRESH = ''grant_refresh''"
definition NS_REFRESH_LOCK :: string where "NS_REFRESH_LOCK = ''refresh_lock''"
definition NS_PROXIED_AUTH :: string where "NS_PROXIED_AUTH = ''proxied_auth''"
definition NS_OAUTH_CLIENTS :: string where "NS_OAUTH_CLIENTS = ''oauth_clients''"

lemmas ns_defs = NS_TOKENS_def NS_OPAQUE_def NS_OPAQUE_ACCESS_def NS_OPAQUE_REFRESH_def
  NS_GRANT_REFRESH_def NS_REFRESH_LOCK_def NS_PROXIED_AUTH_def NS_OAUTH_CLIENTS_def

lemma ns_distinct [simp]:
  "NS_TOKENS \<noteq> NS_OPAQUE" "NS_OPAQUE \<noteq> NS_TOKENS"
  "NS_TOKENS \<noteq> NS_OPAQUE_ACCESS" "NS_OPAQUE_ACCESS \<noteq> NS_TOKENS"
  "NS_TOKENS \<noteq> NS_OPAQUE_REFRESH" "NS_OPAQUE_REFRESH \<noteq> NS_TOKENS"
  "NS_OPAQUE \<noteq> NS_OPAQUE_ACCESS" "NS_OPAQUE_ACCESS \<noteq> NS_OPAQUE"
  "NS_OPAQUE \<noteq> NS_OPAQUE_REFRESH" "NS_OPAQUE_REFRESH \<noteq> NS_OPAQUE"
  "NS_OPAQUE_ACCESS \<noteq> NS_OPAQUE_REFRESH" "NS_OPAQUE_REFRESH \<noteq> NS_OPAQUE_ACCESS"
  by (simp_all add: ns_defs)

definition MAX_CACHED_CLIENTS :: nat where "MAX_CACHED_CLIENTS = 10000"

record refresh_config =
  rf_client_id :: string
  rf_client_secret :: "string option"
  rf_token_url :: string

text \<open>
  The serialisation the store uses for each kind of record it persists (\<open>serde_json\<close>, and the
  bytes of a string for the inverse indexes). \<open>serde_ok\<close> is what it relies on: whatever was
  encoded decodes to itself.
\<close>

record 'v store_serde =
  enc_token :: "persisted_token \<Rightarrow> 'v option"
  dec_token :: "'v \<Rightarrow> persisted_token option"
  enc_opaque :: "persisted_opaque \<Rightarrow> 'v option"
  dec_opaque :: "'v \<Rightarrow> persisted_opaque option"
  enc_proxied :: "proxied_authorization \<Rightarrow> 'v option"
  dec_proxied :: "'v \<Rightarrow> proxied_authorization option"
  enc_uris :: "string list \<Rightarrow> 'v option"
  dec_uris :: "'v \<Rightarrow> string list option"
  str_bytes :: "string \<Rightarrow> 'v"
  from_utf8 :: "'v \<Rightarrow> string option"

definition serde_ok :: "'v store_serde \<Rightarrow> bool" where
  "serde_ok S \<longleftrightarrow>
     (\<forall>t. \<exists>v. enc_token S t = Some v \<and> dec_token S v = Some t) \<and>
     (\<forall>m. \<exists>v. enc_opaque S m = Some v \<and> dec_opaque S v = Some m) \<and>
     (\<forall>p. \<exists>v. enc_proxied S p = Some v \<and> dec_proxied S v = Some p) \<and>
     (\<forall>u. \<exists>v. enc_uris S u = Some v \<and> dec_uris S v = Some u) \<and>
     (\<forall>s. from_utf8 S (str_bytes S s) = Some s)"

text \<open>The fields of a \<open>TokenStore\<close> that are fixed once it is built.\<close>

record ('b, 'v, 'c) store_env =
  persistence :: "('b, 'v) backend_ops option"
  serde :: "'v store_serde"
  claims_decoder :: "(string \<Rightarrow> 'c option) option"
  jwt :: jwt_lib

text \<open>
  The fields behind locks, shared by every clone of the store, with the state of the
  persistence backend it talks to. A lock guards each operation as a whole
  (\<open>mutation_lock\<close>, the \<open>RwLock\<close>s), so an operation is one function on the state.
\<close>

record ('b, 'c, 'k) token_store =
  tokens :: "(string \<times> 'c stored_token) list"
  pending_auths :: "(string \<times> pending_auth) list"
  proxied_auths :: "(string \<times> (proxied_authorization \<times> instant)) list"
  client_redirects :: "(string \<times> string list) list"
  refresh_config :: "refresh_config option"
  refresh_locks :: "(string \<times> unit) list"
  opaque_index :: opaque_index
  grant_refresh_index :: "(string \<times> string) list"
  jwks_cache :: "'k key_cache"
  introspection_not_permitted :: bool
  backend :: 'b

definition token_store_new :: "'b \<Rightarrow> ('b, 'c, 'k) token_store" where
  "token_store_new b =
     \<lparr>tokens = [], pending_auths = [], proxied_auths = [], client_redirects = [],
      refresh_config = None, refresh_locks = [], opaque_index = empty_opaque_index,
      grant_refresh_index = [], jwks_cache = empty_key_cache,
      introspection_not_permitted = False, backend = b\<rparr>"

definition with_refresh_config :: "refresh_config \<Rightarrow> 'b \<Rightarrow> ('b, 'c, 'k) token_store" where
  "with_refresh_config cfg b = (token_store_new b)\<lparr>refresh_config := Some cfg\<rparr>"

section \<open>Backend access of the store\<close>

definition write_through :: "('b, 'v, 'c) store_env \<Rightarrow> (('b, 'v) backend_ops \<Rightarrow> 'b \<Rightarrow> 'b) \<Rightarrow>
    ('b, 'c, 'k) token_store \<Rightarrow> ('b, 'c, 'k) token_store" where
  "write_through E f s =
     (case persistence E of None \<Rightarrow> s | Some ops \<Rightarrow> s\<lparr>backend := f ops (backend s)\<rparr>)"

text \<open>A read whose errors are logged and reported as a miss.\<close>

definition read_through :: "('b, 'v, 'c) store_env \<Rightarrow> clock \<Rightarrow> string \<Rightarrow> string \<Rightarrow>
    ('b, 'c, 'k) token_store \<Rightarrow> 'v option" where
  "read_through E c ns key s =
     (case persistence E of
        None \<Rightarrow> None
      | Some ops \<Rightarrow> (case be_get ops (mono c) ns key (backend s) of Inl e \<Rightarrow> None | Inr b \<Rightarrow> b))"

lemma write_through_fields [simp]:
  "tokens (write_through E f s) = tokens s"
  "pending_auths (write_through E f s) = pending_auths s"
  "proxied_auths (write_through E f s) = proxied_auths s"
  "client_redirects (write_through E f s) = client_redirects s"
  "refresh_config (write_through E f s) = refresh_config s"
  "refresh_locks (write_through E f s) = refresh_locks s"
  "opaque_index (write_through E f s) = opaque_index s"
  "grant_refresh_index (write_through E f s) = grant_refresh_index s"
  "jwks_cache (write_through E f s) = jwks_cache s"
  "introspection_not_permitted (write_through E f s) = introspection_not_permitted s"
  by (simp_all add: write_through_def split: option.split)

lemma write_through_backend:
  "persistence E = Some ops \<Longrightarrow> backend (write_through E f s) = f ops (backend s)"
  by (simp add: write_through_def)

section \<open>Tokens\<close>

definition apply_decoder :: "('b, 'v, 'c) store_env \<Rightarrow> 'c stored_token \<Rightarrow> 'c stored_token" where
  "apply_decoder E t =
     (case claims_decoder E of None \<Rightarrow> t | Some d \<Rightarrow> t\<lparr>decoded_claims := d (access_token t)\<rparr>)"

lemma apply_decoder_fields [simp]:
  "access_token (apply_decoder E t) = access_token t"
  "refresh_token (apply_decoder E t) = refresh_token t"
  "expires_at (apply_decoder E t) = expires_at t"
  "is_expired c (apply_decoder E t) = is_expired c t"
  by (simp_all add: apply_decoder_def is_expired_def split: option.split)

definition transient_token :: "('b, 'v, 'c) store_env \<Rightarrow> string \<Rightarrow> instant option \<Rightarrow> 'c stored_token" where
  "transient_token E acc exp =
     \<lparr>access_token = acc, refresh_token = None, expires_at = exp,
      decoded_claims = (case claims_decoder E of None \<Rightarrow> None | Some d \<Rightarrow> d acc)\<rparr>"

definition persist_ttl :: "clock \<Rightarrow> 'c stored_token \<Rightarrow> duration option" where
  "persist_ttl c t =
     (if refresh_token t \<noteq> None then None else map_option (\<lambda>ea. ea - mono c) (expires_at t))"

definition store_token :: "('b, 'v, 'c) store_env \<Rightarrow> clock \<Rightarrow> string \<Rightarrow> 'c stored_token \<Rightarrow>
    ('b, 'c, 'k) token_store \<Rightarrow> ('b, 'c, 'k) token_store" where
  "store_token E c sid token0 s =
     (let token = apply_decoder E token0;
          persisted = from_stored c token;
          ttl = persist_ttl c token;
          s1 = s\<lparr>tokens := hm_insert sid token (tokens s)\<rparr>
      in write_through E (\<lambda>ops. persist ops c NS_TOKENS sid (enc_token (serde E) persisted) ttl) s1)"

definition load_token_from_backend :: "('b, 'v, 'c) store_env \<Rightarrow> clock \<Rightarrow> string \<Rightarrow>
    ('b, 'c, 'k) token_store \<Rightarrow> 'c stored_token option" where
  "load_token_from_backend E c sid s =
     (case read_through E c NS_TOKENS sid s of
        None \<Rightarrow> None
      | Some bytes \<Rightarrow>
          (case dec_token (serde E) bytes of
             None \<Rightarrow> None
           | Some p \<Rightarrow> Some (apply_decoder E (into_stored c p))))"

definition get_token_raw :: "('b, 'v, 'c) store_env \<Rightarrow> clock \<Rightarrow> string \<Rightarrow>
    ('b, 'c, 'k) token_store \<Rightarrow> 'c stored_token option \<times> ('b, 'c, 'k) token_store" where
  "get_token_raw E c sid s =
     (case hm_get (tokens s) sid of
        Some t \<Rightarrow> (Some t, s)
      | None \<Rightarrow>
          (case load_token_from_backend E c sid s of
             None \<Rightarrow> (None, s)
           | Some t \<Rightarrow> (Some t, s\<lparr>tokens := hm_insert sid t (tokens s)\<rparr>)))"

definition peek_token :: "('b, 'v, 'c) store_env \<Rightarrow> clock \<Rightarrow> string \<Rightarrow>
    ('b, 'c, 'k) token_store \<Rightarrow> 'c stored_token option \<times> ('b, 'c, 'k) token_store" where
  "peek_token = get_token_raw"

definition token_count :: "('b, 'c, 'k) token_store \<Rightarrow> nat" where
  "token_count s = length (tokens s)"

definition has_valid_token :: "('b, 'v, 'c) store_env \<Rightarrow> clock \<Rightarrow> string \<Rightarrow>
    ('b, 'c, 'k) token_store \<Rightarrow> bool \<times> ('b, 'c, 'k) token_store" where
  "has_valid_token E c sid s =
     (case get_token_raw E c sid s of
        (Some t, s') \<Rightarrow> (\<not> is_expired c t, s')
      | (None, s') \<Rightarrow> (False, s'))"

definition adopt_persisted_token :: "('b, 'v, 'c) store_env \<Rightarrow> clock \<Rightarrow> string \<Rightarrow>
    ('b, 'c, 'k) token_store \<Rightarrow> 'c stored_token option \<times> ('b, 'c, 'k) token_store" where
  "adopt_persisted_token E c sid s =
     (case load_token_from_backend E c sid s of
        None \<Rightarrow> (None, s)
      | Some t \<Rightarrow>
          if is_expired c t then (None, s)
          else (Some t, s\<lparr>tokens := hm_insert sid t (tokens s)\<rparr>))"

section \<open>Pending and proxied authorizations\<close>

definition store_pending_auth :: "clock \<Rightarrow> string \<Rightarrow> string \<Rightarrow>
    ('b, 'c, 'k) token_store \<Rightarrow> ('b, 'c, 'k) token_store" where
  "store_pending_auth c state verifier s =
     (let pending = hm_retain (\<lambda>_ v. \<not> pending_is_expired c v) (pending_auths s)
      in s\<lparr>pending_auths := hm_insert state \<lparr>pkce_verifier = verifier, created_at = mono c\<rparr> pending\<rparr>)"

definition take_pending_auth :: "string \<Rightarrow> ('b, 'c, 'k) token_store \<Rightarrow>
    pending_auth option \<times> ('b, 'c, 'k) token_store" where
  "take_pending_auth state s =
     (hm_get (pending_auths s) state, s\<lparr>pending_auths := hm_remove state (pending_auths s)\<rparr>)"

definition proxied_alive :: "clock \<Rightarrow> instant \<Rightarrow> bool" where
  "proxied_alive c created \<longleftrightarrow> mono c - created \<le> PROXIED_AUTH_TIMEOUT"

definition store_proxied_authorization :: "('b, 'v, 'c) store_env \<Rightarrow> clock \<Rightarrow> string \<Rightarrow>
    proxied_authorization \<Rightarrow> ('b, 'c, 'k) token_store \<Rightarrow> ('b, 'c, 'k) token_store" where
  "store_proxied_authorization E c state auth s =
     (let proxied = hm_retain (\<lambda>_ (_, created). proxied_alive c created) (proxied_auths s);
          s1 = s\<lparr>proxied_auths := hm_insert state (auth, mono c) proxied\<rparr>
      in write_through E (\<lambda>ops. persist ops c NS_PROXIED_AUTH state (enc_proxied (serde E) auth)
           (Some PROXIED_AUTH_TIMEOUT)) s1)"

definition take_proxied_authorization :: "('b, 'v, 'c) store_env \<Rightarrow> clock \<Rightarrow> string \<Rightarrow>
    ('b, 'c, 'k) token_store \<Rightarrow> proxied_authorization option \<times> ('b, 'c, 'k) token_store" where
  "take_proxied_authorization E c state s =
     (let local = hm_get (proxied_auths s) state;
          s1 = s\<lparr>proxied_auths := hm_remove state (proxied_auths s)\<rparr>;
          deleted = write_through E (\<lambda>ops. discard ops c NS_PROXIED_AUTH state) s1
      in case local of
           Some (auth, created) \<Rightarrow> ((if proxied_alive c created then Some auth else None), deleted)
         | None \<Rightarrow>
             (case read_through E c NS_PROXIED_AUTH state s1 of
                None \<Rightarrow> (None, s1)
              | Some bytes \<Rightarrow> (dec_proxied (serde E) bytes, deleted)))"

section \<open>Registered clients\<close>

fun merge_uris :: "string list \<Rightarrow> string list \<Rightarrow> string list" where
  "merge_uris merged [] = merged"
| "merge_uris merged (uri # uris) =
     (if uri \<in> set merged then merge_uris merged uris else merge_uris (merged @ [uri]) uris)"

definition register_client_redirects :: "('b, 'v, 'c) store_env \<Rightarrow> clock \<Rightarrow> string \<Rightarrow> string list \<Rightarrow>
    ('b, 'c, 'k) token_store \<Rightarrow> ('b, 'c, 'k) token_store" where
  "register_client_redirects E c client_id uris s =
     (let clients = client_redirects s;
          merged = merge_uris (case hm_get clients client_id of None \<Rightarrow> [] | Some us \<Rightarrow> us) uris;
          s1 = (if hm_get clients client_id \<noteq> None \<or> length clients < MAX_CACHED_CLIENTS
                then s\<lparr>client_redirects := hm_insert client_id merged clients\<rparr> else s)
      in write_through E (\<lambda>ops. persist ops c NS_OAUTH_CLIENTS client_id
           (enc_uris (serde E) merged) None) s1)"

definition get_client_redirects :: "('b, 'v, 'c) store_env \<Rightarrow> clock \<Rightarrow> string \<Rightarrow>
    ('b, 'c, 'k) token_store \<Rightarrow> string list option \<times> ('b, 'c, 'k) token_store" where
  "get_client_redirects E c client_id s =
     (case hm_get (client_redirects s) client_id of
        Some uris \<Rightarrow> (Some uris, s)
      | None \<Rightarrow>
          (case read_through E c NS_OAUTH_CLIENTS client_id s of
             None \<Rightarrow> (None, s)
           | Some bytes \<Rightarrow>
               (case dec_uris (serde E) bytes of
                  None \<Rightarrow> (None, s)
                | Some uris \<Rightarrow>
                    (Some uris,
                     if length (client_redirects s) < MAX_CACHED_CLIENTS
                     then s\<lparr>client_redirects := hm_insert client_id uris (client_redirects s)\<rparr>
                     else s))))"

section \<open>Opaque tokens\<close>

definition load_inverse :: "('b, 'v, 'c) store_env \<Rightarrow> clock \<Rightarrow> string \<Rightarrow> string \<Rightarrow>
    ('b, 'c, 'k) token_store \<Rightarrow> string option" where
  "load_inverse E c ns token s =
     (case read_through E c ns token s of None \<Rightarrow> None | Some bytes \<Rightarrow> from_utf8 (serde E) bytes)"

definition load_opaque_mapping :: "('b, 'v, 'c) store_env \<Rightarrow> clock \<Rightarrow> string \<Rightarrow>
    ('b, 'c, 'k) token_store \<Rightarrow> persisted_opaque option" where
  "load_opaque_mapping E c sid s =
     (case read_through E c NS_OPAQUE sid s of None \<Rightarrow> None | Some bytes \<Rightarrow> dec_opaque (serde E) bytes)"

definition hydrate_opaque :: "clock \<Rightarrow> string \<Rightarrow> persisted_opaque \<Rightarrow>
    ('b, 'c, 'k) token_store \<Rightarrow> ('b, 'c, 'k) token_store" where
  "hydrate_opaque c sid m s = s\<lparr>opaque_index := snd (index_insert c sid m (opaque_index s))\<rparr>"

definition drop_inverse :: "('b, 'v) backend_ops \<Rightarrow> clock \<Rightarrow> persisted_opaque \<Rightarrow> 'b \<Rightarrow> 'b" where
  "drop_inverse ops c m b =
     discard ops c NS_OPAQUE_REFRESH (opaque_refresh m)
       (discard ops c NS_OPAQUE_ACCESS (opaque_access m) b)"

definition new_mapping :: "clock \<Rightarrow> string \<Rightarrow> string \<Rightarrow> duration \<Rightarrow> persisted_opaque" where
  "new_mapping c opq_access opq_refresh access_ttl =
     \<lparr>opaque_access = opq_access, opaque_refresh = opq_refresh,
      access_expires_at_unix_ms = instant_to_unix_millis c (mono c + access_ttl),
      refresh_expires_at_unix_ms = instant_to_unix_millis c (mono c + OPAQUE_REFRESH_TTL)\<rparr>"

definition store_opaque_mapping_with_access_ttl :: "('b, 'v, 'c) store_env \<Rightarrow> clock \<Rightarrow> string \<Rightarrow>
    string \<Rightarrow> string \<Rightarrow> duration \<Rightarrow> ('b, 'c, 'k) token_store \<Rightarrow> ('b, 'c, 'k) token_store" where
  "store_opaque_mapping_with_access_ttl E c sid opq_access opq_refresh access_ttl s =
     (let mapping = new_mapping c opq_access opq_refresh access_ttl;
          (old, idx1) = index_remove_session sid (opaque_index s);
          s1 = s\<lparr>opaque_index := snd (index_insert c sid mapping idx1)\<rparr>
      in write_through E (\<lambda>ops b.
           (let b1 = persist ops c NS_OPAQUE sid (enc_opaque (serde E) mapping) (Some OPAQUE_REFRESH_TTL) b;
                b2 = persist_raw ops c NS_OPAQUE_ACCESS opq_access (str_bytes (serde E) sid) (Some access_ttl) b1;
                b3 = persist_raw ops c NS_OPAQUE_REFRESH opq_refresh (str_bytes (serde E) sid)
                       (Some OPAQUE_REFRESH_TTL) b2
            in case old of None \<Rightarrow> b3 | Some m \<Rightarrow> drop_inverse ops c m b3)) s1)"

definition store_opaque_mapping :: "('b, 'v, 'c) store_env \<Rightarrow> clock \<Rightarrow> string \<Rightarrow>
    string \<Rightarrow> string \<Rightarrow> ('b, 'c, 'k) token_store \<Rightarrow> ('b, 'c, 'k) token_store" where
  "store_opaque_mapping E c sid opq_access opq_refresh =
     store_opaque_mapping_with_access_ttl E c sid opq_access opq_refresh OPAQUE_ACCESS_TTL"

definition expire_opaque_access :: "('b, 'v, 'c) store_env \<Rightarrow> clock \<Rightarrow> string \<Rightarrow>
    ('b, 'c, 'k) token_store \<Rightarrow> ('b, 'c, 'k) token_store" where
  "expire_opaque_access E c opq_access s =
     write_through E (\<lambda>ops. discard ops c NS_OPAQUE_ACCESS opq_access)
       (s\<lparr>opaque_index := (opaque_index s)\<lparr>access_to_session :=
          hm_remove opq_access (access_to_session (opaque_index s))\<rparr>\<rparr>)"

definition remove_opaque_for_session :: "('b, 'v, 'c) store_env \<Rightarrow> clock \<Rightarrow> string \<Rightarrow>
    ('b, 'c, 'k) token_store \<Rightarrow> ('b, 'c, 'k) token_store" where
  "remove_opaque_for_session E c sid s =
     (let (removed, idx) = index_remove_session sid (opaque_index s);
          s1 = s\<lparr>opaque_index := idx\<rparr>;
          opaques = (case removed of Some m \<Rightarrow> Some m | None \<Rightarrow> load_opaque_mapping E c sid s1)
      in write_through E (\<lambda>ops b.
           (let b1 = discard ops c NS_OPAQUE sid b
            in case opaques of None \<Rightarrow> b1 | Some m \<Rightarrow> drop_inverse ops c m b1)) s1)"

definition resolve_opaque_access :: "('b, 'v, 'c) store_env \<Rightarrow> clock \<Rightarrow> string \<Rightarrow>
    ('b, 'c, 'k) token_store \<Rightarrow> string option \<times> ('b, 'c, 'k) token_store" where
  "resolve_opaque_access E c opq_access s =
     (case hm_get (access_to_session (opaque_index s)) opq_access of
        Some binding \<Rightarrow>
          if bind_expires_at binding > mono c then (Some (bind_session binding), s)
          else (None, expire_opaque_access E c opq_access s)
      | None \<Rightarrow>
          (case load_inverse E c NS_OPAQUE_ACCESS opq_access s of
             None \<Rightarrow> (None, s)
           | Some sid \<Rightarrow>
               (case load_opaque_mapping E c sid s of
                  None \<Rightarrow> (None, s)
                | Some m \<Rightarrow>
                    if opaque_access m \<noteq> opq_access \<or>
                       remaining_until_unix_millis c (access_expires_at_unix_ms m) = 0
                    then (None, write_through E (\<lambda>ops. discard ops c NS_OPAQUE_ACCESS opq_access) s)
                    else (Some sid, hydrate_opaque c sid m s))))"

definition resolve_opaque_refresh :: "('b, 'v, 'c) store_env \<Rightarrow> clock \<Rightarrow> string \<Rightarrow>
    ('b, 'c, 'k) token_store \<Rightarrow> string option \<times> ('b, 'c, 'k) token_store" where
  "resolve_opaque_refresh E c opq_refresh s =
     (case hm_get (refresh_to_session (opaque_index s)) opq_refresh of
        Some binding \<Rightarrow>
          if bind_expires_at binding > mono c then (Some (bind_session binding), s)
          else (None, remove_opaque_for_session E c (bind_session binding) s)
      | None \<Rightarrow>
          (case load_inverse E c NS_OPAQUE_REFRESH opq_refresh s of
             None \<Rightarrow> (None, s)
           | Some sid \<Rightarrow>
               (case load_opaque_mapping E c sid s of
                  None \<Rightarrow> (None, s)
                | Some m \<Rightarrow>
                    if opaque_refresh m \<noteq> opq_refresh \<or>
                       remaining_until_unix_millis c (refresh_expires_at_unix_ms m) = 0
                    then (None, write_through E (\<lambda>ops. discard ops c NS_OPAQUE_REFRESH opq_refresh) s)
                    else (Some sid, hydrate_opaque c sid m s))))"

section \<open>The grant index of passthrough mode\<close>

definition index_grant_refresh :: "('b, 'v, 'c) store_env \<Rightarrow> clock \<Rightarrow> string \<Rightarrow> string \<Rightarrow>
    ('b, 'c, 'k) token_store \<Rightarrow> ('b, 'c, 'k) token_store" where
  "index_grant_refresh E c refresh session_key s =
     (let key = credential_session_key (jwt E) refresh
      in write_through E (\<lambda>ops. persist_raw ops c NS_GRANT_REFRESH key
             (str_bytes (serde E) session_key) (Some OPAQUE_REFRESH_TTL))
           (s\<lparr>grant_refresh_index := hm_insert key session_key (grant_refresh_index s)\<rparr>))"

definition resolve_grant_refresh :: "('b, 'v, 'c) store_env \<Rightarrow> clock \<Rightarrow> string \<Rightarrow>
    ('b, 'c, 'k) token_store \<Rightarrow> string option \<times> ('b, 'c, 'k) token_store" where
  "resolve_grant_refresh E c refresh s =
     (let key = credential_session_key (jwt E) refresh
      in case hm_get (grant_refresh_index s) key of
           Some session_key \<Rightarrow> (Some session_key, s)
         | None \<Rightarrow>
             (case load_inverse E c NS_GRANT_REFRESH key s of
                None \<Rightarrow> (None, s)
              | Some session_key \<Rightarrow>
                  (Some session_key,
                   s\<lparr>grant_refresh_index := hm_insert key session_key (grant_refresh_index s)\<rparr>)))"

definition remove_grant_refresh :: "('b, 'v, 'c) store_env \<Rightarrow> clock \<Rightarrow> string \<Rightarrow>
    ('b, 'c, 'k) token_store \<Rightarrow> ('b, 'c, 'k) token_store" where
  "remove_grant_refresh E c refresh s =
     (let key = credential_session_key (jwt E) refresh
      in write_through E (\<lambda>ops. discard ops c NS_GRANT_REFRESH key)
           (s\<lparr>grant_refresh_index := hm_remove key (grant_refresh_index s)\<rparr>))"

section \<open>Removal and purging\<close>

definition remove_token :: "('b, 'v, 'c) store_env \<Rightarrow> clock \<Rightarrow> string \<Rightarrow>
    ('b, 'c, 'k) token_store \<Rightarrow> ('b, 'c, 'k) token_store" where
  "remove_token E c sid s =
     (let s1 = s\<lparr>tokens := hm_remove sid (tokens s), refresh_locks := hm_remove sid (refresh_locks s)\<rparr>;
          s2 = remove_opaque_for_session E c sid s1
      in write_through E (\<lambda>ops. discard ops c NS_TOKENS sid) s2)"

text \<open>Removing a list of sessions from the index, collecting the mappings that were there.\<close>

fun index_remove_sessions :: "string list \<Rightarrow> opaque_index \<Rightarrow> persisted_opaque list \<times> opaque_index" where
  "index_remove_sessions [] idx = ([], idx)"
| "index_remove_sessions (k # ks) idx =
     (case index_remove_session k idx of
        (removed, idx1) \<Rightarrow>
          (case index_remove_sessions ks idx1 of
             (ms, idx2) \<Rightarrow> ((case removed of None \<Rightarrow> ms | Some m \<Rightarrow> m # ms), idx2)))"

definition expired_keys :: "clock \<Rightarrow> ('b, 'c, 'k) token_store \<Rightarrow> string list" where
  "expired_keys c s =
     map fst (filter (\<lambda>(_, t). is_expired c t \<and> refresh_token t = None) (tokens s))"

definition purge_expired :: "('b, 'v, 'c) store_env \<Rightarrow> clock \<Rightarrow>
    ('b, 'c, 'k) token_store \<Rightarrow> ('b, 'c, 'k) token_store" where
  "purge_expired E c s0 =
     (let s = s0\<lparr>proxied_auths := hm_retain (\<lambda>_ (_, created). proxied_alive c created) (proxied_auths s0)\<rparr>;
          keys = expired_keys c s
      in if keys = [] then s
         else
           (let s1 = s\<lparr>tokens := fold hm_remove keys (tokens s),
                       refresh_locks := fold hm_remove keys (refresh_locks s)\<rparr>;
                (removed, idx) = index_remove_sessions keys (opaque_index s1);
                s2 = s1\<lparr>opaque_index := idx\<rparr>
            in write_through E (\<lambda>ops b.
                 fold (drop_inverse ops c) removed
                   (fold (\<lambda>k b'. discard ops c NS_OPAQUE k (discard ops c NS_TOKENS k b')) keys b)) s2))"

end
