(* ===== verification/Token_Store_Facts.thy ===== *)
theory Token_Store_Facts
  imports Token_Store
begin

text \<open>
  What the operations of the token store guarantee. First the in-memory facts (invariant of
  every operation), then, inside \<open>kv_backend\<close>, what holds across instances that share a
  reliable backend: read-through of tokens, minting, rotation and revocation of opaque tokens,
  single use of parked authorizations. The properties are their instances on the
  \<open>InMemoryBackend\<close>.
\<close>

section \<open>The store invariant\<close>

definition store_ok :: "('b, 'c, 'k) token_store \<Rightarrow> bool" where
  "store_ok s \<longleftrightarrow>
     hm_ok (tokens s) \<and> hm_ok (pending_auths s) \<and> hm_ok (proxied_auths s) \<and>
     hm_ok (client_redirects s) \<and> length (client_redirects s) \<le> MAX_CACHED_CLIENTS \<and>
     hm_ok (refresh_locks s) \<and> hm_ok (grant_refresh_index s) \<and> index_sound (opaque_index s)"

lemma store_okI:
  assumes "hm_ok (tokens s)" "hm_ok (pending_auths s)" "hm_ok (proxied_auths s)"
    "hm_ok (client_redirects s)" "length (client_redirects s) \<le> MAX_CACHED_CLIENTS"
    "hm_ok (refresh_locks s)" "hm_ok (grant_refresh_index s)" "index_sound (opaque_index s)"
  shows "store_ok s"
  using assms by (simp add: store_ok_def)

lemma store_ok_index [simp]: "store_ok s \<Longrightarrow> index_sound (opaque_index s)"
  by (simp add: store_ok_def)

lemma store_ok_write_through [simp]: "store_ok (write_through E f s) = store_ok s"
  by (simp add: store_ok_def)

lemma store_ok_new: "store_ok (token_store_new b)" "store_ok (with_refresh_config cfg b)"
  by (simp_all add: store_ok_def token_store_new_def with_refresh_config_def)

lemma store_token_ok: "store_ok s \<Longrightarrow> store_ok (store_token E c sid t s)"
  by (simp add: store_token_def Let_def) (simp add: store_ok_def)

lemma get_token_raw_ok: "store_ok s \<Longrightarrow> store_ok (snd (get_token_raw E c sid s))"
  by (auto simp: get_token_raw_def store_ok_def split: option.split)

lemma adopt_persisted_token_ok: "store_ok s \<Longrightarrow> store_ok (snd (adopt_persisted_token E c sid s))"
  by (auto simp: adopt_persisted_token_def store_ok_def split: option.split)

lemma has_valid_token_ok: "store_ok s \<Longrightarrow> store_ok (snd (has_valid_token E c sid s))"
  using get_token_raw_ok [of s E c sid]
  by (auto simp: has_valid_token_def split: prod.split option.split)

lemma store_pending_auth_ok: "store_ok s \<Longrightarrow> store_ok (store_pending_auth c st v s)"
  by (simp add: store_pending_auth_def store_ok_def Let_def)

lemma take_pending_auth_ok: "store_ok s \<Longrightarrow> store_ok (snd (take_pending_auth st s))"
  by (simp add: take_pending_auth_def store_ok_def)

lemma store_proxied_authorization_ok: "store_ok s \<Longrightarrow> store_ok (store_proxied_authorization E c st a s)"
  by (simp add: store_proxied_authorization_def Let_def) (simp add: store_ok_def)

lemma take_proxied_authorization_ok: "store_ok s \<Longrightarrow> store_ok (snd (take_proxied_authorization E c st s))"
  by (simp add: take_proxied_authorization_def Let_def split: option.split)
     (simp add: store_ok_def)

lemma register_client_redirects_ok: "store_ok s \<Longrightarrow> store_ok (register_client_redirects E c cid us s)"
  by (simp add: register_client_redirects_def Let_def) (auto simp: store_ok_def length_hm_insert)

lemma get_client_redirects_ok: "store_ok s \<Longrightarrow> store_ok (snd (get_client_redirects E c cid s))"
  by (auto simp: get_client_redirects_def store_ok_def length_hm_insert split: option.split)

lemma hydrate_opaque_ok: "store_ok s \<Longrightarrow> store_ok (hydrate_opaque c sid m s)"
  by (simp add: hydrate_opaque_def store_ok_def index_insert_sound)

lemma store_opaque_mapping_ok:
  "store_ok s \<Longrightarrow> store_ok (store_opaque_mapping_with_access_ttl E c sid a r ttl s)"
  using index_remove_session_sound [of "opaque_index s" sid]
  by (auto simp: store_opaque_mapping_with_access_ttl_def Let_def split: prod.split)
     (simp add: store_ok_def index_insert_sound)

lemma expire_access_sound:
  "index_sound idx \<Longrightarrow> index_sound (idx\<lparr>access_to_session := hm_remove a (access_to_session idx)\<rparr>)"
  by (simp add: index_sound_def)

lemma expire_opaque_access_ok: "store_ok s \<Longrightarrow> store_ok (expire_opaque_access E c a s)"
  by (simp add: expire_opaque_access_def) (simp add: store_ok_def expire_access_sound)

lemma remove_opaque_for_session_ok: "store_ok s \<Longrightarrow> store_ok (remove_opaque_for_session E c sid s)"
  using index_remove_session_sound [of "opaque_index s" sid]
  by (auto simp: remove_opaque_for_session_def Let_def split: prod.split) (simp add: store_ok_def)

lemma resolve_opaque_access_ok: "store_ok s \<Longrightarrow> store_ok (snd (resolve_opaque_access E c a s))"
  by (simp add: resolve_opaque_access_def expire_opaque_access_ok hydrate_opaque_ok split: option.split)

lemma resolve_opaque_refresh_ok: "store_ok s \<Longrightarrow> store_ok (snd (resolve_opaque_refresh E c r s))"
  by (simp add: resolve_opaque_refresh_def remove_opaque_for_session_ok hydrate_opaque_ok split: option.split)

lemma index_grant_refresh_ok: "store_ok s \<Longrightarrow> store_ok (index_grant_refresh E c r k s)"
  by (simp add: index_grant_refresh_def Let_def) (simp add: store_ok_def)

lemma resolve_grant_refresh_ok: "store_ok s \<Longrightarrow> store_ok (snd (resolve_grant_refresh E c r s))"
  by (auto simp: resolve_grant_refresh_def store_ok_def Let_def split: option.split)

lemma remove_grant_refresh_ok: "store_ok s \<Longrightarrow> store_ok (remove_grant_refresh E c r s)"
  by (simp add: remove_grant_refresh_def Let_def) (simp add: store_ok_def)

lemma remove_token_ok: "store_ok s \<Longrightarrow> store_ok (remove_token E c sid s)"
  by (simp add: remove_token_def Let_def)
     (rule remove_opaque_for_session_ok, simp add: store_ok_def)

lemma index_remove_sessions_snd:
  "snd (index_remove_sessions (k # ks) idx) = snd (index_remove_sessions ks (snd (index_remove_session k idx)))"
  by (simp split: prod.split)

lemma index_remove_sessions_sound: "index_sound idx \<Longrightarrow> index_sound (snd (index_remove_sessions ks idx))"
proof (induction ks arbitrary: idx)
  case (Cons k ks)
  then show ?case
    by (simp only: index_remove_sessions_snd index_remove_session_sound)
qed simp

lemma index_remove_sessions_mapping:
  "hm_get (session_to_opaques (snd (index_remove_sessions ks idx))) k =
     (if k \<in> set ks then None else hm_get (session_to_opaques idx) k)"
proof (induction ks arbitrary: idx)
  case (Cons x ks)
  then show ?case
    by (simp only: index_remove_sessions_snd index_remove_session_mapping) auto
qed simp

lemma purge_expired_ok: "store_ok s \<Longrightarrow> store_ok (purge_expired E c s)"
  using index_remove_sessions_sound [of "opaque_index s" "expired_keys c
    (s\<lparr>proxied_auths := hm_retain (\<lambda>_ (_, created). proxied_alive c created) (proxied_auths s)\<rparr>)"]
  by (auto simp: purge_expired_def Let_def split: prod.split)
     (simp_all add: store_ok_def hm_remove_fold_ok)

lemmas store_ops_ok = store_token_ok get_token_raw_ok adopt_persisted_token_ok has_valid_token_ok
  store_pending_auth_ok take_pending_auth_ok store_proxied_authorization_ok
  take_proxied_authorization_ok register_client_redirects_ok get_client_redirects_ok
  store_opaque_mapping_ok expire_opaque_access_ok remove_opaque_for_session_ok
  resolve_opaque_access_ok resolve_opaque_refresh_ok index_grant_refresh_ok
  resolve_grant_refresh_ok remove_grant_refresh_ok remove_token_ok purge_expired_ok

section \<open>Purging\<close>

lemma expired_keys_iff:
  assumes "hm_ok (tokens s)"
  shows "k \<in> set (expired_keys c s) \<longleftrightarrow>
    (\<exists>t. hm_get (tokens s) k = Some t \<and> is_expired c t \<and> refresh_token t = None)"
  by (force simp: expired_keys_def hm_get_Some_iff [OF assms])

lemma purge_expired_tokens:
  assumes "hm_ok (tokens s)"
  shows "hm_get (tokens (purge_expired E c s)) k =
    (case hm_get (tokens s) k of
       None \<Rightarrow> None
     | Some t \<Rightarrow> if is_expired c t \<and> refresh_token t = None then None else Some t)"
proof -
  let ?s = "s\<lparr>proxied_auths := hm_retain (\<lambda>_ (_, created). proxied_alive c created) (proxied_auths s)\<rparr>"
  have "hm_get (tokens (purge_expired E c s)) k =
      (if k \<in> set (expired_keys c ?s) then None else hm_get (tokens s) k)"
    by (auto simp: purge_expired_def Let_def hm_remove_fold_get split: prod.split)
  with expired_keys_iff [of ?s k c] assms show ?thesis
    by (auto split: option.split)
qed

section \<open>Registered clients\<close>

lemma merge_uris_set: "set (merge_uris m us) = set m \<union> set us"
  by (induction m us rule: merge_uris.induct) auto

lemma merge_uris_distinct: "distinct m \<Longrightarrow> distinct (merge_uris m us)"
  by (induction m us rule: merge_uris.induct) auto

lemma merge_uris_prefix: "\<exists>new. merge_uris m us = m @ new"
  by (induction m us rule: merge_uris.induct) auto

section \<open>How an opaque token can resolve\<close>

lemma resolve_opaque_access_Some:
  "fst (resolve_opaque_access E c a s) = Some sid \<longleftrightarrow>
     (case hm_get (access_to_session (opaque_index s)) a of
        Some b \<Rightarrow> bind_session b = sid \<and> bind_expires_at b > mono c
      | None \<Rightarrow> load_inverse E c NS_OPAQUE_ACCESS a s = Some sid \<and>
          (\<exists>m. load_opaque_mapping E c sid s = Some m \<and> opaque_access m = a \<and>
             remaining_until_unix_millis c (access_expires_at_unix_ms m) \<noteq> 0))"
  by (auto simp: resolve_opaque_access_def split: option.split)

lemma resolve_opaque_refresh_Some:
  "fst (resolve_opaque_refresh E c r s) = Some sid \<longleftrightarrow>
     (case hm_get (refresh_to_session (opaque_index s)) r of
        Some b \<Rightarrow> bind_session b = sid \<and> bind_expires_at b > mono c
      | None \<Rightarrow> load_inverse E c NS_OPAQUE_REFRESH r s = Some sid \<and>
          (\<exists>m. load_opaque_mapping E c sid s = Some m \<and> opaque_refresh m = r \<and>
             remaining_until_unix_millis c (refresh_expires_at_unix_ms m) \<noteq> 0))"
  by (auto simp: resolve_opaque_refresh_def split: option.split)

section \<open>Across instances: the backend as the shared record\<close>

context kv_backend
begin

lemma read_through_look:
  "persistence E = Some ops \<Longrightarrow> binv (backend s) \<Longrightarrow>
     read_through E c ns k s = look (mono c) (backend s) (ns, k)"
  by (simp add: read_through_def get_law)

lemma drop_inverse_inv: "binv b \<Longrightarrow> binv (drop_inverse ops c m b)"
  by (simp add: drop_inverse_def discard_inv)

lemma drop_inverse_look:
  "binv b \<Longrightarrow> look t (drop_inverse ops c m b) p =
     (if p = (NS_OPAQUE_ACCESS, opaque_access m) \<or> p = (NS_OPAQUE_REFRESH, opaque_refresh m)
      then None else look t b p)"
  by (simp add: drop_inverse_def discard_look discard_inv)

subsection \<open>Tokens\<close>

lemma peer_reads_token:
  assumes P: "persistence E = Some ops" and S: "serde_ok (serde E)" and I: "binv (backend s)"
    and B: "backend s2 = backend (store_token E c sid t s)" and M: "hm_get (tokens s2) sid = None"
    and T: "mono c \<le> mono c2"
    and L: "\<And>d. persist_ttl c (apply_decoder E t) = Some d \<Longrightarrow> mono c2 < mono c + d"
  shows "fst (get_token_raw E c2 sid s2) =
     Some (apply_decoder E (into_stored c2 (from_stored c (apply_decoder E t))))"
proof -
  let ?p = "from_stored c (apply_decoder E t)"
  from S obtain v where v: "enc_token (serde E) ?p = Some v" "dec_token (serde E) v = Some ?p"
    unfolding serde_ok_def by blast
  have bk: "backend s2 = persist ops c NS_TOKENS sid (Some v) (persist_ttl c (apply_decoder E t)) (backend s)"
    using B P v by (simp add: store_token_def write_through_def Let_def)
  have "look (mono c2) (backend s2) (NS_TOKENS, sid) = Some v"
    unfolding bk using I T L by (rule persist_same)
  moreover have "binv (backend s2)" unfolding bk using I by (rule persist_inv)
  ultimately show ?thesis
    using P v M by (simp add: get_token_raw_def load_token_from_backend_def read_through_look)
qed

subsection \<open>Opaque tokens\<close>

text \<open>The backend after a mapping was stored: forward record, then inverse entries.\<close>

lemma mapping_backend:
  assumes P: "persistence E = Some ops" and S: "serde_ok (serde E)" and I: "binv (backend s)"
    and T: "mono c \<le> t" "t < mono c + OPAQUE_REFRESH_TTL"
    and B: "b' = backend (store_opaque_mapping_with_access_ttl E c sid a r ttl s)"
  shows "binv b'"
    and "\<exists>v. look t b' (NS_OPAQUE, sid) = Some v \<and>
           dec_opaque (serde E) v = Some (new_mapping c a r ttl)"
proof -
  let ?m = "new_mapping c a r ttl"
  from S obtain v where v: "enc_opaque (serde E) ?m = Some v" "dec_opaque (serde E) v = Some ?m"
    unfolding serde_ok_def by blast
  let ?b1 = "persist ops c NS_OPAQUE sid (Some v) (Some OPAQUE_REFRESH_TTL) (backend s)"
  let ?b2 = "persist_raw ops c NS_OPAQUE_ACCESS a (str_bytes (serde E) sid) (Some ttl) ?b1"
  let ?b3 = "persist_raw ops c NS_OPAQUE_REFRESH r (str_bytes (serde E) sid) (Some OPAQUE_REFRESH_TTL) ?b2"
  have inv: "binv ?b1" "binv ?b2" "binv ?b3" using I by (simp_all add: persist_inv persist_raw_inv)
  have "look t ?b1 (NS_OPAQUE, sid) = Some v" using I T by (rule persist_same_ttl)
  then have look3: "look t ?b3 (NS_OPAQUE, sid) = Some v" using inv by (simp add: persist_raw_other)
  have "b' = ?b3 \<or> (\<exists>old. b' = drop_inverse ops c old ?b3)"
    using P v unfolding B
    by (simp add: store_opaque_mapping_with_access_ttl_def write_through_def Let_def
          split: prod.split option.split) blast
  then show "binv b'"
    and "\<exists>v. look t b' (NS_OPAQUE, sid) = Some v \<and> dec_opaque (serde E) v = Some ?m"
    using inv look3 v by (auto simp: drop_inverse_inv drop_inverse_look)
qed

text \<open>
  Rotation: once a session has a new pair of opaque tokens, no other token resolves to it, on
  any instance whose memory does not already hold a binding of it.
\<close>

lemma rotation_revokes:
  assumes P: "persistence E = Some ops" and S: "serde_ok (serde E)" and I: "binv (backend s)"
    and B: "backend s2 = backend (store_opaque_mapping_with_access_ttl E c sid a r ttl s)"
    and T: "mono c \<le> mono c2" "mono c2 < mono c + OPAQUE_REFRESH_TTL"
    and old: "a' \<noteq> a"
    and mem: "\<And>b. hm_get (access_to_session (opaque_index s2)) a' = Some b \<Longrightarrow> bind_session b \<noteq> sid"
  shows "fst (resolve_opaque_access E c2 a' s2) \<noteq> Some sid"
proof
  assume res: "fst (resolve_opaque_access E c2 a' s2) = Some sid"
  obtain v where "look (mono c2) (backend s2) (NS_OPAQUE, sid) = Some v"
    "dec_opaque (serde E) v = Some (new_mapping c a r ttl)"
    using mapping_backend(2) [OF P S I T B] by blast
  moreover have "binv (backend s2)" using mapping_backend(1) [OF P S I T B] .
  ultimately have "load_opaque_mapping E c2 sid s2 = Some (new_mapping c a r ttl)"
    using P by (simp add: load_opaque_mapping_def read_through_look)
  with res mem old show False
    unfolding resolve_opaque_access_Some by (auto simp: new_mapping_def split: option.splits)
qed

text \<open>Minting: a fresh peer resolves the new access token from the shared record.\<close>

lemma peer_resolves_minted:
  assumes P: "persistence E = Some ops" and S: "serde_ok (serde E)" and I: "binv (backend s)"
    and B: "backend s2 = backend (store_opaque_mapping_with_access_ttl E c sid a r ttl s)"
    and T: "mono c \<le> mono c2" "mono c2 < mono c + OPAQUE_REFRESH_TTL" "mono c2 < mono c + ttl"
    and L: "remaining_until_unix_millis c2 (instant_to_unix_millis c (mono c + ttl)) \<noteq> 0"
    and fresh: "\<And>m. hm_get (session_to_opaques (opaque_index s)) sid = Some m \<Longrightarrow> opaque_access m \<noteq> a"
    and M: "hm_get (access_to_session (opaque_index s2)) a = None"
  shows "fst (resolve_opaque_access E c2 a s2) = Some sid"
proof -
  let ?s' = "store_opaque_mapping_with_access_ttl E c sid a r ttl s"
  have inv2: "binv (backend s2)" using mapping_backend(1) [OF P S I T(1,2) B] .
  obtain v where "look (mono c2) (backend s2) (NS_OPAQUE, sid) = Some v"
    "dec_opaque (serde E) v = Some (new_mapping c a r ttl)"
    using mapping_backend(2) [OF P S I T(1,2) B] by blast
  then have fwd: "load_opaque_mapping E c2 sid s2 = Some (new_mapping c a r ttl)"
    using P inv2 by (simp add: load_opaque_mapping_def read_through_look)
  from S obtain e where e: "enc_opaque (serde E) (new_mapping c a r ttl) = Some e"
    unfolding serde_ok_def by blast
  let ?b1 = "persist ops c NS_OPAQUE sid (Some e) (Some OPAQUE_REFRESH_TTL) (backend s)"
  let ?b2 = "persist_raw ops c NS_OPAQUE_ACCESS a (str_bytes (serde E) sid) (Some ttl) ?b1"
  let ?b3 = "persist_raw ops c NS_OPAQUE_REFRESH r (str_bytes (serde E) sid) (Some OPAQUE_REFRESH_TTL) ?b2"
  have inv: "binv ?b1" "binv ?b2" "binv ?b3" using I by (simp_all add: persist_inv persist_raw_inv)
  have "look (mono c2) ?b2 (NS_OPAQUE_ACCESS, a) = Some (str_bytes (serde E) sid)"
    using inv(1) T(1,3) by (rule persist_raw_same_ttl)
  then have look3: "look (mono c2) ?b3 (NS_OPAQUE_ACCESS, a) = Some (str_bytes (serde E) sid)"
    using inv by (simp add: persist_raw_other)
  have "backend ?s' = (case hm_get (session_to_opaques (opaque_index s)) sid of
      None \<Rightarrow> ?b3 | Some old \<Rightarrow> drop_inverse ops c old ?b3)"
    using P e index_remove_session_fst [of sid "opaque_index s"]
    by (auto simp: store_opaque_mapping_with_access_ttl_def write_through_def Let_def
          split: prod.split option.split)
  then have "look (mono c2) (backend s2) (NS_OPAQUE_ACCESS, a) = Some (str_bytes (serde E) sid)"
    using inv look3 B fresh by (auto simp: drop_inverse_look split: option.split)
  then have inverse: "load_inverse E c2 NS_OPAQUE_ACCESS a s2 = Some sid"
    using P inv2 S by (simp add: load_inverse_def read_through_look serde_ok_def)
  from fwd inverse L M show ?thesis
    unfolding resolve_opaque_access_Some by (simp add: new_mapping_def)
qed

text \<open>Revocation: once the mapping of a session is removed, nothing resolves to it.\<close>

lemma removal_backend:
  assumes P: "persistence E = Some ops" and I: "binv (backend s)"
  shows "binv (backend (remove_opaque_for_session E c sid s))"
    and "look t (backend (remove_opaque_for_session E c sid s)) (NS_OPAQUE, sid) = None"
proof -
  let ?b1 = "discard ops c NS_OPAQUE sid (backend s)"
  have "backend (remove_opaque_for_session E c sid s) = ?b1 \<or>
      (\<exists>m. backend (remove_opaque_for_session E c sid s) = drop_inverse ops c m ?b1)"
    using P by (auto simp: remove_opaque_for_session_def write_through_def Let_def
      split: prod.split option.split)
  then show "binv (backend (remove_opaque_for_session E c sid s))"
    and "look t (backend (remove_opaque_for_session E c sid s)) (NS_OPAQUE, sid) = None"
    using I by (auto simp: discard_inv drop_inverse_inv drop_inverse_look discard_same)
qed

lemma removal_revokes:
  assumes P: "persistence E = Some ops" and I: "binv (backend s)"
    and B: "backend s2 = backend (remove_opaque_for_session E c sid s)"
    and acc: "\<And>b. hm_get (access_to_session (opaque_index s2)) tok = Some b \<Longrightarrow> bind_session b \<noteq> sid"
    and ref: "\<And>b. hm_get (refresh_to_session (opaque_index s2)) tok = Some b \<Longrightarrow> bind_session b \<noteq> sid"
  shows "fst (resolve_opaque_access E c2 tok s2) \<noteq> Some sid"
    and "fst (resolve_opaque_refresh E c2 tok s2) \<noteq> Some sid"
proof -
  have "load_opaque_mapping E c2 sid s2 = None"
    using P B removal_backend [OF P I, where c = c and sid = sid] by (simp add: load_opaque_mapping_def read_through_look)
  then show "fst (resolve_opaque_access E c2 tok s2) \<noteq> Some sid"
    and "fst (resolve_opaque_refresh E c2 tok s2) \<noteq> Some sid"
    unfolding resolve_opaque_access_Some resolve_opaque_refresh_Some
    using acc ref by (auto split: option.splits)
qed

subsection \<open>Proxied authorizations are single use\<close>

lemma proxied_taken:
  assumes P: "persistence E = Some ops" and I: "binv (backend s)"
    and took: "take_proxied_authorization E c st s = (Some auth, s')"
  shows "hm_get (proxied_auths s') st = None" and "binv (backend s')"
    and "look t (backend s') (NS_PROXIED_AUTH, st) = None"
proof -
  have *: "proxied_auths s' = hm_remove st (proxied_auths s) \<and>
      backend s' = discard ops c NS_PROXIED_AUTH st (backend s)"
    using took P by (auto simp: take_proxied_authorization_def write_through_def Let_def
      split: option.splits if_splits)
  show "hm_get (proxied_auths s') st = None" using * by simp
  show "binv (backend s')" "look t (backend s') (NS_PROXIED_AUTH, st) = None"
    using * I by (simp_all add: discard_inv discard_same)
qed

lemma proxied_absent:
  assumes P: "persistence E = Some ops" and I: "binv (backend s)"
    and "hm_get (proxied_auths s) st = None" "look (mono c) (backend s) (NS_PROXIED_AUTH, st) = None"
  shows "fst (take_proxied_authorization E c st s) = None"
proof -
  have "read_through E c NS_PROXIED_AUTH st (s\<lparr>proxied_auths := hm_remove st (proxied_auths s)\<rparr>) = None"
    using assms by (simp add: read_through_look)
  with assms(3) show ?thesis by (simp add: take_proxied_authorization_def Let_def)
qed

end

end
