(* ===== verification/Token_Refresh.thy ===== *)
theory Token_Refresh
  imports Token_Store_Facts
begin

text \<open>
  Lazy refresh of expired tokens, \<open>src/src/auth/store.rs\<close>: \<open>refresh_token\<close>, the lock that
  serialises refreshes across instances, and \<open>get_token\<close>. The authorization server is the
  argument \<open>post\<close>, one HTTP exchange. A task that sleeps or waits for a lock meets a world that
  has moved on: a \<open>schedule\<close> lists, for the in-process lock and for every poll of the
  distributed lock, the moment at which the task resumes and what the others did to the shared
  state meanwhile. A wait that outlasts its schedule has the value \<open>None\<close>.
\<close>

type_synonym http_post = "string \<Rightarrow> (string \<times> string) list \<Rightarrow> http_result"
type_synonym 's wakeup = "clock \<times> ('s \<Rightarrow> 's)"

datatype refresh_error =
    NoToken
  | NoRefreshToken
  | NoRefreshConfig
  | RequestFailed string
  | RefreshStatus nat
  | RefreshUnparsable string
  | NoAccessToken
  | JustStoredMissing

definition get_refresh_lock :: "string \<Rightarrow> ('b, 'c, 'k) token_store \<Rightarrow> ('b, 'c, 'k) token_store" where
  "get_refresh_lock sid s =
     (if hm_get (refresh_locks s) sid \<noteq> None then s
      else s\<lparr>refresh_locks := hm_insert sid () (refresh_locks s)\<rparr>)"

definition refresh_params :: "refresh_config \<Rightarrow> string \<Rightarrow> (string \<times> string) list" where
  "refresh_params cfg refresh =
     [(''grant_type'', ''refresh_token''), (''refresh_token'', refresh),
      (''client_id'', rf_client_id cfg)] @
     (case rf_client_secret cfg of None \<Rightarrow> [] | Some secret \<Rightarrow> [(''client_secret'', secret)])"

text \<open>The token a refresh response carries; the old refresh token is kept if it was not rotated.\<close>

definition refreshed_token :: "clock \<Rightarrow> string \<Rightarrow> json \<Rightarrow> 'c stored_token option" where
  "refreshed_token c old_refresh response =
     (case as_str (json_index response ''access_token'') of
        None \<Rightarrow> None
      | Some acc \<Rightarrow>
          Some \<lparr>access_token = acc,
                refresh_token = (case as_str (json_index response ''refresh_token'') of
                   Some new \<Rightarrow> Some new | None \<Rightarrow> Some old_refresh),
                expires_at = map_option (\<lambda>n. mono c + secs n)
                   (as_u64 (json_index response ''expires_in'')),
                decoded_claims = None\<rparr>)"

definition refresh_stored_token :: "('b, 'v, 'c) store_env \<Rightarrow> http_post \<Rightarrow> clock \<Rightarrow> string \<Rightarrow>
    ('b, 'c, 'k) token_store \<Rightarrow> (refresh_error + 'c stored_token) \<times> ('b, 'c, 'k) token_store" where
  "refresh_stored_token E post c sid s =
     (case get_token_raw E c sid s of
        (None, s1) \<Rightarrow> (Inl NoToken, s1)
      | (Some stored, s1) \<Rightarrow>
     (case refresh_token stored of
        None \<Rightarrow> (Inl NoRefreshToken, s1)
      | Some refresh \<Rightarrow>
     (case refresh_config s1 of
        None \<Rightarrow> (Inl NoRefreshConfig, s1)
      | Some cfg \<Rightarrow>
     (case post (rf_token_url cfg) (refresh_params cfg refresh) of
        SendFailed e \<Rightarrow> (Inl (RequestFailed e), s1)
      | Answered status body \<Rightarrow>
          if \<not> is_success status then (Inl (RefreshStatus status), s1)
          else (case body of
                  Inl e \<Rightarrow> (Inl (RefreshUnparsable e), s1)
                | Inr response \<Rightarrow>
                    (case refreshed_token c refresh response of
                       None \<Rightarrow> (Inl NoAccessToken, s1)
                     | Some new_token \<Rightarrow>
                         (case get_token_raw E c sid (store_token E c sid new_token s1) of
                            (Some t, s2) \<Rightarrow> (Inr t, s2)
                          | (None, s2) \<Rightarrow> (Inl JustStoredMissing, s2))))))))"

definition do_refresh :: "('b, 'v, 'c) store_env \<Rightarrow> http_post \<Rightarrow> clock \<Rightarrow> string \<Rightarrow>
    ('b, 'c, 'k) token_store \<Rightarrow> 'c stored_token option \<times> ('b, 'c, 'k) token_store" where
  "do_refresh E post c sid s =
     (case refresh_stored_token E post c sid s of
        (Inr t, s') \<Rightarrow> (Some t, s')
      | (Inl e, s') \<Rightarrow> (None, s'))"

section \<open>The distributed refresh lock\<close>

datatype 'c lock_wait = Adopted "'c stored_token" | Proceed bool

fun wait_refresh_lock :: "('b, 'v, 'c) store_env \<Rightarrow> ('b, 'v) backend_ops \<Rightarrow> instant \<Rightarrow> string \<Rightarrow> string \<Rightarrow>
    clock \<Rightarrow> ('b, 'c, 'k) token_store wakeup list \<Rightarrow> ('b, 'c, 'k) token_store \<Rightarrow>
    ('c lock_wait \<times> clock \<times> ('b, 'c, 'k) token_store) option" where
  "wait_refresh_lock E ops deadline lock_token sid c ws s =
     (case be_try_acquire_lock ops (mono c) NS_REFRESH_LOCK sid lock_token REFRESH_LOCK_TTL (backend s) of
        (Inr True, b) \<Rightarrow> Some (Proceed True, c, s\<lparr>backend := b\<rparr>)
      | (Inr False, b) \<Rightarrow>
          (case adopt_persisted_token E c sid (s\<lparr>backend := b\<rparr>) of
             (Some fresh, s2) \<Rightarrow> Some (Adopted fresh, c, s2)
           | (None, s2) \<Rightarrow>
               if mono c \<ge> deadline then Some (Proceed False, c, s2)
               else (case ws of
                       [] \<Rightarrow> None
                     | (c', others) # ws' \<Rightarrow>
                         wait_refresh_lock E ops deadline lock_token sid c' ws' (others s2)))
      | (Inl e, b) \<Rightarrow> Some (Proceed False, c, s\<lparr>backend := b\<rparr>))"

declare wait_refresh_lock.simps [simp del]

definition release_refresh_lock :: "('b, 'v) backend_ops \<Rightarrow> bool \<Rightarrow> clock \<Rightarrow> string \<Rightarrow> string \<Rightarrow>
    ('b, 'c, 'k) token_store \<Rightarrow> ('b, 'c, 'k) token_store" where
  "release_refresh_lock ops holding c sid lock_token s =
     (if holding
      then s\<lparr>backend := snd (be_release_lock ops (mono c) NS_REFRESH_LOCK sid lock_token (backend s))\<rparr>
      else s)"

definition refresh_with_distributed_lock :: "('b, 'v, 'c) store_env \<Rightarrow> http_post \<Rightarrow> string \<Rightarrow> string \<Rightarrow>
    clock \<Rightarrow> ('b, 'c, 'k) token_store wakeup list \<Rightarrow> ('b, 'c, 'k) token_store \<Rightarrow>
    ('c stored_token option \<times> clock \<times> ('b, 'c, 'k) token_store) option" where
  "refresh_with_distributed_lock E post lock_token sid c ws s =
     (case persistence E of
        None \<Rightarrow> (case do_refresh E post c sid s of (r, s') \<Rightarrow> Some (r, c, s'))
      | Some ops \<Rightarrow>
          (case wait_refresh_lock E ops (mono c + REFRESH_LOCK_WAIT) lock_token sid c ws s of
             None \<Rightarrow> None
           | Some (Adopted fresh, c1, s1) \<Rightarrow> Some (Some fresh, c1, s1)
           | Some (Proceed holding, c1, s1) \<Rightarrow>
               (case adopt_persisted_token E c1 sid s1 of
                  (Some fresh, s2) \<Rightarrow>
                    Some (Some fresh, c1, release_refresh_lock ops holding c1 sid lock_token s2)
                | (None, s2) \<Rightarrow>
                    (case do_refresh E post c1 sid s2 of
                       (r, s3) \<Rightarrow> Some (r, c1, release_refresh_lock ops holding c1 sid lock_token s3)))))"

definition get_token :: "('b, 'v, 'c) store_env \<Rightarrow> http_post \<Rightarrow> string \<Rightarrow> string \<Rightarrow> clock \<Rightarrow>
    ('b, 'c, 'k) token_store wakeup \<Rightarrow> ('b, 'c, 'k) token_store wakeup list \<Rightarrow> ('b, 'c, 'k) token_store \<Rightarrow>
    ('c stored_token option \<times> clock \<times> ('b, 'c, 'k) token_store) option" where
  "get_token E post lock_token sid c locked ws s =
     (case get_token_raw E c sid s of
        (None, s1) \<Rightarrow> Some (None, c, s1)
      | (Some t, s1) \<Rightarrow>
          if \<not> is_expired c t then Some (Some t, c, s1)
          else if refresh_token t \<noteq> None \<and> refresh_config s1 \<noteq> None then
            (case locked of (c1, others) \<Rightarrow>
               (case get_token_raw E c1 sid (others (get_refresh_lock sid s1)) of
                  (Some refreshed, s2) \<Rightarrow>
                    if \<not> is_expired c1 refreshed then Some (Some refreshed, c1, s2)
                    else refresh_with_distributed_lock E post lock_token sid c1 ws s2
                | (None, s2) \<Rightarrow> refresh_with_distributed_lock E post lock_token sid c1 ws s2))
          else Some (None, c, s1))"

section \<open>A refresh returns what the server answered\<close>

text \<open>The server granted this access token: a successful JSON answer that carries it.\<close>

definition granted :: "http_post \<Rightarrow> string \<Rightarrow> bool" where
  "granted post acc \<longleftrightarrow> (\<exists>url params status response.
     post url params = Answered status (Inr response) \<and> is_success status \<and>
     as_str (json_index response ''access_token'') = Some acc)"

lemma get_after_store [simp]:
  "get_token_raw E c sid (store_token E c' sid t s) = (Some (apply_decoder E t), store_token E c' sid t s)"
  by (simp add: get_token_raw_def store_token_def Let_def)

lemma refreshed_token_access:
  "refreshed_token c old response = Some t \<Longrightarrow> as_str (json_index response ''access_token'') = Some (access_token t)"
  by (auto simp: refreshed_token_def split: option.splits)

lemma refreshed_token_refresh: "refreshed_token c old response = Some t \<Longrightarrow> refresh_token t \<noteq> None"
  by (auto simp: refreshed_token_def split: option.splits)

lemma grantedI:
  "post url params = Answered status (Inr response) \<Longrightarrow> is_success status \<Longrightarrow>
     refreshed_token c old response = Some t \<Longrightarrow> granted post (access_token t)"
  unfolding granted_def using refreshed_token_access by blast

lemma refresh_stored_token_cases:
  "(\<exists>e. refresh_stored_token E post c sid s = (Inl e, snd (get_token_raw E c sid s)) \<and> e \<noteq> JustStoredMissing) \<or>
   (\<exists>t. refresh_stored_token E post c sid s =
      (Inr (apply_decoder E t), store_token E c sid t (snd (get_token_raw E c sid s))) \<and>
      granted post (access_token t) \<and> refresh_token t \<noteq> None)"
proof -
  obtain r s1 where raw: "get_token_raw E c sid s = (r, s1)" by (cases "get_token_raw E c sid s")
  show ?thesis
    unfolding refresh_stored_token_def raw
    by (simp split: option.split http_result.split sum.split)
       (blast intro: grantedI dest: refreshed_token_refresh)
qed

lemma do_refresh_cases:
  "do_refresh E post c sid s = (None, snd (get_token_raw E c sid s)) \<or>
   (\<exists>t. do_refresh E post c sid s =
      (Some (apply_decoder E t), store_token E c sid t (snd (get_token_raw E c sid s))) \<and>
      granted post (access_token t) \<and> refresh_token t \<noteq> None)"
  using refresh_stored_token_cases [of E post c sid s] by (auto simp: do_refresh_def)

lemma do_refresh_granted: "do_refresh E post c sid s = (Some t, s') \<Longrightarrow> granted post (access_token t)"
  using do_refresh_cases [of E post c sid s] by auto

lemma adopt_persisted_token_fresh:
  "adopt_persisted_token E c sid s = (Some t, s') \<Longrightarrow> \<not> is_expired c t"
  by (auto simp: adopt_persisted_token_def split: option.splits if_splits)

lemma wait_refresh_lock_adopted:
  "wait_refresh_lock E ops dl tok sid c ws s = Some (Adopted t, c', s') \<Longrightarrow> \<not> is_expired c' t"
proof (induction ws arbitrary: c s)
  case Nil
  then show ?case
    by (subst (asm) wait_refresh_lock.simps)
       (auto split: prod.splits sum.splits bool.splits option.splits if_splits
         dest: adopt_persisted_token_fresh)
next
  case (Cons w ws)
  obtain c1 others where w: "w = (c1, others)" by (cases w)
  from Cons.prems show ?case
    by (subst (asm) wait_refresh_lock.simps)
       (auto simp: w split: prod.splits sum.splits bool.splits option.splits if_splits
         dest: adopt_persisted_token_fresh Cons.IH)
qed

lemma refresh_with_distributed_lock_sound:
  assumes "refresh_with_distributed_lock E post tok sid c ws s = Some (Some t, c', s')"
  shows "\<not> is_expired c' t \<or> granted post (access_token t)"
  using assms
  by (auto simp: refresh_with_distributed_lock_def
        split: option.splits prod.splits lock_wait.splits
        dest: adopt_persisted_token_fresh do_refresh_granted wait_refresh_lock_adopted)

lemma get_token_sound:
  assumes "get_token E post tok sid c locked ws s = Some (Some t, c', s')"
  shows "\<not> is_expired c' t \<or> granted post (access_token t)"
  using assms
  by (auto simp: get_token_def split: prod.splits option.splits if_splits
        dest: refresh_with_distributed_lock_sound)

section \<open>The wait ends\<close>

lemma wait_refresh_lock_ends:
  "mono c \<ge> dl \<or> (\<exists>w \<in> set ws. mono (fst w) \<ge> dl) \<Longrightarrow>
     wait_refresh_lock E ops dl tok sid c ws s \<noteq> None"
proof (induction ws arbitrary: c s)
  case Nil
  then show ?case
    by (subst wait_refresh_lock.simps)
       (auto split: prod.split sum.split bool.split option.split)
next
  case (Cons w ws)
  obtain c' others where w: "w = (c', others)" by (cases w)
  show ?case
  proof (cases "mono c \<ge> dl")
    case True
    then show ?thesis
      by (subst wait_refresh_lock.simps)
         (auto split: prod.split sum.split bool.split option.split)
  next
    case False
    with Cons.prems w have "mono c' \<ge> dl \<or> (\<exists>w \<in> set ws. mono (fst w) \<ge> dl)" by auto
    then have "wait_refresh_lock E ops dl tok sid c' ws s' \<noteq> None" for s' by (rule Cons.IH)
    then show ?thesis
      by (subst wait_refresh_lock.simps)
         (auto simp: w split: prod.split sum.split bool.split option.split)
  qed
qed

lemma get_token_ends:
  assumes "\<exists>w \<in> set ws. mono (fst w) \<ge> mono (fst locked) + REFRESH_LOCK_WAIT"
  shows "get_token E post tok sid c locked ws s \<noteq> None"
proof -
  have *: "refresh_with_distributed_lock E post tok sid (fst locked) ws s' \<noteq> None" for s'
  proof (cases "persistence E")
    case None
    then show ?thesis by (simp add: refresh_with_distributed_lock_def split: prod.split)
  next
    case (Some ops)
    obtain r where "wait_refresh_lock E ops (mono (fst locked) + REFRESH_LOCK_WAIT) tok sid (fst locked) ws s' = Some r"
      using wait_refresh_lock_ends [of "mono (fst locked) + REFRESH_LOCK_WAIT" "fst locked" ws E ops tok sid s'] assms
      by blast
    with Some show ?thesis
      by (auto simp: refresh_with_distributed_lock_def split: prod.split lock_wait.split option.split)
  qed
  then show ?thesis
    by (cases locked) (auto simp: get_token_def split: prod.split option.split)
qed

section \<open>Refreshing keeps the store invariant\<close>

lemma get_refresh_lock_ok: "store_ok s \<Longrightarrow> store_ok (get_refresh_lock sid s)"
  by (simp add: get_refresh_lock_def store_ok_def)

lemma store_ok_backend [simp]: "store_ok (s\<lparr>backend := b\<rparr>) = store_ok s"
  by (simp add: store_ok_def)

lemma release_refresh_lock_ok: "store_ok s \<Longrightarrow> store_ok (release_refresh_lock ops h c sid tok s)"
  by (simp add: release_refresh_lock_def)

lemma do_refresh_ok: "store_ok s \<Longrightarrow> store_ok (snd (do_refresh E post c sid s))"
  using do_refresh_cases [of E post c sid s]
  by (auto simp: get_token_raw_ok store_token_ok)

lemma wait_refresh_lock_ok:
  "wait_refresh_lock E ops dl tok sid c ws s = Some (r, c', s') \<Longrightarrow> store_ok s \<Longrightarrow>
     \<forall>w \<in> set ws. \<forall>x. store_ok x \<longrightarrow> store_ok (snd w x) \<Longrightarrow> store_ok s'"
proof (induction ws arbitrary: c s)
  case Nil
  have adopt: "adopt_persisted_token E c0 sid (s\<lparr>backend := b\<rparr>) = (r0, s2) \<Longrightarrow> store_ok s2" for c0 b r0 s2
    using adopt_persisted_token_ok [of "s\<lparr>backend := b\<rparr>" E c0 sid] Nil.prems(2) by simp
  from Nil.prems(1,2) show ?case
    by (subst (asm) wait_refresh_lock.simps)
       (auto split: prod.splits sum.splits bool.splits option.splits if_splits dest: adopt)
next
  case (Cons w ws)
  obtain c1 others where w: "w = (c1, others)" by (cases w)
  have adopt: "adopt_persisted_token E c0 sid (s\<lparr>backend := b\<rparr>) = (r0, s2) \<Longrightarrow> store_ok s2" for c0 b r0 s2
    using adopt_persisted_token_ok [of "s\<lparr>backend := b\<rparr>" E c0 sid] Cons.prems(2) by simp
  have step: "wait_refresh_lock E ops dl tok sid c1 ws (others s2) = Some (r, c', s') \<Longrightarrow> store_ok s2 \<Longrightarrow> store_ok s'" for s2
    using Cons.IH [of c1 "others s2"] Cons.prems(3) w by simp
  from Cons.prems(1,2) show ?case
    by (subst (asm) wait_refresh_lock.simps)
       (auto simp: w split: prod.splits sum.splits bool.splits option.splits if_splits dest: adopt step)
qed

end
