(* ===== verification/Bearer_Validation.thy ===== *)
theory Bearer_Validation
  imports Token_Refresh
begin

text \<open>
  Validation of bearers the \<open>/oauth/token\<close> proxy never issued, \<open>src/src/auth/store.rs\<close>: the
  resource-server path (issuer keys only), the policy-driven path, and RFC 7662 introspection
  with its latch. \<open>bearer_validation\<close> is the store's optional policy and validator.
\<close>

datatype introspection_error =
    NoOAuthConfig
  | IntrospectSendFailed string
  | IntrospectStatus nat
  | IntrospectUnparsable string

datatype token_introspection =
    Active "instant option"
  | Inactive
  | NotPermitted
  | IntrospectUnavailable introspection_error

datatype bearer_source = FromJwks | FromIntrospection

record validated_bearer =
  vb_expires_at :: "instant option"
  vb_subject :: "string option"
  vb_source :: bearer_source

datatype invalid_reason =
    NoValidatorConfigured
  | RejectedByJwks jwks_rejection
  | ReportedInactive

datatype unreachable_reason =
    JwksUnreachable fetch_error
  | IntrospectionUnreachable introspection_error
  | BothUnreachable fetch_error introspection_error

datatype bearer_rejection =
    PolicyReject
  | TokenInvalid invalid_reason
  | OpaqueUnverifiable
  | IntrospectionNotPermitted
  | IssuerUnreachable unreachable_reason

definition bearer_rejection_from_jwks :: "jwks_rejection \<Rightarrow> bearer_rejection" where
  "bearer_rejection_from_jwks r =
     (case r of
        NotAJwt \<Rightarrow> OpaqueUnverifiable
      | Unavailable why \<Rightarrow> IssuerUnreachable (JwksUnreachable why)
      | other \<Rightarrow> TokenInvalid (RejectedByJwks other))"

record bearer_validation =
  policy :: unknown_token_validation
  validator :: jwks_validator

definition configure_unknown_bearer_validation :: "oauth_config \<Rightarrow> bearer_validation" where
  "configure_unknown_bearer_validation cfg =
     \<lparr>policy = effective_unknown_token_validation cfg,
      validator = jwks_validator_new (oc_issuer_url cfg) (oc_expected_audiences cfg)\<rparr>"

definition validate_bearer_via_jwks :: "bearer_validation option \<Rightarrow> 'k jwks_lib \<Rightarrow> clock \<Rightarrow> string \<Rightarrow>
    ('b, 'c, 'k) token_store \<Rightarrow> (bearer_rejection + validated_bearer) \<times> ('b, 'c, 'k) token_store" where
  "validate_bearer_via_jwks bv L c token s =
     (case bv of
        None \<Rightarrow> (Inl (TokenInvalid NoValidatorConfigured), s)
      | Some v \<Rightarrow>
          (case jwks_validate L (validator v) c token (jwks_cache s) of
             (Inr vj, cache, _) \<Rightarrow>
               (Inr \<lparr>vb_expires_at = vj_expires_at vj, vb_subject = vj_subject vj,
                     vb_source = FromJwks\<rparr>, s\<lparr>jwks_cache := cache\<rparr>)
           | (Inl rejection, cache, _) \<Rightarrow>
               (Inl (bearer_rejection_from_jwks rejection), s\<lparr>jwks_cache := cache\<rparr>)))"

definition introspect_params :: "refresh_config \<Rightarrow> string \<Rightarrow> (string \<times> string) list" where
  "introspect_params cfg token =
     [(''token'', token), (''token_type_hint'', ''access_token''), (''client_id'', rf_client_id cfg)] @
     (case rf_client_secret cfg of None \<Rightarrow> [] | Some secret \<Rightarrow> [(''client_secret'', secret)])"

text \<open>What the body of a successful introspection answer says.\<close>

definition read_introspection :: "clock \<Rightarrow> json \<Rightarrow> token_introspection" where
  "read_introspection c payload =
     (if Option.bind (json_get payload ''active'') as_bool \<noteq> Some True then Inactive
      else case Option.bind (json_get payload ''exp'') as_u64 of
             Some exp \<Rightarrow>
               if exp < unix_secs c then Inactive
               else (let remaining = exp - unix_secs c
                     in if remaining = 0 then Inactive
                        else Active (Some (mono c + secs remaining)))
           | None \<Rightarrow> Active None)"

definition introspect_access_token :: "http_post \<Rightarrow> clock \<Rightarrow> string \<Rightarrow>
    ('b, 'c, 'k) token_store \<Rightarrow> token_introspection \<times> ('b, 'c, 'k) token_store" where
  "introspect_access_token post c token s =
     (if introspection_not_permitted s then (NotPermitted, s)
      else case refresh_config s of
             None \<Rightarrow> (IntrospectUnavailable NoOAuthConfig, s)
           | Some cfg \<Rightarrow>
     (case post (trim_end_matches (CHR ''/'') (rf_token_url cfg) @ ''/introspect'')
             (introspect_params cfg token) of
        SendFailed e \<Rightarrow> (IntrospectUnavailable (IntrospectSendFailed e), s)
      | Answered status body \<Rightarrow>
          if \<not> is_success status then
            (if status = 403 \<or> status = 401
             then (NotPermitted, s\<lparr>introspection_not_permitted := True\<rparr>)
             else (IntrospectUnavailable (IntrospectStatus status), s))
          else (case body of
                  Inl e \<Rightarrow> (IntrospectUnavailable (IntrospectUnparsable e), s)
                | Inr payload \<Rightarrow> (read_introspection c payload, s))))"

text \<open>
  The second half of \<open>validate_unknown_bearer\<close>: asking the authorization server, with what
  the local check already found out.
\<close>

definition ask_issuer :: "http_post \<Rightarrow> unknown_token_validation \<Rightarrow> clock \<Rightarrow> string \<Rightarrow> bool \<Rightarrow>
    fetch_error option \<Rightarrow> ('b, 'c, 'k) token_store \<Rightarrow>
    (bearer_rejection + validated_bearer) \<times> ('b, 'c, 'k) token_store" where
  "ask_issuer post pol c token credential_is_opaque jwks_unavailable s =
     (if \<not> allows_introspection pol then (Inl OpaqueUnverifiable, s)
      else case introspect_access_token post c token s of
        (Active e, s') \<Rightarrow>
          (Inr \<lparr>vb_expires_at = e, vb_subject = None, vb_source = FromIntrospection\<rparr>, s')
      | (Inactive, s') \<Rightarrow> (Inl (TokenInvalid ReportedInactive), s')
      | (NotPermitted, s') \<Rightarrow>
          (Inl (if credential_is_opaque then OpaqueUnverifiable else IntrospectionNotPermitted), s')
      | (IntrospectUnavailable why, s') \<Rightarrow>
          (Inl (IssuerUnreachable (case jwks_unavailable of
             Some jwks_why \<Rightarrow> BothUnreachable jwks_why why
           | None \<Rightarrow> IntrospectionUnreachable why)), s'))"

definition effective_policy :: "bearer_validation option \<Rightarrow> unknown_token_validation" where
  "effective_policy bv = (case bv of None \<Rightarrow> Introspection | Some v \<Rightarrow> policy v)"

definition validate_unknown_bearer :: "bearer_validation option \<Rightarrow> 'k jwks_lib \<Rightarrow> http_post \<Rightarrow> clock \<Rightarrow>
    string \<Rightarrow> ('b, 'c, 'k) token_store \<Rightarrow>
    (bearer_rejection + validated_bearer) \<times> ('b, 'c, 'k) token_store" where
  "validate_unknown_bearer bv L post c token s =
     (let pol = effective_policy bv
      in if pol = Reject then (Inl PolicyReject, s)
         else if allows_jwks pol then
           (case bv of
              None \<Rightarrow> ask_issuer post pol c token False None s
            | Some v \<Rightarrow>
                (case jwks_validate L (validator v) c token (jwks_cache s) of
                   (Inr vj, cache, _) \<Rightarrow>
                     (Inr \<lparr>vb_expires_at = vj_expires_at vj, vb_subject = vj_subject vj,
                           vb_source = FromJwks\<rparr>, s\<lparr>jwks_cache := cache\<rparr>)
                 | (Inl rejection, cache, _) \<Rightarrow>
                     if \<not> may_fall_back rejection \<or> \<not> allows_introspection pol
                     then (Inl (bearer_rejection_from_jwks rejection), s\<lparr>jwks_cache := cache\<rparr>)
                     else ask_issuer post pol c token (rejection = NotAJwt)
                            (case rejection of Unavailable why \<Rightarrow> Some why | _ \<Rightarrow> None)
                            (s\<lparr>jwks_cache := cache\<rparr>)))
         else ask_issuer post pol c token False None s)"

section \<open>Only the key cache and the latch change\<close>

definition same_credentials :: "('b, 'c, 'k) token_store \<Rightarrow> ('b, 'c, 'k) token_store \<Rightarrow> bool" where
  "same_credentials s s' \<longleftrightarrow>
     (\<exists>cache latch. s' = s\<lparr>jwks_cache := cache, introspection_not_permitted := latch\<rparr>)"

lemma same_credentials_refl [simp]: "same_credentials s s"
  unfolding same_credentials_def
  by (rule exI [of _ "jwks_cache s"], rule exI [of _ "introspection_not_permitted s"]) simp

lemma same_credentials_cache [simp]: "same_credentials s (s\<lparr>jwks_cache := cache\<rparr>)"
  unfolding same_credentials_def
  by (rule exI [of _ cache], rule exI [of _ "introspection_not_permitted s"]) simp

lemma same_credentials_latch: "same_credentials s s' \<Longrightarrow> same_credentials s (s'\<lparr>introspection_not_permitted := l\<rparr>)"
  unfolding same_credentials_def by (elim exE, rule_tac x = cache in exI, rule_tac x = l in exI) simp

lemma same_credentials_ok: "same_credentials s s' \<Longrightarrow> store_ok s \<Longrightarrow> store_ok s'"
  by (auto simp: same_credentials_def store_ok_def)

lemma introspect_same:
  "introspect_access_token post c token s = (r, s') \<Longrightarrow> s' = s \<or> s' = s\<lparr>introspection_not_permitted := True\<rparr>"
  by (auto simp: introspect_access_token_def split: if_splits option.splits http_result.splits sum.splits)

lemma ask_issuer_same:
  "ask_issuer post pol c token opq jw s = (r, s') \<Longrightarrow> s' = s \<or> s' = s\<lparr>introspection_not_permitted := True\<rparr>"
  using introspect_same [of post c token s]
  by (cases "introspect_access_token post c token s")
     (auto simp: ask_issuer_def split: if_splits token_introspection.splits)

lemma validate_bearer_via_jwks_same:
  "validate_bearer_via_jwks bv L c token s = (r, s') \<Longrightarrow> same_credentials s s'"
  by (auto simp: validate_bearer_via_jwks_def split: option.splits prod.splits sum.splits)

lemma validate_unknown_bearer_same:
  assumes "validate_unknown_bearer bv L post c token s = (r, s')"
  shows "same_credentials s s'"
proof -
  have ask: "ask_issuer post pol c token opq jw s0 = (r, s') \<Longrightarrow> same_credentials s s0 \<Longrightarrow> same_credentials s s'"
    for pol opq jw s0
    using ask_issuer_same [of post pol c token opq jw s0 r s'] same_credentials_latch by blast
  show ?thesis
    using assms
    by (auto simp: validate_unknown_bearer_def Let_def
          split: if_splits option.splits prod.splits sum.splits intro: ask)
qed

section \<open>What the policies admit\<close>

lemma ask_issuer_accepts:
  "ask_issuer post pol c token opq jw s = (Inr vb, s') \<Longrightarrow>
     allows_introspection pol \<and> vb_source vb = FromIntrospection"
  by (auto simp: ask_issuer_def split: if_splits prod.splits token_introspection.splits)

lemma validate_unknown_bearer_accepts:
  assumes "validate_unknown_bearer bv L post c token s = (Inr vb, s')"
  shows "(vb_source vb = FromJwks \<and> allows_jwks (effective_policy bv) \<and>
            (\<exists>v vj cache f. bv = Some v \<and>
               jwks_validate L (validator v) c token (jwks_cache s) = (Inr vj, cache, f))) \<or>
         (vb_source vb = FromIntrospection \<and> allows_introspection (effective_policy bv) \<and>
            (\<forall>v e cache f. bv = Some v \<longrightarrow> allows_jwks (policy v) \<longrightarrow>
               jwks_validate L (validator v) c token (jwks_cache s) \<noteq> (Inl (Invalid e), cache, f)))"
  using assms
  by (auto simp: validate_unknown_bearer_def effective_policy_def Let_def may_fall_back_def
        split: if_splits option.splits prod.splits sum.splits dest: ask_issuer_accepts)

end
