(* ===== verification/Session_Bindings.thy ===== *)
theory Session_Bindings
  imports Persistence
begin

text \<open>
  The binding of a protocol session to the principal that opened it, \<open>src/src/auth/binding.rs\<close>:
  a bounded, expiring table, read through to the persistence backend. The write-through runs in
  a task of its own: \<open>claim\<close> only adds it to \<open>spawned\<close>, and \<open>binding_write\<close> is the moment the
  task runs. The bytes of an identity and their decoding are arguments.
\<close>

definition NS_SESSION_BINDING :: string where "NS_SESSION_BINDING = ''session_binding''"
definition SESSION_BINDING_MAX_ENTRIES :: nat where "SESSION_BINDING_MAX_ENTRIES = 100000"

record session_binding =
  bd_identity :: string
  bd_expires_at :: instant

record ('b, 'v) binding_env =
  bd_persistence :: "('b, 'v) backend_ops option"
  bd_bytes :: "string \<Rightarrow> 'v"
  bd_utf8 :: "'v \<Rightarrow> string option"
  bd_ttl :: duration
  max_entries :: nat

text \<open>The table, the writes not yet performed, and the shared backend.\<close>

record 'b session_bindings =
  bindings :: "(string \<times> session_binding) list"
  spawned :: "(string \<times> string) list"
  bd_backend :: 'b

definition session_bindings_new :: "'b \<Rightarrow> 'b session_bindings" where
  "session_bindings_new b = \<lparr>bindings = [], spawned = [], bd_backend = b\<rparr>"

section \<open>Remembering, within the bound\<close>

text \<open>\<open>min_by_key\<close> on the expiry: the first of the entries that expire soonest.\<close>

fun soonest :: "(string \<times> session_binding) list \<Rightarrow> (string \<times> session_binding) option" where
  "soonest [] = None"
| "soonest (p # m) =
     (case soonest m of
        None \<Rightarrow> Some p
      | Some q \<Rightarrow> if bd_expires_at (snd q) < bd_expires_at (snd p) then Some q else Some p)"

lemma soonest_mem: "soonest m = Some (k, b) \<Longrightarrow> hm_get m k \<noteq> None"
  by (induction m arbitrary: k b) (auto split: option.splits if_splits)

lemma soonest_None [simp]: "soonest m = None \<longleftrightarrow> m = []"
  by (cases m) (auto split: option.split)

lemma soonest_least: "soonest m = Some q \<Longrightarrow> p \<in> set m \<Longrightarrow> bd_expires_at (snd q) \<le> bd_expires_at (snd p)"
  by (induction m arbitrary: q) (fastforce split: option.splits if_splits)+

function evict_soonest :: "nat \<Rightarrow> (string \<times> session_binding) list \<Rightarrow> (string \<times> session_binding) list" where
  "evict_soonest cap m =
     (if length m \<ge> cap
      then (case soonest m of
              None \<Rightarrow> m
            | Some (victim, _) \<Rightarrow> evict_soonest cap (hm_remove victim m))
      else m)"
  by pat_completeness auto
termination
  by (relation "measure (\<lambda>(cap, m). length m)") (auto dest: soonest_mem intro: length_hm_remove_less)

declare evict_soonest.simps [simp del]

definition remember :: "('b, 'v) binding_env \<Rightarrow> clock \<Rightarrow> string \<Rightarrow> string \<Rightarrow>
    (string \<times> session_binding) list \<Rightarrow> (string \<times> session_binding) list" where
  "remember P c sid identity m =
     (let room = (if length m \<ge> max_entries P \<and> hm_get m sid = None
                  then evict_soonest (max_entries P) (hm_retain (\<lambda>_ b. bd_expires_at b > mono c) m)
                  else m)
      in hm_insert sid \<lparr>bd_identity = identity, bd_expires_at = mono c + bd_ttl P\<rparr> room)"

lemma remember_same [simp]:
  "hm_get (remember P c sid identity m) sid = Some \<lparr>bd_identity = identity, bd_expires_at = mono c + bd_ttl P\<rparr>"
  by (simp add: remember_def Let_def)

lemma evict_soonest_length: "length (evict_soonest cap m) < cap \<or> evict_soonest cap m = []"
proof (induction cap m rule: evict_soonest.induct)
  case (1 cap m)
  show ?case
  proof (cases "length m \<ge> cap \<and> m \<noteq> []")
    case True
    then obtain v b where sn: "soonest m = Some (v, b)" by (cases "soonest m") auto
    with True have "evict_soonest cap m = evict_soonest cap (hm_remove v m)"
      by (subst evict_soonest.simps) simp
    with 1 [of "(v, b)" v b] True sn show ?thesis by simp
  next
    case False
    then have "evict_soonest cap m = m" by (subst evict_soonest.simps) (auto split: option.split)
    with False show ?thesis by auto
  qed
qed

lemma evict_soonest_ok: "hm_ok m \<Longrightarrow> hm_ok (evict_soonest cap m)"
proof (induction cap m rule: evict_soonest.induct)
  case (1 cap m)
  then show ?case
    by (subst evict_soonest.simps) (auto split: option.split)
qed

lemma remember_ok: "hm_ok m \<Longrightarrow> hm_ok (remember P c sid identity m)"
  by (simp add: remember_def Let_def evict_soonest_ok)

lemma remember_bounded:
  assumes "length m \<le> max (Suc 0) (max_entries P)"
  shows "length (remember P c sid identity m) \<le> max (Suc 0) (max_entries P)"
proof (cases "hm_get m sid = None")
  case True
  then show ?thesis
    using assms evict_soonest_length [of "max_entries P" "hm_retain (\<lambda>_ b. bd_expires_at b > mono c) m"]
    by (auto simp: remember_def Let_def length_hm_insert)
next
  case False
  then have "remember P c sid identity m = hm_insert sid \<lparr>bd_identity = identity, bd_expires_at = mono c + bd_ttl P\<rparr> m"
    unfolding remember_def by (simp only: simp_thms if_False Let_def)
  with False assms show ?thesis by (auto simp: length_hm_insert)
qed

section \<open>Claiming\<close>

text \<open>The cold path: a session this instance has not seen, or whose entry is past half-life.\<close>

definition claim_cold :: "('b, 'v) binding_env \<Rightarrow> clock \<Rightarrow> string \<Rightarrow> string \<Rightarrow>
    'b session_bindings \<Rightarrow> bool \<times> 'b session_bindings" where
  "claim_cold P c sid identity s =
     (let unclaimed = (True,
            s\<lparr>bindings := remember P c sid identity (bindings s),
              spawned := (if bd_persistence P = None then spawned s else spawned s @ [(sid, identity)])\<rparr>)
      in case bd_persistence P of
           None \<Rightarrow> unclaimed
         | Some ops \<Rightarrow>
             (case be_get ops (mono c) NS_SESSION_BINDING sid (bd_backend s) of
                Inr (Some bytes) \<Rightarrow>
                  (case bd_utf8 P bytes of
                     Some peer_identity \<Rightarrow>
                       (peer_identity = identity,
                        s\<lparr>bindings := remember P c sid peer_identity (bindings s)\<rparr>)
                   | None \<Rightarrow> unclaimed)
              | Inr None \<Rightarrow> unclaimed
              | Inl e \<Rightarrow> unclaimed))"

definition claim :: "('b, 'v) binding_env \<Rightarrow> clock \<Rightarrow> string \<Rightarrow> string \<Rightarrow>
    'b session_bindings \<Rightarrow> bool \<times> 'b session_bindings" where
  "claim P c sid identity s =
     (case hm_get (bindings s) sid of
        Some existing \<Rightarrow>
          if bd_expires_at existing > mono c then
            (if bd_identity existing \<noteq> identity then (False, s)
             else if bd_expires_at existing - mono c > bd_ttl P div 2 then (True, s)
             else claim_cold P c sid identity s)
          else claim_cold P c sid identity s
      | None \<Rightarrow> claim_cold P c sid identity s)"

text \<open>The spawned task that has waited longest performs its write; a failure is only logged.\<close>

definition binding_write :: "('b, 'v) binding_env \<Rightarrow> clock \<Rightarrow> 'b session_bindings \<Rightarrow> 'b session_bindings" where
  "binding_write P c s =
     (case (bd_persistence P, spawned s) of
        (Some ops, (sid, identity) # rest) \<Rightarrow>
          s\<lparr>spawned := rest,
            bd_backend := snd (be_set ops (mono c) NS_SESSION_BINDING sid (bd_bytes P identity) (Some (bd_ttl P)) (bd_backend s))\<rparr>
      | _ \<Rightarrow> s)"

section \<open>Lemmas\<close>

text \<open>Every claim ends in one of four ways.\<close>

lemma claim_cold_cases:
  "(\<exists>owner ops bytes. claim_cold P c sid identity s =
      (owner = identity, s\<lparr>bindings := remember P c sid owner (bindings s)\<rparr>) \<and> bd_persistence P = Some ops \<and>
      be_get ops (mono c) NS_SESSION_BINDING sid (bd_backend s) = Inr (Some bytes) \<and> bd_utf8 P bytes = Some owner) \<or>
   claim_cold P c sid identity s = (True,
      s\<lparr>bindings := remember P c sid identity (bindings s),
        spawned := (if bd_persistence P = None then spawned s else spawned s @ [(sid, identity)])\<rparr>)"
  by (simp add: claim_cold_def Let_def split: option.split sum.split)

lemma claim_cases:
  "(\<exists>b. hm_get (bindings s) sid = Some b \<and> bd_expires_at b > mono c \<and>
      bd_identity b \<noteq> identity \<and> claim P c sid identity s = (False, s)) \<or>
   (\<exists>b. hm_get (bindings s) sid = Some b \<and> bd_identity b = identity \<and>
      bd_expires_at b - mono c > bd_ttl P div 2 \<and> claim P c sid identity s = (True, s)) \<or>
   claim P c sid identity s = claim_cold P c sid identity s"
  by (simp add: claim_def split: option.split)

lemma claim_cold_bounded:
  "length (bindings s) \<le> max (Suc 0) (max_entries P) \<Longrightarrow>
     length (bindings (snd (claim_cold P c sid identity s))) \<le> max (Suc 0) (max_entries P)"
  using claim_cold_cases [of P c sid identity s] remember_bounded [of "bindings s" P]
  by (elim disjE exE conjE) simp_all

lemma claim_bounded:
  "length (bindings s) \<le> max (Suc 0) (max_entries P) \<Longrightarrow>
     length (bindings (snd (claim P c sid identity s))) \<le> max (Suc 0) (max_entries P)"
  using claim_cases [of s sid c identity P] claim_cold_bounded [of s P c sid identity] by auto

lemma claim_ok: "hm_ok (bindings s) \<Longrightarrow> hm_ok (bindings (snd (claim P c sid identity s)))"
  using claim_cases [of s sid c identity P] claim_cold_cases [of P c sid identity s]
  by (auto simp: remember_ok)

text \<open>What the table holds of a session once a claim of it has succeeded.\<close>

lemma claim_cold_True_binding:
  assumes "claim_cold P c sid identity s = (True, s')" and "0 < bd_ttl P"
  shows "\<exists>b. hm_get (bindings s') sid = Some b \<and> bd_identity b = identity \<and> bd_expires_at b > mono c + bd_ttl P div 2"
  using assms claim_cold_cases [of P c sid identity s] by auto

lemma claim_True_binding:
  assumes "claim P c sid identity s = (True, s')" and "0 < bd_ttl P"
  shows "\<exists>b. hm_get (bindings s') sid = Some b \<and> bd_identity b = identity \<and> bd_expires_at b > mono c + bd_ttl P div 2"
  using assms claim_cases [of s sid c identity P] claim_cold_True_binding [of P c sid identity s s'] by auto

lemma claim_foreign:
  assumes "hm_get (bindings s) sid = Some b" "bd_expires_at b > mono c" "bd_identity b \<noteq> identity"
  shows "claim P c sid identity s = (False, s)"
  using assms by (simp add: claim_def)

lemma claim_peer_verdict:
  assumes "hm_get (bindings s) sid = None" "bd_persistence P = Some ops"
    and "be_get ops (mono c) NS_SESSION_BINDING sid (bd_backend s) = Inr (Some bytes)" "bd_utf8 P bytes = Some owner"
  shows "claim P c sid identity s = (owner = identity, s\<lparr>bindings := remember P c sid owner (bindings s)\<rparr>)"
  using assms by (simp add: claim_def claim_cold_def)

end
