(* ===== verification/Middleware.thy ===== *)
theory Middleware
  imports Bearer_Validation Session_Bindings
begin

text \<open>
  The authentication middlewares, \<open>src/src/auth/middleware.rs\<close>: what a request becomes on its way
  to the handler, and what the token store and the session bindings become. A request is its
  headers and the two extensions the middleware may attach; the response is either the handler's
  (\<open>Forward\<close> with the request it gets) or a 401 challenge. The crates \<open>http\<close> and \<open>base64\<close> are the
  fields of a \<open>header_lib\<close>.
\<close>

definition MCP_SESSION_ID_HEADER :: string where "MCP_SESSION_ID_HEADER = ''mcp-session-id''"
definition MCP_FALLBACK_SESSION_HEADER :: string where "MCP_FALLBACK_SESSION_HEADER = ''x-mcp-framework-session''"
definition AUTHORIZATION_HEADER :: string where "AUTHORIZATION_HEADER = ''authorization''"
definition BEARER_PREFIX :: string where "BEARER_PREFIX = ''Bearer ''"
definition BEARER_PREFIX_LOWER :: string where "BEARER_PREFIX_LOWER = ''bearer ''"
definition BASIC_PREFIX :: string where "BASIC_PREFIX = ''Basic ''"
definition BASIC_PREFIX_LOWER :: string where "BASIC_PREFIX_LOWER = ''basic ''"

lemma header_names_distinct [simp]:
  "MCP_SESSION_ID_HEADER \<noteq> MCP_FALLBACK_SESSION_HEADER" "MCP_FALLBACK_SESSION_HEADER \<noteq> MCP_SESSION_ID_HEADER"
  "AUTHORIZATION_HEADER \<noteq> MCP_FALLBACK_SESSION_HEADER" "MCP_FALLBACK_SESSION_HEADER \<noteq> AUTHORIZATION_HEADER"
  by (simp_all add: MCP_SESSION_ID_HEADER_def MCP_FALLBACK_SESSION_HEADER_def AUTHORIZATION_HEADER_def)

section \<open>Requests\<close>

text \<open>
  A \<open>HeaderMap\<close> is a list of names and values, a name possibly several times: \<open>get\<close> reads the
  first, \<open>insert\<close> and \<open>remove\<close> drop all. A value's \<open>to_str\<close> may fail, and so may parsing a value.
\<close>

type_synonym header_value = string
type_synonym headers = "(string \<times> header_value) list"

record header_lib =
  to_str :: "header_value \<Rightarrow> string option"
  parse_value :: "string \<Rightarrow> header_value option"
  b64_decode_utf8 :: "string \<Rightarrow> string option"

definition hdr_get :: "headers \<Rightarrow> string \<Rightarrow> header_value option" where
  "hdr_get h name = map_of h name"

definition hdr_remove :: "string \<Rightarrow> headers \<Rightarrow> headers" where
  "hdr_remove name h = filter (\<lambda>(n, v). n \<noteq> name) h"

definition hdr_insert :: "string \<Rightarrow> header_value \<Rightarrow> headers \<Rightarrow> headers" where
  "hdr_insert name v h = (name, v) # hdr_remove name h"

lemma hdr_get_remove [simp]: "hdr_get (hdr_remove n h) m = (if m = n then None else hdr_get h m)"
  by (induction h) (auto simp: hdr_get_def hdr_remove_def)

lemma hdr_get_insert [simp]: "hdr_get (hdr_insert n v h) m = (if m = n then Some v else hdr_get h m)"
  using hdr_get_remove [of n h m] by (auto simp: hdr_insert_def hdr_get_def)

record 'c request =
  headers :: headers
  bearer_ext :: "string option"
  token_ext :: "'c stored_token option"

text \<open>The second response is a 401 with its \<open>WWW-Authenticate\<close> header.\<close>

datatype 'c response = Forward "'c request" | Unauthorized string

definition unauthorized_response :: "string \<Rightarrow> 'c response" where
  "unauthorized_response resource_metadata_url =
     Unauthorized (''Bearer resource_metadata='' @ [CHR 0x22] @ resource_metadata_url @ [CHR 0x22])"

definition BASIC_REALM :: string where "BASIC_REALM = ''Basic realm='' @ [CHR 0x22] @ ''MCP'' @ [CHR 0x22]"

definition basic_unauthorized_response :: "'c response" where
  "basic_unauthorized_response = Unauthorized BASIC_REALM"

lemma unauthorized_not_forward [simp]:
  "unauthorized_response u \<noteq> Forward r" "Forward r \<noteq> unauthorized_response u"
  "basic_unauthorized_response \<noteq> Forward r" "Forward r \<noteq> basic_unauthorized_response"
  by (simp_all add: unauthorized_response_def basic_unauthorized_response_def)

definition set_framework_session_id :: "header_lib \<Rightarrow> string \<Rightarrow> 'c request \<Rightarrow> 'c request" where
  "set_framework_session_id H sid r =
     (case parse_value H sid of
        Some v \<Rightarrow> r\<lparr>headers := hdr_insert MCP_FALLBACK_SESSION_HEADER v (headers r)\<rparr>
      | None \<Rightarrow> r)"

definition strip_framework_session_header :: "'c request \<Rightarrow> 'c request" where
  "strip_framework_session_header r = r\<lparr>headers := hdr_remove MCP_FALLBACK_SESSION_HEADER (headers r)\<rparr>"

definition resolve_or_derive_session_id :: "header_lib \<Rightarrow> jwt_lib \<Rightarrow> string \<Rightarrow> 'c request \<Rightarrow> string \<times> 'c request" where
  "resolve_or_derive_session_id H J credential r =
     (case Option.bind (hdr_get (headers r) MCP_SESSION_ID_HEADER) (to_str H) of
        Some sid \<Rightarrow> (sid, r)
      | None \<Rightarrow>
          (let derived = credential_session_key J credential
           in (derived, set_framework_session_id H derived r)))"

section \<open>Middleware state and environment\<close>

record ('b, 'v, 'c, 'k) auth_env =
  am_headers :: header_lib
  am_store :: "('b, 'v, 'c) store_env"
  am_validation :: "bearer_validation option"
  am_jwks :: "'k jwks_lib"
  am_post :: http_post
  am_bindings :: "('b, 'v) binding_env"
  am_metadata_url :: string
  am_token_mode :: token_mode

record ('b, 'c, 'k) auth_state =
  au_store :: "('b, 'c, 'k) token_store"
  au_bindings :: "'b session_bindings"

text \<open>
  What a call of \<open>get_token\<close> inside the middleware meets: the lock token it draws, and the
  schedule of its waits (see \<open>Token_Refresh\<close>).
\<close>

record ('b, 'c, 'k) waiting =
  wt_lock_token :: string
  wt_locked :: "('b, 'c, 'k) token_store wakeup"
  wt_polls :: "('b, 'c, 'k) token_store wakeup list"

section \<open>Extracting the bearer\<close>

text \<open>\<open>s.strip_prefix(p)\<close>, or else \<open>s.strip_prefix(q)\<close>.\<close>

definition strip_either :: "string \<Rightarrow> string \<Rightarrow> string \<Rightarrow> string option" where
  "strip_either p q s = (case strip_prefix p s of Some t \<Rightarrow> Some t | None \<Rightarrow> strip_prefix q s)"

lemma strip_either_Some:
  "length p = length q \<Longrightarrow> p \<noteq> q \<Longrightarrow> strip_either p q s = Some e \<longleftrightarrow> s = p @ e \<or> s = q @ e"
proof (cases "strip_prefix p s")
  case None
  then have "s \<noteq> p @ e" using strip_prefix_Some [of p s e] by auto
  with None show ?thesis by (simp add: strip_either_def)
next
  case (Some t)
  then have "strip_either p q s = Some t" by (simp only: strip_either_def option.case)
  moreover have "s = p @ t" using Some by simp
  moreover assume "length p = length q" "p \<noteq> q"
  ultimately show ?thesis by auto
qed

definition extract_bearer :: "header_lib \<Rightarrow> headers \<Rightarrow> string option" where
  "extract_bearer H h =
     (case hdr_get h AUTHORIZATION_HEADER of
        None \<Rightarrow> None
      | Some header \<Rightarrow>
          (case to_str H header of
             None \<Rightarrow> None
           | Some s \<Rightarrow>
               (case strip_either BEARER_PREFIX BEARER_PREFIX_LOWER s of
                  None \<Rightarrow> None
                | Some token \<Rightarrow> if token = [] then None else Some token)))"

section \<open>Resource-server mode\<close>

definition authorize_as_resource_server :: "('b, 'v, 'c, 'k) auth_env \<Rightarrow> clock \<Rightarrow> string \<Rightarrow>
    'c request \<Rightarrow> ('b, 'c, 'k) auth_state \<Rightarrow> 'c response \<times> ('b, 'c, 'k) auth_state" where
  "authorize_as_resource_server A c token r a =
     (case validate_bearer_via_jwks (am_validation A) (am_jwks A) c token (au_store a) of
        (Inl rejection, s) \<Rightarrow> (unauthorized_response (am_metadata_url A), a\<lparr>au_store := s\<rparr>)
      | (Inr validated, s) \<Rightarrow>
          (let protocol_supplied = hdr_get (headers r) MCP_SESSION_ID_HEADER \<noteq> None;
               (sid, r1) = resolve_or_derive_session_id (am_headers A) (jwt (am_store A)) token r;
               (mine, b) = (if protocol_supplied
                            then claim (am_bindings A) c sid (credential_session_key (jwt (am_store A)) token) (au_bindings a)
                            else (True, au_bindings a));
               a1 = a\<lparr>au_store := s, au_bindings := b\<rparr>
           in if \<not> mine then (unauthorized_response (am_metadata_url A), a1)
              else (Forward (r1\<lparr>token_ext := Some (transient_token (am_store A) token (vb_expires_at validated)),
                                bearer_ext := Some token\<rparr>), a1)))"

section \<open>Opaque mode\<close>

definition authorize_opaque :: "('b, 'v, 'c, 'k) auth_env \<Rightarrow> ('b, 'c, 'k) waiting \<Rightarrow> clock \<Rightarrow> string \<Rightarrow>
    'c request \<Rightarrow> ('b, 'c, 'k) token_store \<Rightarrow> ('c response \<times> ('b, 'c, 'k) token_store) option" where
  "authorize_opaque A w c token r s =
     (case resolve_opaque_access (am_store A) c token s of
        (None, s1) \<Rightarrow> Some (unauthorized_response (am_metadata_url A), s1)
      | (Some sid, s1) \<Rightarrow>
          (case get_token (am_store A) (am_post A) (wt_lock_token w) sid c (wt_locked w) (wt_polls w) s1 of
             None \<Rightarrow> None
           | Some (Some real_token, c', s2) \<Rightarrow>
               Some (Forward ((set_framework_session_id (am_headers A) sid r)\<lparr>bearer_ext := Some (access_token real_token)\<rparr>), s2)
           | Some (None, c', s2) \<Rightarrow>
               Some (unauthorized_response (am_metadata_url A), remove_opaque_for_session (am_store A) c' sid s2)))"

section \<open>Passthrough mode\<close>

text \<open>The comparison of a new bearer's principal with that of the session's stored one.\<close>

definition same_principal :: "jwt_lib \<Rightarrow> string \<Rightarrow> string \<Rightarrow> bool" where
  "same_principal J token prev \<longleftrightarrow>
     (case (jwt_subject J token, jwt_subject J prev) of
        (Some new_sub, Some prev_sub) \<Rightarrow> new_sub = prev_sub
      | _ \<Rightarrow> False) \<or>
     credential_session_key J token = credential_session_key J prev"

text \<open>What the store should hold: \<open>matching\<close> is the known entry of this very bearer.\<close>

definition replacement :: "jwt_lib \<Rightarrow> string \<Rightarrow> 'c stored_token option \<Rightarrow> 'c stored_token option \<Rightarrow>
    instant option \<Rightarrow> 'c stored_token option" where
  "replacement J token matching session_token validated_expiry =
     (case matching of
        Some previous \<Rightarrow>
          Some \<lparr>access_token = token, refresh_token = refresh_token previous,
                expires_at = expires_at previous, decoded_claims = None\<rparr>
      | None \<Rightarrow>
          (let fresh = Some \<lparr>access_token = token, refresh_token = None,
                             expires_at = validated_expiry, decoded_claims = None\<rparr>
           in case session_token of
                None \<Rightarrow> fresh
              | Some previous \<Rightarrow>
                  if refresh_token previous = None then fresh
                  else if jwt_is_strictly_newer J token (access_token previous) = Some True
                  then Some \<lparr>access_token = token, refresh_token = refresh_token previous,
                             expires_at = (case validated_expiry of Some e \<Rightarrow> Some e | None \<Rightarrow> expires_at previous),
                             decoded_claims = None\<rparr>
                  else None))"

text \<open>From the lookups on: the bearer is admitted, stored and possibly refreshed.\<close>

definition passthrough_admit :: "('b, 'v, 'c, 'k) auth_env \<Rightarrow> ('b, 'c, 'k) waiting \<Rightarrow> clock \<Rightarrow> string \<Rightarrow>
    string \<Rightarrow> 'c stored_token option \<Rightarrow> 'c stored_token option \<Rightarrow> instant option \<Rightarrow>
    'c request \<Rightarrow> ('b, 'c, 'k) token_store \<Rightarrow> ('c response \<times> ('b, 'c, 'k) token_store) option" where
  "passthrough_admit A w c token sid session_token matching validated_expiry r s =
     (let J = jwt (am_store A);
          candidate = (case matching of Some t \<Rightarrow> t | None \<Rightarrow> stored_token_new token None validated_expiry);
          token_is_expired = (is_expired c candidate \<or> jwt_is_expired J c token = Some True);
          has_refresh = (refresh_token candidate \<noteq> None \<or>
            (case session_token of Some previous \<Rightarrow> refresh_token previous \<noteq> None | None \<Rightarrow> False));
          needs_store = (case session_token of Some previous \<Rightarrow> access_token previous \<noteq> token | None \<Rightarrow> True);
          s1 = (case replacement J token matching session_token validated_expiry of
                  Some t \<Rightarrow> if needs_store then store_token (am_store A) c sid t s else s
                | None \<Rightarrow> s)
      in if token_is_expired \<and> \<not> has_refresh then Some (unauthorized_response (am_metadata_url A), s)
         else if token_is_expired then
           (case get_token (am_store A) (am_post A) (wt_lock_token w) sid c (wt_locked w) (wt_polls w) s1 of
              None \<Rightarrow> None
            | Some (Some refreshed, c', s2) \<Rightarrow>
                Some (Forward (r\<lparr>bearer_ext := Some (access_token refreshed)\<rparr>), s2)
            | Some (None, c', s2) \<Rightarrow> Some (unauthorized_response (am_metadata_url A), s2))
         else Some (Forward (r\<lparr>bearer_ext := Some token\<rparr>), s1))"

text \<open>The entries that already hold this bearer: under the session's key, or under the grant's.\<close>

definition passthrough_lookup :: "('b, 'v, 'c) store_env \<Rightarrow> clock \<Rightarrow> string \<Rightarrow> string \<Rightarrow>
    ('b, 'c, 'k) token_store \<Rightarrow>
    'c stored_token option \<times> 'c stored_token option \<times> 'c stored_token option \<times> ('b, 'c, 'k) token_store" where
  "passthrough_lookup E c token sid s =
     (let grant_key = credential_session_key (jwt E) token;
          (session_token, s1) = peek_token E c sid s;
          this_bearer = (\<lambda>t. case t of Some st \<Rightarrow> if access_token st = token then Some st else None | None \<Rightarrow> None);
          matching_session = this_bearer session_token;
          (grant_token, s2) = (if matching_session = None \<and> grant_key \<noteq> sid then peek_token E c grant_key s1
                               else (None, s1))
      in (session_token, matching_session, this_bearer grant_token, s2))"

definition authorize_passthrough :: "('b, 'v, 'c, 'k) auth_env \<Rightarrow> ('b, 'c, 'k) waiting \<Rightarrow> clock \<Rightarrow> string \<Rightarrow>
    'c request \<Rightarrow> ('b, 'c, 'k) token_store \<Rightarrow> ('c response \<times> ('b, 'c, 'k) token_store) option" where
  "authorize_passthrough A w c token r0 s0 =
     (let (sid, r) = resolve_or_derive_session_id (am_headers A) (jwt (am_store A)) token r0;
          (session_token, matching_session, matching_grant, s) = passthrough_lookup (am_store A) c token sid s0
      in if session_token \<noteq> None \<and> matching_session = None \<and> matching_grant = None \<and>
            (case session_token of
               Some previous \<Rightarrow> \<not> same_principal (jwt (am_store A)) token (access_token previous)
             | None \<Rightarrow> False)
         then Some (unauthorized_response (am_metadata_url A), s)
         else
           (case (case matching_session of Some t \<Rightarrow> Some t | None \<Rightarrow> matching_grant) of
              Some t \<Rightarrow> passthrough_admit A w c token sid session_token (Some t) None r s
            | None \<Rightarrow>
                (case validate_unknown_bearer (am_validation A) (am_jwks A) (am_post A) c token s of
                   (Inl rejection, s1) \<Rightarrow> Some (unauthorized_response (am_metadata_url A), s1)
                 | (Inr validated, s1) \<Rightarrow>
                     passthrough_admit A w c token sid session_token None (vb_expires_at validated) r s1)))"

section \<open>The bearer middleware\<close>

text \<open>\<open>None\<close> only when a wait for a lock outlasts its schedule.\<close>

definition bearer_auth_middleware :: "('b, 'v, 'c, 'k) auth_env \<Rightarrow> ('b, 'c, 'k) waiting \<Rightarrow> clock \<Rightarrow>
    'c request \<Rightarrow> ('b, 'c, 'k) auth_state \<Rightarrow> ('c response \<times> ('b, 'c, 'k) auth_state) option" where
  "bearer_auth_middleware A w c r a =
     (case extract_bearer (am_headers A) (headers r) of
        None \<Rightarrow> Some (unauthorized_response (am_metadata_url A), a)
      | Some token \<Rightarrow>
          (case am_token_mode A of
             ResourceServer \<Rightarrow> Some (authorize_as_resource_server A c token r a)
           | Opaque \<Rightarrow> map_option (\<lambda>(resp, s). (resp, a\<lparr>au_store := s\<rparr>)) (authorize_opaque A w c token r (au_store a))
           | Passthrough \<Rightarrow> map_option (\<lambda>(resp, s). (resp, a\<lparr>au_store := s\<rparr>)) (authorize_passthrough A w c token r (au_store a))))"

section \<open>Basic authentication\<close>

definition basic_credentials :: "header_lib \<Rightarrow> headers \<Rightarrow> (string \<times> string) option" where
  "basic_credentials H h =
     (case hdr_get h AUTHORIZATION_HEADER of
        None \<Rightarrow> None
      | Some header \<Rightarrow>
          (case to_str H header of
             None \<Rightarrow> None
           | Some s \<Rightarrow>
               (case strip_either BASIC_PREFIX BASIC_PREFIX_LOWER s of
                  None \<Rightarrow> None
                | Some encoded \<Rightarrow>
                    (case b64_decode_utf8 H encoded of
                       None \<Rightarrow> None
                     | Some decoded \<Rightarrow> split_once (CHR '':'') decoded))))"

definition basic_auth_middleware :: "header_lib \<Rightarrow> ('b, 'v, 'c) store_env \<Rightarrow> basic_auth_config \<Rightarrow> clock \<Rightarrow>
    'c request \<Rightarrow> ('b, 'c, 'k) token_store \<Rightarrow> 'c response \<times> ('b, 'c, 'k) token_store" where
  "basic_auth_middleware H E cfg c r s =
     (case basic_credentials H (headers r) of
        None \<Rightarrow> (basic_unauthorized_response, s)
      | Some (username, password) \<Rightarrow>
          if username \<noteq> ba_username cfg \<or> password \<noteq> ba_password cfg then (basic_unauthorized_response, s)
          else
            (let (sid, r1) = resolve_or_derive_session_id H (jwt E) password r;
                 s1 = store_token E c sid
                   \<lparr>access_token = password, refresh_token = None, expires_at = None, decoded_claims = None\<rparr> s
             in (Forward (r1\<lparr>bearer_ext := Some password\<rparr>), s1)))"

end
