(* ===== verification/Middleware_Facts.thy ===== *)
theory Middleware_Facts
  imports Middleware
begin

text \<open>
  Lemmas on the middlewares: what the framework header can be, what a forwarded request has
  passed in each mode, and what becomes of the stored token.
\<close>

abbreviation fallback_header :: "'c request \<Rightarrow> header_value option" where
  "fallback_header r \<equiv> hdr_get (headers r) MCP_FALLBACK_SESSION_HEADER"

lemma strip_removes [simp]: "fallback_header (strip_framework_session_header r) = None"
  by (simp add: strip_framework_session_header_def)

lemma extract_bearer_strip [simp]:
  "extract_bearer H (headers (strip_framework_session_header r)) = extract_bearer H (headers r)"
  by (simp add: extract_bearer_def strip_framework_session_header_def)

lemma set_framework_session_id_header:
  "fallback_header (set_framework_session_id H sid r) =
     (case parse_value H sid of Some v \<Rightarrow> Some v | None \<Rightarrow> fallback_header r)"
  by (simp add: set_framework_session_id_def split: option.split)

lemma resolve_header:
  assumes "resolve_or_derive_session_id H J token r = (sid, r')" "fallback_header r = None" "fallback_header r' = Some v"
  shows "parse_value H (credential_session_key J token) = Some v \<and> sid = credential_session_key J token"
  using assms
  by (auto simp: resolve_or_derive_session_id_def set_framework_session_id_header Let_def split: option.splits)

section \<open>Resource-server mode\<close>

lemma resource_server_cases:
  assumes "authorize_as_resource_server A c token r a = (resp, a')"
  obtains (rejected) e s where
      "validate_bearer_via_jwks (am_validation A) (am_jwks A) c token (au_store a) = (Inl e, s)"
      "resp = unauthorized_response (am_metadata_url A)" "a' = a\<lparr>au_store := s\<rparr>"
  | (foreign) vb s sid r1 b where
      "validate_bearer_via_jwks (am_validation A) (am_jwks A) c token (au_store a) = (Inr vb, s)"
      "resp = unauthorized_response (am_metadata_url A)"
      "a' = a\<lparr>au_store := s, au_bindings := b\<rparr>"
  | (admitted) vb s sid r1 b where
      "validate_bearer_via_jwks (am_validation A) (am_jwks A) c token (au_store a) = (Inr vb, s)"
      "resolve_or_derive_session_id (am_headers A) (jwt (am_store A)) token r = (sid, r1)"
      "resp = Forward (r1\<lparr>token_ext := Some (transient_token (am_store A) token (vb_expires_at vb)), bearer_ext := Some token\<rparr>)"
      "a' = a\<lparr>au_store := s, au_bindings := b\<rparr>"
      "hdr_get (headers r) MCP_SESSION_ID_HEADER \<noteq> None \<longrightarrow>
         claim (am_bindings A) c sid (credential_session_key (jwt (am_store A)) token) (au_bindings a) = (True, b)"
proof (cases "validate_bearer_via_jwks (am_validation A) (am_jwks A) c token (au_store a)")
  case (Pair res s)
  obtain sid r1 where rs: "resolve_or_derive_session_id (am_headers A) (jwt (am_store A)) token r = (sid, r1)"
    by (cases "resolve_or_derive_session_id (am_headers A) (jwt (am_store A)) token r")
  obtain mine b where cl: "(if hdr_get (headers r) MCP_SESSION_ID_HEADER \<noteq> None
      then claim (am_bindings A) c sid (credential_session_key (jwt (am_store A)) token) (au_bindings a)
      else (True, au_bindings a)) = (mine, b)"
    by (cases "if hdr_get (headers r) MCP_SESSION_ID_HEADER \<noteq> None
      then claim (am_bindings A) c sid (credential_session_key (jwt (am_store A)) token) (au_bindings a)
      else (True, au_bindings a)")
  show thesis
  proof (cases res)
    case (Inl e)
    with Pair assms show thesis by (intro rejected) (auto simp: authorize_as_resource_server_def)
  next
    case (Inr vb)
    have main: "(resp, a') = (if \<not> mine then (unauthorized_response (am_metadata_url A), a\<lparr>au_store := s, au_bindings := b\<rparr>)
        else (Forward (r1\<lparr>token_ext := Some (transient_token (am_store A) token (vb_expires_at vb)), bearer_ext := Some token\<rparr>),
              a\<lparr>au_store := s, au_bindings := b\<rparr>))"
      using assms unfolding authorize_as_resource_server_def Pair Inr Let_def rs by (simp only: cl prod.case sum.case)
    show thesis
    proof (cases mine)
      case True
      with main Pair Inr rs cl show thesis by (intro admitted [of vb s sid r1 b]) (auto split: if_splits)
    next
      case False
      with main Pair Inr show thesis by (intro foreign [of vb s b]) auto
    qed
  qed
qed

section \<open>Opaque mode\<close>

lemma opaque_forward:
  assumes "authorize_opaque A w c token r s = Some (Forward r', s')"
  shows "\<exists>sid s1 t c'. resolve_opaque_access (am_store A) c token s = (Some sid, s1) \<and>
    get_token (am_store A) (am_post A) (wt_lock_token w) sid c (wt_locked w) (wt_polls w) s1 = Some (Some t, c', s') \<and>
    r' = (set_framework_session_id (am_headers A) sid r)\<lparr>bearer_ext := Some (access_token t)\<rparr>"
  using assms by (auto simp: authorize_opaque_def split: prod.splits option.splits)

section \<open>Passthrough mode\<close>

lemma new_expired:
  "is_expired c (stored_token_new token r e) = (case e of Some x \<Rightarrow> mono c + TOKEN_EXPIRY_BUFFER > x | None \<Rightarrow> False)"
  by (simp add: is_expired_def stored_token_new_def)

lemma passthrough_admit_forward:
  assumes "passthrough_admit A w c token sid session_token matching e r s = Some (Forward r', s')"
  shows "(r' = r\<lparr>bearer_ext := Some token\<rparr> \<and> jwt_is_expired (jwt (am_store A)) c token \<noteq> Some True \<and>
           (case matching of Some t \<Rightarrow> \<not> is_expired c t | None \<Rightarrow> (case e of Some x \<Rightarrow> mono c + TOKEN_EXPIRY_BUFFER \<le> x | None \<Rightarrow> True))) \<or>
    (\<exists>t c' s1. get_token (am_store A) (am_post A) (wt_lock_token w) sid c (wt_locked w) (wt_polls w) s1 = Some (Some t, c', s') \<and>
       r' = r\<lparr>bearer_ext := Some (access_token t)\<rparr>)"
  using assms
  by (auto simp: passthrough_admit_def Let_def new_expired split: if_splits option.splits prod.splits)

lemma passthrough_lookup_matching:
  assumes "passthrough_lookup E c token sid s = (st, ms, mg, s')"
  shows "(ms = Some t \<longrightarrow> st = Some t \<and> access_token t = token) \<and>
    (mg = Some t \<longrightarrow> access_token t = token)"
  using assms by (auto simp: passthrough_lookup_def Let_def split: prod.splits option.splits if_splits)

lemma passthrough_forward:
  assumes "authorize_passthrough A w c token r0 s0 = Some (Forward r', s')"
  obtains sid r st ms mg s vb s1 matching e where
    "resolve_or_derive_session_id (am_headers A) (jwt (am_store A)) token r0 = (sid, r)"
    "passthrough_lookup (am_store A) c token sid s0 = (st, ms, mg, s)"
    "matching = (case ms of Some t \<Rightarrow> Some t | None \<Rightarrow> mg)"
    "passthrough_admit A w c token sid st matching e r s1 = Some (Forward r', s')"
    "matching = None \<Longrightarrow> validate_unknown_bearer (am_validation A) (am_jwks A) (am_post A) c token s = (Inr vb, s1) \<and>
       e = vb_expires_at vb \<and> (\<forall>prev. st = Some prev \<longrightarrow> same_principal (jwt (am_store A)) token (access_token prev))"
    "matching \<noteq> None \<Longrightarrow> s1 = s \<and> e = None"
proof -
  obtain sid r where rs: "resolve_or_derive_session_id (am_headers A) (jwt (am_store A)) token r0 = (sid, r)"
    by (cases "resolve_or_derive_session_id (am_headers A) (jwt (am_store A)) token r0")
  obtain st ms mg s where lk: "passthrough_lookup (am_store A) c token sid s0 = (st, ms, mg, s)"
    by (cases "passthrough_lookup (am_store A) c token sid s0")
  let ?m = "case ms of Some t \<Rightarrow> Some t | None \<Rightarrow> mg"
  show thesis
  proof (cases ?m)
    case (Some t)
    with assms rs lk have "passthrough_admit A w c token sid st ?m None r s = Some (Forward r', s')"
      by (auto simp: authorize_passthrough_def Let_def split: if_splits)
    with Some show thesis by (intro that [OF rs lk refl, of None s]) auto
  next
    case None
    then have "ms = None" "mg = None" by (auto split: option.splits)
    with assms rs lk obtain vb s1 where
      "validate_unknown_bearer (am_validation A) (am_jwks A) (am_post A) c token s = (Inr vb, s1)"
      "passthrough_admit A w c token sid st None (vb_expires_at vb) r s1 = Some (Forward r', s')"
      "\<forall>prev. st = Some prev \<longrightarrow> same_principal (jwt (am_store A)) token (access_token prev)"
      by (auto simp: authorize_passthrough_def Let_def split: if_splits sum.splits prod.splits option.splits)
    with None show thesis by (intro that [OF rs lk refl, of "vb_expires_at vb" s1 vb]) auto
  qed
qed

lemma admit_headers:
  "passthrough_admit A w c token sid st m e r s = Some (Forward r', s') \<Longrightarrow> headers r' = headers r"
  by (drule passthrough_admit_forward) auto

end
