(* ===== verification/Samples.thy ===== *)
theory Samples
  imports Token_Store_Facts
begin

text \<open>
  Concrete values for the parameters of the model, on which the witnesses of the properties are
  evaluated: a serialisation that keeps every record as a tagged value, a credential library
  that knows no JWT, and stores on an \<open>InMemoryBackend\<close>.
\<close>

datatype sample_value =
    VToken persisted_token
  | VOpaque persisted_opaque
  | VProxied proxied_authorization
  | VUris "string list"
  | VStr string

definition sample_serde :: "sample_value store_serde" where
  "sample_serde =
     \<lparr>enc_token = \<lambda>t. Some (VToken t), dec_token = (\<lambda>v. case v of VToken t \<Rightarrow> Some t | _ \<Rightarrow> None),
      enc_opaque = \<lambda>m. Some (VOpaque m), dec_opaque = (\<lambda>v. case v of VOpaque m \<Rightarrow> Some m | _ \<Rightarrow> None),
      enc_proxied = \<lambda>p. Some (VProxied p), dec_proxied = (\<lambda>v. case v of VProxied p \<Rightarrow> Some p | _ \<Rightarrow> None),
      enc_uris = \<lambda>u. Some (VUris u), dec_uris = (\<lambda>v. case v of VUris u \<Rightarrow> Some u | _ \<Rightarrow> None),
      str_bytes = VStr, from_utf8 = (\<lambda>v. case v of VStr s \<Rightarrow> Some s | _ \<Rightarrow> None)\<rparr>"

lemma sample_serde_ok [simp]: "serde_ok sample_serde"
  by (simp add: serde_ok_def sample_serde_def)

text \<open>A library that decodes nothing and hashes to the bytes of its argument.\<close>

definition sample_jwt :: jwt_lib where
  "sample_jwt = \<lparr>b64url_decode = \<lambda>s. None, parse_json = \<lambda>s. None,
     sha256 = \<lambda>s. map (\<lambda>ch. of_nat (of_char ch)) s\<rparr>"

type_synonym sample_backend = "sample_value in_memory_backend"
type_synonym sample_store = "(sample_backend, string, nat) token_store"

definition sample_env :: "(sample_backend, sample_value, string) store_env" where
  "sample_env = \<lparr>persistence = Some in_memory_ops, serde = sample_serde,
     claims_decoder = Some (\<lambda>t. Some t), jwt = sample_jwt\<rparr>"

lemma sample_env_fields [simp]:
  "persistence sample_env = Some in_memory_ops" "serde sample_env = sample_serde"
  "claims_decoder sample_env = Some (\<lambda>t. Some t)" "jwt sample_env = sample_jwt"
  by (simp_all add: sample_env_def)

definition fresh_store :: sample_store where
  "fresh_store = token_store_new im_new"

lemma fresh_store_fields [simp]:
  "backend fresh_store = im_new" "tokens fresh_store = []"
  "opaque_index fresh_store = empty_opaque_index" "proxied_auths fresh_store = []"
  "client_redirects fresh_store = []" "store_ok fresh_store"
  "introspection_not_permitted fresh_store = False"
  by (simp_all add: fresh_store_def token_store_new_def store_ok_def)

lemma im_new_fields [simp]: "data im_new = []" "locks im_new = []" "hm_ok (data im_new)"
  by (simp_all add: im_new_def)

text \<open>One second after boot, at an arbitrary date.\<close>

definition sample_clock :: clock where
  "sample_clock = \<lparr>mono = secs 1, wall = secs 1700000000\<rparr>"

definition later :: "nat \<Rightarrow> clock" where
  "later n = \<lparr>mono = secs (1 + n), wall = secs (1700000000 + n)\<rparr>"

lemma sample_clock_fields [simp]:
  "mono sample_clock = secs 1" "wall sample_clock = secs 1700000000"
  "mono (later n) = secs (1 + n)" "wall (later n) = secs (1700000000 + n)"
  by (simp_all add: sample_clock_def later_def)

definition sample_parked :: proxied_authorization where
  "sample_parked = \<lparr>pa_redirect_uri = ''http://localhost/cb'', pa_client_state = None, pa_issuer = ''http://localhost''\<rparr>"

lemmas sample_defs = sample_env_def sample_serde_def fresh_store_def token_store_new_def im_new_def
  sample_clock_def later_def secs_def millis_def u64_max_def

end
