(* ===== verification/Binding_Properties.thy ===== *)
theory Binding_Properties
  imports Session_Bindings Samples
begin

text \<open>
  Properties of the session bindings, and the \<open>ttl_ops\<close> on which their witnesses run: a backend
  that keeps every value until its TTL lapses.
\<close>

section \<open>A backend that honours TTLs\<close>

type_synonym 'v ttl_backend = "(data_key \<times> ('v \<times> instant option)) list"

definition ttl_live :: "instant \<Rightarrow> instant option \<Rightarrow> bool" where
  "ttl_live now deadline = (case deadline of None \<Rightarrow> True | Some d \<Rightarrow> now < d)"

definition ttl_get :: "instant \<Rightarrow> string \<Rightarrow> string \<Rightarrow> 'v ttl_backend \<Rightarrow> persistence_error + 'v option" where
  "ttl_get now ns k b = Inr (case hm_get b (ns, k) of
     Some (v, deadline) \<Rightarrow> if ttl_live now deadline then Some v else None
   | None \<Rightarrow> None)"

definition ttl_set :: "instant \<Rightarrow> string \<Rightarrow> string \<Rightarrow> 'v \<Rightarrow> duration option \<Rightarrow> 'v ttl_backend \<Rightarrow>
    (persistence_error + unit) \<times> 'v ttl_backend" where
  "ttl_set now ns k v ttl b = (Inr (), hm_insert (ns, k) (v, map_option (\<lambda>d. now + d) ttl) b)"

definition ttl_ops :: "('v ttl_backend, 'v) backend_ops" where
  "ttl_ops = \<lparr>be_get = ttl_get, be_set = ttl_set,
     be_delete = (\<lambda>now ns k b. (Inr (), hm_remove (ns, k) b)),
     be_keys = (\<lambda>now ns b. Inr (map snd (filter (\<lambda>(n, _). n = ns) (map fst b)))),
     be_touch = default_touch, be_try_acquire_lock = default_try_acquire_lock,
     be_release_lock = default_release_lock\<rparr>"

definition sample_bindings_env :: "((string ttl_backend), string) binding_env" where
  "sample_bindings_env = \<lparr>bd_persistence = Some ttl_ops, bd_bytes = (\<lambda>s. s), bd_utf8 = Some,
     bd_ttl = secs 100, max_entries = SESSION_BINDING_MAX_ENTRIES\<rparr>"

lemma sample_bindings_env_fields [simp]:
  "bd_persistence sample_bindings_env = Some ttl_ops" "bd_bytes sample_bindings_env = (\<lambda>s. s)"
  "bd_utf8 sample_bindings_env = Some" "bd_ttl sample_bindings_env = secs 100"
  "max_entries sample_bindings_env = SESSION_BINDING_MAX_ENTRIES"
  "be_get ttl_ops = ttl_get" "be_set ttl_ops = ttl_set"
  by (simp_all add: sample_bindings_env_def ttl_ops_def)

lemma remember_empty:
  "0 < max_entries P \<Longrightarrow> remember P c sid identity [] = [(sid, \<lparr>bd_identity = identity, bd_expires_at = mono c + bd_ttl P\<rparr>)]"
  by (simp add: remember_def)

lemma remember_present:
  "hm_get m sid \<noteq> None \<Longrightarrow> remember P c sid identity m =
     hm_insert sid \<lparr>bd_identity = identity, bd_expires_at = mono c + bd_ttl P\<rparr> m"
  unfolding remember_def by (simp only: simp_thms if_False Let_def)

section \<open>Properties\<close>

text \<open>The first claimant keeps the session: for at least half the TTL after a successful claim,
  every claim by another identity on that instance is refused, and leaves the table as it was.\<close>

theorem first_claimant_keeps_the_session:
  assumes "claim P c sid alice s = (True, s')" "0 < bd_ttl P" "bob \<noteq> alice"
    and "mono c' \<le> mono c + bd_ttl P div 2"
  shows "claim P c' sid bob s' = (False, s')"
proof -
  obtain b where "hm_get (bindings s') sid = Some b" "bd_identity b = alice" "bd_expires_at b > mono c + bd_ttl P div 2"
    using claim_True_binding [OF assms(1,2)] by blast
  with assms(3,4) show ?thesis by (intro claim_foreign) auto
qed

theorem first_claimant_keeps_the_session_witness:
  "fst (claim sample_bindings_env (later 20) ''session'' ''bob''
     (snd (claim sample_bindings_env sample_clock ''session'' ''alice'' (session_bindings_new [])))) = False"
proof -
  obtain s' where s': "claim sample_bindings_env sample_clock ''session'' ''alice'' (session_bindings_new []) = (True, s')"
    by (simp add: claim_def claim_cold_def session_bindings_new_def ttl_get_def)
  have "claim sample_bindings_env (later 20) ''session'' ''bob'' s' = (False, s')"
    by (rule first_claimant_keeps_the_session [OF s']) (simp_all add: secs_def)
  with s' show ?thesis by simp
qed

text \<open>A peer enforces the binding it reads from the backend: an instance that never saw the
  session admits exactly the identity recorded there, and remembers it.\<close>

theorem peer_enforces_the_binding:
  assumes "hm_get (bindings s) sid = None" "bd_persistence P = Some ops" "0 < bd_ttl P"
    and "be_get ops (mono c) NS_SESSION_BINDING sid (bd_backend s) = Inr (Some bytes)" "bd_utf8 P bytes = Some owner"
  shows "fst (claim P c sid identity s) = (identity = owner) \<and>
    (mono c \<le> mono c' \<longrightarrow> mono c' < mono c + bd_ttl P \<longrightarrow> intruder \<noteq> owner \<longrightarrow>
       fst (claim P c' sid intruder (snd (claim P c sid identity s))) = False)"
proof -
  note verdict = claim_peer_verdict [OF assms(1,2,4,5), of identity]
  have "claim P c' sid intruder (snd (claim P c sid identity s)) = (False, snd (claim P c sid identity s))"
    if "mono c' < mono c + bd_ttl P" "intruder \<noteq> owner"
    using that unfolding verdict by (intro claim_foreign) auto
  with verdict show ?thesis by auto
qed

theorem peer_enforces_the_binding_witness:
  "fst (claim sample_bindings_env (later 20) ''session'' ''bob''
     (session_bindings_new (bd_backend (binding_write sample_bindings_env sample_clock
        (snd (claim sample_bindings_env sample_clock ''session'' ''alice'' (session_bindings_new [])))))))
   = False"
proof -
  let ?b = "bd_backend (binding_write sample_bindings_env sample_clock
        (snd (claim sample_bindings_env sample_clock ''session'' ''alice'' (session_bindings_new []))))"
  have "be_get ttl_ops (mono (later 20)) NS_SESSION_BINDING ''session'' (bd_backend (session_bindings_new ?b)) = Inr (Some ''alice'')"
    by (simp add: claim_def claim_cold_def session_bindings_new_def ttl_get_def binding_write_def ttl_set_def ttl_live_def secs_def)
  then show ?thesis
    using peer_enforces_the_binding [of "session_bindings_new ?b" "''session''" sample_bindings_env ttl_ops "later 20" "''alice''" "''alice''" "''bob''"]
    by (auto simp: session_bindings_new_def secs_def)
qed

text \<open>The table is bounded: no claim takes it past \<open>max_entries\<close> (or past one entry, when the
  cap is zero), and its keys stay distinct.\<close>

theorem bindings_bounded:
  assumes "length (bindings s) \<le> max (Suc 0) (max_entries P)" "hm_ok (bindings s)"
  shows "length (bindings (snd (claim P c sid identity s))) \<le> max (Suc 0) (max_entries P) \<and>
    hm_ok (bindings (snd (claim P c sid identity s)))"
  using claim_bounded [OF assms(1)] claim_ok [OF assms(2)] by blast

theorem bindings_bounded_witness:
  "length (bindings (snd (claim (sample_bindings_env\<lparr>max_entries := 1\<rparr>) (later 1) ''b'' ''alice''
     (snd (claim (sample_bindings_env\<lparr>max_entries := 1\<rparr>) sample_clock ''a'' ''alice'' (session_bindings_new [])))))) \<le> 1"
proof -
  let ?P = "sample_bindings_env\<lparr>max_entries := 1\<rparr>"
  let ?s = "snd (claim ?P sample_clock ''a'' ''alice'' (session_bindings_new []))"
  have "length (bindings ?s) \<le> max (Suc 0) (max_entries ?P)" "hm_ok (bindings ?s)"
    using claim_bounded [of "session_bindings_new []" ?P] claim_ok [of "session_bindings_new []"]
    by (simp_all add: session_bindings_new_def)
  from bindings_bounded [OF this, of "later 1" "''b''" "''alice''"] show ?thesis by simp
qed

text \<open>The persisted binding is not renewed: reading it back extends only the instance's own
  entry. Once the TTL of the first write has passed, a peer admits anybody to the session while
  its owner's instance still serves the owner from memory.\<close>

theorem busy_session_binding_lapses:
  assumes "bd_persistence P = Some ops" "0 < max_entries P" "bd_utf8 P (bd_bytes P alice) = Some alice"
    and "be_get ops (mono c0) NS_SESSION_BINDING sid b0 = Inr None"
    and "b1 = snd (be_set ops (mono c0) NS_SESSION_BINDING sid (bd_bytes P alice) (Some (bd_ttl P)) b0)"
    and "\<And>t. be_get ops t NS_SESSION_BINDING sid b1 =
           Inr (if t < mono c0 + bd_ttl P then Some (bd_bytes P alice) else None)"
    and "s1 = binding_write P c0 (snd (claim P c0 sid alice (session_bindings_new b0)))"
    and "mono c0 + bd_ttl P - mono c1 \<le> bd_ttl P div 2" "mono c1 < mono c0 + bd_ttl P"
    and "claim P c1 sid alice s1 = (r1, s2)"
    and "mono c0 + bd_ttl P \<le> mono c2" "mono c2 + bd_ttl P div 2 < mono c1 + bd_ttl P"
  shows "r1 \<and> fst (claim P c2 sid alice s2) \<and> fst (claim P c2 sid bob (session_bindings_new (bd_backend s2)))"
proof -
  have s1: "s1 = \<lparr>bindings = [(sid, \<lparr>bd_identity = alice, bd_expires_at = mono c0 + bd_ttl P\<rparr>)], spawned = [], bd_backend = b1\<rparr>"
    using assms(1,2,4,5,7)
    by (simp add: session_bindings_new_def claim_def claim_cold_def binding_write_def remember_empty)
  have s2: "r1" "s2 = \<lparr>bindings = [(sid, \<lparr>bd_identity = alice, bd_expires_at = mono c1 + bd_ttl P\<rparr>)], spawned = [], bd_backend = b1\<rparr>"
    using assms(1,3,6,8,9,10) unfolding s1
    by (auto simp: claim_def claim_cold_def remember_present split: if_splits)
  show ?thesis
    using s2 assms(1,6,11,12)
    by (simp add: claim_def claim_cold_def session_bindings_new_def)
qed

theorem busy_session_binding_lapses_witness:
  "\<exists>s2. fst (claim sample_bindings_env (later 105) ''session'' ''alice'' s2) \<and>
     fst (claim sample_bindings_env (later 105) ''session'' ''bob'' (session_bindings_new (bd_backend s2)))"
proof -
  let ?s1 = "binding_write sample_bindings_env sample_clock
     (snd (claim sample_bindings_env sample_clock ''session'' ''alice'' (session_bindings_new [])))"
  obtain r1 s2 where r1: "claim sample_bindings_env (later 60) ''session'' ''alice'' ?s1 = (r1, s2)"
    by (cases "claim sample_bindings_env (later 60) ''session'' ''alice'' ?s1")
  have "r1 \<and> fst (claim sample_bindings_env (later 105) ''session'' ''alice'' s2) \<and>
     fst (claim sample_bindings_env (later 105) ''session'' ''bob'' (session_bindings_new (bd_backend s2)))"
    by (rule busy_session_binding_lapses [OF _ _ _ _ refl _ refl _ _ r1, where ops = ttl_ops])
       (simp_all add: ttl_get_def ttl_set_def ttl_live_def secs_def SESSION_BINDING_MAX_ENTRIES_def)
  then show ?thesis by blast
qed

end
