(* ===== verification/Token_Restore.thy ===== *)
theory Token_Restore
  imports Token_Store_Facts
begin

text \<open>
  The start of an instance, \<open>TokenStore::load_persisted\<close> of \<open>src/src/auth/store.rs\<close>: every
  persisted token and opaque mapping is read into memory, dead and orphaned records are deleted
  on the way. A failing backend call ends the load with its error; what was deleted before it
  stays deleted, and in the second phase the tokens of the first are already in memory.
\<close>

section \<open>Reading the namespaces\<close>

definition token_is_dead :: "clock \<Rightarrow> 'c stored_token \<Rightarrow> bool" where
  "token_is_dead c t \<longleftrightarrow> is_expired c t \<and> refresh_token t = None"

fun restore_tokens :: "('b, 'v, 'c) store_env \<Rightarrow> ('b, 'v) backend_ops \<Rightarrow> clock \<Rightarrow> string list \<Rightarrow> 'b \<Rightarrow>
    (persistence_error + (string \<times> 'c stored_token) list) \<times> 'b" where
  "restore_tokens E ops c [] b = (Inr [], b)"
| "restore_tokens E ops c (key # ks) b =
     (case be_get ops (mono c) NS_TOKENS key b of
        Inl e \<Rightarrow> (Inl e, b)
      | Inr None \<Rightarrow> restore_tokens E ops c ks b
      | Inr (Some bytes) \<Rightarrow>
          (case dec_token (serde E) bytes of
             None \<Rightarrow> restore_tokens E ops c ks b
           | Some persisted \<Rightarrow>
               (let token = into_stored c persisted
                in if token_is_dead c token then restore_tokens E ops c ks (discard ops c NS_TOKENS key b)
                   else (case restore_tokens E ops c ks b of
                           (Inl e, b') \<Rightarrow> (Inl e, b')
                         | (Inr entries, b') \<Rightarrow> (Inr ((key, apply_decoder E token) # entries), b')))))"

fun restore_opaques :: "('b, 'v, 'c) store_env \<Rightarrow> ('b, 'v) backend_ops \<Rightarrow> clock \<Rightarrow> string list \<Rightarrow>
    string list \<Rightarrow> 'b \<Rightarrow> (persistence_error + (string \<times> persisted_opaque) list) \<times> 'b" where
  "restore_opaques E ops c valid_sessions [] b = (Inr [], b)"
| "restore_opaques E ops c valid_sessions (sid # sids) b =
     (case be_get ops (mono c) NS_OPAQUE sid b of
        Inl e \<Rightarrow> (Inl e, b)
      | Inr None \<Rightarrow> restore_opaques E ops c valid_sessions sids b
      | Inr (Some bytes) \<Rightarrow>
          (case dec_opaque (serde E) bytes of
             None \<Rightarrow> restore_opaques E ops c valid_sessions sids b
           | Some mapping \<Rightarrow>
               if sid \<notin> set valid_sessions \<or>
                  remaining_until_unix_millis c (refresh_expires_at_unix_ms mapping) = 0
               then restore_opaques E ops c valid_sessions sids
                      (drop_inverse ops c mapping (discard ops c NS_OPAQUE sid b))
               else (case restore_opaques E ops c valid_sessions sids b of
                       (Inl e, b') \<Rightarrow> (Inl e, b')
                     | (Inr entries, b') \<Rightarrow> (Inr ((sid, mapping) # entries), b'))))"

section \<open>The whole load\<close>

definition load_opaque_phase :: "('b, 'v, 'c) store_env \<Rightarrow> ('b, 'v) backend_ops \<Rightarrow> clock \<Rightarrow>
    ('b, 'c, 'k) token_store \<Rightarrow> (persistence_error + unit) \<times> ('b, 'c, 'k) token_store" where
  "load_opaque_phase E ops c s =
     (case be_keys ops (mono c) NS_OPAQUE (backend s) of
        Inl e \<Rightarrow> (Inl e, s)
      | Inr sids \<Rightarrow>
          (case restore_opaques E ops c (map fst (tokens s)) sids (backend s) of
             (Inl e, b) \<Rightarrow> (Inl e, s\<lparr>backend := b\<rparr>)
           | (Inr entries, b) \<Rightarrow>
               (Inr (), s\<lparr>backend := b,
                 opaque_index := fold (\<lambda>(sid, m) idx. snd (index_insert c sid m idx)) entries (opaque_index s)\<rparr>)))"

definition load_persisted :: "('b, 'v, 'c) store_env \<Rightarrow> clock \<Rightarrow> ('b, 'c, 'k) token_store \<Rightarrow>
    (persistence_error + unit) \<times> ('b, 'c, 'k) token_store" where
  "load_persisted E c s =
     (case persistence E of
        None \<Rightarrow> (Inr (), s)
      | Some ops \<Rightarrow>
          (case be_keys ops (mono c) NS_TOKENS (backend s) of
             Inl e \<Rightarrow> (Inl e, s)
           | Inr ks \<Rightarrow>
               (case restore_tokens E ops c ks (backend s) of
                  (Inl e, b) \<Rightarrow> (Inl e, s\<lparr>backend := b\<rparr>)
                | (Inr entries, b) \<Rightarrow>
                    load_opaque_phase E ops c
                      (s\<lparr>backend := b, tokens := fold (\<lambda>(k, t). hm_insert k t) entries (tokens s)\<rparr>))))"

section \<open>The load keeps the invariant\<close>

lemma fold_insert_ok: "hm_ok m \<Longrightarrow> hm_ok (fold (\<lambda>(k, t). hm_insert k t) es m)"
  by (induction es arbitrary: m) auto

lemma fold_index_sound:
  "index_sound idx \<Longrightarrow> index_sound (fold (\<lambda>(sid, m) idx. snd (index_insert c sid m idx)) es idx)"
  by (induction es arbitrary: idx) (auto simp: index_insert_sound)

lemma restored_ok_backend [simp]: "store_ok (s\<lparr>backend := b\<rparr>) = store_ok s"
  by (simp add: store_ok_def)

lemma load_opaque_phase_ok: "store_ok s \<Longrightarrow> store_ok (snd (load_opaque_phase E ops c s))"
  using fold_index_sound [OF store_ok_index]
  by (auto simp: load_opaque_phase_def split: sum.split prod.split) (simp add: store_ok_def)

lemma load_persisted_ok:
  assumes "store_ok s"
  shows "store_ok (snd (load_persisted E c s))"
proof -
  have "store_ok (s\<lparr>backend := b, tokens := fold (\<lambda>(k, t). hm_insert k t) es (tokens s)\<rparr>)" for b es
    using assms fold_insert_ok [of "tokens s" es] by (simp add: store_ok_def)
  with assms show ?thesis
    by (auto simp: load_persisted_def load_opaque_phase_ok split: option.split sum.split prod.split)
qed

section \<open>What the load finds\<close>

lemma dead_apply_decoder [simp]: "token_is_dead c (apply_decoder E t) = token_is_dead c t"
  by (simp add: token_is_dead_def)

text \<open>The entry a persisted record stands for, if the record can be read and is not dead.\<close>

definition restored_token :: "('b, 'v, 'c) store_env \<Rightarrow> clock \<Rightarrow> 'v option \<Rightarrow> 'c stored_token option" where
  "restored_token E c record =
     (case record of
        None \<Rightarrow> None
      | Some bytes \<Rightarrow>
          (case dec_token (serde E) bytes of
             None \<Rightarrow> None
           | Some p \<Rightarrow> (let t = apply_decoder E (into_stored c p) in if token_is_dead c t then None else Some t)))"

definition restored_mapping :: "('b, 'v, 'c) store_env \<Rightarrow> clock \<Rightarrow> 'v option \<Rightarrow> persisted_opaque option" where
  "restored_mapping E c record =
     (case record of
        None \<Rightarrow> None
      | Some bytes \<Rightarrow>
          (case dec_opaque (serde E) bytes of
             None \<Rightarrow> None
           | Some m \<Rightarrow> if remaining_until_unix_millis c (refresh_expires_at_unix_ms m) = 0 then None
                       else Some m))"

lemma restored_None [simp]: "restored_token E c None = None" "restored_mapping E c None = None"
  by (simp_all add: restored_token_def restored_mapping_def)

lemma hm_get_fold_insert:
  "hm_get (fold (\<lambda>(k, t). hm_insert k t) es m) k =
     (case map_of (rev es) k of None \<Rightarrow> hm_get m k | Some t \<Rightarrow> Some t)"
  by (induction es arbitrary: m) (auto split: option.split)

lemma fold_index_mapping:
  "\<forall>(sid, m) \<in> set es. remaining_until_unix_millis c (refresh_expires_at_unix_ms m) \<noteq> 0 \<Longrightarrow>
   hm_get (session_to_opaques (fold (\<lambda>(sid, m) idx. snd (index_insert c sid m idx)) es idx)) k =
     (case map_of (rev es) k of None \<Rightarrow> hm_get (session_to_opaques idx) k | Some m \<Rightarrow> Some m)"
  by (induction es arbitrary: idx) (auto simp: index_insert_lookup split: option.split)

text \<open>The entries are what the records under the listed keys stand for.\<close>

definition reads :: "(string \<Rightarrow> 'e option) \<Rightarrow> string list \<Rightarrow> (string \<times> 'e) list \<Rightarrow> bool" where
  "reads f ks es \<longleftrightarrow>
     (\<forall>k e. (k, e) \<in> set es \<longrightarrow> f k = Some e) \<and> (\<forall>k e. k \<in> set ks \<and> f k = Some e \<longrightarrow> (k, e) \<in> set es)"

lemma reads_Nil [simp]: "reads f [] []"
  by (simp add: reads_def)

lemma reads_skip: "reads f ks es \<Longrightarrow> f k = None \<Longrightarrow> reads f (k # ks) es"
  unfolding reads_def by (metis option.distinct(1) set_ConsD)

lemma reads_take: "reads f ks es \<Longrightarrow> f k = Some e \<Longrightarrow> reads f (k # ks) ((k, e) # es)"
  unfolding reads_def by (metis option.inject set_ConsD prod.inject list.set_intros)

lemma reads_sound: "reads f ks es \<Longrightarrow> (k, e) \<in> set es \<Longrightarrow> f k = Some e"
  unfolding reads_def by blast

lemma reads_complete: "reads f ks es \<Longrightarrow> k \<in> set ks \<Longrightarrow> f k = Some e \<Longrightarrow> (k, e) \<in> set es"
  unfolding reads_def by blast

lemma reads_map_of:
  assumes "reads f ks es" and "\<And>k. f k \<noteq> None \<Longrightarrow> k \<in> set ks"
  shows "map_of (rev es) k = f k"
proof (cases "map_of (rev es) k")
  case None
  then have "k \<notin> fst ` set es" by (simp add: map_of_eq_None_iff)
  then have "(k, e) \<notin> set es" for e by force
  with assms reads_complete [OF assms(1), of k] None show ?thesis by (cases "f k") auto
next
  case (Some e)
  then have "(k, e) \<in> set es" by (metis map_of_SomeD set_rev)
  with reads_sound [OF assms(1)] Some show ?thesis by simp
qed

context kv_backend
begin

lemma restore_tokens_reads:
  assumes "binv b"
  shows "\<exists>es b'. restore_tokens E ops c ks b = (Inr es, b') \<and> binv b' \<and>
    reads (\<lambda>k. restored_token E c (look (mono c) b (NS_TOKENS, k))) ks es \<and>
    (\<forall>t p. fst p \<noteq> NS_TOKENS \<or> restored_token E c (look (mono c) b p) \<noteq> None \<longrightarrow> look t b' p = look t b p)"
  using assms
proof (induction ks arbitrary: b)
  case Nil
  then show ?case by simp
next
  case (Cons key ks)
  let ?R = "restored_token E c"
  show ?case
  proof (cases "\<exists>bytes p. look (mono c) b (NS_TOKENS, key) = Some bytes \<and> dec_token (serde E) bytes = Some p \<and>
      token_is_dead c (apply_decoder E (into_stored c p))")
    case True
    let ?b = "discard ops c NS_TOKENS key b"
    have dead: "?R (look (mono c) b (NS_TOKENS, key)) = None" using True by (auto simp: restored_token_def)
    have step: "restore_tokens E ops c (key # ks) b = restore_tokens E ops c ks ?b"
      using True Cons.prems by (auto simp: get_law Let_def)
    have same: "?R (look (mono c) ?b p) = ?R (look (mono c) b p)" for p
      using Cons.prems dead by (auto simp: discard_look restored_token_def)
    obtain es b' where ih: "restore_tokens E ops c ks ?b = (Inr es, b')" "binv b'"
      "reads (\<lambda>k. ?R (look (mono c) ?b (NS_TOKENS, k))) ks es"
      "\<And>t p. fst p \<noteq> NS_TOKENS \<or> ?R (look (mono c) ?b p) \<noteq> None \<Longrightarrow> look t b' p = look t ?b p"
      using Cons.IH [OF discard_inv [OF Cons.prems]] by blast
    have "reads (\<lambda>k. ?R (look (mono c) b (NS_TOKENS, k))) (key # ks) es"
      using reads_skip [OF ih(3) [unfolded same] dead] .
    moreover have "look t b' p = look t b p" if "fst p \<noteq> NS_TOKENS \<or> ?R (look (mono c) b p) \<noteq> None" for t p
    proof -
      have "p \<noteq> (NS_TOKENS, key)" using that dead by auto
      with ih(4) [of p t] that Cons.prems show ?thesis by (simp add: same discard_look)
    qed
    ultimately show ?thesis using step ih(1,2) by (intro exI [of _ es] exI [of _ b']) simp
  next
    case False
    obtain es b' where ih: "restore_tokens E ops c ks b = (Inr es, b')" "binv b'"
      "reads (\<lambda>k. ?R (look (mono c) b (NS_TOKENS, k))) ks es"
      "\<forall>t p. fst p \<noteq> NS_TOKENS \<or> ?R (look (mono c) b p) \<noteq> None \<longrightarrow> look t b' p = look t b p"
      using Cons.IH [OF Cons.prems] by blast
    show ?thesis
    proof (cases "?R (look (mono c) b (NS_TOKENS, key))")
      case None
      with False ih(1) Cons.prems have "restore_tokens E ops c (key # ks) b = (Inr es, b')"
        by (auto simp: get_law restored_token_def Let_def split: option.splits)
      with ih reads_skip [OF ih(3) None] show ?thesis by blast
    next
      case (Some t)
      with ih(1) Cons.prems have "restore_tokens E ops c (key # ks) b = (Inr ((key, t) # es), b')"
        by (auto simp: get_law restored_token_def Let_def split: option.splits if_splits)
      with ih reads_take [OF ih(3) Some] show ?thesis by blast
    qed
  qed
qed

lemma restore_opaques_reads:
  assumes "binv b"
  shows "\<exists>es b'. restore_opaques E ops c valid ks b = (Inr es, b') \<and> binv b' \<and>
    reads (\<lambda>k. if k \<in> set valid then restored_mapping E c (look (mono c) b (NS_OPAQUE, k)) else None) ks es"
  using assms
proof (induction ks arbitrary: b)
  case Nil
  then show ?case by simp
next
  case (Cons key ks)
  let ?f = "\<lambda>b k. if k \<in> set valid then restored_mapping E c (look (mono c) b (NS_OPAQUE, k)) else None"
  show ?case
  proof (cases "\<exists>bytes m. look (mono c) b (NS_OPAQUE, key) = Some bytes \<and> dec_opaque (serde E) bytes = Some m \<and>
      (key \<notin> set valid \<or> remaining_until_unix_millis c (refresh_expires_at_unix_ms m) = 0)")
    case True
    then obtain bytes m where m: "look (mono c) b (NS_OPAQUE, key) = Some bytes" "dec_opaque (serde E) bytes = Some m"
      "key \<notin> set valid \<or> remaining_until_unix_millis c (refresh_expires_at_unix_ms m) = 0" by blast
    let ?b = "drop_inverse ops c m (discard ops c NS_OPAQUE key b)"
    have inv: "binv ?b" using Cons.prems by (simp add: discard_inv drop_inverse_inv)
    have dead: "?f b key = None" using m by (auto simp: restored_mapping_def)
    have step: "restore_opaques E ops c valid (key # ks) b = restore_opaques E ops c valid ks ?b"
      using m Cons.prems by (simp add: get_law)
    have same: "?f ?b = ?f b"
    proof
      fix k
      have "look (mono c) ?b (NS_OPAQUE, k) = (if k = key then None else look (mono c) b (NS_OPAQUE, k))"
        using Cons.prems by (simp add: drop_inverse_look discard_look discard_inv)
      with dead show "?f ?b k = ?f b k" by (cases "k = key") (auto split: if_splits)
    qed
    obtain es b' where ih: "restore_opaques E ops c valid ks ?b = (Inr es, b')" "binv b'" "reads (?f ?b) ks es"
      using Cons.IH [OF inv] by blast
    have "reads (?f b) (key # ks) es" using reads_skip [OF ih(3) [unfolded same] dead] .
    with step ih(1,2) show ?thesis by (intro exI [of _ es] exI [of _ b']) simp
  next
    case False
    obtain es b' where ih: "restore_opaques E ops c valid ks b = (Inr es, b')" "binv b'" "reads (?f b) ks es"
      using Cons.IH [OF Cons.prems] by blast
    show ?thesis
    proof (cases "?f b key")
      case None
      with False ih(1) Cons.prems have "restore_opaques E ops c valid (key # ks) b = (Inr es, b')"
        by (auto simp: get_law restored_mapping_def split: option.splits if_splits)
      with ih(2) reads_skip [OF ih(3) None] show ?thesis by blast
    next
      case (Some m)
      with ih(1) Cons.prems have "restore_opaques E ops c valid (key # ks) b = (Inr ((key, m) # es), b')"
        by (auto simp: get_law restored_mapping_def split: option.splits if_splits)
      with ih(2) reads_take [OF ih(3) Some] show ?thesis by blast
    qed
  qed
qed

lemma keys_listed:
  assumes "binv b"
  obtains ks where "be_keys ops now ns b = Inr ks" "\<And>k. look now b (ns, k) \<noteq> None \<Longrightarrow> k \<in> set ks"
  using keys_law [OF assms] by fast

lemma load_opaque_phase_spec:
  assumes I: "binv (backend s)"
  shows "\<exists>s'. load_opaque_phase E ops c s = (Inr (), s') \<and> tokens s' = tokens s \<and>
    (\<forall>k. hm_get (session_to_opaques (opaque_index s')) k =
       (case restored_mapping E c (look (mono c) (backend s) (NS_OPAQUE, k)) of
          Some m \<Rightarrow> if hm_get (tokens s) k \<noteq> None then Some m else hm_get (session_to_opaques (opaque_index s)) k
        | None \<Rightarrow> hm_get (session_to_opaques (opaque_index s)) k))"
proof -
  let ?f = "\<lambda>k. if k \<in> set (map fst (tokens s)) then restored_mapping E c (look (mono c) (backend s) (NS_OPAQUE, k)) else None"
  obtain ks where ks: "be_keys ops (mono c) NS_OPAQUE (backend s) = Inr ks"
    "\<And>k. look (mono c) (backend s) (NS_OPAQUE, k) \<noteq> None \<Longrightarrow> k \<in> set ks"
    using keys_listed [OF I] by blast
  obtain es b where es: "restore_opaques E ops c (map fst (tokens s)) ks (backend s) = (Inr es, b)" "reads ?f ks es"
    using restore_opaques_reads [OF I] by blast
  have "?f k \<noteq> None \<Longrightarrow> k \<in> set ks" for k
    using ks(2) [of k] by (auto simp: restored_mapping_def split: if_splits option.splits)
  then have found: "map_of (rev es) k = ?f k" for k by (rule reads_map_of [OF es(2)])
  have alive: "\<forall>(sid, m) \<in> set es. remaining_until_unix_millis c (refresh_expires_at_unix_ms m) \<noteq> 0"
    using reads_sound [OF es(2)] by (fastforce simp: restored_mapping_def split: if_splits option.splits)
  have "k \<in> set (map fst (tokens s)) \<longleftrightarrow> hm_get (tokens s) k \<noteq> None" for k
    by (simp only: hm_get_in_keys set_map)
  with found ks(1) es(1) show ?thesis
    by (auto simp: load_opaque_phase_def fold_index_mapping [OF alive] split: option.split)
qed

lemma load_persisted_spec:
  assumes P: "persistence E = Some ops" and I: "binv (backend s)"
  shows "\<exists>s'. load_persisted E c s = (Inr (), s') \<and>
    (\<forall>k. hm_get (tokens s') k =
       (case restored_token E c (look (mono c) (backend s) (NS_TOKENS, k)) of
          Some t \<Rightarrow> Some t | None \<Rightarrow> hm_get (tokens s) k)) \<and>
    (\<forall>k. hm_get (session_to_opaques (opaque_index s')) k =
       (case restored_mapping E c (look (mono c) (backend s) (NS_OPAQUE, k)) of
          Some m \<Rightarrow> if hm_get (tokens s') k \<noteq> None then Some m else hm_get (session_to_opaques (opaque_index s)) k
        | None \<Rightarrow> hm_get (session_to_opaques (opaque_index s)) k))"
proof -
  let ?f = "\<lambda>k. restored_token E c (look (mono c) (backend s) (NS_TOKENS, k))"
  obtain ks where ks: "be_keys ops (mono c) NS_TOKENS (backend s) = Inr ks"
    "\<And>k. look (mono c) (backend s) (NS_TOKENS, k) \<noteq> None \<Longrightarrow> k \<in> set ks"
    using keys_listed [OF I] by blast
  obtain es b where es: "restore_tokens E ops c ks (backend s) = (Inr es, b)" "binv b" "reads ?f ks es"
    "\<forall>t p. fst p \<noteq> NS_TOKENS \<or> restored_token E c (look (mono c) (backend s) p) \<noteq> None \<longrightarrow> look t b p = look t (backend s) p"
    using restore_tokens_reads [OF I] by blast
  have "?f k \<noteq> None \<Longrightarrow> k \<in> set ks" for k
    using ks(2) [of k] by (auto simp: restored_token_def split: option.splits)
  then have found: "map_of (rev es) k = ?f k" for k by (rule reads_map_of [OF es(3)])
  define s1 where "s1 = s\<lparr>backend := b, tokens := fold (\<lambda>(k, t). hm_insert k t) es (tokens s)\<rparr>"
  have s1: "backend s1 = b" "opaque_index s1 = opaque_index s"
    "hm_get (tokens s1) k = (case ?f k of Some t \<Rightarrow> Some t | None \<Rightarrow> hm_get (tokens s) k)" for k
    by (simp_all add: s1_def hm_get_fold_insert found split: option.split)
  have "load_persisted E c s = load_opaque_phase E ops c s1"
    using P ks(1) es(1) by (simp add: load_persisted_def s1_def)
  moreover have "look (mono c) b (NS_OPAQUE, k) = look (mono c) (backend s) (NS_OPAQUE, k)" for k using es(4) by simp
  moreover have "binv (backend s1)" using es(2) s1(1) by simp
  then obtain s' where s': "load_opaque_phase E ops c s1 = (Inr (), s')" "tokens s' = tokens s1"
    "\<And>k. hm_get (session_to_opaques (opaque_index s')) k =
       (case restored_mapping E c (look (mono c) b (NS_OPAQUE, k)) of
          Some m \<Rightarrow> if hm_get (tokens s1) k \<noteq> None then Some m else hm_get (session_to_opaques (opaque_index s)) k
        | None \<Rightarrow> hm_get (session_to_opaques (opaque_index s)) k)"
    using load_opaque_phase_spec [of s1 E c] unfolding s1(1,2) by blast
  ultimately show ?thesis
    by (intro exI [of _ s'] conjI allI) (simp_all only: s'(2,3) s1(3))
qed

end

end
