(* ===== verification/Store_Machine.thy ===== *)
theory Store_Machine
  imports Bearer_Validation Token_Restore
begin

text \<open>
  The token store as a state machine: a step is one call of an operation, with the arguments
  and the moment the caller supplies. What holds of every reachable store holds whatever the
  requests were and in whatever order they arrived.
\<close>

inductive store_step :: "('b, 'v, 'c) store_env \<Rightarrow> ('b, 'c, 'k) token_store \<Rightarrow> ('b, 'c, 'k) token_store \<Rightarrow> bool"
  for E :: "('b, 'v, 'c) store_env"
where
  Store: "store_step E s (store_token E c sid t s)"
| Read: "store_step E s (snd (get_token_raw E c sid s))"
| Adopt: "store_step E s (snd (adopt_persisted_token E c sid s))"
| Get: "get_token E post tok sid c (c1, \<lambda>x. x) (map (\<lambda>ci. (ci, \<lambda>x. x)) polls) s = Some (r, c', s') \<Longrightarrow> store_step E s s'"
| Park: "store_step E s (store_pending_auth c st verifier s)"
| Unpark: "store_step E s (snd (take_pending_auth st s))"
| Park_Proxied: "store_step E s (store_proxied_authorization E c st auth s)"
| Unpark_Proxied: "store_step E s (snd (take_proxied_authorization E c st s))"
| Register: "store_step E s (register_client_redirects E c cid uris s)"
| Redirects: "store_step E s (snd (get_client_redirects E c cid s))"
| Mint: "store_step E s (store_opaque_mapping_with_access_ttl E c sid a r ttl s)"
| Resolve_Access: "store_step E s (snd (resolve_opaque_access E c a s))"
| Resolve_Refresh: "store_step E s (snd (resolve_opaque_refresh E c r s))"
| Remove_Opaque: "store_step E s (remove_opaque_for_session E c sid s)"
| Index_Grant: "store_step E s (index_grant_refresh E c r key s)"
| Resolve_Grant: "store_step E s (snd (resolve_grant_refresh E c r s))"
| Remove_Grant: "store_step E s (remove_grant_refresh E c r s)"
| Remove: "store_step E s (remove_token E c sid s)"
| Purge: "store_step E s (purge_expired E c s)"
| Validate: "validate_unknown_bearer bv L post c token s = (r, s') \<Longrightarrow> store_step E s s'"
| Validate_Jwks: "validate_bearer_via_jwks bv L c token s = (r, s') \<Longrightarrow> store_step E s s'"
| Load: "store_step E s (snd (load_persisted E c s))"
| Peer: "store_step E s (s\<lparr>backend := b\<rparr>)"

inductive reachable_store :: "('b, 'v, 'c) store_env \<Rightarrow> ('b, 'c, 'k) token_store \<Rightarrow> bool"
  for E :: "('b, 'v, 'c) store_env"
where
  Start: "reachable_store E (token_store_new b)"
| Start_With: "reachable_store E (with_refresh_config cfg b)"
| Step: "reachable_store E s \<Longrightarrow> store_step E s s' \<Longrightarrow> reachable_store E s'"

inductive_cases store_stepE: "store_step E s s'"
inductive_simps reachable_store_simps: "reachable_store E s"

lemma get_token_ok:
  assumes "get_token E post tok sid c (c1, others) ws s = Some (r, c', s')" and "store_ok s"
    and "\<forall>x. store_ok x \<longrightarrow> store_ok (others x)"
    and "\<forall>w \<in> set ws. \<forall>x. store_ok x \<longrightarrow> store_ok (snd w x)"
  shows "store_ok s'"
proof -
  have raw: "get_token_raw E c0 sid x = (r0, y) \<Longrightarrow> store_ok x \<Longrightarrow> store_ok y" for c0 x r0 y
    using get_token_raw_ok [of x E c0 sid] by simp
  have adopt: "adopt_persisted_token E c0 sid x = (r0, y) \<Longrightarrow> store_ok x \<Longrightarrow> store_ok y" for c0 x r0 y
    using adopt_persisted_token_ok [of x E c0 sid] by simp
  have do: "do_refresh E post c0 sid x = (r0, y) \<Longrightarrow> store_ok x \<Longrightarrow> store_ok y" for c0 x r0 y
    using do_refresh_ok [of x E post c0 sid] by simp
  have waited: "wait_refresh_lock E ops dl tok sid c0 ws x = Some (r0, c0', y) \<Longrightarrow> store_ok x \<Longrightarrow> store_ok y"
    for ops dl c0 x r0 c0' y
    using assms(4) by (blast intro: wait_refresh_lock_ok)
  have locked: "refresh_with_distributed_lock E post tok sid c0 ws x = Some (r0, c0', y) \<Longrightarrow> store_ok x \<Longrightarrow> store_ok y"
    for c0 x r0 c0' y
    by (auto simp: refresh_with_distributed_lock_def release_refresh_lock_ok
          split: option.splits prod.splits lock_wait.splits
          dest!: adopt do waited)
  have recheck: "get_token_raw E c0 sid (others (get_refresh_lock sid x)) = (r0, y) \<Longrightarrow> store_ok x \<Longrightarrow> store_ok y"
    for c0 x r0 y
    using assms(3) by (blast intro: raw get_refresh_lock_ok)
  show ?thesis
    using assms(1,2)
    by (auto simp: get_token_def split: prod.splits option.splits if_splits
          dest!: raw recheck locked)
qed

lemma store_step_ok: "store_step E s s' \<Longrightarrow> store_ok s \<Longrightarrow> store_ok s'"
proof (induction rule: store_step.induct)
  case (Get post tok sid c c1 polls s r c' s')
  then show ?case
    using get_token_ok [OF Get(1)] by auto
next
  case (Validate bv L post c token s r s')
  then show ?case
    by (metis validate_unknown_bearer_same same_credentials_ok)
next
  case (Validate_Jwks bv L c token s r s')
  then show ?case
    by (metis validate_bearer_via_jwks_same same_credentials_ok)
qed (simp_all add: store_ops_ok load_persisted_ok)

lemma reachable_store_ok: "reachable_store E s \<Longrightarrow> store_ok s"
  by (induction rule: reachable_store.induct) (auto simp: store_ok_new intro: store_step_ok)

end
