(* ===== verification/Store_Properties.thy ===== *)
theory Store_Properties
  imports Store_Machine Samples
begin

text \<open>
  The properties of the token store, as instances of the lemmas of \<open>Token_Store_Facts\<close>,
  \<open>Token_Refresh\<close>, \<open>Bearer_Validation\<close> and \<open>Store_Machine\<close> on the \<open>InMemoryBackend\<close>. A
  \<^emph>\<open>peer\<close> is a store that talks to the same backend, with a memory of its own.
\<close>

text \<open>A memory with no binding of a session: no opaque token of it resolves without the backend.\<close>

definition forgot :: "string \<Rightarrow> ('b, 'c, 'k) token_store \<Rightarrow> bool" where
  "forgot sid s \<longleftrightarrow>
     (\<forall>a b. hm_get (access_to_session (opaque_index s)) a = Some b \<longrightarrow> bind_session b \<noteq> sid) \<and>
     (\<forall>r b. hm_get (refresh_to_session (opaque_index s)) r = Some b \<longrightarrow> bind_session b \<noteq> sid)"

lemma forgotD:
  "forgot sid s \<Longrightarrow> hm_get (access_to_session (opaque_index s)) a = Some b \<Longrightarrow> bind_session b \<noteq> sid"
  "forgot sid s \<Longrightarrow> hm_get (refresh_to_session (opaque_index s)) a = Some b \<Longrightarrow> bind_session b \<noteq> sid"
  by (auto simp: forgot_def)

lemma forgot_empty [simp]: "opaque_index s = empty_opaque_index \<Longrightarrow> forgot sid s"
  by (simp add: forgot_def empty_opaque_index_def)

lemma forgot_write_through [simp]: "forgot sid (write_through E f s) = forgot sid s"
  by (simp add: forgot_def)

lemma forgot_after_removal: "store_ok s \<Longrightarrow> forgot sid (remove_opaque_for_session E c sid s)"
  using index_remove_session_revokes [of "opaque_index s" sid]
  by (auto simp: remove_opaque_for_session_def Let_def split: prod.split) (auto simp: forgot_def)

lemma remove_token_split:
  "remove_token E c sid s =
     write_through E (\<lambda>ops. discard ops c NS_TOKENS sid)
       (remove_opaque_for_session E c sid
         (s\<lparr>tokens := hm_remove sid (tokens s), refresh_locks := hm_remove sid (refresh_locks s)\<rparr>))"
  by (simp add: remove_token_def Let_def)

lemma forgot_after_remove_token: "store_ok s \<Longrightarrow> forgot sid (remove_token E c sid s)"
  by (simp add: remove_token_split forgot_after_removal store_ok_def)

lemma remove_token_backend:
  assumes "persistence E = Some in_memory_ops" "hm_ok (data (backend s))"
  shows "hm_ok (data (backend (remove_token E c sid s)))"
    and "hm_get (data (backend (remove_token E c sid s))) (NS_OPAQUE, sid) = None"
    and "hm_get (data (backend (remove_token E c sid s))) (NS_TOKENS, sid) = None"
proof -
  let ?s = "s\<lparr>tokens := hm_remove sid (tokens s), refresh_locks := hm_remove sid (refresh_locks s)\<rparr>"
  let ?b = "backend (remove_opaque_for_session E c sid ?s)"
  have b: "backend (remove_token E c sid s) = discard in_memory_ops c NS_TOKENS sid ?b"
    using assms(1) by (simp add: remove_token_split write_through_backend)
  have ok: "hm_ok (data ?b)" "hm_get (data ?b) (NS_OPAQUE, sid) = None"
    using im.removal_backend [of E ?s c sid] assms by auto
  show "hm_ok (data (backend (remove_token E c sid s)))"
    and "hm_get (data (backend (remove_token E c sid s))) (NS_OPAQUE, sid) = None"
    and "hm_get (data (backend (remove_token E c sid s))) (NS_TOKENS, sid) = None"
    using im.discard_inv [OF ok(1)] im.discard_look [OF ok(1), where c = c and ns = NS_TOKENS and k = sid] ok(2)
    unfolding b by auto
qed

lemma unresolvable:
  assumes "persistence E = Some in_memory_ops" "hm_ok (data (backend s))"
    and "hm_get (data (backend s)) (NS_OPAQUE, sid) = None" "forgot sid s"
  shows "fst (resolve_opaque_access E c tok s) \<noteq> Some sid"
    and "fst (resolve_opaque_refresh E c tok s) \<noteq> Some sid"
proof -
  have "load_opaque_mapping E c sid s = None"
    using assms by (simp add: load_opaque_mapping_def im.read_through_look)
  then show "fst (resolve_opaque_access E c tok s) \<noteq> Some sid"
    and "fst (resolve_opaque_refresh E c tok s) \<noteq> Some sid"
    unfolding resolve_opaque_access_Some resolve_opaque_refresh_Some
    using forgotD [OF assms(4)] by (auto split: option.splits)
qed

lemma sample_minted_ok:
  "store_ok (store_opaque_mapping sample_env c sid a r fresh_store)"
  "hm_ok (data (backend (store_opaque_mapping sample_env c sid a r fresh_store)))"
proof -
  show "store_ok (store_opaque_mapping sample_env c sid a r fresh_store)"
    unfolding store_opaque_mapping_def by (rule store_opaque_mapping_ok) simp
  show "hm_ok (data (backend (store_opaque_mapping sample_env c sid a r fresh_store)))"
    unfolding store_opaque_mapping_def
    by (rule im.mapping_backend(1) [OF _ _ _ _ _ refl, where t = "mono c"])
       (simp_all add: OPAQUE_REFRESH_TTL_def secs_def)
qed

section \<open>Properties\<close>



text \<open>C4. Removing a session revokes it: afterwards neither an access nor a refresh token resolves
  to it and its token is gone, on the removing instance and on every peer whose memory holds
  nothing of the session, at any later moment.\<close>

theorem remove_token_revokes:
  assumes "persistence E = Some in_memory_ops" "hm_ok (data (backend s))" "store_ok s"
    and "peer = remove_token E c sid s \<or>
         (backend peer = backend (remove_token E c sid s) \<and> forgot sid peer \<and> hm_get (tokens peer) sid = None)"
  shows "fst (resolve_opaque_access E c' tok peer) \<noteq> Some sid \<and>
         fst (resolve_opaque_refresh E c' tok peer) \<noteq> Some sid \<and>
         fst (get_token_raw E c' sid peer) = None"
proof -
  have b: "backend peer = backend (remove_token E c sid s)" and f: "forgot sid peer"
    and t: "hm_get (tokens peer) sid = None"
    using assms(4) forgot_after_remove_token [OF assms(3), of sid E c]
    by (auto simp: remove_token_split remove_opaque_for_session_def Let_def split: prod.split)
  note gone = remove_token_backend [OF assms(1,2), of c sid, folded b]
  have "load_token_from_backend E c' sid peer = None"
    using assms(1) gone by (simp add: load_token_from_backend_def im.read_through_look)
  with t have "fst (get_token_raw E c' sid peer) = None" by (simp add: get_token_raw_def)
  with unresolvable [OF assms(1) gone(1,2) f] show ?thesis by blast
qed

theorem remove_token_revokes_witness:
  "fst (resolve_opaque_access sample_env (later 5) ''a''
     (remove_token sample_env (later 1) ''s''
       (store_opaque_mapping sample_env sample_clock ''s'' ''a'' ''r'' fresh_store))) \<noteq> Some ''s''"
proof -
  let ?s = "store_opaque_mapping sample_env sample_clock ''s'' ''a'' ''r'' fresh_store"
  note sample_minted_ok [of sample_clock "''s''" "''a''" "''r''"]
  then show ?thesis
    using remove_token_revokes [of sample_env ?s "remove_token sample_env (later 1) ''s'' ?s" "later 1" "''s''"]
    by simp
qed

text \<open>C10. Rotation: once a session has a new pair of opaque tokens, no other access token
  resolves to it, on the rotating instance and on every peer whose memory holds nothing of the
  session.\<close>

theorem rotation_retires_the_old_token:
  assumes "persistence E = Some in_memory_ops" "serde_ok (serde E)" "hm_ok (data (backend s))" "store_ok s"
    and "s' = store_opaque_mapping_with_access_ttl E c sid a r ttl s"
    and "peer = s' \<or> (backend peer = backend s' \<and> forgot sid peer)"
    and "mono c \<le> mono c'" "mono c' < mono c + OPAQUE_REFRESH_TTL" "old \<noteq> a"
  shows "fst (resolve_opaque_access E c' old peer) \<noteq> Some sid"
proof -
  have "store_ok s'" using assms(4,5) by (simp add: store_opaque_mapping_ok)
  have "bind_session b \<noteq> sid" if "hm_get (access_to_session (opaque_index peer)) old = Some b" for b
  proof (cases "peer = s'")
    case True
    have "hm_get (session_to_opaques (opaque_index s')) sid = Some m \<Longrightarrow> opaque_access m = a" for m
      using assms(5) index_remove_session_mapping [of sid "opaque_index s" sid]
      by (auto simp: store_opaque_mapping_with_access_ttl_def Let_def index_insert_def
            index_remove_session_def new_mapping_def split: prod.splits option.splits if_splits)
    with \<open>store_ok s'\<close> that True assms(9) show ?thesis
      using index_sound_access [of "opaque_index s'" old b] by auto
  next
    case False
    with assms(6) that show ?thesis by (auto dest: forgotD)
  qed
  moreover have "backend peer = backend (store_opaque_mapping_with_access_ttl E c sid a r ttl s)"
    using assms(5,6) by auto
  ultimately show ?thesis
    using im.rotation_revokes [OF assms(1,2,3)] assms(7,8,9) by blast
qed

theorem rotation_retires_the_old_token_witness:
  "fst (resolve_opaque_access sample_env (later 20) ''a''
     (store_opaque_mapping_with_access_ttl sample_env (later 10) ''s'' ''b'' ''q'' (secs 60)
       (store_opaque_mapping sample_env sample_clock ''s'' ''a'' ''r'' fresh_store))) \<noteq> Some ''s''"
proof -
  let ?s = "store_opaque_mapping sample_env sample_clock ''s'' ''a'' ''r'' fresh_store"
  note sample_minted_ok [of sample_clock "''s''" "''a''" "''r''"]
  then show ?thesis
    by (intro rotation_retires_the_old_token [OF _ _ _ _ refl disjI1 [OF refl]])
       (simp_all add: OPAQUE_REFRESH_TTL_def secs_def)
qed

text \<open>C11. A pair of opaque tokens minted on one instance is accepted by every peer: until the
  access token's own lifetime ends (to the millisecond), a peer that has never seen it resolves
  it to the session.\<close>

theorem minted_token_resolves_on_peer:
  assumes "persistence E = Some in_memory_ops" "serde_ok (serde E)" "hm_ok (data (backend s))"
    and "s' = store_opaque_mapping_with_access_ttl E c sid a r ttl s"
    and "backend peer = backend s'" "hm_get (access_to_session (opaque_index peer)) a = None"
    and "\<And>m. hm_get (session_to_opaques (opaque_index s)) sid = Some m \<Longrightarrow> opaque_access m \<noteq> a"
    and "mono c \<le> mono c'" "mono c' < mono c + OPAQUE_REFRESH_TTL" "mono c' < mono c + ttl"
    and "unix_millis c' < (wall c + ttl) div 1000000" "(wall c + ttl) div 1000000 \<le> u64_max"
  shows "fst (resolve_opaque_access E c' a peer) = Some sid"
proof -
  have "remaining_until_unix_millis c' (instant_to_unix_millis c (mono c + ttl)) \<noteq> 0"
    using assms(11,12)
    by (simp add: remaining_until_unix_millis_def instant_to_unix_millis_def Let_def millis_def)
  with im.peer_resolves_minted [OF assms(1,2,3), of peer c sid a r ttl c'] assms(4-10)
  show ?thesis by blast
qed

theorem minted_token_resolves_on_peer_witness:
  "fst (resolve_opaque_access sample_env (later 30) ''a''
     (fresh_store\<lparr>backend := backend (store_opaque_mapping sample_env sample_clock ''s'' ''a'' ''r'' fresh_store)\<rparr>))
     = Some ''s''"
  unfolding store_opaque_mapping_def
  by (rule minted_token_resolves_on_peer [OF _ _ _ refl, where s = fresh_store and c = sample_clock and ttl = OPAQUE_ACCESS_TTL])
     (simp_all add: empty_opaque_index_def OPAQUE_REFRESH_TTL_def OPAQUE_ACCESS_TTL_def secs_def unix_millis_def u64_max_def)

text \<open>A token stored on one instance is what a peer reads: same access token, same refresh
  token, claims decoded again on the peer; and read at the moment it was written its deadline has
  moved by less than a millisecond.\<close>

theorem stored_token_reaches_peer:
  assumes "persistence E = Some in_memory_ops" "serde_ok (serde E)" "hm_ok (data (backend s))"
    and "backend peer = backend (store_token E c sid t s)" "hm_get (tokens peer) sid = None"
    and "mono c \<le> mono c'" "\<And>d. persist_ttl c t = Some d \<Longrightarrow> mono c' < mono c + d"
  shows "\<exists>t'. fst (get_token_raw E c' sid peer) = Some t' \<and>
    access_token t' = access_token t \<and> refresh_token t' = refresh_token t \<and>
    (\<forall>D. claims_decoder E = Some D \<longrightarrow> decoded_claims t' = D (access_token t)) \<and>
    (expires_at t' = None \<longleftrightarrow> expires_at t = None) \<and>
    (c' = c \<longrightarrow> (\<forall>e e'. expires_at t = Some e \<longrightarrow> expires_at t' = Some e' \<longrightarrow> e' < max e (mono c) + millis 1))"
proof -
  let ?t' = "apply_decoder E (into_stored c' (from_stored c (apply_decoder E t)))"
  have "persist_ttl c (apply_decoder E t) = persist_ttl c t" by (simp add: persist_ttl_def)
  then have "fst (get_token_raw E c' sid peer) = Some ?t'"
    using im.peer_reads_token [OF assms(1,2,3,4,5,6)] assms(7) by simp
  moreover have "access_token ?t' = access_token t" "refresh_token ?t' = refresh_token t"
    by simp_all
  moreover have "\<forall>D. claims_decoder E = Some D \<longrightarrow> decoded_claims ?t' = D (access_token t)"
    by (simp add: apply_decoder_def into_stored_def from_stored_def)
  moreover have "expires_at ?t' = None \<longleftrightarrow> expires_at t = None"
    by (simp add: expires_at_into_from)
  moreover have "e' < max e (mono c) + millis 1"
    if "c' = c" "expires_at t = Some e" "expires_at ?t' = Some e'" for e e'
    using that deadline_roundtrip_upper [of c e] by (auto simp: expires_at_into_from)
  ultimately show ?thesis by (intro exI [of _ ?t'] conjI) blast+
qed

definition sample_token :: "string stored_token" where
  "sample_token = \<lparr>access_token = ''jwt'', refresh_token = None, expires_at = Some (secs 61), decoded_claims = None\<rparr>"

theorem stored_token_reaches_peer_witness:
  "\<exists>t'. fst (get_token_raw sample_env (later 10) ''s''
       (fresh_store\<lparr>backend := backend (store_token sample_env sample_clock ''s'' sample_token fresh_store)\<rparr>)) = Some t' \<and>
     access_token t' = ''jwt''"
proof -
  have "\<And>d. persist_ttl sample_clock sample_token = Some d \<Longrightarrow> mono (later 10) < mono sample_clock + d"
    by (simp add: persist_ttl_def sample_token_def secs_def)
  moreover have "access_token sample_token = ''jwt''" by (simp add: sample_token_def)
  ultimately show ?thesis
    using stored_token_reaches_peer [of sample_env fresh_store
      "fresh_store\<lparr>backend := backend (store_token sample_env sample_clock ''s'' sample_token fresh_store)\<rparr>"
      sample_clock "''s''" sample_token "later 10"]
    by (auto simp: secs_def)
qed

text \<open>C15. \<open>get_token\<close> never serves an expired token: what it returns is either live, with the expiry
  buffer to spare, at the moment it returns, or the authorization server has just granted it.\<close>

theorem get_token_serves_live_token:
  assumes "get_token E post lock_token sid c locked ws s = Some (Some t, c', s')"
  shows "\<not> is_expired c' t \<or> granted post (access_token t)"
  using assms by (rule get_token_sound)

definition sample_locked :: "clock \<times> (sample_store \<Rightarrow> sample_store)" where
  "sample_locked = (sample_clock, \<lambda>x. x)"

definition sample_post :: http_post where
  "sample_post url params = Answered 200 (Inr (JObj [(''access_token'', JStr ''fresh''), (''expires_in'', JInt 60)]))"

definition sample_config :: refresh_config where
  "sample_config = \<lparr>rf_client_id = ''client'', rf_client_secret = None, rf_token_url = ''http://localhost/token''\<rparr>"

text \<open>A store with an expired but refreshable token.\<close>

definition stale_store :: sample_store where
  "stale_store = fresh_store\<lparr>refresh_config := Some sample_config,
     tokens := [(''s'', \<lparr>access_token = ''old'', refresh_token = Some ''r'', expires_at = Some (secs 2), decoded_claims = None\<rparr>)]\<rparr>"

theorem get_token_serves_live_token_witness:
  "\<exists>t c' s'. get_token sample_env sample_post ''l'' ''s'' sample_clock sample_locked [] stale_store = Some (Some t, c', s') \<and>
     (\<not> is_expired c' t \<or> granted sample_post (access_token t)) \<and> access_token t = ''fresh''"
proof -
  obtain t c' s' where t: "get_token sample_env sample_post ''l'' ''s'' sample_clock sample_locked [] stale_store = Some (Some t, c', s')"
    "access_token t = ''fresh''"
    by (simp add: get_token_def get_token_raw_def stale_store_def is_expired_def sample_locked_def
        get_refresh_lock_def fresh_store_def token_store_new_def refresh_with_distributed_lock_def
        wait_refresh_lock.simps im_try_acquire_lock_def im_new_def Let_def adopt_persisted_token_def
        load_token_from_backend_def read_through_def im_get_def do_refresh_def refresh_stored_token_def
        sample_post_def sample_config_def is_success_def refreshed_token_def json_index_def
        apply_decoder_def store_token_def TOKEN_EXPIRY_BUFFER_def secs_def u64_max_def)
  from t get_token_serves_live_token [OF t(1)] show ?thesis by blast
qed

text \<open>C17. The wait for the distributed refresh lock is bounded: once a poll finds that
  \<open>REFRESH_LOCK_WAIT\<close> has passed since the wait began, \<open>get_token\<close> has an answer, whoever
  holds the lock and whatever the backend answers.\<close>

theorem get_token_returns:
  assumes "\<exists>w \<in> set ws. mono (fst w) \<ge> mono (fst locked) + REFRESH_LOCK_WAIT"
  shows "\<exists>r. get_token E post lock_token sid c locked ws s = Some r"
  using get_token_ends [OF assms] by auto

theorem get_token_returns_witness:
  "\<exists>r. get_token sample_env sample_post ''l'' ''s'' sample_clock sample_locked [(later 25, \<lambda>x. x)] stale_store = Some r"
  by (rule get_token_returns) (simp add: sample_locked_def REFRESH_LOCK_WAIT_def secs_def)





end
