(* ===== verification/Middleware_Properties.thy ===== *)
theory Middleware_Properties
  imports Middleware_Facts Binding_Properties Store_Properties
begin

text \<open>
  Properties of the authentication middlewares, on every path a request can take.
\<close>

section \<open>Lemmas\<close>

lemma peek_after_peek:
  "k \<noteq> sid \<Longrightarrow> fst (get_token_raw E c k (snd (get_token_raw E c sid s))) = fst (get_token_raw E c k s)"
  by (simp add: get_token_raw_def load_token_from_backend_def read_through_def split: option.split)

lemma lookup_known:
  assumes "passthrough_lookup E c token sid s0 = (st, ms, mg, s)" and "ms = Some t \<or> mg = Some t"
  shows "\<exists>k. k \<in> {sid, credential_session_key (jwt E) token} \<and> fst (peek_token E c k s0) = Some t"
proof -
  obtain st1 s1 where p1: "get_token_raw E c sid s0 = (st1, s1)" by (cases "get_token_raw E c sid s0")
  show ?thesis
  proof (cases "ms = Some t")
    case True
    with assms(1) p1 have "st1 = Some t"
      by (auto simp: passthrough_lookup_def peek_token_def Let_def split: prod.splits option.splits if_splits)
    with p1 show ?thesis by (intro exI [of _ sid]) (simp add: peek_token_def)
  next
    case False
    with assms have "mg = Some t" by simp
    with assms(1) p1 have "credential_session_key (jwt E) token \<noteq> sid"
      "fst (get_token_raw E c (credential_session_key (jwt E) token) s1) = Some t"
      by (auto simp: passthrough_lookup_def peek_token_def Let_def split: prod.splits option.splits if_splits)
    then show ?thesis
      using p1 peek_after_peek [of "credential_session_key (jwt E) token" sid E c s0]
      by (auto simp: peek_token_def)
  qed
qed

lemma via_jwks_sound:
  assumes "validate_bearer_via_jwks bv L c token s = (Inr vb, s')"
  shows "\<exists>v alg kid key claims. bv = Some v \<and> decode_header L token = Some (alg, kid) \<and>
    alg \<in> set ACCEPTED_ALGORITHMS \<and> hm_get (keys (jwks_cache s')) (jwk_kid kid) = Some key \<and>
    decode_verify L (unix_secs c) token key (validation_for (validator v) alg) = Inr claims"
proof -
  obtain v vj cache f where v: "bv = Some v"
    "jwks_validate L (validator v) c token (jwks_cache s) = (Inr vj, cache, f)" "jwks_cache s' = cache"
    using assms by (auto simp: validate_bearer_via_jwks_def split: option.splits prod.splits sum.splits)
  from jwks_validate_sound [OF v(2)] v show ?thesis by auto
qed

lemma strip_basic:
  "strip_either BASIC_PREFIX BASIC_PREFIX_LOWER s = Some e \<longleftrightarrow> s = BASIC_PREFIX @ e \<or> s = BASIC_PREFIX_LOWER @ e"
  by (rule strip_either_Some) (simp_all add: BASIC_PREFIX_def BASIC_PREFIX_LOWER_def)

lemma basic_credentials_Some:
  "basic_credentials H h = Some (u, p) \<longleftrightarrow>
     (\<exists>header text encoded decoded. hdr_get h AUTHORIZATION_HEADER = Some header \<and> to_str H header = Some text \<and>
        strip_either BASIC_PREFIX BASIC_PREFIX_LOWER text = Some encoded \<and>
        b64_decode_utf8 H encoded = Some decoded \<and> split_once (CHR '':'') decoded = Some (u, p))"
  by (simp add: basic_credentials_def split: option.split)

section \<open>What each mode demands of a request it forwards\<close>

lemma resource_server_authenticated:
  assumes "authorize_as_resource_server A c token r a = (Forward r', a')"
  shows "bearer_ext r' = Some token \<and>
    (\<exists>v alg kid key claims. am_validation A = Some v \<and> decode_header (am_jwks A) token = Some (alg, kid) \<and>
       alg \<in> set ACCEPTED_ALGORITHMS \<and> hm_get (keys (jwks_cache (au_store a'))) (jwk_kid kid) = Some key \<and>
       decode_verify (am_jwks A) (unix_secs c) token key (validation_for (validator v) alg) = Inr claims)"
  using assms
proof (cases rule: resource_server_cases)
  case (admitted vb s sid r1 b)
  with via_jwks_sound [OF admitted(1)] show ?thesis by auto
qed simp_all

lemma opaque_authenticated:
  assumes "authorize_opaque A w c token r s = Some (Forward r', s')"
  shows "\<exists>sid s1 t c'. resolve_opaque_access (am_store A) c token s = (Some sid, s1) \<and>
    get_token (am_store A) (am_post A) (wt_lock_token w) sid c (wt_locked w) (wt_polls w) s1 = Some (Some t, c', s') \<and>
    bearer_ext r' = Some (access_token t) \<and> (\<not> is_expired c' t \<or> granted (am_post A) (access_token t))"
proof -
  from opaque_forward [OF assms] obtain sid s1 t c' where
    o: "resolve_opaque_access (am_store A) c token s = (Some sid, s1)"
    "get_token (am_store A) (am_post A) (wt_lock_token w) sid c (wt_locked w) (wt_polls w) s1 = Some (Some t, c', s')"
    "r' = (set_framework_session_id (am_headers A) sid r)\<lparr>bearer_ext := Some (access_token t)\<rparr>" by blast
  then have "bearer_ext r' = Some (access_token t)" by simp
  with o(1,2) get_token_sound [OF o(2)] show ?thesis by auto
qed

lemma passthrough_admit_authenticated:
  assumes "passthrough_admit A w c token sid st matching e r s = Some (Forward r', s')"
  shows "(bearer_ext r' = Some token \<and> jwt_is_expired (jwt (am_store A)) c token \<noteq> Some True) \<or>
    (\<exists>s1 t c'. get_token (am_store A) (am_post A) (wt_lock_token w) sid c (wt_locked w) (wt_polls w) s1 = Some (Some t, c', s') \<and>
       bearer_ext r' = Some (access_token t) \<and> (\<not> is_expired c' t \<or> granted (am_post A) (access_token t)))"
  using passthrough_admit_forward [OF assms]
proof (elim disjE exE conjE)
  fix t c' s1
  assume g: "get_token (am_store A) (am_post A) (wt_lock_token w) sid c (wt_locked w) (wt_polls w) s1 = Some (Some t, c', s')"
    and "r' = r\<lparr>bearer_ext := Some (access_token t)\<rparr>"
  then have "bearer_ext r' = Some (access_token t)" by simp
  with g get_token_sound [OF g] show ?thesis by blast
qed simp

lemma passthrough_authenticated:
  assumes "authorize_passthrough A w c token r s0 = Some (Forward r', s')"
  shows "\<exists>sid r1. resolve_or_derive_session_id (am_headers A) (jwt (am_store A)) token r = (sid, r1) \<and>
    ((\<exists>k t. k \<in> {sid, credential_session_key (jwt (am_store A)) token} \<and>
        fst (peek_token (am_store A) c k s0) = Some t \<and> access_token t = token) \<or>
     (\<exists>st ms mg s vb s1. passthrough_lookup (am_store A) c token sid s0 = (st, ms, mg, s) \<and>
        validate_unknown_bearer (am_validation A) (am_jwks A) (am_post A) c token s = (Inr vb, s1))) \<and>
    ((bearer_ext r' = Some token \<and> jwt_is_expired (jwt (am_store A)) c token \<noteq> Some True) \<or>
     (\<exists>s1 t c'. get_token (am_store A) (am_post A) (wt_lock_token w) sid c (wt_locked w) (wt_polls w) s1 = Some (Some t, c', s') \<and>
        bearer_ext r' = Some (access_token t) \<and> (\<not> is_expired c' t \<or> granted (am_post A) (access_token t))))"
  using assms
proof (rule passthrough_forward)
  fix sid r1 st ms mg s vb s1 matching e
  assume rs: "resolve_or_derive_session_id (am_headers A) (jwt (am_store A)) token r = (sid, r1)"
    and lk: "passthrough_lookup (am_store A) c token sid s0 = (st, ms, mg, s)"
    and m: "matching = (case ms of Some t \<Rightarrow> Some t | None \<Rightarrow> mg)"
    and adm: "passthrough_admit A w c token sid st matching e r1 s1 = Some (Forward r', s')"
    and unknown: "matching = None \<Longrightarrow> validate_unknown_bearer (am_validation A) (am_jwks A) (am_post A) c token s = (Inr vb, s1) \<and>
      e = vb_expires_at vb \<and> (\<forall>prev. st = Some prev \<longrightarrow> same_principal (jwt (am_store A)) token (access_token prev))"
  have "(\<exists>k t. k \<in> {sid, credential_session_key (jwt (am_store A)) token} \<and>
        fst (peek_token (am_store A) c k s0) = Some t \<and> access_token t = token) \<or>
     (\<exists>st ms mg s vb s1. passthrough_lookup (am_store A) c token sid s0 = (st, ms, mg, s) \<and>
        validate_unknown_bearer (am_validation A) (am_jwks A) (am_post A) c token s = (Inr vb, s1))"
  proof (cases matching)
    case None
    then have "validate_unknown_bearer (am_validation A) (am_jwks A) (am_post A) c token s = (Inr vb, s1)"
      using unknown by blast
    with lk show ?thesis by (intro disjI2 exI conjI)
  next
    case (Some t)
    with m have hit: "ms = Some t \<or> mg = Some t" by (auto split: option.splits)
    then have "access_token t = token" using passthrough_lookup_matching [OF lk, of t] by blast
    with lookup_known [OF lk hit] show ?thesis by blast
  qed
  with rs passthrough_admit_authenticated [OF adm] show ?thesis by (intro exI conjI) assumption+
qed

text \<open>The framework header a forwarded request carries.\<close>

lemma resource_server_header:
  assumes "authorize_as_resource_server A c token r a = (Forward r', a')"
    and "fallback_header r = None" "fallback_header r' = Some v"
  shows "parse_value (am_headers A) (credential_session_key (jwt (am_store A)) token) = Some v"
  using assms(1)
proof (cases rule: resource_server_cases)
  case (admitted vb s sid r1 b)
  with assms(3) have "fallback_header r1 = Some v" by simp
  with resolve_header [OF admitted(2) assms(2)] show ?thesis by simp
qed simp_all

lemma opaque_header:
  assumes "authorize_opaque A w c token r s = Some (Forward r', s')"
    and "fallback_header r = None" "fallback_header r' = Some v"
  shows "\<exists>sid. fst (resolve_opaque_access (am_store A) c token s) = Some sid \<and> parse_value (am_headers A) sid = Some v"
proof -
  from opaque_forward [OF assms(1)] obtain sid s1 b where
    o: "resolve_opaque_access (am_store A) c token s = (Some sid, s1)"
    "r' = (set_framework_session_id (am_headers A) sid r)\<lparr>bearer_ext := Some b\<rparr>" by blast
  then have "parse_value (am_headers A) sid = Some v"
    using assms(2,3) by (simp add: set_framework_session_id_header split: option.splits)
  with o(1) show ?thesis by simp
qed

lemma passthrough_header:
  assumes "authorize_passthrough A w c token r s0 = Some (Forward r', s')"
    and "fallback_header r = None" "fallback_header r' = Some v"
  shows "parse_value (am_headers A) (credential_session_key (jwt (am_store A)) token) = Some v"
  using assms(1)
proof (rule passthrough_forward)
  fix sid r1 st s1 matching e
  assume rs: "resolve_or_derive_session_id (am_headers A) (jwt (am_store A)) token r = (sid, r1)"
    and "passthrough_admit A w c token sid st matching e r1 s1 = Some (Forward r', s')"
  then have "fallback_header r1 = Some v" using admit_headers assms(3) by metis
  with resolve_header [OF rs assms(2)] show ?thesis by simp
qed

section \<open>Samples for the witnesses\<close>

definition sample_headers :: header_lib where
  "sample_headers = \<lparr>to_str = Some, parse_value = Some, b64_decode_utf8 = Some\<rparr>"

text \<open>An issuer whose single key verifies everything.\<close>

definition verifying_jwks :: "nat jwks_lib" where
  "verifying_jwks = \<lparr>decode_header = \<lambda>t. Some (RS256, Some ''k''),
     decode_verify = \<lambda>now t k v. Inr \<lparr>rc_sub = Some t, rc_exp = None, rc_azp = None, rc_aud = None\<rparr>,
     http_get = \<lambda>url. SendFailed ''offline'', parse_discovery = \<lambda>j. None, parse_jwk_set = \<lambda>j. None\<rparr>"

definition sample_auth :: "token_mode \<Rightarrow> (sample_backend, sample_value, string, nat) auth_env" where
  "sample_auth m = \<lparr>am_headers = sample_headers, am_store = sample_env,
     am_validation = Some \<lparr>policy = Jwks, validator = jwks_validator_new ''http://localhost'' []\<rparr>,
     am_jwks = verifying_jwks, am_post = sample_post,
     am_bindings = \<lparr>bd_persistence = Some in_memory_ops, bd_bytes = VStr, bd_utf8 = from_utf8 sample_serde,
        bd_ttl = secs 100, max_entries = SESSION_BINDING_MAX_ENTRIES\<rparr>,
     am_metadata_url = ''http://localhost/.well-known'', am_token_mode = m\<rparr>"

lemma sample_auth_fields [simp]:
  "am_headers (sample_auth m) = sample_headers" "am_store (sample_auth m) = sample_env"
  "am_validation (sample_auth m) = Some \<lparr>policy = Jwks, validator = jwks_validator_new ''http://localhost'' []\<rparr>"
  "am_jwks (sample_auth m) = verifying_jwks" "am_post (sample_auth m) = sample_post"
  "am_metadata_url (sample_auth m) = ''http://localhost/.well-known''" "am_token_mode (sample_auth m) = m"
  "bd_ttl (am_bindings (sample_auth m)) = secs 100"
  "bd_persistence (am_bindings (sample_auth m)) = Some in_memory_ops"
  "to_str sample_headers = Some" "parse_value sample_headers = Some" "b64_decode_utf8 sample_headers = Some"
  by (simp_all add: sample_auth_def sample_headers_def)

definition keyed_store :: sample_store where
  "keyed_store = fresh_store\<lparr>jwks_cache := \<lparr>keys = [(''k'', 7)], fetched_at = Some (secs 1), attempted_at = Some (secs 1), last_error = None\<rparr>\<rparr>"

definition sample_auth_state :: "(sample_backend, string, nat) auth_state" where
  "sample_auth_state = \<lparr>au_store = keyed_store, au_bindings = session_bindings_new im_new\<rparr>"

definition sample_waiting :: "(sample_backend, string, nat) waiting" where
  "sample_waiting = \<lparr>wt_lock_token = ''l'', wt_locked = sample_locked, wt_polls = []\<rparr>"

definition bearer_request :: "string \<Rightarrow> headers \<Rightarrow> string request" where
  "bearer_request token hs = \<lparr>headers = (AUTHORIZATION_HEADER, ''Bearer '' @ token) # hs, bearer_ext = None, token_ext = None\<rparr>"

lemma bearer_request_bearer [simp]:
  "token \<noteq> [] \<Longrightarrow> extract_bearer sample_headers (headers (bearer_request token hs)) = Some token"
  by (simp add: bearer_request_def extract_bearer_def hdr_get_def BEARER_PREFIX_def strip_either_def strip_prefix_def)

lemma bearer_request_header [simp]:
  "n \<noteq> AUTHORIZATION_HEADER \<Longrightarrow> hdr_get (headers (bearer_request token hs)) n = map_of hs n"
  by (simp add: bearer_request_def hdr_get_def)

lemma session_header_not_authorization [simp]:
  "MCP_SESSION_ID_HEADER \<noteq> AUTHORIZATION_HEADER" "AUTHORIZATION_HEADER \<noteq> MCP_SESSION_ID_HEADER"
  by (simp_all add: MCP_SESSION_ID_HEADER_def AUTHORIZATION_HEADER_def)

text \<open>The sample issuer vouches for every bearer, out of its cache.\<close>

lemma keyed_validation:
  "\<exists>vb. validate_bearer_via_jwks (am_validation (sample_auth m)) verifying_jwks sample_clock token keyed_store = (Inr vb, keyed_store)"
  by (simp add: validate_bearer_via_jwks_def jwks_validate_def verifying_jwks_def ACCEPTED_ALGORITHMS_def
      find_key_def cached_key_def is_stale_def keyed_store_def jwk_kid_def JWKS_CACHE_TTL_def secs_def)

lemma sample_resource_server_forward:
  assumes "token \<noteq> []"
  shows "\<exists>r' a'. bearer_auth_middleware (sample_auth ResourceServer) w sample_clock (bearer_request token hs) sample_auth_state = Some (Forward r', a') \<and>
    bearer_ext r' = Some token \<and>
    (map_of hs MCP_SESSION_ID_HEADER = None \<longrightarrow> fallback_header r' = Some (credential_session_key sample_jwt token))"
proof -
  obtain vb where vb: "validate_bearer_via_jwks (am_validation (sample_auth ResourceServer)) verifying_jwks sample_clock token keyed_store = (Inr vb, keyed_store)"
    using keyed_validation by blast
  have free: "claim (am_bindings (sample_auth ResourceServer)) sample_clock sid k (session_bindings_new im_new) = (mine, b) \<Longrightarrow> mine" for sid k mine b
    by (simp add: claim_def claim_cold_def session_bindings_new_def im_get_def)
  show ?thesis
    using vb assms
    by (auto dest: free simp: bearer_auth_middleware_def authorize_as_resource_server_def sample_auth_state_def Let_def
        resolve_or_derive_session_id_def set_framework_session_id_def split: prod.split)
qed

section \<open>Properties\<close>

text \<open>C9. The framework's session header cannot be forged: whatever the client sent, in the request
  that reaches a handler it is absent, or it is the key derived from the very credential that was
  validated, or, in opaque mode, the session that the opaque token resolves to.\<close>

theorem framework_header_is_ours:
  assumes "bearer_auth_middleware A w c (strip_framework_session_header r) a = Some (Forward r', a')"
    and "fallback_header r' = Some v"
  shows "\<exists>token. extract_bearer (am_headers A) (headers r) = Some token \<and>
    (parse_value (am_headers A) (credential_session_key (jwt (am_store A)) token) = Some v \<or>
     (am_token_mode A = Opaque \<and> (\<exists>sid. fst (resolve_opaque_access (am_store A) c token (au_store a)) = Some sid \<and>
        parse_value (am_headers A) sid = Some v)))"
proof -
  have clean: "fallback_header (strip_framework_session_header r) = None" by simp
  obtain token where tok: "extract_bearer (am_headers A) (headers r) = Some token"
    using assms(1) by (auto simp: bearer_auth_middleware_def split: option.splits)
  show ?thesis
  proof (cases "am_token_mode A")
    case ResourceServer
    with assms(1) tok show ?thesis
      by (auto simp: bearer_auth_middleware_def dest: resource_server_header [OF _ clean assms(2)])
  next
    case Opaque
    with assms(1) tok show ?thesis
      by (auto simp: bearer_auth_middleware_def dest: opaque_header [OF _ clean assms(2)])
  next
    case Passthrough
    with assms(1) tok show ?thesis
      by (auto simp: bearer_auth_middleware_def dest: passthrough_header [OF _ clean assms(2)])
  qed
qed

theorem framework_header_is_ours_witness:
  "\<exists>r' a'. bearer_auth_middleware (sample_auth ResourceServer) sample_waiting sample_clock
     (strip_framework_session_header (bearer_request ''abc'' [])) sample_auth_state = Some (Forward r', a') \<and>
     (\<exists>token. extract_bearer sample_headers (headers (bearer_request ''abc'' [])) = Some token \<and>
        fallback_header r' = Some (credential_session_key sample_jwt token))"
proof -
  have "strip_framework_session_header (bearer_request ''abc'' []) = bearer_request ''abc'' []"
    by (simp add: strip_framework_session_header_def bearer_request_def hdr_remove_def)
  then obtain r' a' where f: "bearer_auth_middleware (sample_auth ResourceServer) sample_waiting sample_clock
      (strip_framework_session_header (bearer_request ''abc'' [])) sample_auth_state = Some (Forward r', a')"
      "fallback_header r' = Some (credential_session_key sample_jwt ''abc'')"
    using sample_resource_server_forward [of "''abc''" sample_waiting "[]"] by auto
  from framework_header_is_ours [OF f] f show ?thesis by auto
qed

text \<open>C2. Nothing unauthenticated reaches a handler. In resource-server mode the bearer was
  verified with a cached key of the issuer; in opaque mode it resolves to a session and the
  token handed on is live or just granted; in passthrough mode the store already holds this very
  bearer, under the request's session or under the bearer's own grant, or the unknown-bearer
  policy admitted it, and what is handed on is the bearer, not
  expired by its own \<open>exp\<close>, or a token of that session which is live or just granted.\<close>

theorem forwarded_requests_are_authenticated:
  assumes "bearer_auth_middleware A w c r a = Some (Forward r', a')"
  shows "\<exists>token. extract_bearer (am_headers A) (headers r) = Some token \<and>
    (case am_token_mode A of
       ResourceServer \<Rightarrow> bearer_ext r' = Some token \<and>
         (\<exists>v alg kid key claims. am_validation A = Some v \<and> decode_header (am_jwks A) token = Some (alg, kid) \<and>
            alg \<in> set ACCEPTED_ALGORITHMS \<and> hm_get (keys (jwks_cache (au_store a'))) (jwk_kid kid) = Some key \<and>
            decode_verify (am_jwks A) (unix_secs c) token key (validation_for (validator v) alg) = Inr claims)
     | Opaque \<Rightarrow>
         (\<exists>sid s1 t c'. resolve_opaque_access (am_store A) c token (au_store a) = (Some sid, s1) \<and>
            get_token (am_store A) (am_post A) (wt_lock_token w) sid c (wt_locked w) (wt_polls w) s1 =
              Some (Some t, c', au_store a') \<and>
            bearer_ext r' = Some (access_token t) \<and> (\<not> is_expired c' t \<or> granted (am_post A) (access_token t)))
     | Passthrough \<Rightarrow>
         (\<exists>sid r1. resolve_or_derive_session_id (am_headers A) (jwt (am_store A)) token r = (sid, r1) \<and>
            ((\<exists>k t. k \<in> {sid, credential_session_key (jwt (am_store A)) token} \<and>
                fst (peek_token (am_store A) c k (au_store a)) = Some t \<and> access_token t = token) \<or>
             (\<exists>st ms mg s vb s1. passthrough_lookup (am_store A) c token sid (au_store a) = (st, ms, mg, s) \<and>
                validate_unknown_bearer (am_validation A) (am_jwks A) (am_post A) c token s = (Inr vb, s1))) \<and>
            ((bearer_ext r' = Some token \<and> jwt_is_expired (jwt (am_store A)) c token \<noteq> Some True) \<or>
             (\<exists>s1 t c'.
                get_token (am_store A) (am_post A) (wt_lock_token w) sid c (wt_locked w) (wt_polls w) s1 =
                  Some (Some t, c', au_store a') \<and>
                bearer_ext r' = Some (access_token t) \<and> (\<not> is_expired c' t \<or> granted (am_post A) (access_token t))))))"
proof -
  obtain token where tok: "extract_bearer (am_headers A) (headers r) = Some token"
    using assms by (auto simp: bearer_auth_middleware_def split: option.splits)
  show ?thesis
  proof (cases "am_token_mode A")
    case ResourceServer
    with assms tok have "authorize_as_resource_server A c token r a = (Forward r', a')"
      by (simp add: bearer_auth_middleware_def)
    from resource_server_authenticated [OF this] ResourceServer tok show ?thesis by simp
  next
    case Opaque
    with assms tok have "authorize_opaque A w c token r (au_store a) = Some (Forward r', au_store a')"
      by (auto simp: bearer_auth_middleware_def)
    from opaque_authenticated [OF this] Opaque tok show ?thesis by simp
  next
    case Passthrough
    with assms tok have "authorize_passthrough A w c token r (au_store a) = Some (Forward r', au_store a')"
      by (auto simp: bearer_auth_middleware_def)
    from passthrough_authenticated [OF this] Passthrough tok show ?thesis by simp
  qed
qed

theorem forwarded_requests_are_authenticated_witness:
  "\<exists>r' a'. bearer_auth_middleware (sample_auth ResourceServer) sample_waiting sample_clock
     (bearer_request ''abc'' []) sample_auth_state = Some (Forward r', a') \<and> bearer_ext r' = Some ''abc''"
proof -
  obtain r' a' where f: "bearer_auth_middleware (sample_auth ResourceServer) sample_waiting sample_clock
      (bearer_request ''abc'' []) sample_auth_state = Some (Forward r', a')"
    using sample_resource_server_forward [of "''abc''" sample_waiting "[]"] by auto
  from forwarded_requests_are_authenticated [OF f] f show ?thesis by auto
qed

text \<open>Resource-server mode keeps no token state: whatever the request, the store is as it was but
  for the cache of issuer keys and the introspection latch, and its backend is untouched.\<close>

theorem resource_server_keeps_no_token_state:
  assumes "am_token_mode A = ResourceServer" "bearer_auth_middleware A w c r a = Some (resp, a')"
  shows "\<exists>cache latch. au_store a' = (au_store a)\<lparr>jwks_cache := cache, introspection_not_permitted := latch\<rparr>"
proof (cases "extract_bearer (am_headers A) (headers r)")
  case None
  with assms have "au_store a' = au_store a" by (simp add: bearer_auth_middleware_def)
  then show ?thesis using same_credentials_refl unfolding same_credentials_def by metis
next
  case (Some token)
  with assms have rs: "authorize_as_resource_server A c token r a = (resp, a')"
    by (simp add: bearer_auth_middleware_def)
  from rs have "same_credentials (au_store a) (au_store a')"
    by (cases rule: resource_server_cases) (auto dest: validate_bearer_via_jwks_same)
  then show ?thesis unfolding same_credentials_def .
qed

theorem resource_server_keeps_no_token_state_witness:
  "\<exists>resp a'. bearer_auth_middleware (sample_auth ResourceServer) sample_waiting sample_clock
     (bearer_request ''abc'' []) sample_auth_state = Some (resp, a') \<and> tokens (au_store a') = []"
proof -
  obtain r' a' where f: "bearer_auth_middleware (sample_auth ResourceServer) sample_waiting sample_clock
      (bearer_request ''abc'' []) sample_auth_state = Some (Forward r', a')"
    using sample_resource_server_forward [of "''abc''" sample_waiting "[]"] by auto
  from resource_server_keeps_no_token_state [OF _ f] obtain cache latch where
    "au_store a' = (au_store sample_auth_state)\<lparr>jwks_cache := cache, introspection_not_permitted := latch\<rparr>" by auto
  then have "tokens (au_store a') = []" by (simp add: sample_auth_state_def keyed_store_def)
  with f show ?thesis by blast
qed



text \<open>An observed bearer never downgrades grant material: when the session holds a refresh token
  and the bearer is unknown to the store, but admitted, live and of the same principal, the entry
  keeps its refresh token; its access token is replaced only by a bearer that is strictly newer.\<close>

theorem unknown_bearer_never_downgrades:
  assumes "resolve_or_derive_session_id (am_headers A) (jwt (am_store A)) token r = (sid, r1)"
    and "hm_get (tokens s) sid = Some prev" "refresh_token prev \<noteq> None" "access_token prev \<noteq> token"
    and "passthrough_lookup (am_store A) c token sid s = (Some prev, None, None, s1)"
    and "same_principal (jwt (am_store A)) token (access_token prev)"
    and "validate_unknown_bearer (am_validation A) (am_jwks A) (am_post A) c token s1 = (Inr vb, s2)"
    and "case vb_expires_at vb of Some e \<Rightarrow> mono c + TOKEN_EXPIRY_BUFFER \<le> e | None \<Rightarrow> True"
    and "jwt_is_expired (jwt (am_store A)) c token \<noteq> Some True"
  shows "\<exists>s' t. authorize_passthrough A w c token r s = Some (Forward (r1\<lparr>bearer_ext := Some token\<rparr>), s') \<and>
    hm_get (tokens s') sid = Some t \<and> refresh_token t = refresh_token prev \<and>
    (t = prev \<or> (access_token t = token \<and> jwt_is_strictly_newer (jwt (am_store A)) token (access_token prev) = Some True))"
proof -
  have "hm_get (tokens s1) sid = Some prev"
    using assms(2,5) by (auto simp: passthrough_lookup_def peek_token_def get_token_raw_def Let_def
      split: prod.splits option.splits if_splits)
  then have held: "hm_get (tokens s2) sid = Some prev"
    using validate_unknown_bearer_same [OF assms(7)] by (auto simp: same_credentials_def)
  have live: "\<not> is_expired c (stored_token_new token None (vb_expires_at vb))"
    using assms(8) by (simp add: new_expired split: option.splits)
  have "authorize_passthrough A w c token r s = passthrough_admit A w c token sid (Some prev) None (vb_expires_at vb) r1 s2"
    using assms(1,5,6,7) by (simp add: authorize_passthrough_def)
  moreover have "passthrough_admit A w c token sid (Some prev) None (vb_expires_at vb) r1 s2 =
      Some (Forward (r1\<lparr>bearer_ext := Some token\<rparr>),
        (case replacement (jwt (am_store A)) token None (Some prev) (vb_expires_at vb) of
           Some t \<Rightarrow> store_token (am_store A) c sid t s2 | None \<Rightarrow> s2))"
    using live assms(4,9) by (simp add: passthrough_admit_def new_expired Let_def split: option.split)
  ultimately show ?thesis
    using held assms(3)
    by (auto simp: replacement_def Let_def store_token_def apply_decoder_def split: option.split)
qed

text \<open>Two tokens of one session, ordered by \<open>iat\<close>, in a library that reads them.\<close>

definition reading_jwt :: jwt_lib where
  "reading_jwt = \<lparr>b64url_decode = Some,
     parse_json = (\<lambda>s. if s = ''h'' then Some (JObj [(''alg'', JStr ''RS256'')])
       else Some (JObj [(''sid'', JStr ''sso''), (''iat'', JInt (int (length s)))])),
     sha256 = \<lambda>s. map (\<lambda>ch. of_nat (of_char ch)) s\<rparr>"

definition reading_auth :: "(sample_backend, sample_value, string, nat) auth_env" where
  "reading_auth = (sample_auth Passthrough)\<lparr>am_store := sample_env\<lparr>jwt := reading_jwt\<rparr>\<rparr>"

definition granted_store :: sample_store where
  "granted_store = keyed_store\<lparr>tokens := [(''s1'', \<lparr>access_token = ''h.old.x'', refresh_token = Some ''rt'', expires_at = None, decoded_claims = None\<rparr>)]\<rparr>"

lemma reading_claims:
  "jwt_payload reading_jwt ''h.old.x'' = Some [(''sid'', JStr ''sso''), (''iat'', JInt 3)]"
  "jwt_payload reading_jwt ''h.newer.x'' = Some [(''sid'', JStr ''sso''), (''iat'', JInt 5)]"
  by (simp_all add: jwt_payload_def decode_jwt_segment_def reading_jwt_def)

theorem unknown_bearer_never_downgrades_witness:
  "\<exists>s' t. authorize_passthrough reading_auth sample_waiting sample_clock ''h.newer.x''
       (bearer_request ''h.newer.x'' [(MCP_SESSION_ID_HEADER, ''s1'')]) granted_store =
     Some (Forward ((bearer_request ''h.newer.x'' [(MCP_SESSION_ID_HEADER, ''s1'')])\<lparr>bearer_ext := Some ''h.newer.x''\<rparr>), s') \<and>
     hm_get (tokens s') ''s1'' = Some t \<and> refresh_token t = Some ''rt''"
proof -
  let ?A = reading_auth and ?tok = "''h.newer.x''"
  let ?prev = "\<lparr>access_token = ''h.old.x'', refresh_token = Some ''rt'', expires_at = None, decoded_claims = None\<rparr> :: string stored_token"
  let ?r = "bearer_request ?tok [(MCP_SESSION_ID_HEADER, ''s1'')]"
  have A: "jwt (am_store ?A) = reading_jwt" "am_headers ?A = sample_headers" "persistence (am_store ?A) = Some in_memory_ops"
    "am_validation ?A = am_validation (sample_auth Passthrough)" "am_jwks ?A = verifying_jwks"
    by (simp_all add: reading_auth_def)
  have key: "credential_session_key reading_jwt ?tok = credential_session_key reading_jwt ''h.old.x''"
    by (simp add: credential_session_key_def jwt_claim_def reading_claims)
  have other: "credential_session_key reading_jwt ?tok \<noteq> ''s1''"
    by (simp add: credential_session_key_def jwt_claim_def reading_claims)
  have lookup: "passthrough_lookup (am_store ?A) sample_clock ?tok ''s1'' granted_store = (Some ?prev, None, None, granted_store)"
    using other A by (simp add: passthrough_lookup_def peek_token_def get_token_raw_def granted_store_def
        load_token_from_backend_def read_through_def im_get_def keyed_store_def Let_def)
  have same: "same_principal reading_jwt ?tok ''h.old.x''" using key by (simp add: same_principal_def)
  have "\<exists>vb. validate_unknown_bearer (am_validation ?A) (am_jwks ?A) (am_post ?A) sample_clock ?tok granted_store = (Inr vb, granted_store) \<and>
      vb_expires_at vb = None"
    using A by (simp add: validate_unknown_bearer_def effective_policy_def jwks_validate_def verifying_jwks_def ACCEPTED_ALGORITHMS_def
        find_key_def cached_key_def is_stale_def granted_store_def keyed_store_def jwk_kid_def JWKS_CACHE_TTL_def secs_def)
  then obtain vb where vb: "validate_unknown_bearer (am_validation ?A) (am_jwks ?A) (am_post ?A) sample_clock ?tok granted_store = (Inr vb, granted_store)"
    "vb_expires_at vb = None" by blast
  have resolve: "resolve_or_derive_session_id (am_headers ?A) (jwt (am_store ?A)) ?tok ?r = (''s1'', ?r)"
    using A by (simp add: resolve_or_derive_session_id_def)
  have unexpired: "jwt_is_expired reading_jwt sample_clock ?tok \<noteq> Some True"
    by (simp add: jwt_is_expired_def jwt_timestamp_def reading_claims)
  from unknown_bearer_never_downgrades [OF resolve _ _ _ lookup _ vb(1), of sample_waiting] same A vb(2) unexpired
  show ?thesis by (auto simp: granted_store_def)
qed

text \<open>C37. The principal check of passthrough mode does not hold for a bearer that is stored under its
  own grant: Bob, whose token the \<open>/oauth/token\<close> proxy stored, enters the session of another
  principal by naming it, and his token and refresh token replace what the session held.\<close>

theorem own_grant_enters_foreign_session:
  assumes "Option.bind (hdr_get (headers r) MCP_SESSION_ID_HEADER) (to_str (am_headers A)) = Some sid"
    and "hm_get (tokens s) sid = Some alices" "access_token alices \<noteq> bob"
    and "\<not> same_principal (jwt (am_store A)) bob (access_token alices)"
    and "hm_get (tokens s) (credential_session_key (jwt (am_store A)) bob) = Some bobs" "access_token bobs = bob"
    and "credential_session_key (jwt (am_store A)) bob \<noteq> sid"
    and "\<not> is_expired c bobs" "jwt_is_expired (jwt (am_store A)) c bob \<noteq> Some True"
  shows "\<exists>s' t. authorize_passthrough A w c bob r s = Some (Forward (r\<lparr>bearer_ext := Some bob\<rparr>), s') \<and>
    hm_get (tokens s') sid = Some t \<and> access_token t = bob \<and> refresh_token t = refresh_token bobs"
proof -
  have resolve: "resolve_or_derive_session_id (am_headers A) (jwt (am_store A)) bob r = (sid, r)"
    using assms(1) by (simp add: resolve_or_derive_session_id_def)
  have lookup: "passthrough_lookup (am_store A) c bob sid s = (Some alices, None, Some bobs, s)"
    using assms(2,3,5,6,7) by (simp add: passthrough_lookup_def peek_token_def get_token_raw_def Let_def)
  show ?thesis
    using assms(2,3,6,8,9)
    by (simp add: authorize_passthrough_def resolve lookup passthrough_admit_def replacement_def Let_def
        store_token_def apply_decoder_def split: option.split)
qed

definition shared_store :: sample_store where
  "shared_store = fresh_store\<lparr>tokens :=
     [(''s1'', \<lparr>access_token = ''alice'', refresh_token = Some ''ra'', expires_at = None, decoded_claims = None\<rparr>),
      (credential_session_key sample_jwt ''bob'', \<lparr>access_token = ''bob'', refresh_token = None, expires_at = None, decoded_claims = None\<rparr>)]\<rparr>"

theorem own_grant_enters_foreign_session_witness:
  "\<exists>s' t. authorize_passthrough (sample_auth Passthrough) sample_waiting sample_clock ''bob''
       (bearer_request ''bob'' [(MCP_SESSION_ID_HEADER, ''s1'')]) shared_store =
       Some (Forward ((bearer_request ''bob'' [(MCP_SESSION_ID_HEADER, ''s1'')])\<lparr>bearer_ext := Some ''bob''\<rparr>), s') \<and>
     hm_get (tokens s') ''s1'' = Some t \<and> access_token t = ''bob'' \<and> refresh_token t = None"
proof -
  have keys: "credential_session_key sample_jwt ''bob'' \<noteq> credential_session_key sample_jwt ''alice''"
    "credential_session_key sample_jwt ''bob'' \<noteq> ''s1''"
    by (simp_all add: credential_session_key_def jwt_claim_def jwt_payload_def decode_jwt_segment_def
        sample_jwt_def short_hash_def hex_byte_def hex_digit_def)
  have nojwt: "jwt_subject sample_jwt x = None" "jwt_is_expired sample_jwt c x = None" for c x
    by (simp_all add: jwt_subject_def jwt_claim_def jwt_is_expired_def jwt_timestamp_def jwt_payload_def
        decode_jwt_segment_def sample_jwt_def split: list.split option.split)
  have "\<exists>s' t. authorize_passthrough (sample_auth Passthrough) sample_waiting sample_clock ''bob''
       (bearer_request ''bob'' [(MCP_SESSION_ID_HEADER, ''s1'')]) shared_store =
       Some (Forward ((bearer_request ''bob'' [(MCP_SESSION_ID_HEADER, ''s1'')])\<lparr>bearer_ext := Some ''bob''\<rparr>), s') \<and>
     hm_get (tokens s') ''s1'' = Some t \<and> access_token t = ''bob'' \<and>
     refresh_token t = refresh_token (\<lparr>access_token = ''bob'', refresh_token = None, expires_at = None, decoded_claims = None\<rparr> :: string stored_token)"
    using keys nojwt
    by (intro own_grant_enters_foreign_session [where alices = "\<lparr>access_token = ''alice'', refresh_token = Some ''ra'', expires_at = None, decoded_claims = None\<rparr>"])
       (auto simp: shared_store_def same_principal_def is_expired_def)
  then show ?thesis by auto
qed

text \<open>Basic authentication forwards a request exactly when its \<open>Authorization\<close> header decodes to
  the configured user name, a colon and the configured password; the password may contain colons,
  and a user name that contains one can never log in.\<close>

theorem basic_auth_accepts_exactly:
  "(\<exists>r' s'. basic_auth_middleware H E cfg c r s = (Forward r', s')) \<longleftrightarrow>
     CHR '':'' \<notin> set (ba_username cfg) \<and>
     (\<exists>header text encoded. hdr_get (headers r) AUTHORIZATION_HEADER = Some header \<and> to_str H header = Some text \<and>
        (text = BASIC_PREFIX @ encoded \<or> text = BASIC_PREFIX_LOWER @ encoded) \<and>
        b64_decode_utf8 H encoded = Some (ba_username cfg @ CHR '':'' # ba_password cfg))"
proof -
  have "(\<exists>r' s'. basic_auth_middleware H E cfg c r s = (Forward r', s')) \<longleftrightarrow>
      basic_credentials H (headers r) = Some (ba_username cfg, ba_password cfg)"
    by (auto simp: basic_auth_middleware_def Let_def split: option.split prod.split)
  also have "\<dots> \<longleftrightarrow> CHR '':'' \<notin> set (ba_username cfg) \<and>
     (\<exists>header text encoded. hdr_get (headers r) AUTHORIZATION_HEADER = Some header \<and> to_str H header = Some text \<and>
        (text = BASIC_PREFIX @ encoded \<or> text = BASIC_PREFIX_LOWER @ encoded) \<and>
        b64_decode_utf8 H encoded = Some (ba_username cfg @ CHR '':'' # ba_password cfg))"
    by (auto simp: basic_credentials_Some split_once_iff strip_basic)
  finally show ?thesis .
qed

end
