(* ===== verification/Auth_Properties.thy ===== *)
theory Auth_Properties
  imports Middleware_Properties
begin

text \<open>
  Properties of the parts the token store and the middleware are built on: the key cache of the
  issuer, credential identities, the distributed lock and the configuration check.
\<close>

text \<open>The issuer is contacted at most once per cooldown: over any run of bearer validations,
  with whatever tokens (forged \<open>kid\<close>s included) and whatever the network answers, two contacts are
  at least \<open>JWKS_REFRESH_COOLDOWN\<close> apart, counting from the last attempt before the run.\<close>

theorem jwks_fetches_are_spaced:
  "spaced_after JWKS_REFRESH_COOLDOWN (attempted_at cache) (jwks_run v reqs cache)"
  by (rule jwks_run_spaced)

text \<open>Session identities do not collide across families: two credentials derive the same key
  exactly when they agree (up to the hash) on the same kind of source: both on their \<open>sid\<close>, both on
  their \<open>sub\<close>, or both on their bytes.\<close>

theorem session_keys_separate_families:
  "credential_session_key L a = credential_session_key L b \<longleftrightarrow>
     same_identity L (identity_source L a) (identity_source L b)"
  by (rule key_eq_iff)

text \<open>``Strictly newer'' orders the bearers: it is never true both ways, and among three
  bearers that all carry \<open>iat\<close> it is transitive.\<close>

theorem strictly_newer_is_an_order:
  "(jwt_is_strictly_newer L a b = Some True \<longrightarrow> jwt_is_strictly_newer L b a = Some False) \<and>
   (jwt_timestamp L a ''iat'' \<noteq> None \<and> jwt_timestamp L b ''iat'' \<noteq> None \<and> jwt_timestamp L c ''iat'' \<noteq> None \<longrightarrow>
      jwt_is_strictly_newer L a b = Some True \<longrightarrow> jwt_is_strictly_newer L b c = Some True \<longrightarrow>
      jwt_is_strictly_newer L a c = Some True)"
  using newer_by_claims_asym [of L "[''iat'', ''exp'']" a b] by (auto simp: jwt_is_strictly_newer_def)

theorem strictly_newer_is_an_order_witness:
  "jwt_is_strictly_newer reading_jwt ''h.old.x'' ''h.newer.x'' = Some False"
proof -
  have "jwt_is_strictly_newer reading_jwt ''h.newer.x'' ''h.old.x'' = Some True"
    by (simp add: jwt_is_strictly_newer_def jwt_timestamp_def reading_claims u64_max_def)
  with strictly_newer_is_an_order [of reading_jwt "''h.newer.x''" "''h.old.x''"] show ?thesis by blast
qed

text \<open>The refresh lock is exclusive: while one acquisition lasts, no other token acquires it, and
  a late release under another token leaves it with its holder.\<close>

theorem refresh_lock_exclusive:
  assumes "im_try_acquire_lock now ns k tok ttl b = (Inr True, b')" "now \<le> t" "t < now + ttl" "other \<noteq> tok"
  shows "fst (im_try_acquire_lock t ns k other ttl' b') = Inr False \<and>
    fst (im_try_acquire_lock t ns k third ttl' (snd (im_release_lock t ns k other b'))) = Inr False"
proof -
  have acq: "fst (be_try_acquire_lock in_memory_ops now ns k tok ttl b) = Inr True"
    "snd (be_try_acquire_lock in_memory_ops now ns k tok ttl b) = b'"
    using assms(1) by simp_all
  have "im_holder t (snd (im_release_lock t ns k other b')) (ns, k) = Some tok"
    using im_lock.late_release_harmless [OF acq(1) assms(2,3,4)] acq(2) by simp
  with im_lock.exclusive [OF acq(1) assms(2,3), of other ttl'] acq(2) show ?thesis
    using im_lock.acquire_result [of t ns k third ttl' "snd (im_release_lock t ns k other b')"] by simp
qed

theorem refresh_lock_exclusive_witness:
  "fst (im_try_acquire_lock (secs 2) NS_REFRESH_LOCK ''s'' ''b'' REFRESH_LOCK_TTL
     (snd (im_try_acquire_lock (secs 1) NS_REFRESH_LOCK ''s'' ''a'' REFRESH_LOCK_TTL (im_new :: sample_backend)))) = Inr False"
proof -
  let ?b = "snd (im_try_acquire_lock (secs 1) NS_REFRESH_LOCK ''s'' ''a'' REFRESH_LOCK_TTL (im_new :: sample_backend))"
  have "im_try_acquire_lock (secs 1) NS_REFRESH_LOCK ''s'' ''a'' REFRESH_LOCK_TTL (im_new :: sample_backend) = (Inr True, ?b)"
    by (simp add: im_try_acquire_lock_def Let_def)
  from refresh_lock_exclusive [OF this, of "secs 2" "''b''"] show ?thesis
    by (simp add: secs_def REFRESH_LOCK_TTL_def)
qed

text \<open>What the boot-time check guarantees: a configuration it accepts in resource-server mode
  names an audience, and the validator built from it checks that audience with the issuer's keys
  only, never by introspection.\<close>

theorem validated_resource_server_config:
  assumes "validate_config cfg = Inr ()" "oc_token_mode cfg = ResourceServer"
  shows "va_audience (validation_for (validator (configure_unknown_bearer_validation cfg)) alg) =
           Some (oc_expected_audiences cfg) \<and> oc_expected_audiences cfg \<noteq> [] \<and>
    allows_jwks (effective_policy (Some (configure_unknown_bearer_validation cfg))) \<and>
    \<not> allows_introspection (effective_policy (Some (configure_unknown_bearer_validation cfg)))"
proof -
  have aud: "oc_expected_audiences cfg \<noteq> []" using assms validate_config_ok by blast
  then show ?thesis
    using assms(2)
    by (simp add: configure_unknown_bearer_validation_def validation_for_def jwks_validator_new_def
        effective_policy_def effective_unknown_token_validation_def Let_def)
qed

theorem validated_resource_server_config_witness:
  "\<exists>cfg. validate_config cfg = Inr () \<and> oc_token_mode cfg = ResourceServer \<and>
     \<not> allows_introspection (effective_policy (Some (configure_unknown_bearer_validation cfg)))"
proof -
  let ?cfg = "\<lparr>oc_client_id = ''c'', oc_client_secret = None, oc_issuer_url = ''http://i'', oc_redirect_url = '''',
     oc_scopes = [], oc_token_mode = ResourceServer, oc_unknown_token_validation = JwksThenIntrospection,
     oc_expected_audiences = [''api''], oc_allowed_redirect_uris = []\<rparr>"
  have v: "validate_config ?cfg = Inr ()" and m: "oc_token_mode ?cfg = ResourceServer"
    by (simp_all add: validate_config_def)
  from validated_resource_server_config [OF v m] v m show ?thesis by blast
qed

end
