(* ===== verification/Grant_Properties.thy ===== *)
theory Grant_Properties
  imports Store_Properties
begin

text \<open>
  Properties of the rest of the token store: parked authorizations, registered clients,
  purging, and the bearers the proxy did not issue. The last section proves two behaviours in
  which several replicas deviate from what the documentation promises of one.
\<close>

section \<open>Lemmas\<close>


text \<open>No operation of the store unlatches the introspection verdict.\<close>

lemma latch_get_token_raw [simp]:
  "introspection_not_permitted (snd (get_token_raw E c sid s)) = introspection_not_permitted s"
  by (simp add: get_token_raw_def split: option.split)

lemma latch_adopt [simp]:
  "introspection_not_permitted (snd (adopt_persisted_token E c sid s)) = introspection_not_permitted s"
  by (simp add: adopt_persisted_token_def split: option.split)

lemma latch_simple [simp]:
  "introspection_not_permitted (store_token E c sid t s) = introspection_not_permitted s"
  "introspection_not_permitted (store_pending_auth c st v s) = introspection_not_permitted s"
  "introspection_not_permitted (snd (take_pending_auth st s)) = introspection_not_permitted s"
  "introspection_not_permitted (store_proxied_authorization E c st auth s) = introspection_not_permitted s"
  "introspection_not_permitted (snd (take_proxied_authorization E c st s)) = introspection_not_permitted s"
  "introspection_not_permitted (register_client_redirects E c cid us s) = introspection_not_permitted s"
  "introspection_not_permitted (snd (get_client_redirects E c cid s)) = introspection_not_permitted s"
  "introspection_not_permitted (store_opaque_mapping_with_access_ttl E c sid a r ttl s) = introspection_not_permitted s"
  "introspection_not_permitted (expire_opaque_access E c a s) = introspection_not_permitted s"
  "introspection_not_permitted (remove_opaque_for_session E c sid s) = introspection_not_permitted s"
  "introspection_not_permitted (index_grant_refresh E c r k s) = introspection_not_permitted s"
  "introspection_not_permitted (snd (resolve_grant_refresh E c r s)) = introspection_not_permitted s"
  "introspection_not_permitted (remove_grant_refresh E c r s) = introspection_not_permitted s"
  "introspection_not_permitted (hydrate_opaque c sid m s) = introspection_not_permitted s"
  by (simp_all add: store_token_def store_pending_auth_def take_pending_auth_def
      store_proxied_authorization_def take_proxied_authorization_def register_client_redirects_def
      get_client_redirects_def store_opaque_mapping_with_access_ttl_def expire_opaque_access_def
      remove_opaque_for_session_def index_grant_refresh_def resolve_grant_refresh_def
      remove_grant_refresh_def hydrate_opaque_def Let_def split: option.split prod.split)

lemma latch_resolve [simp]:
  "introspection_not_permitted (snd (resolve_opaque_access E c a s)) = introspection_not_permitted s"
  "introspection_not_permitted (snd (resolve_opaque_refresh E c r s)) = introspection_not_permitted s"
  by (simp_all add: resolve_opaque_access_def resolve_opaque_refresh_def split: option.split)

lemma latch_remove_token [simp]:
  "introspection_not_permitted (remove_token E c sid s) = introspection_not_permitted s"
  by (simp add: remove_token_split)

lemma latch_purge [simp]:
  "introspection_not_permitted (purge_expired E c s) = introspection_not_permitted s"
  by (simp add: purge_expired_def Let_def split: prod.split)

lemma latch_load [simp]:
  "introspection_not_permitted (snd (load_persisted E c s)) = introspection_not_permitted s"
  by (simp add: load_persisted_def load_opaque_phase_def split: option.split sum.split prod.split)

lemma latch_do_refresh [simp]:
  "introspection_not_permitted (snd (do_refresh E post c sid s)) = introspection_not_permitted s"
  using do_refresh_cases [of E post c sid s] by auto

lemma latch_wait:
  "wait_refresh_lock E ops dl tok sid c (map (\<lambda>ci. (ci, \<lambda>x. x)) cs) s = Some (r, c', s') \<Longrightarrow>
     introspection_not_permitted s' = introspection_not_permitted s"
proof (induction cs arbitrary: c s)
  case Nil
  have adopt: "adopt_persisted_token E c0 sid x = (r0, s2) \<Longrightarrow>
      introspection_not_permitted s2 = introspection_not_permitted x" for c0 x r0 s2
    using latch_adopt [of E c0 sid x] by simp
  from Nil show ?case
    by (subst (asm) wait_refresh_lock.simps)
       (auto split: prod.splits sum.splits bool.splits option.splits if_splits dest: adopt)
next
  case (Cons c1 cs)
  have adopt: "adopt_persisted_token E c0 sid x = (r0, s2) \<Longrightarrow>
      introspection_not_permitted s2 = introspection_not_permitted x" for c0 x r0 s2
    using latch_adopt [of E c0 sid x] by simp
  from Cons.prems show ?case
    by (subst (asm) wait_refresh_lock.simps)
       (auto split: prod.splits sum.splits bool.splits option.splits if_splits dest: adopt Cons.IH)
qed

lemma latch_locked:
  assumes "refresh_with_distributed_lock E post tok sid c (map (\<lambda>ci. (ci, \<lambda>x. x)) cs) s = Some (r, c', s')"
  shows "introspection_not_permitted s' = introspection_not_permitted s"
proof -
  have adopt: "adopt_persisted_token E c0 sid x = (r0, s2) \<Longrightarrow>
      introspection_not_permitted s2 = introspection_not_permitted x" for c0 x r0 s2
    using latch_adopt [of E c0 sid x] by simp
  have do: "do_refresh E post c0 sid x = (r0, s2) \<Longrightarrow>
      introspection_not_permitted s2 = introspection_not_permitted x" for c0 x r0 s2
    using latch_do_refresh [of E post c0 sid x] by simp
  show ?thesis
    using assms
    by (auto simp: refresh_with_distributed_lock_def release_refresh_lock_def
          split: option.splits prod.splits lock_wait.splits if_splits
          dest!: adopt do latch_wait)
qed

lemma latch_get_refresh_lock [simp]:
  "introspection_not_permitted (get_refresh_lock sid s) = introspection_not_permitted s"
  by (simp add: get_refresh_lock_def)

lemma latch_get_token:
  assumes "get_token E post tok sid c (c1, \<lambda>x. x) (map (\<lambda>ci. (ci, \<lambda>x. x)) cs) s = Some (r, c', s')"
  shows "introspection_not_permitted s' = introspection_not_permitted s"
proof -
  have raw: "get_token_raw E c0 sid x = (r0, s2) \<Longrightarrow>
      introspection_not_permitted s2 = introspection_not_permitted x" for c0 x r0 s2
    using latch_get_token_raw [of E c0 sid x] by simp
  show ?thesis
    using assms
    by (auto simp: get_token_def split: prod.splits option.splits if_splits dest!: raw latch_locked)
qed

lemma introspect_latches:
  "introspect_access_token post c token s = (r, s') \<Longrightarrow> introspection_not_permitted s \<Longrightarrow> s' = s"
  by (auto simp: introspect_access_token_def)

lemma ask_issuer_latches:
  "ask_issuer post pol c token opq jw s = (r, s') \<Longrightarrow> introspection_not_permitted s \<Longrightarrow> introspection_not_permitted s'"
  using ask_issuer_same [of post pol c token opq jw s r s'] by auto

lemma store_step_latched:
  "store_step E s s' \<Longrightarrow> introspection_not_permitted s \<Longrightarrow> introspection_not_permitted s'"
proof (induction rule: store_step.induct)
  case (Get post tok sid c c1 polls s r c' s')
  then show ?case using latch_get_token by blast
next
  case (Validate bv L post c token s r s')
  then show ?case
    by (auto simp: validate_unknown_bearer_def Let_def
        split: if_splits option.splits prod.splits sum.splits dest!: ask_issuer_latches)
next
  case (Validate_Jwks bv L c token s r s')
  then show ?case
    by (auto simp: validate_bearer_via_jwks_def split: option.splits prod.splits sum.splits)
qed simp_all

section \<open>Properties\<close>

text \<open>The introspection verdict is latched: once the server has answered that this OAuth
  client may not introspect, no later request, whatever happened in between, contacts it again
  (the answer is the same for every network \<open>post\<close>).\<close>

theorem introspection_latch:
  assumes "introspect_access_token post0 c0 token0 s0 = (NotPermitted, s)" and "(store_step E)\<^sup>*\<^sup>* s s'"
  shows "introspect_access_token post c token s' = (NotPermitted, s')"
proof -
  have "introspection_not_permitted s"
    using assms(1) by (auto simp: introspect_access_token_def read_introspection_def Let_def
      split: if_splits option.splits http_result.splits sum.splits)
  with assms(2) have "introspection_not_permitted s'"
    by (induction rule: rtranclp_induct) (auto dest: store_step_latched)
  then show ?thesis by (simp add: introspect_access_token_def)
qed

definition forbidding_post :: http_post where
  "forbidding_post url params = Answered 403 (Inl ''forbidden'')"

theorem introspection_latch_witness:
  "introspect_access_token sample_post (later 9) ''jwt''
     (remove_token sample_env (later 1) ''s''
       (snd (introspect_access_token forbidding_post sample_clock ''x'' stale_store))) =
   (NotPermitted, remove_token sample_env (later 1) ''s''
       (snd (introspect_access_token forbidding_post sample_clock ''x'' stale_store)))"
proof -
  let ?s = "snd (introspect_access_token forbidding_post sample_clock ''x'' stale_store)"
  have "introspect_access_token forbidding_post sample_clock ''x'' stale_store = (NotPermitted, ?s)"
    by (simp add: introspect_access_token_def stale_store_def forbidding_post_def is_success_def)
  moreover have "(store_step sample_env)\<^sup>*\<^sup>* ?s (remove_token sample_env (later 1) ''s'' ?s)"
    by (rule r_into_rtranclp) (rule store_step.Remove)
  ultimately show ?thesis by (rule introspection_latch)
qed





text \<open>A parked authorization is single use: after one \<open>take\<close> has returned it, every later
  \<open>take\<close> of the same state returns nothing, on this instance and on every peer that did not
  itself park it.\<close>

theorem proxied_authorization_single_use:
  assumes "persistence E = Some in_memory_ops" "hm_ok (data (backend s))"
    and "take_proxied_authorization E c st s = (Some auth, s')"
    and "peer = s' \<or> (backend peer = backend s' \<and> hm_get (proxied_auths peer) st = None)"
  shows "fst (take_proxied_authorization E c' st peer) = None"
proof -
  note taken = im.proxied_taken [OF assms(1,2,3)]
  have "hm_get (proxied_auths peer) st = None" "backend peer = backend s'"
    using assms(4) taken(1) by auto
  with taken show ?thesis
    using im.proxied_absent [OF assms(1), of peer st c'] by simp
qed

theorem proxied_authorization_single_use_witness:
  "fst (take_proxied_authorization sample_env (later 2) ''st''
     (snd (take_proxied_authorization sample_env (later 1) ''st''
       (store_proxied_authorization sample_env sample_clock ''st'' sample_parked fresh_store)))) = None"
proof -
  let ?s = "store_proxied_authorization sample_env sample_clock ''st'' sample_parked fresh_store"
  have "hm_ok (data (backend ?s))"
    by (simp add: store_proxied_authorization_def write_through_def persist_def persist_raw_def
        sample_serde_def im_set_def Let_def hm_ok_def)
  moreover have "take_proxied_authorization sample_env (later 1) ''st'' ?s =
      (Some sample_parked, snd (take_proxied_authorization sample_env (later 1) ''st'' ?s))"
    by (simp add: store_proxied_authorization_def take_proxied_authorization_def proxied_alive_def
        PROXIED_AUTH_TIMEOUT_def secs_def Let_def)
  ultimately show ?thesis
    using proxied_authorization_single_use [of sample_env ?s "later 1" "''st''" sample_parked] by fastforce
qed

text \<open>Registering a client merges: afterwards the instance that knew the client knows all of
  its earlier URIs, in their order and unchanged, followed by the new ones without duplicates; a
  peer that did not know it reads the same list from the backend.\<close>

theorem registration_merges:
  assumes "persistence E = Some in_memory_ops" "serde_ok (serde E)" "hm_ok (data (backend s))"
    and "hm_get (client_redirects s) cid = Some before" "distinct before"
    and "s' = register_client_redirects E c cid uris s"
    and "peer = s' \<or> (backend peer = backend s' \<and> hm_get (client_redirects peer) cid = None)"
  shows "\<exists>new. fst (get_client_redirects E c' cid peer) = Some (before @ new) \<and>
    distinct (before @ new) \<and> set (before @ new) = set before \<union> set uris"
proof -
  let ?m = "merge_uris before uris"
  obtain v where v: "enc_uris (serde E) ?m = Some v" "dec_uris (serde E) v = Some ?m"
    using assms(2) unfolding serde_ok_def by blast
  have b: "backend s' = persist in_memory_ops c NS_OAUTH_CLIENTS cid (Some v) None (backend s)"
    using assms(1,4,6) v by (simp add: register_client_redirects_def write_through_backend Let_def)
  have "read_through E c' NS_OAUTH_CLIENTS cid peer = Some v" if "backend peer = backend s'"
    using assms(1,3) that b by (simp add: read_through_def persist_def persist_raw_def im_set_def im_get_def)
  moreover have "hm_get (client_redirects s') cid = Some ?m"
    using assms(4,6) by (simp add: register_client_redirects_def Let_def)
  ultimately have "fst (get_client_redirects E c' cid peer) = Some ?m"
    using assms(7) v by (auto simp: get_client_redirects_def)
  with merge_uris_prefix [of before uris] merge_uris_distinct [OF assms(5), of uris] merge_uris_set [of before uris]
  show ?thesis by auto
qed

theorem registration_merges_witness:
  "\<exists>new. fst (get_client_redirects sample_env (later 2) ''client''
       (register_client_redirects sample_env (later 1) ''client'' [''http://b'']
         (register_client_redirects sample_env sample_clock ''client'' [''http://a''] fresh_store)))
     = Some ([''http://a''] @ new)"
proof -
  let ?s = "register_client_redirects sample_env sample_clock ''client'' [''http://a''] fresh_store"
  have "hm_ok (data (backend ?s))" "hm_get (client_redirects ?s) ''client'' = Some [''http://a'']"
    by (simp_all add: register_client_redirects_def write_through_def persist_def persist_raw_def
        sample_serde_def im_set_def Let_def hm_ok_def MAX_CACHED_CLIENTS_def)
  with registration_merges [of sample_env ?s "''client''" "[''http://a'']"
      "register_client_redirects sample_env (later 1) ''client'' [''http://b''] ?s" "later 1" "[''http://b'']"
      "register_client_redirects sample_env (later 1) ''client'' [''http://b''] ?s" "later 2"]
  show ?thesis by auto
qed

text \<open>Purging drops exactly the tokens that are expired and cannot be refreshed: every other
  token stays as it was.\<close>

theorem purge_drops_exactly_dead_tokens:
  assumes "reachable_store E s"
  shows "hm_get (tokens (purge_expired E c s)) sid =
    (case hm_get (tokens s) sid of
       None \<Rightarrow> None
     | Some t \<Rightarrow> if is_expired c t \<and> refresh_token t = None then None else Some t)"
proof -
  have "hm_ok (tokens s)" using reachable_store_ok [OF assms] by (simp add: store_ok_def)
  then show ?thesis by (rule purge_expired_tokens)
qed

theorem purge_drops_exactly_dead_tokens_witness:
  "hm_get (tokens (purge_expired sample_env (later 100) (store_token sample_env sample_clock ''s'' sample_token fresh_store))) ''s'' = None"
proof -
  let ?s = "store_token sample_env sample_clock ''s'' sample_token fresh_store"
  have "reachable_store sample_env ?s"
    unfolding fresh_store_def by (rule reachable_store.Step [OF reachable_store.Start store_step.Store])
  from purge_drops_exactly_dead_tokens [OF this, of "later 100" "''s''"] show ?thesis
    by (simp add: store_token_def Let_def is_expired_def apply_decoder_def sample_token_def secs_def)
qed

text \<open>A deadline survives persistence: read back at the moment it was written, it has moved by
  less than a millisecond in either direction, unless it does not fit 64 bits of milliseconds.\<close>

theorem persisted_deadline_roundtrip:
  assumes "(wall c + (d - mono c)) div 1000000 \<le> u64_max"
  shows "remaining_until_unix_millis c (instant_to_unix_millis c d) < (d - mono c) + millis 1 \<and>
         d - mono c < remaining_until_unix_millis c (instant_to_unix_millis c d) + millis 1"
  using deadline_roundtrip_upper deadline_roundtrip_lower [OF assms] by blast

theorem persisted_deadline_roundtrip_witness:
  "remaining_until_unix_millis sample_clock (instant_to_unix_millis sample_clock (secs 61)) < secs 60 + millis 1"
  using persisted_deadline_roundtrip [of sample_clock "secs 61"] by (simp add: secs_def u64_max_def)

section \<open>Where replicas deviate from the documentation\<close>

text \<open>Single use does not extend to the replica that parked the authorization: when a peer has
  redeemed the state through the backend, the parking replica, whose own memory still holds it,
  redeems it a second time.\<close>

theorem parked_authorization_redeemed_twice:
  assumes "persistence E = Some in_memory_ops" "serde_ok (serde E)" "hm_ok (data (backend s))"
    and "parked = store_proxied_authorization E c st auth s"
    and "backend peer = backend parked" "hm_get (proxied_auths peer) st = None"
    and "take_proxied_authorization E c1 st peer = (r1, peer')"
    and "take_proxied_authorization E c2 st (parked\<lparr>backend := backend peer'\<rparr>) = (r2, parked')"
    and "mono c2 \<le> mono c + PROXIED_AUTH_TIMEOUT"
  shows "r1 = Some auth \<and> r2 = Some auth"
proof -
  obtain v where v: "enc_proxied (serde E) auth = Some v" "dec_proxied (serde E) v = Some auth"
    using assms(2) unfolding serde_ok_def by blast
  have "backend parked = persist in_memory_ops c NS_PROXIED_AUTH st (Some v) (Some PROXIED_AUTH_TIMEOUT) (backend s)"
    using assms(1,4) v by (simp add: store_proxied_authorization_def write_through_backend Let_def)
  then have "read_through E c1 NS_PROXIED_AUTH st (peer\<lparr>proxied_auths := hm_remove st (proxied_auths peer)\<rparr>) = Some v"
    using assms(1,5) by (simp add: read_through_def persist_def persist_raw_def im_set_def im_get_def)
  then have "r1 = Some auth"
    using assms(6,7) v by (auto simp: take_proxied_authorization_def Let_def)
  moreover have "r2 = Some auth"
    using assms(4,8,9)
    by (auto simp: take_proxied_authorization_def store_proxied_authorization_def proxied_alive_def Let_def)
  ultimately show ?thesis by blast
qed

theorem parked_authorization_redeemed_twice_witness:
  "\<exists>peer'. take_proxied_authorization sample_env (later 1) ''st''
       (fresh_store\<lparr>backend := backend (store_proxied_authorization sample_env sample_clock ''st'' sample_parked fresh_store)\<rparr>)
       = (Some sample_parked, peer') \<and>
     fst (take_proxied_authorization sample_env (later 2) ''st''
       ((store_proxied_authorization sample_env sample_clock ''st'' sample_parked fresh_store)\<lparr>backend := backend peer'\<rparr>))
       = Some sample_parked"
proof -
  let ?parked = "store_proxied_authorization sample_env sample_clock ''st'' sample_parked fresh_store"
  let ?peer = "fresh_store\<lparr>backend := backend ?parked\<rparr>"
  obtain r1 peer' where t1: "take_proxied_authorization sample_env (later 1) ''st'' ?peer = (r1, peer')"
    by (cases "take_proxied_authorization sample_env (later 1) ''st'' ?peer")
  obtain r2 parked' where t2: "take_proxied_authorization sample_env (later 2) ''st'' (?parked\<lparr>backend := backend peer'\<rparr>) = (r2, parked')"
    by (cases "take_proxied_authorization sample_env (later 2) ''st'' (?parked\<lparr>backend := backend peer'\<rparr>)")
  have "r1 = Some sample_parked \<and> r2 = Some sample_parked"
    by (rule parked_authorization_redeemed_twice [OF _ _ _ refl _ _ t1 t2])
       (simp_all add: PROXIED_AUTH_TIMEOUT_def secs_def)
  with t1 t2 show ?thesis by auto
qed

text \<open>Merging does not extend to what the instance does not have in memory: a replica that does
  not hold the client (another replica registered it, or this one restarted) replaces the
  persisted list, and a third replica no longer knows the earlier URIs.\<close>

theorem registration_replaces_what_a_peer_registered:
  assumes "persistence E = Some in_memory_ops" "serde_ok (serde E)" "hm_ok (data (backend s))"
    and "first = register_client_redirects E c cid uris s"
    and "backend second = backend first" "hm_get (client_redirects second) cid = None"
    and "second' = register_client_redirects E c1 cid uris' second"
    and "backend third = backend second'" "hm_get (client_redirects third) cid = None"
  shows "fst (get_client_redirects E c2 cid third) = Some (merge_uris [] uris')"
proof -
  let ?m = "merge_uris [] uris'"
  obtain v where v: "enc_uris (serde E) ?m = Some v" "dec_uris (serde E) v = Some ?m"
    using assms(2) unfolding serde_ok_def by blast
  have "backend second' = persist in_memory_ops c1 NS_OAUTH_CLIENTS cid (Some v) None (backend second)"
    using assms(1,6,7) v by (simp add: register_client_redirects_def write_through_backend Let_def)
  then have "read_through E c2 NS_OAUTH_CLIENTS cid third = Some v"
    using assms(1,8) by (simp add: read_through_def persist_def persist_raw_def im_set_def im_get_def)
  with assms(9) v show ?thesis by (simp add: get_client_redirects_def)
qed

theorem registration_replaces_what_a_peer_registered_witness:
  "fst (get_client_redirects sample_env (later 2) ''client''
     (fresh_store\<lparr>backend := backend (register_client_redirects sample_env (later 1) ''client'' [''http://b'']
        (fresh_store\<lparr>backend := backend (register_client_redirects sample_env sample_clock ''client'' [''http://a''] fresh_store)\<rparr>))\<rparr>))
   = Some [''http://b'']"
proof -
  let ?first = "register_client_redirects sample_env sample_clock ''client'' [''http://a''] fresh_store"
  let ?second = "fresh_store\<lparr>backend := backend ?first\<rparr>"
  let ?third = "fresh_store\<lparr>backend := backend (register_client_redirects sample_env (later 1) ''client'' [''http://b''] ?second)\<rparr>"
  have "fst (get_client_redirects sample_env (later 2) ''client'' ?third) = Some (merge_uris [] [''http://b''])"
    by (rule registration_replaces_what_a_peer_registered [OF _ _ _ refl _ _ refl,
          where s = fresh_store and second = ?second and c = sample_clock and uris = "[''http://a'']"])
       simp_all
  then show ?thesis by simp
qed

end
