(* ===== verification/Sessions.thy ===== *)
theory Sessions
  imports Token_Refresh
begin

text \<open>
  The typed session store, \<open>src/src/session/mod.rs\<close>: an in-memory cache of the sessions in front
  of the persistence backend, which is authoritative. Every operation that can write a record runs
  under a lock of the backend (\<open>with_session_lock\<close>); the waits for it follow a schedule, as in
  \<open>Token_Refresh\<close>, which gives the moment of each poll and what the peers did to the backend.
\<close>

definition NS_SESSIONS :: string where "NS_SESSIONS = ''sessions''"
definition NS_SESSION_LOCK :: string where "NS_SESSION_LOCK = ''session_lock''"
definition SESSION_LOCK_TTL :: duration where "SESSION_LOCK_TTL = REFRESH_LOCK_TTL"
definition SESSION_LOCK_WAIT :: duration where "SESSION_LOCK_WAIT = REFRESH_LOCK_WAIT"

lemma session_ns_distinct [simp]: "NS_SESSIONS \<noteq> NS_SESSION_LOCK" "NS_SESSION_LOCK \<noteq> NS_SESSIONS"
  by (simp_all add: NS_SESSIONS_def NS_SESSION_LOCK_def)

text \<open>The last access is an \<open>Instant\<close> that may lie before the monotonic clock's origin.\<close>

record 't session_entry =
  se_data :: 't
  last_access :: int

record 't persisted_session =
  ps_data :: 't
  ps_expires_at_unix_ms :: "nat option"
  ps_remaining_ttl_secs :: "nat option"

record ('b, 'v, 't) session_env =
  ss_persistence :: "('b, 'v) backend_ops option"
  ss_ttl :: duration
  ss_default :: 't
  enc_session :: "'t persisted_session \<Rightarrow> 'v option"
  dec_session :: "'v \<Rightarrow> 't persisted_session option"

record ('b, 't) session_store =
  sessions :: "(string \<times> 't session_entry) list"
  ss_backend :: 'b

definition session_store_new :: "'b \<Rightarrow> ('b, 't) session_store" where
  "session_store_new b = \<lparr>sessions = [], ss_backend = b\<rparr>"

definition persist_entry :: "('b, 'v, 't) session_env \<Rightarrow> clock \<Rightarrow> string \<Rightarrow> 't \<Rightarrow> 'b \<Rightarrow> 'b" where
  "persist_entry E c sid d b =
     (case ss_persistence E of
        None \<Rightarrow> b
      | Some ops \<Rightarrow>
          persist ops c NS_SESSIONS sid
            (enc_session E \<lparr>ps_data = d,
               ps_expires_at_unix_ms = Some (instant_to_unix_millis c (mono c + ss_ttl E)),
               ps_remaining_ttl_secs = None\<rparr>)
            (Some (ss_ttl E)) b)"

definition load_session_from_backend :: "('b, 'v, 't) session_env \<Rightarrow> clock \<Rightarrow> string \<Rightarrow> 'b \<Rightarrow> 't option \<times> 'b" where
  "load_session_from_backend E c sid b =
     (case ss_persistence E of
        None \<Rightarrow> (None, b)
      | Some ops \<Rightarrow>
          (case be_get ops (mono c) NS_SESSIONS sid b of
             Inl e \<Rightarrow> (None, b)
           | Inr None \<Rightarrow> (None, b)
           | Inr (Some bytes) \<Rightarrow>
               (case dec_session E bytes of
                  None \<Rightarrow> (None, b)
                | Some p \<Rightarrow>
                    if (case ps_expires_at_unix_ms p of
                          Some deadline \<Rightarrow> remaining_until_unix_millis c deadline = 0
                        | None \<Rightarrow> False)
                    then (None, discard ops c NS_SESSIONS sid b)
                    else (Some (ps_data p), b))))"

section \<open>The per-session lock\<close>

fun acquire_session_lock :: "('b, 'v) backend_ops \<Rightarrow> string \<Rightarrow> instant \<Rightarrow> string \<Rightarrow> clock \<Rightarrow> 'b wakeup list \<Rightarrow>
    'b \<Rightarrow> (bool \<times> clock \<times> 'b) option" where
  "acquire_session_lock ops owner deadline sid c ws b =
     (case be_try_acquire_lock ops (mono c) NS_SESSION_LOCK sid owner SESSION_LOCK_TTL b of
        (Inr True, b1) \<Rightarrow> Some (True, c, b1)
      | (Inr False, b1) \<Rightarrow>
          if mono c < deadline then
            (case ws of
               [] \<Rightarrow> None
             | (c', others) # ws' \<Rightarrow> acquire_session_lock ops owner deadline sid c' ws' (others b1))
          else Some (False, c, b1)
      | (Inl e, b1) \<Rightarrow> Some (False, c, b1))"

declare acquire_session_lock.simps [simp del]

text \<open>
  The frame of every operation: wait for the lock, run the body at the moment the wait ended, and
  release the lock if it was acquired. \<open>None\<close> when the wait outlasts its schedule.
\<close>

definition with_session_lock :: "('b, 'v, 't) session_env \<Rightarrow> string \<Rightarrow> string \<Rightarrow> clock \<Rightarrow> 'b wakeup list \<Rightarrow>
    (clock \<Rightarrow> ('b, 't) session_store \<Rightarrow> 'r \<times> ('b, 't) session_store) \<Rightarrow>
    ('b, 't) session_store \<Rightarrow> ('r \<times> ('b, 't) session_store) option" where
  "with_session_lock E owner sid c ws body s =
     (case ss_persistence E of
        None \<Rightarrow> Some (body c s)
      | Some ops \<Rightarrow>
          (case acquire_session_lock ops owner (mono c + SESSION_LOCK_WAIT) sid c ws (ss_backend s) of
             None \<Rightarrow> None
           | Some (holding, c1, b1) \<Rightarrow>
               (case body c1 (s\<lparr>ss_backend := b1\<rparr>) of
                  (r, s1) \<Rightarrow>
                    Some (r, if holding
                             then s1\<lparr>ss_backend := snd (be_release_lock ops (mono c1) NS_SESSION_LOCK sid owner (ss_backend s1))\<rparr>
                             else s1))))"

section \<open>The operations, under the lock\<close>

definition cached_session :: "string \<Rightarrow> ('b, 't) session_store \<Rightarrow> 't option" where
  "cached_session sid s = map_option se_data (hm_get (sessions s) sid)"

definition get_or_create_body :: "('b, 'v, 't) session_env \<Rightarrow> string \<Rightarrow> clock \<Rightarrow> ('b, 't) session_store \<Rightarrow>
    't \<times> ('b, 't) session_store" where
  "get_or_create_body E sid c s =
     (let (loaded, b) = load_session_from_backend E c sid (ss_backend s);
          cached = cached_session sid s;
          is_new = (loaded = None \<and> cached = None);
          d = (case loaded of Some x \<Rightarrow> x | None \<Rightarrow> (case cached of Some x \<Rightarrow> x | None \<Rightarrow> ss_default E))
      in (d, \<lparr>sessions = hm_insert sid \<lparr>se_data = d, last_access = int (mono c)\<rparr> (sessions s),
              ss_backend = (if ss_persistence E \<noteq> None \<or> is_new then persist_entry E c sid d b else b)\<rparr>))"

definition get_body :: "('b, 'v, 't) session_env \<Rightarrow> string \<Rightarrow> clock \<Rightarrow> ('b, 't) session_store \<Rightarrow>
    't option \<times> ('b, 't) session_store" where
  "get_body E sid c s =
     (let (persisted, b) = load_session_from_backend E c sid (ss_backend s)
      in case (case persisted of Some x \<Rightarrow> Some x | None \<Rightarrow> cached_session sid s) of
           None \<Rightarrow> (None, s\<lparr>ss_backend := b\<rparr>)
         | Some d \<Rightarrow>
             (Some d, \<lparr>sessions = hm_insert sid \<lparr>se_data = d, last_access = int (mono c)\<rparr> (sessions s),
                       ss_backend = (if ss_persistence E \<noteq> None then persist_entry E c sid d b else b)\<rparr>))"

definition update_body :: "('b, 'v, 't) session_env \<Rightarrow> ('t \<Rightarrow> 't) \<Rightarrow> string \<Rightarrow> clock \<Rightarrow> ('b, 't) session_store \<Rightarrow>
    't \<times> ('b, 't) session_store" where
  "update_body E f sid c s =
     (let (loaded, b) = load_session_from_backend E c sid (ss_backend s);
          d = f (case loaded of Some x \<Rightarrow> x
                 | None \<Rightarrow> (case cached_session sid s of Some x \<Rightarrow> x | None \<Rightarrow> ss_default E))
      in (d, \<lparr>sessions = hm_insert sid \<lparr>se_data = d, last_access = int (mono c)\<rparr> (sessions s),
              ss_backend = persist_entry E c sid d b\<rparr>))"

definition remove_body :: "('b, 'v, 't) session_env \<Rightarrow> string \<Rightarrow> clock \<Rightarrow> ('b, 't) session_store \<Rightarrow>
    't option \<times> ('b, 't) session_store" where
  "remove_body E sid c s =
     (let (persisted, b) = load_session_from_backend E c sid (ss_backend s);
          removed = (case persisted of Some x \<Rightarrow> Some x | None \<Rightarrow> cached_session sid s)
      in (removed, \<lparr>sessions = hm_remove sid (sessions s),
                    ss_backend = (case (removed, ss_persistence E) of
                       (Some _, Some ops) \<Rightarrow> discard ops c NS_SESSIONS sid b
                     | _ \<Rightarrow> b)\<rparr>))"

definition session_get_or_create :: "('b, 'v, 't) session_env \<Rightarrow> string \<Rightarrow> clock \<Rightarrow> 'b wakeup list \<Rightarrow> string \<Rightarrow>
    ('b, 't) session_store \<Rightarrow> ('t \<times> ('b, 't) session_store) option" where
  "session_get_or_create E owner c ws sid = with_session_lock E owner sid c ws (get_or_create_body E sid)"

definition session_get :: "('b, 'v, 't) session_env \<Rightarrow> string \<Rightarrow> clock \<Rightarrow> 'b wakeup list \<Rightarrow> string \<Rightarrow>
    ('b, 't) session_store \<Rightarrow> ('t option \<times> ('b, 't) session_store) option" where
  "session_get E owner c ws sid = with_session_lock E owner sid c ws (get_body E sid)"

definition session_update :: "('b, 'v, 't) session_env \<Rightarrow> string \<Rightarrow> clock \<Rightarrow> 'b wakeup list \<Rightarrow> string \<Rightarrow>
    ('t \<Rightarrow> 't) \<Rightarrow> ('b, 't) session_store \<Rightarrow> ('t \<times> ('b, 't) session_store) option" where
  "session_update E owner c ws sid f = with_session_lock E owner sid c ws (update_body E f sid)"

definition session_remove :: "('b, 'v, 't) session_env \<Rightarrow> string \<Rightarrow> clock \<Rightarrow> 'b wakeup list \<Rightarrow> string \<Rightarrow>
    ('b, 't) session_store \<Rightarrow> ('t option \<times> ('b, 't) session_store) option" where
  "session_remove E owner c ws sid = with_session_lock E owner sid c ws (remove_body E sid)"

section \<open>Purging\<close>

definition idle_sessions :: "('b, 'v, 't) session_env \<Rightarrow> clock \<Rightarrow> ('b, 't) session_store \<Rightarrow> string list" where
  "idle_sessions E c s =
     map fst (filter (\<lambda>(_, e). max 0 (int (mono c) - last_access e) \<ge> int (ss_ttl E)) (sessions s))"

text \<open>The expired keys are looked at in the backend one by one, each with its lock and its schedule.\<close>

fun sweep_persisted :: "('b, 'v, 't) session_env \<Rightarrow> string \<Rightarrow> (clock \<times> 'b wakeup list) list \<Rightarrow> string list \<Rightarrow>
    ('b, 't) session_store \<Rightarrow> ('b, 't) session_store option" where
  "sweep_persisted E owner sched [] s = Some s"
| "sweep_persisted E owner [] (k # ks) s = None"
| "sweep_persisted E owner ((c, ws) # sched) (k # ks) s =
     (case with_session_lock E owner k c ws
             (\<lambda>c1 s1. ((), s1\<lparr>ss_backend := snd (load_session_from_backend E c1 k (ss_backend s1))\<rparr>)) s of
        None \<Rightarrow> None
      | Some (_, s1) \<Rightarrow> sweep_persisted E owner sched ks s1)"

definition session_purge_expired :: "('b, 'v, 't) session_env \<Rightarrow> string \<Rightarrow> clock \<Rightarrow> (clock \<times> 'b wakeup list) list \<Rightarrow>
    ('b, 't) session_store \<Rightarrow> ('b, 't) session_store option" where
  "session_purge_expired E owner c sched s =
     (let ks = idle_sessions E c s
      in sweep_persisted E owner sched ks (s\<lparr>sessions := fold hm_remove ks (sessions s)\<rparr>))"

section \<open>Restoring at start\<close>

definition restored_entry :: "('b, 'v, 't) session_env \<Rightarrow> clock \<Rightarrow> 't persisted_session \<Rightarrow> 't session_entry option" where
  "restored_entry E c p =
     (let remaining = (case ps_expires_at_unix_ms p of
            Some deadline \<Rightarrow> remaining_until_unix_millis c deadline
          | None \<Rightarrow> secs (case ps_remaining_ttl_secs p of Some n \<Rightarrow> n | None \<Rightarrow> 0))
      in if remaining = 0 then None
         else Some \<lparr>se_data = ps_data p,
                    last_access = int (mono c) - int (ss_ttl E - min remaining (ss_ttl E))\<rparr>)"

fun load_entries :: "('b, 'v, 't) session_env \<Rightarrow> ('b, 'v) backend_ops \<Rightarrow> clock \<Rightarrow> string list \<Rightarrow>
    (string \<times> 't session_entry) list \<Rightarrow> 'b \<Rightarrow> (persistence_error + (string \<times> 't session_entry) list) \<times> 'b" where
  "load_entries E ops c [] acc b = (Inr acc, b)"
| "load_entries E ops c (k # ks) acc b =
     (case be_get ops (mono c) NS_SESSIONS k b of
        Inl e \<Rightarrow> (Inl e, b)
      | Inr None \<Rightarrow> load_entries E ops c ks acc b
      | Inr (Some bytes) \<Rightarrow>
          (case dec_session E bytes of
             None \<Rightarrow> load_entries E ops c ks acc b
           | Some p \<Rightarrow>
               (case restored_entry E c p of
                  Some entry \<Rightarrow> load_entries E ops c ks (acc @ [(k, entry)]) b
                | None \<Rightarrow>
                    (case be_delete ops (mono c) NS_SESSIONS k b of
                       (Inl e, b1) \<Rightarrow> (Inl e, b1)
                     | (Inr _, b1) \<Rightarrow> load_entries E ops c ks acc b1))))"

definition load_persisted_sessions :: "('b, 'v, 't) session_env \<Rightarrow> clock \<Rightarrow> ('b, 't) session_store \<Rightarrow>
    (persistence_error + unit) \<times> ('b, 't) session_store" where
  "load_persisted_sessions E c s =
     (case ss_persistence E of
        None \<Rightarrow> (Inr (), s)
      | Some ops \<Rightarrow>
          (case be_keys ops (mono c) NS_SESSIONS (ss_backend s) of
             Inl e \<Rightarrow> (Inl e, s)
           | Inr ks \<Rightarrow>
               (case load_entries E ops c ks [] (ss_backend s) of
                  (Inl e, b) \<Rightarrow> (Inl e, s\<lparr>ss_backend := b\<rparr>)
                | (Inr entries, b) \<Rightarrow>
                    (Inr (), \<lparr>sessions = fold (\<lambda>(k, e) m. hm_insert k e m) entries (sessions s), ss_backend = b\<rparr>))))"

definition session_count :: "('b, 't) session_store \<Rightarrow> nat" where
  "session_count s = length (sessions s)"

definition sessions_empty :: "('b, 't) session_store \<Rightarrow> bool" where
  "sessions_empty s \<longleftrightarrow> sessions s = []"

end
