(* ===== verification/Session_Facts.thy ===== *)
theory Session_Facts
  imports Sessions
begin

text \<open>
  Lemmas on the session store: what a record written by one replica is to another, that the wait
  for the lock ends, what purging and restoring keep.
\<close>

definition session_serde_ok :: "('b, 'v, 't) session_env \<Rightarrow> bool" where
  "session_serde_ok E \<longleftrightarrow> (\<forall>p. \<exists>v. enc_session E p = Some v \<and> dec_session E v = Some p)"

text \<open>A record written at \<open>c\<close> has not expired at \<open>c2\<close>, by either clock.\<close>

definition within_ttl :: "('b, 'v, 't) session_env \<Rightarrow> clock \<Rightarrow> clock \<Rightarrow> bool" where
  "within_ttl E c c2 \<longleftrightarrow> mono c \<le> mono c2 \<and> mono c2 < mono c + ss_ttl E \<and>
     remaining_until_unix_millis c2 (instant_to_unix_millis c (mono c + ss_ttl E)) \<noteq> 0"

text \<open>The backend, in a good state, holds \<open>d\<close> for the session, as written at \<open>c\<close>.\<close>

definition holds_session :: "('b \<Rightarrow> bool) \<Rightarrow> ('b, 'v, 't) session_env \<Rightarrow> clock \<Rightarrow> string \<Rightarrow> 't \<Rightarrow> 'b \<Rightarrow> bool" where
  "holds_session good E c sid d b \<longleftrightarrow> good b \<and>
     (\<forall>c2. within_ttl E c c2 \<longrightarrow> load_session_from_backend E c2 sid b = (Some d, b))"

section \<open>On a coordinated backend\<close>

context coordinated_backend
begin

lemma acquire_session_lock_frame:
  assumes "acquire_session_lock ops owner dl sid c [] b = Some (h, c1, b1)" "binv b"
  shows "c1 = c \<and> binv b1 \<and> (\<forall>t k. look t b1 (NS_SESSIONS, k) = look t b (NS_SESSIONS, k))"
proof -
  let ?acq = "be_try_acquire_lock ops (mono c) NS_SESSION_LOCK sid owner SESSION_LOCK_TTL b"
  have "c1 = c \<and> b1 = snd ?acq"
    using assms(1)
    by (subst (asm) acquire_session_lock.simps) (auto split: prod.splits sum.splits bool.splits if_splits)
  then show ?thesis using assms(2) by (simp add: acquire_inv acquire_look)
qed

text \<open>What the frame leaves of a body's effect on the records, when the lock was free.\<close>

lemma with_session_lock_frame:
  assumes "ss_persistence E = Some ops" "binv (ss_backend s)"
    and "with_session_lock E owner sid c [] body s = Some (r, s')"
    and body: "\<And>b. binv b \<Longrightarrow> binv (ss_backend (snd (body c (s\<lparr>ss_backend := b\<rparr>))))"
  shows "\<exists>b. binv b \<and> (\<forall>t k. look t b (NS_SESSIONS, k) = look t (ss_backend s) (NS_SESSIONS, k)) \<and>
    r = fst (body c (s\<lparr>ss_backend := b\<rparr>)) \<and> sessions s' = sessions (snd (body c (s\<lparr>ss_backend := b\<rparr>))) \<and>
    binv (ss_backend s') \<and>
    (\<forall>t k. look t (ss_backend s') (NS_SESSIONS, k) = look t (ss_backend (snd (body c (s\<lparr>ss_backend := b\<rparr>)))) (NS_SESSIONS, k))"
proof -
  obtain h c1 b1 where acq: "acquire_session_lock ops owner (mono c + SESSION_LOCK_WAIT) sid c [] (ss_backend s) = Some (h, c1, b1)"
    using assms(1,3) by (auto simp: with_session_lock_def split: option.splits)
  have b1: "c1 = c" "binv b1" "\<forall>t k. look t b1 (NS_SESSIONS, k) = look t (ss_backend s) (NS_SESSIONS, k)"
    using acquire_session_lock_frame [OF acq assms(2)] by auto
  obtain x y where xy: "body c (s\<lparr>ss_backend := b1\<rparr>) = (x, y)" by (cases "body c (s\<lparr>ss_backend := b1\<rparr>)")
  have "binv (ss_backend y)" using body [OF b1(2)] xy by simp
  moreover have "r = x" "s' = y \<or> s' = y\<lparr>ss_backend := snd (be_release_lock ops (mono c) NS_SESSION_LOCK sid owner (ss_backend y))\<rparr>"
    using assms(1,3) acq b1(1) xy by (auto simp: with_session_lock_def split: if_splits)
  ultimately show ?thesis
    using b1 xy by (intro exI [of _ b1]) (auto simp: release_inv release_look)
qed

subsection \<open>Records of one session\<close>

lemma load_inv: "binv b \<Longrightarrow> ss_persistence E = Some ops \<Longrightarrow> binv (snd (load_session_from_backend E c sid b))"
  by (simp add: load_session_from_backend_def get_law discard_inv split: option.split)

lemma load_look_other:
  "binv b \<Longrightarrow> ss_persistence E = Some ops \<Longrightarrow> p \<noteq> (NS_SESSIONS, sid) \<Longrightarrow>
     look t (snd (load_session_from_backend E c sid b)) p = look t b p"
  by (simp add: load_session_from_backend_def get_law discard_other split: option.split)

lemma load_cong:
  assumes "binv b" "binv b'" "ss_persistence E = Some ops" "look (mono c) b' (NS_SESSIONS, sid) = look (mono c) b (NS_SESSIONS, sid)"
    and "load_session_from_backend E c sid b = (Some d, b)"
  shows "load_session_from_backend E c sid b' = (Some d, b')"
  using assms by (auto simp: load_session_from_backend_def get_law split: option.splits if_splits)

lemma load_none:
  "binv b \<Longrightarrow> ss_persistence E = Some ops \<Longrightarrow> look (mono c) b (NS_SESSIONS, sid) = None \<Longrightarrow>
     load_session_from_backend E c sid b = (None, b)"
  by (simp add: load_session_from_backend_def get_law)

lemma holds_cong:
  assumes "holds_session binv E c sid d b" "binv b'" "ss_persistence E = Some ops"
    and "\<forall>t. look t b' (NS_SESSIONS, sid) = look t b (NS_SESSIONS, sid)"
  shows "holds_session binv E c sid d b'"
  using assms load_cong [of b b' E _ sid d] unfolding holds_session_def by blast

lemma persist_entry_holds:
  assumes "binv b" "ss_persistence E = Some ops" "session_serde_ok E"
  shows "holds_session binv E c sid d (persist_entry E c sid d b)"
proof -
  let ?p = "\<lparr>ps_data = d, ps_expires_at_unix_ms = Some (instant_to_unix_millis c (mono c + ss_ttl E)), ps_remaining_ttl_secs = None\<rparr>"
  obtain v where v: "enc_session E ?p = Some v" "dec_session E v = Some ?p"
    using assms(3) unfolding session_serde_ok_def by blast
  have b: "persist_entry E c sid d b = persist ops c NS_SESSIONS sid (Some v) (Some (ss_ttl E)) b"
    using assms(2) v by (simp add: persist_entry_def)
  have inv: "binv (persist_entry E c sid d b)" unfolding b using assms(1) by (rule persist_inv)
  have "load_session_from_backend E c2 sid (persist_entry E c sid d b) = (Some d, persist_entry E c sid d b)"
    if "within_ttl E c c2" for c2
  proof -
    have "look (mono c2) (persist_entry E c sid d b) (NS_SESSIONS, sid) = Some v"
      unfolding b using assms(1) that by (intro persist_same_ttl) (auto simp: within_ttl_def)
    with inv that assms(2) v show ?thesis
      by (simp add: load_session_from_backend_def get_law within_ttl_def)
  qed
  with inv show ?thesis by (simp add: holds_session_def)
qed

lemma body_inv:
  assumes "binv (ss_backend s)" "ss_persistence E = Some ops" "session_serde_ok E"
  shows "binv (ss_backend (snd (update_body E f sid c s)))" "binv (ss_backend (snd (get_body E sid c s)))"
    "binv (ss_backend (snd (remove_body E sid c s)))" "binv (ss_backend (snd (get_or_create_body E sid c s)))"
  using load_inv [OF assms(1,2), of c sid] persist_entry_holds [OF _ assms(2,3)] assms
  by (auto simp: update_body_def get_body_def remove_body_def get_or_create_body_def Let_def discard_inv
      holds_session_def split: prod.split option.split)

lemma body_inv_at:
  assumes "binv b" "ss_persistence E = Some ops" "session_serde_ok E"
  shows "binv (ss_backend (snd (update_body E f sid c (s\<lparr>ss_backend := b\<rparr>))))"
    "binv (ss_backend (snd (get_body E sid c (s\<lparr>ss_backend := b\<rparr>))))"
    "binv (ss_backend (snd (remove_body E sid c (s\<lparr>ss_backend := b\<rparr>))))"
  using body_inv [of "s\<lparr>ss_backend := b\<rparr>"] assms by simp_all

text \<open>An update leaves its result in the backend.\<close>

lemma update_holds:
  assumes "ss_persistence E = Some ops" "session_serde_ok E" "binv (ss_backend s)"
    and "session_update E owner c [] sid f s = Some (d, s')"
  shows "holds_session binv E c sid d (ss_backend s')"
proof -
  obtain b where b: "binv b" "d = fst (update_body E f sid c (s\<lparr>ss_backend := b\<rparr>))" "binv (ss_backend s')"
    "\<forall>t k. look t (ss_backend s') (NS_SESSIONS, k) = look t (ss_backend (snd (update_body E f sid c (s\<lparr>ss_backend := b\<rparr>)))) (NS_SESSIONS, k)"
    using with_session_lock_frame [OF assms(1,3) assms(4) [unfolded session_update_def], OF body_inv_at(1) [OF _ assms(1,2)]] by blast
  have "holds_session binv E c sid d (ss_backend (snd (update_body E f sid c (s\<lparr>ss_backend := b\<rparr>))))"
    using b(2) persist_entry_holds [OF load_inv [OF b(1) assms(1), of c sid] assms(1,2), of c sid]
    by (cases "load_session_from_backend E c sid b") (simp add: update_body_def Let_def)
  then show ?thesis by (rule holds_cong [OF _ b(3) assms(1)]) (simp add: b(4))
qed

text \<open>What a replica reads or updates is what the backend holds, whatever it has cached.\<close>

lemma update_reads:
  assumes "ss_persistence E = Some ops" "session_serde_ok E" "holds_session binv E c0 sid d (ss_backend s)"
    and "within_ttl E c0 c" "session_update E owner c [] sid f s = Some (d', s')"
  shows "d' = f d"
proof -
  have inv: "binv (ss_backend s)" using assms(3) by (simp add: holds_session_def)
  obtain b where b: "binv b" "d' = fst (update_body E f sid c (s\<lparr>ss_backend := b\<rparr>))"
    "\<forall>t k. look t b (NS_SESSIONS, k) = look t (ss_backend s) (NS_SESSIONS, k)"
    using with_session_lock_frame [OF assms(1) inv assms(5) [unfolded session_update_def], OF body_inv_at(1) [OF _ assms(1,2)]] by blast
  have "load_session_from_backend E c sid b = (Some d, b)"
    using holds_cong [OF assms(3) b(1) assms(1)] b(3) assms(4) by (auto simp: holds_session_def)
  with b(2) show ?thesis by (simp add: update_body_def Let_def)
qed

lemma get_reads:
  assumes "ss_persistence E = Some ops" "session_serde_ok E" "holds_session binv E c0 sid d (ss_backend s)"
    and "within_ttl E c0 c" "session_get E owner c [] sid s = Some (r, s')"
  shows "r = Some d \<and> holds_session binv E c sid d (ss_backend s')"
proof -
  have inv: "binv (ss_backend s)" using assms(3) by (simp add: holds_session_def)
  obtain b where b: "binv b" "r = fst (get_body E sid c (s\<lparr>ss_backend := b\<rparr>))" "binv (ss_backend s')"
    "\<forall>t k. look t b (NS_SESSIONS, k) = look t (ss_backend s) (NS_SESSIONS, k)"
    "\<forall>t k. look t (ss_backend s') (NS_SESSIONS, k) = look t (ss_backend (snd (get_body E sid c (s\<lparr>ss_backend := b\<rparr>)))) (NS_SESSIONS, k)"
    using with_session_lock_frame [OF assms(1) inv assms(5) [unfolded session_get_def], OF body_inv_at(2) [OF _ assms(1,2)]] by blast
  have load: "load_session_from_backend E c sid b = (Some d, b)"
    using holds_cong [OF assms(3) b(1) assms(1)] b(4) assms(4) by (auto simp: holds_session_def)
  then have "snd (get_body E sid c (s\<lparr>ss_backend := b\<rparr>)) =
      \<lparr>sessions = hm_insert sid \<lparr>se_data = d, last_access = int (mono c)\<rparr> (sessions s), ss_backend = persist_entry E c sid d b\<rparr>"
    and r: "r = Some d" using b(2) assms(1) by (simp_all add: get_body_def)
  then have "holds_session binv E c sid d (ss_backend s')"
    using holds_cong [OF persist_entry_holds [OF b(1) assms(1,2)] b(3) assms(1)] b(5) by auto
  with r show ?thesis by blast
qed

text \<open>A removal leaves nothing in the backend, when there was something to remove.\<close>

lemma remove_erases:
  assumes "ss_persistence E = Some ops" "session_serde_ok E" "binv (ss_backend s)"
    and "session_remove E owner c [] sid s = Some (Some d, s')"
  shows "binv (ss_backend s') \<and> look t (ss_backend s') (NS_SESSIONS, sid) = None \<and> hm_get (sessions s') sid = None"
proof -
  obtain b where b: "binv b" "Some d = fst (remove_body E sid c (s\<lparr>ss_backend := b\<rparr>))" "binv (ss_backend s')"
    "sessions s' = sessions (snd (remove_body E sid c (s\<lparr>ss_backend := b\<rparr>)))"
    "\<forall>t k. look t (ss_backend s') (NS_SESSIONS, k) = look t (ss_backend (snd (remove_body E sid c (s\<lparr>ss_backend := b\<rparr>)))) (NS_SESSIONS, k)"
    using with_session_lock_frame [OF assms(1,3) assms(4) [unfolded session_remove_def], OF body_inv_at(3) [OF _ assms(1,2)]] by blast
  have "look t (ss_backend (snd (remove_body E sid c (s\<lparr>ss_backend := b\<rparr>)))) (NS_SESSIONS, sid) = None"
    using b(1,2) load_inv [OF b(1) assms(1), of c sid] assms(1)
    by (auto simp: remove_body_def Let_def discard_same split: prod.splits option.splits)
  moreover have "hm_get (sessions s') sid = None"
    using b(4) by (simp add: remove_body_def Let_def split: prod.split)
  ultimately show ?thesis using b(3,5) by simp
qed

text \<open>A replica that has the session cached answers from its cache, and writes it back.\<close>

lemma get_resurrects:
  assumes "ss_persistence E = Some ops" "session_serde_ok E" "binv (ss_backend s)"
    and "look (mono c) (ss_backend s) (NS_SESSIONS, sid) = None" "hm_get (sessions s) sid = Some e"
    and "session_get E owner c [] sid s = Some (r, s')"
  shows "r = Some (se_data e) \<and> holds_session binv E c sid (se_data e) (ss_backend s')"
proof -
  obtain b where b: "binv b" "r = fst (get_body E sid c (s\<lparr>ss_backend := b\<rparr>))" "binv (ss_backend s')"
    "\<forall>t k. look t b (NS_SESSIONS, k) = look t (ss_backend s) (NS_SESSIONS, k)"
    "\<forall>t k. look t (ss_backend s') (NS_SESSIONS, k) = look t (ss_backend (snd (get_body E sid c (s\<lparr>ss_backend := b\<rparr>)))) (NS_SESSIONS, k)"
    using with_session_lock_frame [OF assms(1,3) assms(6) [unfolded session_get_def], OF body_inv_at(2) [OF _ assms(1,2)]] by blast
  have "load_session_from_backend E c sid b = (None, b)"
    using load_none [OF b(1) assms(1)] b(4) assms(4) by simp
  then have "snd (get_body E sid c (s\<lparr>ss_backend := b\<rparr>)) =
      \<lparr>sessions = hm_insert sid \<lparr>se_data = se_data e, last_access = int (mono c)\<rparr> (sessions s),
       ss_backend = persist_entry E c sid (se_data e) b\<rparr>"
    and r: "r = Some (se_data e)" using b(2) assms(1,5) by (simp_all add: get_body_def cached_session_def)
  then have "holds_session binv E c sid (se_data e) (ss_backend s')"
    using holds_cong [OF persist_entry_holds [OF b(1) assms(1,2)] b(3) assms(1)] b(5) by auto
  with r show ?thesis by blast
qed

end

section \<open>The wait ends\<close>

lemma acquire_session_lock_ends:
  "mono c \<ge> dl \<or> (\<exists>w \<in> set ws. mono (fst w) \<ge> dl) \<Longrightarrow> acquire_session_lock ops owner dl sid c ws b \<noteq> None"
proof (induction ws arbitrary: c b)
  case Nil
  then show ?case
    by (subst acquire_session_lock.simps) (auto split: prod.split sum.split bool.split)
next
  case (Cons w ws)
  obtain c' others where w: "w = (c', others)" by (cases w)
  show ?case
  proof (cases "mono c \<ge> dl")
    case True
    then show ?thesis
      by (subst acquire_session_lock.simps) (auto split: prod.split sum.split bool.split)
  next
    case False
    with Cons.prems w have "mono c' \<ge> dl \<or> (\<exists>w \<in> set ws. mono (fst w) \<ge> dl)" by auto
    then have "acquire_session_lock ops owner dl sid c' ws b' \<noteq> None" for b' by (rule Cons.IH)
    then show ?thesis
      by (subst acquire_session_lock.simps) (auto simp: w split: prod.split sum.split bool.split)
  qed
qed

lemma with_session_lock_ends:
  assumes "\<exists>w \<in> set ws. mono (fst w) \<ge> mono c + SESSION_LOCK_WAIT"
  shows "with_session_lock E owner sid c ws body s \<noteq> None"
proof (cases "ss_persistence E")
  case (Some ops)
  obtain r where "acquire_session_lock ops owner (mono c + SESSION_LOCK_WAIT) sid c ws (ss_backend s) = Some r"
    using acquire_session_lock_ends [of "mono c + SESSION_LOCK_WAIT" c ws ops owner sid "ss_backend s"] assms by blast
  with Some show ?thesis by (auto simp: with_session_lock_def split: prod.split)
qed (simp add: with_session_lock_def)

section \<open>Purging the cache\<close>

lemma sweep_persisted_sessions: "sweep_persisted E owner sched ks s = Some s' \<Longrightarrow> sessions s' = sessions s"
proof (induction E owner sched ks s rule: sweep_persisted.induct)
  case (3 E owner c ws sched k ks s)
  then obtain s1 where "with_session_lock E owner k c ws
      (\<lambda>c1 s1. ((), s1\<lparr>ss_backend := snd (load_session_from_backend E c1 k (ss_backend s1))\<rparr>)) s = Some ((), s1)"
    "sweep_persisted E owner sched ks s1 = Some s'"
    by (auto split: option.splits)
  with 3 show ?case
    by (auto simp: with_session_lock_def split: option.splits if_splits)
qed simp_all

lemma idle_sessions_iff:
  "hm_ok (sessions s) \<Longrightarrow> k \<in> set (idle_sessions E c s) \<longleftrightarrow>
     (\<exists>e. hm_get (sessions s) k = Some e \<and> max 0 (int (mono c) - last_access e) \<ge> int (ss_ttl E))"
  by (force simp: idle_sessions_def hm_get_Some_iff)

lemma session_purge_keeps:
  assumes "hm_ok (sessions s)" "session_purge_expired E owner c sched s = Some s'"
  shows "hm_get (sessions s') k =
    (case hm_get (sessions s) k of
       None \<Rightarrow> None
     | Some e \<Rightarrow> if max 0 (int (mono c) - last_access e) \<ge> int (ss_ttl E) then None else Some e)"
proof -
  have "sessions s' = fold hm_remove (idle_sessions E c s) (sessions s)"
    using assms(2) by (auto simp: session_purge_expired_def Let_def dest: sweep_persisted_sessions)
  with idle_sessions_iff [OF assms(1), of k E c] show ?thesis
    by (auto simp: hm_remove_fold_get split: option.split)
qed

end
