(* ===== verification/Session_Properties.thy ===== *)
theory Session_Properties
  imports Session_Facts Samples
begin

text \<open>
  Properties of the session store across replicas that share an \<open>InMemoryBackend\<close>.
\<close>

section \<open>Restoring\<close>

lemma load_entries_restores:
  assumes "hm_get (data b) (NS_SESSIONS, sid) = Some v" "dec_session E v = Some p" "restored_entry E c p = Some e"
    and "\<forall>x. (sid, x) \<in> set acc \<longrightarrow> x = e"
  shows "\<exists>entries b'. load_entries E in_memory_ops c ks acc b = (Inr entries, b') \<and>
    (\<forall>x. (sid, x) \<in> set entries \<longrightarrow> x = e) \<and> (sid \<in> set ks \<or> sid \<in> fst ` set acc \<longrightarrow> sid \<in> fst ` set entries)"
  using assms(1,4)
proof (induction ks arbitrary: acc b)
  case Nil
  then show ?case by simp
next
  case (Cons k ks)
  show ?case
  proof (cases "k = sid")
    case True
    have "\<exists>entries b'. load_entries E in_memory_ops c ks (acc @ [(sid, e)]) b = (Inr entries, b') \<and>
        (\<forall>x. (sid, x) \<in> set entries \<longrightarrow> x = e) \<and>
        (sid \<in> set ks \<or> sid \<in> fst ` set (acc @ [(sid, e)]) \<longrightarrow> sid \<in> fst ` set entries)"
      using Cons.prems by (intro Cons.IH) auto
    with True assms(2,3) Cons.prems(1) show ?thesis by (simp add: im_get_def)
  next
    case False
    have step: "\<exists>entries b'. load_entries E in_memory_ops c ks acc' b1 = (Inr entries, b') \<and>
        (\<forall>x. (sid, x) \<in> set entries \<longrightarrow> x = e) \<and> (sid \<in> set ks \<or> sid \<in> fst ` set acc \<longrightarrow> sid \<in> fst ` set entries)"
      if "hm_get (data b1) (NS_SESSIONS, sid) = Some v" "acc' = acc \<or> (\<exists>x. acc' = acc @ [(k, x)])" for b1 acc'
    proof -
      have "\<exists>entries b'. load_entries E in_memory_ops c ks acc' b1 = (Inr entries, b') \<and>
        (\<forall>x. (sid, x) \<in> set entries \<longrightarrow> x = e) \<and> (sid \<in> set ks \<or> sid \<in> fst ` set acc' \<longrightarrow> sid \<in> fst ` set entries)"
        using that False Cons.prems(2) by (intro Cons.IH) auto
      with that(2) show ?thesis by auto
    qed
    show ?thesis
      using False Cons.prems(1) step
      by (auto simp: im_get_def im_delete_def split: option.split)
  qed
qed

lemma fold_insert_get:
  assumes "\<forall>x. (k, x) \<in> set entries \<longrightarrow> x = e"
  shows "hm_get (fold (\<lambda>(k, e) m. hm_insert k e m) entries m) k =
    (if k \<in> fst ` set entries then Some e else hm_get m k)"
  using assms by (induction entries arbitrary: m) (auto split: if_splits)

lemma load_persisted_restores:
  assumes "ss_persistence E = Some in_memory_ops" "hm_ok (data (ss_backend s))"
    and "hm_get (data (ss_backend s)) (NS_SESSIONS, sid) = Some v" "dec_session E v = Some p" "restored_entry E c p = Some e"
  shows "\<exists>s'. load_persisted_sessions E c s = (Inr (), s') \<and> hm_get (sessions s') sid = Some e"
proof -
  obtain ks where ks: "im_keys (mono c) NS_SESSIONS (ss_backend s) = Inr ks" "sid \<in> set ks"
    using im.keys_law [OF assms(2), of "mono c" NS_SESSIONS] assms(3) by auto
  obtain entries b' where e: "load_entries E in_memory_ops c ks [] (ss_backend s) = (Inr entries, b')"
    "\<forall>x. (sid, x) \<in> set entries \<longrightarrow> x = e" "sid \<in> fst ` set entries"
    using load_entries_restores [OF assms(3,4,5), of "[]" ks] ks(2) by auto
  with assms(1) ks(1) fold_insert_get [OF e(2), of "sessions s"] show ?thesis
    by (simp add: load_persisted_sessions_def)
qed

text \<open>An \<open>InMemoryBackend\<close> that holds a session for \<open>c\<close> restores it at \<open>c2\<close> with what is left of its TTL.\<close>

lemma updated_then_restored:
  assumes "ss_persistence E = Some in_memory_ops" "session_serde_ok E" "hm_ok (data b)"
  shows "\<exists>v p. hm_get (data (persist_entry E c sid d b)) (NS_SESSIONS, sid) = Some v \<and> dec_session E v = Some p \<and>
    ps_data p = d \<and> ps_expires_at_unix_ms p = Some (instant_to_unix_millis c (mono c + ss_ttl E))"
proof -
  let ?p = "\<lparr>ps_data = d, ps_expires_at_unix_ms = Some (instant_to_unix_millis c (mono c + ss_ttl E)), ps_remaining_ttl_secs = None\<rparr>"
  obtain v where v: "enc_session E ?p = Some v" "dec_session E v = Some ?p"
    using assms(2) unfolding session_serde_ok_def by blast
  then show ?thesis
    using assms(1) by (intro exI [of _ v] exI [of _ ?p]) (simp add: persist_entry_def persist_def persist_raw_def im_set_def)
qed

section \<open>A sample\<close>

definition sample_session_env :: "(nat persisted_session in_memory_backend, nat persisted_session, nat) session_env" where
  "sample_session_env = \<lparr>ss_persistence = Some in_memory_ops, ss_ttl = secs 1800, ss_default = 0,
     enc_session = Some, dec_session = Some\<rparr>"

lemma sample_session_env_fields [simp]:
  "ss_persistence sample_session_env = Some in_memory_ops" "ss_ttl sample_session_env = secs 1800"
  "ss_default sample_session_env = 0" "session_serde_ok sample_session_env"
  by (simp_all add: sample_session_env_def session_serde_ok_def)

definition sample_sessions :: "(nat persisted_session in_memory_backend, nat) session_store" where
  "sample_sessions = session_store_new im_new"

lemma sample_sessions_fields [simp]: "ss_backend sample_sessions = im_new" "sessions sample_sessions = []"
  by (simp_all add: sample_sessions_def session_store_new_def)

lemma within_ttl_sample:
  "within_ttl sample_session_env sample_clock (later 1)" "within_ttl sample_session_env (later 1) (later 2)"
  "within_ttl sample_session_env (later 2) (later 3)"
  by (simp_all add: within_ttl_def remaining_until_unix_millis_def instant_to_unix_millis_def unix_millis_def
      secs_def millis_def u64_max_def)

lemma sample_lock_free [simp]:
  "locks b = [] \<Longrightarrow> acquire_session_lock in_memory_ops owner dl sid c [] b =
     Some (True, c, b\<lparr>locks := [((NS_SESSION_LOCK, sid), (owner, mono c + SESSION_LOCK_TTL))]\<rparr>)"
  by (simp add: acquire_session_lock.simps im_try_acquire_lock_def)

lemma sample_lock_runs:
  "locks (ss_backend s) = [] \<Longrightarrow> \<exists>r s'. with_session_lock sample_session_env owner sid c [] body s = Some (r, s')"
  by (simp add: with_session_lock_def split: prod.split)

section \<open>Properties\<close>



text \<open>A wait for a session's lock ends: once a poll finds \<open>SESSION_LOCK_WAIT\<close> elapsed, every
  operation has an answer, whoever holds the lock; it then runs without it.\<close>

theorem session_operations_return:
  assumes "\<exists>w \<in> set ws. mono (fst w) \<ge> mono c + SESSION_LOCK_WAIT"
  shows "session_get E owner c ws sid s \<noteq> None \<and> session_get_or_create E owner c ws sid s \<noteq> None \<and>
    session_update E owner c ws sid f s \<noteq> None \<and> session_remove E owner c ws sid s \<noteq> None"
  unfolding session_get_def session_get_or_create_def session_update_def session_remove_def
  by (intro conjI with_session_lock_ends [OF assms])

theorem session_operations_return_witness:
  "session_get sample_session_env ''a'' sample_clock [(later 30, \<lambda>b. b)] ''s'' sample_sessions \<noteq> None"
  using session_operations_return [of "[(later 30, \<lambda>b. b)]" sample_clock sample_session_env "''a''" "''s''" sample_sessions]
  by (simp add: SESSION_LOCK_WAIT_def REFRESH_LOCK_WAIT_def secs_def)

text \<open>Purging drops from memory exactly the sessions idle for the whole TTL, and keeps every other
  one as it was, for any order and number of lock waits of the sweep.\<close>

theorem session_purge_drops_exactly_idle:
  assumes "hm_ok (sessions s)" "session_purge_expired E owner c sched s = Some s'"
  shows "hm_get (sessions s') k =
    (case hm_get (sessions s) k of
       None \<Rightarrow> None
     | Some e \<Rightarrow> if max 0 (int (mono c) - last_access e) \<ge> int (ss_ttl E) then None else Some e)"
  using assms by (rule session_purge_keeps)

theorem session_purge_drops_exactly_idle_witness:
  "\<exists>s'. session_purge_expired sample_session_env ''o'' (later 1) []
      (sample_sessions\<lparr>sessions := [(''s'', \<lparr>se_data = 3, last_access = int (secs 1)\<rparr>)]\<rparr>) = Some s' \<and>
    hm_get (sessions s') ''s'' = Some \<lparr>se_data = 3, last_access = int (secs 1)\<rparr>"
proof -
  let ?s = "sample_sessions\<lparr>sessions := [(''s'', \<lparr>se_data = 3, last_access = int (secs 1)\<rparr>)]\<rparr>"
  obtain s' where s': "session_purge_expired sample_session_env ''o'' (later 1) [] ?s = Some s'"
    by (simp add: session_purge_expired_def idle_sessions_def secs_def)
  have "hm_ok (sessions ?s)" by (simp add: hm_ok_def)
  from session_purge_drops_exactly_idle [OF this s', of "''s''"] s' show ?thesis by (auto simp: secs_def)
qed

text \<open>A session survives a restart: a fresh instance that loads what an update persisted has the
  updated data, with an idle time that leaves it at most what remained of its TTL.\<close>

theorem session_survives_restart:
  assumes "ss_persistence E = Some in_memory_ops" "session_serde_ok E" "hm_ok (data b)"
    and "within_ttl E c c2"
  shows "\<exists>s' e. load_persisted_sessions E c2 (session_store_new (persist_entry E c sid d b)) = (Inr (), s') \<and>
    hm_get (sessions s') sid = Some e \<and> se_data e = d \<and>
    last_access e + int (ss_ttl E) \<le>
      int (mono c2) + int (remaining_until_unix_millis c2 (instant_to_unix_millis c (mono c + ss_ttl E)))"
proof -
  obtain v p where vp: "hm_get (data (persist_entry E c sid d b)) (NS_SESSIONS, sid) = Some v" "dec_session E v = Some p"
    "ps_data p = d" "ps_expires_at_unix_ms p = Some (instant_to_unix_millis c (mono c + ss_ttl E))"
    using updated_then_restored [OF assms(1,2,3)] by blast
  let ?rem = "remaining_until_unix_millis c2 (instant_to_unix_millis c (mono c + ss_ttl E))"
  let ?e = "\<lparr>se_data = d, last_access = int (mono c2) - int (ss_ttl E - min ?rem (ss_ttl E))\<rparr>"
  have "restored_entry E c2 p = Some ?e"
    using vp(3,4) assms(4) by (simp add: restored_entry_def within_ttl_def Let_def)
  moreover have "hm_ok (data (persist_entry E c sid d b))"
    using im_co.persist_entry_holds [OF assms(3,1,2)] by (simp add: holds_session_def)
  ultimately have "\<exists>s'. load_persisted_sessions E c2 (session_store_new (persist_entry E c sid d b)) = (Inr (), s') \<and>
      hm_get (sessions s') sid = Some ?e"
    using load_persisted_restores [OF assms(1), of "session_store_new (persist_entry E c sid d b)" sid v p c2 ?e] vp(1,2)
    by (simp add: session_store_new_def)
  moreover have "last_access ?e + int (ss_ttl E) \<le> int (mono c2) + int ?rem" by (simp add: of_nat_diff)
  ultimately show ?thesis by auto
qed

theorem session_survives_restart_witness:
  "\<exists>s' e. load_persisted_sessions sample_session_env (later 1)
       (session_store_new (persist_entry sample_session_env sample_clock ''s'' 42 im_new)) = (Inr (), s') \<and>
     hm_get (sessions s') ''s'' = Some e \<and> se_data e = 42"
  using session_survives_restart [of sample_session_env im_new sample_clock "later 1" "''s''" 42] within_ttl_sample(1)
  by fastforce

section \<open>A removed session comes back\<close>

text \<open>C38. Removal does not reach the caches of other replicas: after a session was removed from the
  replica it ran on and from the backend, a replica that still has it cached serves it again and
  writes it back, and then the replica that removed it reads it, too.\<close>

theorem removed_session_comes_back:
  assumes "ss_persistence E = Some in_memory_ops" "session_serde_ok E" "hm_ok (data (ss_backend A))"
    and "session_remove E o1 c1 [] sid A = Some (Some d, A')"
    and "ss_backend B = ss_backend A'" "hm_get (sessions B) sid = Some e"
    and "session_get E o2 c2 [] sid B = Some (r2, B')"
    and "within_ttl E c2 c3" "session_get E o3 c3 [] sid (A'\<lparr>ss_backend := ss_backend B'\<rparr>) = Some (r3, A'')"
  shows "r2 = Some (se_data e) \<and> r3 = Some (se_data e)"
proof -
  have gone: "hm_ok (data (ss_backend B))" "hm_get (data (ss_backend B)) (NS_SESSIONS, sid) = None"
    using im_co.remove_erases [OF assms(1,2,3,4)] assms(5) by auto
  have b: "r2 = Some (se_data e)" "holds_session (\<lambda>b. hm_ok (data b)) E c2 sid (se_data e) (ss_backend B')"
    using im_co.get_resurrects [OF assms(1,2) gone assms(6,7)] by auto
  then show ?thesis
    using im_co.get_reads [OF assms(1,2) _ assms(8,9)] by auto
qed

theorem removed_session_comes_back_witness:
  "\<exists>A' B' A''. session_remove sample_session_env ''a'' sample_clock [] ''s''
       (sample_sessions\<lparr>sessions := [(''s'', \<lparr>se_data = 3, last_access = 1\<rparr>)]\<rparr>) = Some (Some 3, A') \<and>
     session_get sample_session_env ''b'' (later 1) [] ''s''
       \<lparr>sessions = [(''s'', \<lparr>se_data = 3, last_access = 1\<rparr>)], ss_backend = ss_backend A'\<rparr> = Some (Some 3, B') \<and>
     session_get sample_session_env ''c'' (later 2) [] ''s'' (A'\<lparr>ss_backend := ss_backend B'\<rparr>) = Some (Some 3, A'')"
proof -
  let ?A = "sample_sessions\<lparr>sessions := [(''s'', \<lparr>se_data = 3, last_access = 1\<rparr>)]\<rparr>"
  obtain A' where A: "session_remove sample_session_env ''a'' sample_clock [] ''s'' ?A = Some (Some 3, A')"
    "locks (ss_backend A') = []"
    by (simp add: session_remove_def with_session_lock_def remove_body_def load_session_from_backend_def
        im_get_def cached_session_def discard_def im_delete_def im_release_lock_def)
  let ?B = "\<lparr>sessions = [(''s'', \<lparr>se_data = 3, last_access = 1\<rparr>)], ss_backend = ss_backend A'\<rparr>"
  have "\<exists>r s'. session_get sample_session_env ''b'' (later 1) [] ''s'' ?B = Some (r, s')"
    unfolding session_get_def using A(2) by (intro sample_lock_runs) simp
  then obtain r2 B' where B: "session_get sample_session_env ''b'' (later 1) [] ''s'' ?B = Some (r2, B')" by blast
  have locks: "locks (ss_backend B') = []"
    using B A(2) by (auto simp: session_get_def with_session_lock_def im_release_lock_def get_body_def Let_def
        load_session_from_backend_def persist_entry_def persist_def persist_raw_def im_set_def im_get_def discard_def im_delete_def
        sample_session_env_def
      split: prod.splits option.splits if_splits)
  have "\<exists>r s'. session_get sample_session_env ''c'' (later 2) [] ''s'' (A'\<lparr>ss_backend := ss_backend B'\<rparr>) = Some (r, s')"
    unfolding session_get_def using locks by (intro sample_lock_runs) simp
  then obtain r3 A'' where C: "session_get sample_session_env ''c'' (later 2) [] ''s'' (A'\<lparr>ss_backend := ss_backend B'\<rparr>) = Some (r3, A'')" by blast
  have "r2 = Some (se_data \<lparr>se_data = 3, last_access = 1\<rparr>) \<and> r3 = Some (se_data \<lparr>se_data = 3, last_access = 1\<rparr>)"
    by (rule removed_session_comes_back [OF _ _ _ A(1) _ _ B _ C]) (simp_all add: within_ttl_sample [simplified])
  with A B C show ?thesis by auto
qed

end
