(* ===== verification/Http_Util.thy ===== *)
theory Http_Util
  imports Mcp_Prelude
begin

text \<open>
  The HTTP helpers: the error type every endpoint answers with and its response,
  \<open>src/src/http_util/error.rs\<close>, and the query builder of \<open>src/src/http_util/query.rs\<close>. A response is a
  status and a JSON body.
\<close>

section \<open>Errors\<close>

datatype http_error =
    BadRequest string
  | UnauthorizedError string
  | InternalError string
  | OAuthError nat string string

definition oauth_error :: "nat \<Rightarrow> string \<Rightarrow> string \<Rightarrow> http_error" where
  "oauth_error status code description = OAuthError status code description"

definition server_error :: "string \<Rightarrow> http_error" where
  "server_error description = OAuthError 500 ''server_error'' description"

definition invalid_request :: "string \<Rightarrow> http_error" where
  "invalid_request description = OAuthError 400 ''invalid_request'' description"

fun error_into_response :: "http_error \<Rightarrow> nat \<times> json" where
  "error_into_response (BadRequest msg) = (400, JObj [(''error'', JStr msg)])"
| "error_into_response (UnauthorizedError msg) = (401, JObj [(''error'', JStr msg)])"
| "error_into_response (InternalError msg) = (500, JObj [(''error'', JStr msg)])"
| "error_into_response (OAuthError status code description) =
     (status, JObj [(''error'', JStr code), (''error_description'', JStr description)])"

fun error_display :: "http_error \<Rightarrow> string" where
  "error_display (BadRequest msg) = ''Bad Request: '' @ msg"
| "error_display (UnauthorizedError msg) = ''Unauthorized: '' @ msg"
| "error_display (InternalError msg) = ''Internal Server Error: '' @ msg"
| "error_display (OAuthError status code description) = ''OAuth Error ('' @ code @ ''): '' @ description"

section \<open>Query parameters\<close>

record query_builder =
  qb_params :: "(string \<times> string) list"

definition qb_new :: query_builder where
  "qb_new = \<lparr>qb_params = []\<rparr>"

definition qb_required :: "string \<Rightarrow> string \<Rightarrow> query_builder \<Rightarrow> query_builder" where
  "qb_required key value q = q\<lparr>qb_params := qb_params q @ [(key, value)]\<rparr>"

definition qb_optional :: "string \<Rightarrow> string option \<Rightarrow> query_builder \<Rightarrow> query_builder" where
  "qb_optional key value q =
     (case value of Some v \<Rightarrow> q\<lparr>qb_params := qb_params q @ [(key, v)]\<rparr> | None \<Rightarrow> q)"

definition qb_build :: "query_builder \<Rightarrow> (string \<times> string) list" where
  "qb_build q = qb_params q"

end
