(* ===== verification/OAuth_State.thy ===== *)
theory OAuth_State
  imports Http_Util Auth_Config
begin

text \<open>
  The state of the OAuth endpoints and what they advertise: \<open>McpOAuthState\<close> and its router in
  \<open>src/src/auth/mod.rs\<close>, the two metadata documents of \<open>src/src/auth/metadata.rs\<close>. The token
  store the state shares is kept apart, as the state the endpoints change.
\<close>

definition OAUTH_MOUNT :: string where "OAUTH_MOUNT = ''/oauth''"
definition OAUTH_CALLBACK_PATH :: string where "OAUTH_CALLBACK_PATH = ''/callback''"
definition OAUTH_REGISTER_PATH :: string where "OAUTH_REGISTER_PATH = ''/register''"
definition OAUTH_AUTHORIZE_PATH :: string where "OAUTH_AUTHORIZE_PATH = ''/authorize''"
definition OAUTH_TOKEN_PATH :: string where "OAUTH_TOKEN_PATH = ''/token''"

record mcp_oauth_state =
  mo_public_url :: string
  mo_realm_url :: string
  mo_client_id :: string
  mo_client_secret :: "string option"
  mo_token_mode :: token_mode
  mo_scopes :: "string list"
  mo_allowed_redirect_uris :: "string list"

definition from_oauth_config :: "oauth_config \<Rightarrow> string \<Rightarrow> mcp_oauth_state" where
  "from_oauth_config cfg public_url =
     \<lparr>mo_public_url = public_url, mo_realm_url = oc_issuer_url cfg, mo_client_id = oc_client_id cfg,
      mo_client_secret = oc_client_secret cfg, mo_token_mode = oc_token_mode cfg,
      mo_scopes = oc_scopes cfg, mo_allowed_redirect_uris = oc_allowed_redirect_uris cfg\<rparr>"

definition callback_url :: "mcp_oauth_state \<Rightarrow> string" where
  "callback_url st = trim_end_matches (CHR ''/'') (mo_public_url st) @ OAUTH_MOUNT @ OAUTH_CALLBACK_PATH"

section \<open>The router\<close>

datatype oauth_method = GET | POST
datatype oauth_handler = RegisterHandler | AuthorizeHandler | TokenHandler | NotProxiedHandler

definition mcp_oauth_router :: "mcp_oauth_state \<Rightarrow> (string \<times> oauth_method \<times> oauth_handler) list" where
  "mcp_oauth_router st =
     (let router = [(OAUTH_REGISTER_PATH, POST, RegisterHandler)]
      in if is_stateful (mo_token_mode st)
         then router @ [(OAUTH_AUTHORIZE_PATH, GET, AuthorizeHandler), (OAUTH_TOKEN_PATH, POST, TokenHandler)]
         else router @ [(OAUTH_AUTHORIZE_PATH, GET, NotProxiedHandler), (OAUTH_TOKEN_PATH, POST, NotProxiedHandler)])"

definition not_proxied_handler :: http_error where
  "not_proxied_handler = oauth_error 404 ''invalid_request''
     (''This server is a pure OAuth resource server (MCP_TOKEN_MODE=resource_server) and '' @
      ''proxies no part of the authorization flow. Use the endpoints advertised by the '' @
      ''authorization server named in this server's protected-resource metadata.'')"

section \<open>Metadata\<close>

record as_document =
  as_issuer :: string
  as_authorization_endpoint :: string
  as_token_endpoint :: string
  as_registration_endpoint :: string
  as_scopes_supported :: "string list"
  as_response_types_supported :: "string list"
  as_grant_types_supported :: "string list"
  as_code_challenge_methods_supported :: "string list"
  as_token_endpoint_auth_methods_supported :: "string list"
  as_iss_parameter_supported :: "bool option"

definition authorization_server_metadata :: "mcp_oauth_state \<Rightarrow> as_document" where
  "authorization_server_metadata st =
     (let realm = trim_end_matches (CHR ''/'') (mo_realm_url st);
          stateful = is_stateful (mo_token_mode st);
          (issuer, authorization_endpoint, token_endpoint) =
            (if stateful
             then (mo_public_url st, mo_public_url st @ ''/oauth/authorize'', mo_public_url st @ ''/oauth/token'')
             else (realm, realm @ ''/protocol/openid-connect/auth'', realm @ ''/protocol/openid-connect/token''))
      in \<lparr>as_issuer = issuer, as_authorization_endpoint = authorization_endpoint,
          as_token_endpoint = token_endpoint,
          as_registration_endpoint = mo_public_url st @ ''/oauth/register'',
          as_scopes_supported = mo_scopes st, as_response_types_supported = [''code''],
          as_grant_types_supported = [''authorization_code'', ''refresh_token''],
          as_code_challenge_methods_supported = [''S256''],
          as_token_endpoint_auth_methods_supported = [''client_secret_basic'', ''client_secret_post'', ''none''],
          as_iss_parameter_supported = (if stateful then Some True else None)\<rparr>)"

record well_known_state =
  wk_resource_url :: string
  wk_authorization_server :: string
  wk_scopes :: "string list"

record pr_document =
  pr_resource :: string
  pr_authorization_servers :: "string list"
  pr_scopes_supported :: "string list"
  pr_bearer_methods_supported :: "string list"

definition protected_resource_metadata :: "well_known_state \<Rightarrow> pr_document" where
  "protected_resource_metadata st =
     \<lparr>pr_resource = wk_resource_url st, pr_authorization_servers = [wk_authorization_server st],
      pr_scopes_supported = wk_scopes st, pr_bearer_methods_supported = [''header'']\<rparr>"

end
