(* ===== verification/Registration.thy ===== *)
theory Registration
  imports OAuth_State Token_Store
begin

text \<open>
  Dynamic client registration, \<open>src/src/auth/registration.rs\<close>. Keycloak's registration endpoint is
  the argument \<open>post_json\<close>, one HTTP exchange; the UUID of a made-up client id is an argument.
\<close>

definition MCP_CLIENT_ID_PREFIX :: string where "MCP_CLIENT_ID_PREFIX = ''mcp-''"

type_synonym http_post_json = "string \<Rightarrow> json \<Rightarrow> http_result"

record client_registration_request =
  rq_client_name :: "string option"
  rq_redirect_uris :: "string list"
  rq_grant_types :: "string list option"
  rq_response_types :: "string list option"
  rq_token_endpoint_auth_method :: "string option"
  rq_scope :: "string option"

record client_registration_response =
  rs_client_id :: string
  rs_client_secret :: "string option"
  rs_client_name :: "string option"
  rs_redirect_uris :: "string list"
  rs_grant_types :: "string list"
  rs_response_types :: "string list"
  rs_token_endpoint_auth_method :: string

text \<open>\<open>Option::unwrap_or\<close>.\<close>

definition unwrap_or :: "'a option \<Rightarrow> 'a \<Rightarrow> 'a" where
  "unwrap_or x d = (case x of Some y \<Rightarrow> y | None \<Rightarrow> d)"

lemma unwrap_or_simps [simp]: "unwrap_or (Some y) d = y" "unwrap_or None d = d"
  by (simp_all add: unwrap_or_def)

definition build_fallback_registration :: "string \<Rightarrow> client_registration_request \<Rightarrow> string option \<Rightarrow>
    client_registration_response" where
  "build_fallback_registration uuid request configured_client_id =
     (let client_id = (case configured_client_id of
            Some cid \<Rightarrow> cid
          | None \<Rightarrow> (case rq_client_name request of Some n \<Rightarrow> n | None \<Rightarrow> MCP_CLIENT_ID_PREFIX @ uuid))
      in \<lparr>rs_client_id = client_id, rs_client_secret = None, rs_client_name = rq_client_name request,
          rs_redirect_uris = rq_redirect_uris request,
          rs_grant_types = [''authorization_code'', ''refresh_token''],
          rs_response_types = [''code''], rs_token_endpoint_auth_method = ''none''\<rparr>)"

definition remember_registration :: "mcp_oauth_state \<Rightarrow> ('b, 'v, 'c) store_env \<Rightarrow> clock \<Rightarrow> string \<Rightarrow>
    string list \<Rightarrow> ('b, 'c, 'k) token_store \<Rightarrow> ('b, 'c, 'k) token_store" where
  "remember_registration st E c client_id redirect_uris s =
     (if is_stateful (mo_token_mode st) then register_client_redirects E c client_id redirect_uris s else s)"

definition json_strings :: "string list \<Rightarrow> json" where
  "json_strings ss = JArr (map JStr ss)"

text \<open>The body sent to Keycloak; a blank \<open>scope\<close> is left out.\<close>

definition keycloak_request :: "client_registration_request \<Rightarrow> json" where
  "keycloak_request request =
     JObj ([(''client_name'', JStr (unwrap_or (rq_client_name request) ''mcp-client'')),
            (''redirect_uris'', json_strings (rq_redirect_uris request)),
            (''grant_types'', json_strings (unwrap_or (rq_grant_types request) [''authorization_code'', ''refresh_token''])),
            (''response_types'', json_strings (unwrap_or (rq_response_types request) [''code''])),
            (''token_endpoint_auth_method'', JStr (unwrap_or (rq_token_endpoint_auth_method request) ''none''))] @
           (case rq_scope request of
              Some scope \<Rightarrow> if str_trim scope \<noteq> [] then [(''scope'', JStr scope)] else []
            | None \<Rightarrow> []))"

definition register_handler :: "mcp_oauth_state \<Rightarrow> ('b, 'v, 'c) store_env \<Rightarrow> http_post_json \<Rightarrow> string \<Rightarrow>
    clock \<Rightarrow> client_registration_request \<Rightarrow> ('b, 'c, 'k) token_store \<Rightarrow>
    (http_error + nat \<times> client_registration_response) \<times> ('b, 'c, 'k) token_store" where
  "register_handler st E post_json uuid c request s =
     (let url = mo_realm_url st @ ''/clients-registrations/openid-connect'';
          fallback_client_id = (if \<not> is_stateful (mo_token_mode st) then Some (mo_client_id st) else None);
          fallback = build_fallback_registration uuid request fallback_client_id;
          fallback_answer = (Inr (201, fallback),
            remember_registration st E c (rs_client_id fallback) (rs_redirect_uris fallback) s)
      in case post_json url (keycloak_request request) of
           SendFailed e \<Rightarrow> fallback_answer
         | Answered status body \<Rightarrow>
             if is_success status then
               (case body of
                  Inl unparsable \<Rightarrow> (Inl (server_error ''Failed to parse registration response''), s)
                | Inr keycloak_response \<Rightarrow>
                    (let client_id = unwrap_or (as_str (json_index keycloak_response ''client_id'')) ''unknown'';
                         client_secret = as_str (json_index keycloak_response ''client_secret'')
                     in (Inr (201,
                           \<lparr>rs_client_id = client_id, rs_client_secret = client_secret,
                            rs_client_name = rq_client_name request,
                            rs_redirect_uris = rq_redirect_uris request,
                            rs_grant_types = unwrap_or (rq_grant_types request) [''authorization_code''],
                            rs_response_types = unwrap_or (rq_response_types request) [''code''],
                            rs_token_endpoint_auth_method =
                              unwrap_or (rq_token_endpoint_auth_method request) ''none''\<rparr>),
                         remember_registration st E c client_id (rq_redirect_uris request) s)))
             else fallback_answer)"

end
