(* ===== verification/Redirect.thy ===== *)
theory Redirect
  imports Mcp_Prelude "HOL-Library.Word"
begin

text \<open>
  Which redirect URI may receive an authorization code, \<open>src/src/auth/redirect.rs\<close>. The \<open>url\<close>
  crate is the record \<open>url_lib\<close>, its parsed URLs a type parameter, its origins another; the
  loopback tests of the standard library's addresses are written out.
\<close>

datatype url_host = Domain string | Ipv4 "32 word" | Ipv6 "128 word"

record ('u, 'o) url_lib =
  url_parse :: "string \<Rightarrow> 'u option"
  url_fragment :: "'u \<Rightarrow> string option"
  url_scheme :: "'u \<Rightarrow> string"
  url_host_of :: "'u \<Rightarrow> url_host option"
  url_origin :: "'u \<Rightarrow> 'o"
  url_append_pair :: "string \<Rightarrow> string \<Rightarrow> 'u \<Rightarrow> 'u"
  url_text :: "'u \<Rightarrow> string"

section \<open>The standard library's tests\<close>

definition ascii_lower :: "char \<Rightarrow> char" where
  "ascii_lower ch =
     (let n = (of_char ch :: nat) in if 65 \<le> n \<and> n \<le> 90 then char_of (n + 32) else ch)"

definition eq_ignore_ascii_case :: "string \<Rightarrow> string \<Rightarrow> bool" where
  "eq_ignore_ascii_case s t \<longleftrightarrow> map ascii_lower s = map ascii_lower t"

definition ipv4_is_loopback :: "32 word \<Rightarrow> bool" where
  "ipv4_is_loopback ip \<longleftrightarrow> drop_bit 24 ip = 127"

definition ipv6_is_loopback :: "128 word \<Rightarrow> bool" where
  "ipv6_is_loopback ip \<longleftrightarrow> ip = 1"

section \<open>The policy\<close>

definition is_loopback :: "('u, 'o) url_lib \<Rightarrow> 'u \<Rightarrow> bool" where
  "is_loopback U uri \<longleftrightarrow>
     url_scheme U uri = ''http'' \<and>
     (case url_host_of U uri of
        Some (Domain d) \<Rightarrow> eq_ignore_ascii_case d ''localhost''
      | Some (Ipv4 ip) \<Rightarrow> ipv4_is_loopback ip
      | Some (Ipv6 ip) \<Rightarrow> ipv6_is_loopback ip
      | None \<Rightarrow> False)"

definition redirect_uri_allowed :: "('u, 'o) url_lib \<Rightarrow> string \<Rightarrow> string list option \<Rightarrow> string \<Rightarrow>
    string list \<Rightarrow> bool" where
  "redirect_uri_allowed U redirect_uri registered public_url allowlist =
     (case url_parse U redirect_uri of
        None \<Rightarrow> False
      | Some uri \<Rightarrow>
          if url_fragment U uri \<noteq> None then False
          else
            (case registered of None \<Rightarrow> False | Some uris \<Rightarrow> redirect_uri \<in> set uris) \<or>
            is_loopback U uri \<or>
            (case url_parse U public_url of
               Some public \<Rightarrow> url_origin U public = url_origin U uri
             | None \<Rightarrow> False) \<or>
            redirect_uri \<in> set allowlist)"

text \<open>The URIs the policy admits whatever the client registered.\<close>

definition is_own_uri :: "('u, 'o) url_lib \<Rightarrow> string \<Rightarrow> string list \<Rightarrow> string \<Rightarrow> bool" where
  "is_own_uri U public_url allowlist redirect_uri = redirect_uri_allowed U redirect_uri None public_url allowlist"

lemma redirect_uri_allowed_cases:
  assumes "redirect_uri_allowed U r registered public_url allowlist"
  shows "is_own_uri U public_url allowlist r \<or> (\<exists>uris. registered = Some uris \<and> r \<in> set uris)"
  using assms by (auto simp: is_own_uri_def redirect_uri_allowed_def split: option.splits if_splits)

lemma redirect_uri_allowed_parses:
  assumes "redirect_uri_allowed U r registered public_url allowlist"
  shows "\<exists>u. url_parse U r = Some u \<and> url_fragment U u = None"
  using assms by (auto simp: redirect_uri_allowed_def split: option.splits if_splits)

text \<open>An address of the loopback network is one whose first byte is 127.\<close>

lemma ipv4_loopback_range:
  "ipv4_is_loopback ip \<longleftrightarrow> 127 * 2 ^ 24 \<le> unat ip \<and> unat ip < 128 * 2 ^ 24"
proof -
  have "ipv4_is_loopback ip \<longleftrightarrow> unat (drop_bit 24 ip) = 127"
    unfolding ipv4_is_loopback_def using word_unat_eq_iff [of "drop_bit 24 ip" 127] by simp
  also have "unat (drop_bit 24 ip) = unat ip div 2 ^ 24" unfolding unat_drop_bit_eq by (simp add: drop_bit_eq_div)
  also have "unat ip div 2 ^ 24 = 127 \<longleftrightarrow> 127 * 2 ^ 24 \<le> unat ip \<and> unat ip < 128 * 2 ^ 24" by auto
  finally show ?thesis .
qed

end
