(* ===== verification/OAuth_Proxy.thy ===== *)
theory OAuth_Proxy
  imports Registration Redirect Middleware
begin

text \<open>
  The endpoints that proxy Keycloak's authorization and token endpoints,
  \<open>src/src/auth/proxy.rs\<close>. Form and JSON parsing, URL encoding and the lossy UTF-8 conversion are
  the fields of a \<open>proxy_lib\<close>; Keycloak's token endpoint is the argument \<open>forward\<close>; the UUIDs a
  handler draws are arguments. A token handler that refreshes may have to wait for a lock: it has
  the value \<open>None\<close> when that wait outlasts its schedule, as \<open>get_token\<close> does.
\<close>

record proxy_lib =
  px_form_parse :: "string \<Rightarrow> (string \<times> string) list"
  px_json_parse :: "string \<Rightarrow> json option"
  px_json_text :: "json \<Rightarrow> string"
  px_encode :: "string \<Rightarrow> string"
  px_utf8_lossy :: "string \<Rightarrow> string"

section \<open>Starting an authorization\<close>

record authorize_request =
  ar_response_type :: string
  ar_client_id :: string
  ar_redirect_uri :: string
  ar_scope :: "string option"
  ar_state :: "string option"
  ar_code_challenge :: "string option"
  ar_code_challenge_method :: "string option"
  ar_resource :: "string option"

definition opt_param :: "proxy_lib \<Rightarrow> string \<Rightarrow> string option \<Rightarrow> string" where
  "opt_param X name value =
     (case value of None \<Rightarrow> [] | Some v \<Rightarrow> ''&'' @ name @ ''='' @ px_encode X v)"

definition keycloak_auth_url :: "mcp_oauth_state \<Rightarrow> proxy_lib \<Rightarrow> authorize_request \<Rightarrow> string \<Rightarrow> string" where
  "keycloak_auth_url st X request server_state =
     mo_realm_url st @ ''/protocol/openid-connect/auth?response_type='' @ px_encode X (ar_response_type request) @
     ''&client_id='' @ px_encode X (mo_client_id st) @
     ''&redirect_uri='' @ px_encode X (callback_url st) @
     ''&state='' @ px_encode X server_state @
     opt_param X ''scope'' (ar_scope request) @
     opt_param X ''code_challenge'' (ar_code_challenge request) @
     opt_param X ''code_challenge_method'' (ar_code_challenge_method request) @
     opt_param X ''resource'' (ar_resource request)"

text \<open>The answer is the URL of a temporary redirect.\<close>

definition authorize_handler :: "mcp_oauth_state \<Rightarrow> ('u, 'o) url_lib \<Rightarrow> proxy_lib \<Rightarrow> ('b, 'v, 'c) store_env \<Rightarrow>
    string \<Rightarrow> clock \<Rightarrow> authorize_request \<Rightarrow> ('b, 'c, 'k) token_store \<Rightarrow>
    (http_error + string) \<times> ('b, 'c, 'k) token_store" where
  "authorize_handler st U X E server_state c request s =
     (let (registered, s1) = get_client_redirects E c (ar_client_id request) s
      in if \<not> redirect_uri_allowed U (ar_redirect_uri request) registered (mo_public_url st)
                (mo_allowed_redirect_uris st)
         then (Inl (invalid_request ''redirect_uri is not registered for this client''), s1)
         else
           (Inr (keycloak_auth_url st X request server_state),
            store_proxied_authorization E c server_state
              \<lparr>pa_redirect_uri = ar_redirect_uri request, pa_client_state = ar_state request,
               pa_issuer = mo_public_url st\<rparr> s1))"

section \<open>Reading a token request\<close>

text \<open>\<open>str::contains\<close>.\<close>

fun str_contains :: "string \<Rightarrow> string \<Rightarrow> bool" where
  "str_contains needle [] \<longleftrightarrow> needle = []"
| "str_contains needle (x # xs) \<longleftrightarrow> take (length needle) (x # xs) = needle \<or> str_contains needle xs"

definition find_param :: "string \<Rightarrow> (string \<times> string) list \<Rightarrow> string option" where
  "find_param name params = map_of params name"

definition json_params :: "proxy_lib \<Rightarrow> json \<Rightarrow> (string \<times> string) list" where
  "json_params X j =
     (case j of
        JObj m \<Rightarrow> map (\<lambda>(k, v). (k, case v of JStr s \<Rightarrow> s | _ \<Rightarrow> px_json_text X v)) m
      | _ \<Rightarrow> [])"

definition parse_token_params :: "proxy_lib \<Rightarrow> string \<Rightarrow> string \<Rightarrow> http_error + (string \<times> string) list" where
  "parse_token_params X content_type body_str =
     (let params = px_form_parse X body_str
      in if \<exists>(k, v) \<in> set params. k = ''grant_type'' then Inr params
         else if str_contains ''application/json'' content_type then
           (case px_json_parse X body_str of
              Some j \<Rightarrow> Inr (json_params X j)
            | None \<Rightarrow> Inl (invalid_request ''Invalid request body''))
         else Inr params)"

definition MAX_TOKEN_BODY :: nat where "MAX_TOKEN_BODY = 1024 * 1024"

text \<open>A body that cannot be read to its end is \<open>None\<close>.\<close>

definition read_token_request :: "proxy_lib \<Rightarrow> header_lib \<Rightarrow> string option \<Rightarrow> headers \<Rightarrow>
    http_error + (string \<times> string) list \<times> string" where
  "read_token_request X H body hs =
     (case body of
        None \<Rightarrow> Inl (invalid_request ''Invalid request body'')
      | Some bytes \<Rightarrow>
          if length bytes > MAX_TOKEN_BODY then Inl (invalid_request ''Invalid request body'')
          else
            (let content_type = unwrap_or (Option.bind (hdr_get hs ''content-type'') (to_str H)) []
             in case parse_token_params X content_type (px_utf8_lossy X bytes) of
                  Inl e \<Rightarrow> Inl e
                | Inr params \<Rightarrow> Inr (params, unwrap_or (find_param ''grant_type'' params) [])))"

text \<open>What the log shows of a parameter.\<close>

definition token_param_for_log :: "string \<Rightarrow> string \<Rightarrow> string" where
  "token_param_for_log key value =
     (if key \<in> {''client_secret'', ''client_assertion'', ''code'', ''code_verifier'', ''password'', ''refresh_token''}
      then ''***'' else value)"

section \<open>Talking to Keycloak\<close>

definition inject_keycloak_credentials :: "mcp_oauth_state \<Rightarrow> (string \<times> string) list \<Rightarrow> (string \<times> string) list" where
  "inject_keycloak_credentials st params =
     (let is_code_grant = (\<exists>(k, v) \<in> set params. k = ''grant_type'' \<and> v = ''authorization_code'');
          p1 = (if is_code_grant
                then filter (\<lambda>(k, v). k \<noteq> ''redirect_uri'') params @ [(''redirect_uri'', callback_url st)]
                else params);
          p2 = map (\<lambda>(k, v). (k, if k = ''client_id'' then mo_client_id st else v)) p1
      in case mo_client_secret st of
           Some secret \<Rightarrow>
             if \<not> (\<exists>(k, v) \<in> set p2. k = ''client_secret'') then p2 @ [(''client_secret'', secret)] else p2
         | None \<Rightarrow> p2)"

text \<open>One exchange with the token endpoint: status, content type and body of the reply.\<close>

datatype forward_result =
    Unreachable
  | Unreadable
  | Reply nat "string option" string

type_synonym token_endpoint = "string \<Rightarrow> (string \<times> string) list \<Rightarrow> forward_result"

definition forward_to_keycloak :: "mcp_oauth_state \<Rightarrow> token_endpoint \<Rightarrow> (string \<times> string) list \<Rightarrow>
    http_error + nat \<times> string option \<times> string" where
  "forward_to_keycloak st endpoint params =
     (case endpoint (mo_realm_url st @ ''/protocol/openid-connect/token'') params of
        Reply status content_type body \<Rightarrow> Inr (status, content_type, body)
      | Unreadable \<Rightarrow> Inl (server_error ''Failed to read token response'')
      | Unreachable \<Rightarrow> Inl (server_error ''Failed to contact authorization server''))"

text \<open>A 200 with a JSON body of our own, or the reply passed on.\<close>

datatype token_answer =
    Issued json
  | Relayed nat "string option" string

definition build_passthrough_response :: "nat \<Rightarrow> string option \<Rightarrow> string \<Rightarrow> token_answer" where
  "build_passthrough_response status content_type body = Relayed status content_type body"

text \<open>The grant a successful reply carries, if it carries one.\<close>

definition reply_grant :: "proxy_lib \<Rightarrow> nat \<Rightarrow> string \<Rightarrow> (json \<times> string) option" where
  "reply_grant X status body =
     (if is_success status then
        (case px_json_parse X (px_utf8_lossy X body) of
           None \<Rightarrow> None
         | Some j \<Rightarrow> map_option (\<lambda>acc. (j, acc)) (as_str (json_index j ''access_token'')))
      else None)"

definition grant_token :: "clock \<Rightarrow> json \<Rightarrow> string \<Rightarrow> 'c stored_token" where
  "grant_token c j acc =
     \<lparr>access_token = acc, refresh_token = as_str (json_index j ''refresh_token''),
      expires_at = map_option (\<lambda>n. mono c + secs n) (as_u64 (json_index j ''expires_in'')),
      decoded_claims = None\<rparr>"

section \<open>The token endpoint, passthrough mode\<close>

definition retire_spent_grant :: "('b, 'v, 'c) store_env \<Rightarrow> clock \<Rightarrow> string \<Rightarrow> string \<Rightarrow>
    ('b, 'c, 'k) token_store \<Rightarrow> ('b, 'c, 'k) token_store" where
  "retire_spent_grant E c spent session_key s =
     (let (old, s1) = resolve_grant_refresh E c spent s;
          s2 = (case old of
                  Some old_key \<Rightarrow> if old_key \<noteq> session_key then remove_token E c old_key s1 else s1
                | None \<Rightarrow> s1)
      in remove_grant_refresh E c spent s2)"

definition adopt_grant :: "('b, 'v, 'c) store_env \<Rightarrow> clock \<Rightarrow> string option \<Rightarrow> json \<Rightarrow> string \<Rightarrow>
    ('b, 'c, 'k) token_store \<Rightarrow> ('b, 'c, 'k) token_store" where
  "adopt_grant E c spent_refresh_token j acc s =
     (let session_key = credential_session_key (jwt E) acc;
          s1 = (case spent_refresh_token of
                  Some spent \<Rightarrow> retire_spent_grant E c spent session_key s
                | None \<Rightarrow> s);
          stored = grant_token c j acc;
          s2 = store_token E c session_key stored s1
      in case refresh_token stored of
           Some refresh \<Rightarrow> index_grant_refresh E c refresh session_key s2
         | None \<Rightarrow> s2)"

definition passthrough_token_handler :: "mcp_oauth_state \<Rightarrow> proxy_lib \<Rightarrow> header_lib \<Rightarrow> ('b, 'v, 'c) store_env \<Rightarrow>
    token_endpoint \<Rightarrow> clock \<Rightarrow> headers \<Rightarrow> string option \<Rightarrow> ('b, 'c, 'k) token_store \<Rightarrow>
    (http_error + token_answer) \<times> ('b, 'c, 'k) token_store" where
  "passthrough_token_handler st X H E endpoint c hs body s =
     (case read_token_request X H body hs of
        Inl e \<Rightarrow> (Inl e, s)
      | Inr (params, grant_type) \<Rightarrow>
          (let spent = (if grant_type = ''refresh_token'' then find_param ''refresh_token'' params else None)
           in case forward_to_keycloak st endpoint (inject_keycloak_credentials st params) of
                Inl e \<Rightarrow> (Inl e, s)
              | Inr (status, content_type, reply) \<Rightarrow>
                  (Inr (build_passthrough_response status content_type reply),
                   (case reply_grant X status reply of
                      Some (j, acc) \<Rightarrow> adopt_grant E c spent j acc s
                    | None \<Rightarrow> s))))"

section \<open>The token endpoint, opaque mode\<close>

definition build_opaque_response :: "('b, 'v, 'c) store_env \<Rightarrow> string \<Rightarrow> string \<Rightarrow> clock \<Rightarrow> string \<Rightarrow> nat option \<Rightarrow>
    ('b, 'c, 'k) token_store \<Rightarrow> token_answer \<times> ('b, 'c, 'k) token_store" where
  "build_opaque_response E opq_access opq_refresh c session_key keycloak_expires_in s =
     (let opaque_secs = OPAQUE_ACCESS_TTL div secs 1;
          expires_in = (case keycloak_expires_in of Some kc \<Rightarrow> min kc opaque_secs | None \<Rightarrow> opaque_secs)
      in (Issued (JObj [(''access_token'', JStr opq_access), (''token_type'', JStr ''Bearer''),
                        (''expires_in'', JInt (int expires_in)), (''refresh_token'', JStr opq_refresh)]),
          store_opaque_mapping_with_access_ttl E c session_key opq_access opq_refresh (secs expires_in) s))"

text \<open>The remaining life of the real token, in whole seconds.\<close>

definition remaining_secs :: "clock \<Rightarrow> 'c stored_token \<Rightarrow> nat option" where
  "remaining_secs c t =
     map_option (\<lambda>ea. if ea > mono c then (ea - mono c) div secs 1 else 0) (expires_at t)"

definition handle_opaque_refresh :: "('b, 'v, 'c) store_env \<Rightarrow> http_post \<Rightarrow> string \<Rightarrow> string \<Rightarrow> clock \<Rightarrow>
    ('b, 'c, 'k) waiting \<Rightarrow> (string \<times> string) list \<Rightarrow> ('b, 'c, 'k) token_store \<Rightarrow>
    ((http_error + token_answer) \<times> ('b, 'c, 'k) token_store) option" where
  "handle_opaque_refresh E post opq_access opq_refresh c w params s =
     (case find_param ''refresh_token'' params of
        None \<Rightarrow> Some (Inl (invalid_request ''refresh_token required''), s)
      | Some client_refresh_token \<Rightarrow>
          (case resolve_opaque_refresh E c client_refresh_token s of
             (None, s1) \<Rightarrow> Some (Inl (UnauthorizedError ''Invalid refresh token''), s1)
           | (Some sid, s1) \<Rightarrow>
               (case get_token E post (wt_lock_token w) sid c (wt_locked w) (wt_polls w) s1 of
                  None \<Rightarrow> None
                | Some (None, c', s2) \<Rightarrow>
                    Some (Inl (UnauthorizedError ''Session expired, re-authentication required''),
                          remove_opaque_for_session E c' sid s2)
                | Some (Some token, c', s2) \<Rightarrow>
                    (case build_opaque_response E opq_access opq_refresh c' sid (remaining_secs c' token) s2 of
                       (answer, s3) \<Rightarrow> Some (Inr answer, s3)))))"

definition opaque_token_handler :: "mcp_oauth_state \<Rightarrow> proxy_lib \<Rightarrow> header_lib \<Rightarrow> ('b, 'v, 'c) store_env \<Rightarrow>
    http_post \<Rightarrow> token_endpoint \<Rightarrow> string \<Rightarrow> string \<Rightarrow> string \<Rightarrow> clock \<Rightarrow> ('b, 'c, 'k) waiting \<Rightarrow>
    headers \<Rightarrow> string option \<Rightarrow> ('b, 'c, 'k) token_store \<Rightarrow>
    ((http_error + token_answer) \<times> ('b, 'c, 'k) token_store) option" where
  "opaque_token_handler st X H E post endpoint session_uuid opq_access opq_refresh c w hs body s =
     (case read_token_request X H body hs of
        Inl e \<Rightarrow> Some (Inl e, s)
      | Inr (params, grant_type) \<Rightarrow>
          if grant_type = ''refresh_token''
          then handle_opaque_refresh E post opq_access opq_refresh c w params s
          else
            (case forward_to_keycloak st endpoint (inject_keycloak_credentials st params) of
               Inl e \<Rightarrow> Some (Inl e, s)
             | Inr (status, content_type, reply) \<Rightarrow>
                 (case reply_grant X status reply of
                    Some (j, acc) \<Rightarrow>
                      (case build_opaque_response E opq_access opq_refresh c session_uuid
                              (as_u64 (json_index j ''expires_in''))
                              (store_token E c session_uuid (grant_token c j acc) s) of
                         (answer, s1) \<Rightarrow> Some (Inr answer, s1))
                  | None \<Rightarrow> Some (Inr (build_passthrough_response status content_type reply), s))))"

definition token_handler :: "mcp_oauth_state \<Rightarrow> proxy_lib \<Rightarrow> header_lib \<Rightarrow> ('b, 'v, 'c) store_env \<Rightarrow>
    http_post \<Rightarrow> token_endpoint \<Rightarrow> string \<Rightarrow> string \<Rightarrow> string \<Rightarrow> clock \<Rightarrow> ('b, 'c, 'k) waiting \<Rightarrow>
    headers \<Rightarrow> string option \<Rightarrow> ('b, 'c, 'k) token_store \<Rightarrow>
    ((http_error + token_answer) \<times> ('b, 'c, 'k) token_store) option" where
  "token_handler st X H E post endpoint session_uuid opq_access opq_refresh c w hs body s =
     (case mo_token_mode st of
        Opaque \<Rightarrow> opaque_token_handler st X H E post endpoint session_uuid opq_access opq_refresh c w hs body s
      | Passthrough \<Rightarrow> Some (passthrough_token_handler st X H E endpoint c hs body s)
      | ResourceServer \<Rightarrow> Some (Inl (oauth_error 404 ''invalid_request''
          (''This server is a pure OAuth resource server and does not proxy token '' @
           ''requests. Use the token endpoint advertised by the authorization server.'')), s))"

end
