(* ===== verification/OAuth_Routes.thy ===== *)
theory OAuth_Routes
  imports OAuth_Proxy
begin

text \<open>
  The browser routes, \<open>src/src/auth/routes.rs\<close>: the callback that both the proxied authorization
  and the server-side login share, the login itself and the status probe; and the escaping of the
  page it ends on, \<open>src/src/auth/templates.rs\<close>. The \<open>oauth2\<close> crate is the record \<open>login_lib\<close>.
\<close>

record callback_query =
  cq_code :: "string option"
  cq_state :: string
  cq_error :: "string option"
  cq_error_description :: "string option"
  cq_error_uri :: "string option"

text \<open>
  Building the client may fail; \<open>ll_pkce\<close> is the pair of a fresh challenge and its verifier,
  \<open>ll_authorize_url\<close> the URL for a state, a challenge and the scopes, and \<open>ll_exchange\<close> the
  answer to a code and a verifier: an error or access token, refresh token and lifetime.
\<close>

record login_lib =
  ll_client_ok :: bool
  ll_pkce :: "string \<times> string"
  ll_authorize_url :: "string \<Rightarrow> string \<Rightarrow> string list \<Rightarrow> string"
  ll_exchange :: "string \<Rightarrow> string \<Rightarrow> string + string \<times> string option \<times> duration option"

section \<open>Completing a proxied authorization\<close>

definition append_opt :: "('u, 'o) url_lib \<Rightarrow> string \<Rightarrow> string option \<Rightarrow> 'u \<Rightarrow> 'u" where
  "append_opt U name value u = (case value of Some v \<Rightarrow> url_append_pair U name v u | None \<Rightarrow> u)"

text \<open>The answer is the \<open>Location\<close> of a 302.\<close>

definition forward_proxied_callback :: "('u, 'o) url_lib \<Rightarrow> proxied_authorization \<Rightarrow> callback_query \<Rightarrow>
    http_error + string" where
  "forward_proxied_callback U proxied q =
     (case url_parse U (pa_redirect_uri proxied) of
        None \<Rightarrow> Inl (InternalError ''Invalid stored redirect_uri'')
      | Some target \<Rightarrow>
          (let finish = (\<lambda>u. Inr (url_text U (url_append_pair U ''iss'' (pa_issuer proxied)
                               (append_opt U ''state'' (pa_client_state proxied) u))))
           in case (cq_code q, cq_error q) of
                (Some code, None) \<Rightarrow> finish (url_append_pair U ''code'' code target)
              | (_, Some error) \<Rightarrow>
                  finish (append_opt U ''error_uri'' (cq_error_uri q)
                    (append_opt U ''error_description'' (cq_error_description q)
                      (url_append_pair U ''error'' error target)))
              | (None, None) \<Rightarrow>
                  Inl (BadRequest ''Authorization response carries neither code nor error'')))"

section \<open>The server-side login\<close>

definition login_state :: "string \<Rightarrow> string option \<Rightarrow> string" where
  "login_state uuid session_id = (case session_id of Some sid \<Rightarrow> uuid @ '':'' @ sid | None \<Rightarrow> uuid)"

definition login_handler :: "oauth_config \<Rightarrow> login_lib \<Rightarrow> string \<Rightarrow> clock \<Rightarrow> string option \<Rightarrow>
    ('b, 'c, 'k) token_store \<Rightarrow> (http_error + string) \<times> ('b, 'c, 'k) token_store" where
  "login_handler cfg LL uuid c session_id s =
     (if \<not> ll_client_ok LL then (Inl (InternalError ''OAuth configuration error''), s)
      else
        (let (challenge, verifier) = ll_pkce LL;
             csrf_state = login_state uuid session_id
         in (Inr (ll_authorize_url LL csrf_state challenge (oc_scopes cfg)),
             store_pending_auth c csrf_state verifier s)))"

text \<open>\<open>state.split(':').nth(1)\<close>.\<close>

definition state_session :: "string \<Rightarrow> string option" where
  "state_session state =
     (case split_on (CHR '':'') state of _ # sid # _ \<Rightarrow> Some sid | _ \<Rightarrow> None)"

text \<open>The answer is the session shown on the success page.\<close>

definition login_callback :: "login_lib \<Rightarrow> ('b, 'v, 'c) store_env \<Rightarrow> string \<Rightarrow> clock \<Rightarrow> callback_query \<Rightarrow>
    ('b, 'c, 'k) token_store \<Rightarrow> (http_error + string) \<times> ('b, 'c, 'k) token_store" where
  "login_callback LL E uuid c q s =
     (case cq_code q of
        None \<Rightarrow> (Inl (BadRequest (''Authentication failed: '' @ unwrap_or (cq_error q) ''no authorization code'')), s)
      | Some code \<Rightarrow>
          (case take_pending_auth (cq_state q) s of
             (None, s1) \<Rightarrow> (Inl (BadRequest ''Invalid or expired authentication state''), s1)
           | (Some pending, s1) \<Rightarrow>
               if pending_is_expired c pending
               then (Inl (BadRequest ''Authentication request has timed out''), s1)
               else if \<not> ll_client_ok LL then (Inl (InternalError ''OAuth configuration error''), s1)
               else
                 (case ll_exchange LL code (pkce_verifier pending) of
                    Inl e \<Rightarrow> (Inl (InternalError (''Failed to exchange authorization code: '' @ e)), s1)
                  | Inr (acc, ref, expires_in) \<Rightarrow>
                      (let final_session_id = unwrap_or (state_session (cq_state q)) uuid
                       in (Inr final_session_id,
                           store_token E c final_session_id (from_token_response c acc ref expires_in) s1)))))"

section \<open>The callback\<close>

datatype callback_answer = Found string | SuccessPage string

definition callback_handler :: "('u, 'o) url_lib \<Rightarrow> login_lib \<Rightarrow> ('b, 'v, 'c) store_env \<Rightarrow> string \<Rightarrow> clock \<Rightarrow>
    callback_query \<Rightarrow> ('b, 'c, 'k) token_store \<Rightarrow> (http_error + callback_answer) \<times> ('b, 'c, 'k) token_store" where
  "callback_handler U LL E uuid c q s =
     (case take_proxied_authorization E c (cq_state q) s of
        (Some proxied, s1) \<Rightarrow> (map_sum id Found (forward_proxied_callback U proxied q), s1)
      | (None, s1) \<Rightarrow>
          (case login_callback LL E uuid c q s1 of (r, s2) \<Rightarrow> (map_sum id SuccessPage r, s2)))"

definition status_handler :: "('b, 'v, 'c) store_env \<Rightarrow> clock \<Rightarrow> string option \<Rightarrow>
    ('b, 'c, 'k) token_store \<Rightarrow> (http_error + string) \<times> ('b, 'c, 'k) token_store" where
  "status_handler E c session_id s =
     (case session_id of
        None \<Rightarrow> (Inl (BadRequest ''session_id required''), s)
      | Some sid \<Rightarrow>
          (case has_valid_token E c sid s of
             (valid, s1) \<Rightarrow> ((if valid then Inr ''authenticated'' else Inl (UnauthorizedError ''not authenticated'')), s1)))"

section \<open>The success page\<close>

definition escape_html :: "string \<Rightarrow> string" where
  "escape_html s =
     replace_char (CHR 0x27) ''&#x27;''
       (replace_char (CHR 0x22) ''&quot;''
         (replace_char (CHR ''>'') ''&gt;''
           (replace_char (CHR ''<'') ''&lt;''
             (replace_char (CHR ''&'') ''&amp;'' s))))"

lemma escape_html_safe:
  "{CHR ''<'', CHR ''>'', CHR 0x22, CHR 0x27} \<inter> set (escape_html s) = {}"
proof -
  let ?a = "replace_char (CHR ''&'') ''&amp;'' s"
  let ?b = "replace_char (CHR ''<'') ''&lt;'' ?a"
  let ?c = "replace_char (CHR ''>'') ''&gt;'' ?b"
  let ?d = "replace_char (CHR 0x22) ''&quot;'' ?c"
  have "CHR ''<'' \<notin> set ?b" using replace_char_set [of "CHR ''<''" "''&lt;''" ?a] by auto
  moreover have "CHR ''<'' \<notin> set ?c" "CHR ''>'' \<notin> set ?c"
    using calculation replace_char_set [of "CHR ''>''" "''&gt;''" ?b] by auto
  moreover have "{CHR ''<'', CHR ''>'', CHR 0x22} \<inter> set ?d = {}"
    using calculation replace_char_set [of "CHR 0x22" "''&quot;''" ?c] by auto
  ultimately show ?thesis
    unfolding escape_html_def using replace_char_set [of "CHR 0x27" "''&#x27;''" ?d] by auto
qed

end
