(* ===== verification/Parking.thy ===== *)
theory Parking
  imports Token_Refresh OAuth_Routes
begin

text \<open>
  What the OAuth endpoints do to the parked authorizations and the registered clients. Every
  operation on tokens, opaque tokens and grants leaves them alone (\<open>same_parking\<close>), in memory and
  in the backend, so that only \<open>/authorize\<close>, \<open>/callback\<close> and \<open>/register\<close> matter for where an
  authorization code may go.
\<close>

definition parking_ns :: "string \<Rightarrow> bool" where
  "parking_ns ns \<longleftrightarrow> ns = NS_PROXIED_AUTH \<or> ns = NS_OAUTH_CLIENTS"

lemma parking_ns_simps [simp]:
  "\<not> parking_ns NS_TOKENS" "\<not> parking_ns NS_OPAQUE" "\<not> parking_ns NS_OPAQUE_ACCESS"
  "\<not> parking_ns NS_OPAQUE_REFRESH" "\<not> parking_ns NS_GRANT_REFRESH" "\<not> parking_ns NS_REFRESH_LOCK"
  "parking_ns NS_PROXIED_AUTH" "parking_ns NS_OAUTH_CLIENTS"
  by (simp_all add: parking_ns_def ns_defs)

definition same_parking :: "('b \<Rightarrow> bool) \<Rightarrow> (instant \<Rightarrow> 'b \<Rightarrow> data_key \<Rightarrow> 'v option) \<Rightarrow>
    ('b, 'c, 'k) token_store \<Rightarrow> ('b, 'c, 'k) token_store \<Rightarrow> bool" where
  "same_parking binv look s s' \<longleftrightarrow>
     proxied_auths s' = proxied_auths s \<and> client_redirects s' = client_redirects s \<and>
     (binv (backend s) \<longrightarrow> binv (backend s') \<and>
       (\<forall>t ns k. parking_ns ns \<longrightarrow> look t (backend s') (ns, k) = look t (backend s) (ns, k)))"

lemma same_parking_trans:
  "same_parking binv look s s' \<Longrightarrow> same_parking binv look s' s'' \<Longrightarrow> same_parking binv look s s''"
  by (simp add: same_parking_def)

lemma same_parking_refl [simp]: "same_parking binv look s s"
  by (simp add: same_parking_def)

lemma same_parking_memory:
  "proxied_auths s' = proxied_auths s \<Longrightarrow> client_redirects s' = client_redirects s \<Longrightarrow> backend s' = backend s \<Longrightarrow>
     same_parking binv look s s'"
  by (simp add: same_parking_def)

context coordinated_backend
begin

lemma persist_parking:
  "binv b \<Longrightarrow> parking_ns ns' \<Longrightarrow> \<not> parking_ns ns \<Longrightarrow> look t (persist ops c ns k v ttl b) (ns', k') = look t b (ns', k')"
  by (rule persist_other) auto

lemma persist_raw_parking:
  "binv b \<Longrightarrow> parking_ns ns' \<Longrightarrow> \<not> parking_ns ns \<Longrightarrow> look t (persist_raw ops c ns k v ttl b) (ns', k') = look t b (ns', k')"
  by (rule persist_raw_other) auto

lemma discard_parking:
  "binv b \<Longrightarrow> parking_ns ns' \<Longrightarrow> \<not> parking_ns ns \<Longrightarrow> look t (discard ops c ns k b) (ns', k') = look t b (ns', k')"
  by (rule discard_other) auto

lemma drop_inverse_parking:
  "binv b \<Longrightarrow> parking_ns ns' \<Longrightarrow> look t (drop_inverse ops c m b) (ns', k') = look t b (ns', k')"
  by (simp add: drop_inverse_def discard_parking discard_inv)

lemma same_parking_write:
  assumes "persistence E = Some ops"
    and "proxied_auths s1 = proxied_auths s" "client_redirects s1 = client_redirects s" "backend s1 = backend s"
    and "binv (backend s) \<Longrightarrow> binv (f ops (backend s))"
    and "\<And>t ns k. binv (backend s) \<Longrightarrow> parking_ns ns \<Longrightarrow> look t (f ops (backend s)) (ns, k) = look t (backend s) (ns, k)"
  shows "same_parking binv look s (write_through E f s1)"
  using assms by (simp add: same_parking_def write_through_def)

lemmas parking_simps = persist_parking persist_raw_parking discard_parking drop_inverse_parking
  persist_inv persist_raw_inv discard_inv drop_inverse_inv

lemma store_token_parking: "persistence E = Some ops \<Longrightarrow> same_parking binv look s (store_token E c sid t s)"
  unfolding store_token_def Let_def by (rule same_parking_write) (simp_all add: parking_simps)

lemma get_token_raw_parking: "same_parking binv look s (snd (get_token_raw E c sid s))"
  by (rule same_parking_memory) (simp_all add: get_token_raw_def split: option.split)

lemma adopt_parking: "same_parking binv look s (snd (adopt_persisted_token E c sid s))"
  by (rule same_parking_memory) (simp_all add: adopt_persisted_token_def split: option.split)

lemma remove_opaque_parking:
  assumes "persistence E = Some ops"
  shows "same_parking binv look s (remove_opaque_for_session E c sid s)"
  unfolding remove_opaque_for_session_def Let_def
  by (split prod.split, intro allI impI, rule same_parking_write [OF assms])
     (simp_all add: parking_simps split: option.split)

lemma remove_token_parking:
  assumes "persistence E = Some ops"
  shows "same_parking binv look s (remove_token E c sid s)"
proof -
  let ?s1 = "s\<lparr>tokens := hm_remove sid (tokens s), refresh_locks := hm_remove sid (refresh_locks s)\<rparr>"
  have "same_parking binv look s ?s1" by (rule same_parking_memory) simp_all
  moreover have "same_parking binv look ?s1 (remove_opaque_for_session E c sid ?s1)"
    by (rule remove_opaque_parking [OF assms])
  moreover have "same_parking binv look x (write_through E (\<lambda>ops. discard ops c NS_TOKENS sid) x)" for x
    by (rule same_parking_write [OF assms]) (simp_all add: parking_simps)
  ultimately show ?thesis
    unfolding remove_token_def Let_def by (blast intro: same_parking_trans)
qed

lemma store_opaque_parking:
  assumes "persistence E = Some ops"
  shows "same_parking binv look s (store_opaque_mapping_with_access_ttl E c sid a r ttl s)"
  unfolding store_opaque_mapping_with_access_ttl_def Let_def
  by (split prod.split, intro allI impI, rule same_parking_write [OF assms])
     (simp_all add: parking_simps split: option.split)

lemma resolve_opaque_refresh_parking:
  assumes "persistence E = Some ops"
  shows "same_parking binv look s (snd (resolve_opaque_refresh E c r s))"
proof -
  have "same_parking binv look s (write_through E (\<lambda>ops. discard ops c NS_OPAQUE_REFRESH r) s)"
    by (rule same_parking_write [OF assms]) (simp_all add: parking_simps)
  moreover have "same_parking binv look s (hydrate_opaque c sid m s)" for sid m
    by (rule same_parking_memory) (simp_all add: hydrate_opaque_def)
  ultimately show ?thesis
    by (simp add: resolve_opaque_refresh_def remove_opaque_parking [OF assms] split: option.split)
qed

lemma index_grant_parking: "persistence E = Some ops \<Longrightarrow> same_parking binv look s (index_grant_refresh E c r k s)"
  unfolding index_grant_refresh_def Let_def by (rule same_parking_write) (simp_all add: parking_simps)

lemma remove_grant_parking: "persistence E = Some ops \<Longrightarrow> same_parking binv look s (remove_grant_refresh E c r s)"
  unfolding remove_grant_refresh_def Let_def by (rule same_parking_write) (simp_all add: parking_simps)

lemma resolve_grant_parking: "same_parking binv look s (snd (resolve_grant_refresh E c r s))"
  by (rule same_parking_memory) (simp_all add: resolve_grant_refresh_def Let_def split: option.split)

lemma retire_parking:
  assumes "persistence E = Some ops"
  shows "same_parking binv look s (retire_spent_grant E c spent key s)"
proof -
  obtain old s1 where r: "resolve_grant_refresh E c spent s = (old, s1)" by (cases "resolve_grant_refresh E c spent s")
  have "same_parking binv look s s1" using resolve_grant_parking [of s E c spent] r by simp
  then show ?thesis
    unfolding retire_spent_grant_def r
    by (auto simp: split: option.split
        intro: same_parking_trans [OF _ remove_grant_parking [OF assms]]
          same_parking_trans [OF _ remove_token_parking [OF assms]])
qed

lemma adopt_grant_parking:
  assumes "persistence E = Some ops"
  shows "same_parking binv look s (adopt_grant E c spent j acc s)"
  unfolding adopt_grant_def Let_def
  by (auto split: option.split intro: same_parking_trans [OF _ index_grant_parking [OF assms]]
        same_parking_trans [OF _ store_token_parking [OF assms]] retire_parking [OF assms] same_parking_refl)

lemma lock_parking:
  "same_parking binv look s (s\<lparr>backend := snd (be_try_acquire_lock ops now NS_REFRESH_LOCK sid tok REFRESH_LOCK_TTL (backend s))\<rparr>)"
  by (auto simp: same_parking_def acquire_inv parking_ns_def ns_defs intro!: acquire_other_ns)

lemma release_parking: "same_parking binv look s (release_refresh_lock ops holding c sid tok s)"
  by (auto simp: same_parking_def release_refresh_lock_def release_inv parking_ns_def ns_defs intro!: release_other_ns)

lemma do_refresh_parking:
  assumes "persistence E = Some ops"
  shows "same_parking binv look s (snd (do_refresh E post c sid s))"
proof -
  obtain t s1 where r: "get_token_raw E c sid s = (t, s1)" by (cases "get_token_raw E c sid s")
  have "same_parking binv look s s1" using get_token_raw_parking [of s E c sid] r by simp
  moreover have "same_parking binv look s (store_token E c sid new s1)" for new
    using calculation store_token_parking [OF assms] by (blast intro: same_parking_trans)
  ultimately show ?thesis
    by (auto simp: do_refresh_def refresh_stored_token_def r split: option.split http_result.split sum.split)
qed

lemma wait_parking:
  assumes "persistence E = Some ops" "\<forall>w \<in> set ws. \<forall>x. same_parking binv look x (snd w x)"
    and "wait_refresh_lock E ops dl tok sid c ws s = Some (r, c', s')"
  shows "same_parking binv look s s'"
  using assms(2,3)
proof (induction ws arbitrary: c s)
  case Nil
  obtain res b where acq: "be_try_acquire_lock ops (mono c) NS_REFRESH_LOCK sid tok REFRESH_LOCK_TTL (backend s) = (res, b)"
    by (cases "be_try_acquire_lock ops (mono c) NS_REFRESH_LOCK sid tok REFRESH_LOCK_TTL (backend s)")
  have lock: "same_parking binv look s (s\<lparr>backend := b\<rparr>)" using lock_parking [of s "mono c" sid tok] acq by simp
  show ?case
    using Nil.prems(2) lock adopt_parking [of "s\<lparr>backend := b\<rparr>" E c sid]
    by (subst (asm) wait_refresh_lock.simps)
       (auto simp: acq split: sum.splits bool.splits prod.splits option.splits if_splits intro: same_parking_trans)
next
  case (Cons w ws)
  obtain c1 others where w: "w = (c1, others)" by (cases w)
  obtain res b where acq: "be_try_acquire_lock ops (mono c) NS_REFRESH_LOCK sid tok REFRESH_LOCK_TTL (backend s) = (res, b)"
    by (cases "be_try_acquire_lock ops (mono c) NS_REFRESH_LOCK sid tok REFRESH_LOCK_TTL (backend s)")
  have lock: "same_parking binv look s (s\<lparr>backend := b\<rparr>)" using lock_parking [of s "mono c" sid tok] acq by simp
  obtain a s2 where ad: "adopt_persisted_token E c sid (s\<lparr>backend := b\<rparr>) = (a, s2)"
    by (cases "adopt_persisted_token E c sid (s\<lparr>backend := b\<rparr>)")
  have s2: "same_parking binv look s s2"
    using same_parking_trans [OF lock adopt_parking, of E c sid] ad by simp
  have "same_parking binv look s2 (others s2)" using Cons.prems(1) w by simp
  then have others: "same_parking binv look s (others s2)" using s2 by (rule same_parking_trans [rotated])
  have rec: "wait_refresh_lock E ops dl tok sid c1 ws (others s2) = Some (r, c', s') \<Longrightarrow> same_parking binv look s s'"
    using Cons.IH [of c1 "others s2"] Cons.prems(1) others by (auto intro: same_parking_trans)
  show ?case
    using Cons.prems(2) lock s2 rec
    by (subst (asm) wait_refresh_lock.simps)
       (auto simp: acq ad w split: sum.splits bool.splits option.splits if_splits)
qed

lemma distributed_parking:
  assumes "persistence E = Some ops" "\<forall>w \<in> set ws. \<forall>x. same_parking binv look x (snd w x)"
    and "refresh_with_distributed_lock E post tok sid c ws s = Some (r, c', s')"
  shows "same_parking binv look s s'"
proof -
  obtain lw c1 s1 where w: "wait_refresh_lock E ops (mono c + REFRESH_LOCK_WAIT) tok sid c ws s = Some (lw, c1, s1)"
    using assms(1,3) by (auto simp: refresh_with_distributed_lock_def split: option.splits)
  have s1: "same_parking binv look s s1" by (rule wait_parking [OF assms(1,2) w])
  show ?thesis
  proof (cases lw)
    case (Adopted fresh)
    with assms(1,3) w s1 show ?thesis by (auto simp: refresh_with_distributed_lock_def)
  next
    case (Proceed holding)
    obtain a s2 where ad: "adopt_persisted_token E c1 sid s1 = (a, s2)" by (cases "adopt_persisted_token E c1 sid s1")
    have s2: "same_parking binv look s s2" using same_parking_trans [OF s1 adopt_parking, of E c1 sid] ad by simp
    obtain d s3 where dr: "do_refresh E post c1 sid s2 = (d, s3)" by (cases "do_refresh E post c1 sid s2")
    have s3: "same_parking binv look s s3"
      using same_parking_trans [OF s2 do_refresh_parking [OF assms(1)], of post c1 sid] dr by simp
    from assms(1,3) w Proceed ad dr have "s' = release_refresh_lock ops holding c1 sid tok s2 \<or>
        s' = release_refresh_lock ops holding c1 sid tok s3"
      by (auto simp: refresh_with_distributed_lock_def split: option.splits)
    then show ?thesis using s2 s3 by (auto intro: same_parking_trans [OF _ release_parking])
  qed
qed

lemma get_token_parking:
  assumes "persistence E = Some ops" "\<forall>x. same_parking binv look x (snd locked x)"
    and "\<forall>w \<in> set ws. \<forall>x. same_parking binv look x (snd w x)"
    and "get_token E post tok sid c locked ws s = Some (r, c', s')"
  shows "same_parking binv look s s'"
proof -
  obtain t s1 where g: "get_token_raw E c sid s = (t, s1)" by (cases "get_token_raw E c sid s")
  have s1: "same_parking binv look s s1" using get_token_raw_parking [of s E c sid] g by simp
  obtain c1 others where l: "locked = (c1, others)" by (cases locked)
  obtain t2 s2 where g2: "get_token_raw E c1 sid (others (get_refresh_lock sid s1)) = (t2, s2)"
    by (cases "get_token_raw E c1 sid (others (get_refresh_lock sid s1))")
  have "same_parking binv look s1 (get_refresh_lock sid s1)"
    by (rule same_parking_memory) (simp_all add: get_refresh_lock_def)
  moreover have "same_parking binv look (get_refresh_lock sid s1) (others (get_refresh_lock sid s1))"
    using assms(2) l by simp
  moreover have "same_parking binv look (others (get_refresh_lock sid s1)) s2"
    using get_token_raw_parking [of "others (get_refresh_lock sid s1)" E c1 sid] g2 by simp
  ultimately have s2: "same_parking binv look s s2" using s1 by (blast intro: same_parking_trans)
  have "s' = s1 \<or> s' = s2 \<or> refresh_with_distributed_lock E post tok sid c1 ws s2 = Some (r, c', s')"
    using assms(4) g g2 l by (auto simp: get_token_def split: option.splits if_splits)
  with s1 s2 show ?thesis
    using distributed_parking [OF assms(1,3)] by (blast intro: same_parking_trans)
qed

lemma build_opaque_parking:
  assumes "persistence E = Some ops"
  shows "same_parking binv look s (snd (build_opaque_response E oa orf c key kc s))"
  unfolding build_opaque_response_def Let_def by (simp add: store_opaque_parking [OF assms])

text \<open>No token request touches a parked authorization or a registered client.\<close>

lemma token_handler_parking:
  assumes "persistence E = Some ops" "\<forall>x. same_parking binv look x (snd (wt_locked w) x)"
    and "\<forall>p \<in> set (wt_polls w). \<forall>x. same_parking binv look x (snd p x)"
    and "token_handler st X H E post endpoint uuid oa orf c w hs body s = Some (r, s')"
  shows "same_parking binv look s s'"
proof -
  have opq: "same_parking binv look s s'"
    if "handle_opaque_refresh E post oa orf c w params s = Some (r, s')" for params
  proof -
    have res: "resolve_opaque_refresh E c t s = (x, y) \<Longrightarrow> same_parking binv look s y" for t x y
      using resolve_opaque_refresh_parking [OF assms(1), of s c t] by simp
    have get: "get_token E post (wt_lock_token w) sid c (wt_locked w) (wt_polls w) y = Some (x, c', z) \<Longrightarrow>
        same_parking binv look s y \<Longrightarrow> same_parking binv look s z" for sid y x c' z
      using get_token_parking [OF assms(1-3)] by (blast intro: same_parking_trans)
    have build: "build_opaque_response E oa orf c' sid kc y = (x, z) \<Longrightarrow> same_parking binv look s y \<Longrightarrow> same_parking binv look s z"
      for c' sid kc y x z
      using build_opaque_parking [OF assms(1), of y oa orf c' sid kc] by (auto intro: same_parking_trans)
    from that show ?thesis
      by (auto simp: handle_opaque_refresh_def split: option.splits prod.splits
          dest!: res dest: get build intro: same_parking_trans [OF _ remove_opaque_parking [OF assms(1)]])
  qed
  have build: "build_opaque_response E oa orf c uuid kc (store_token E c uuid t s) = (x, z) \<Longrightarrow> same_parking binv look s z"
    for kc t x z
    using build_opaque_parking [OF assms(1), of "store_token E c uuid t s" oa orf c uuid kc]
      same_parking_trans [OF store_token_parking [OF assms(1)]] by auto
  show ?thesis
    using assms(4) opq build adopt_grant_parking [OF assms(1)]
    by (auto simp: token_handler_def opaque_token_handler_def passthrough_token_handler_def Let_def
        split: token_mode.splits sum.splits option.splits if_splits prod.splits)
qed

end

end
