(* ===== verification/Code_Flow.thy ===== *)
theory Code_Flow
  imports Parking
begin

text \<open>
  The proxied authorization-code flow as a cluster: any number of instances, each with its own
  memory, on one shared backend, answering requests to the OAuth endpoints in any order. The
  ghost component is the set of redirect URIs that successful registrations announced; the
  invariant is that every parked authorization, in the memory of an instance or in the backend,
  leads to a URI the policy sanctions, and carries this server's issuer.
\<close>

section \<open>The cluster\<close>

inductive flow_step :: "mcp_oauth_state \<Rightarrow> ('u, 'o) url_lib \<Rightarrow> ('b, 'v, 'c) store_env \<Rightarrow>
    ('b, 'c, 'k) token_store \<times> string set \<Rightarrow> ('b, 'c, 'k) token_store \<times> string set \<Rightarrow> bool"
  for st U E
where
  Register: "register_handler st E post uuid c rq s = (Inr (status, resp), s') \<Longrightarrow>
    flow_step st U E (s, R) (s', R \<union> set (rs_redirect_uris resp))"
| Register_Failed: "register_handler st E post uuid c rq s = (Inl e, s') \<Longrightarrow> flow_step st U E (s, R) (s', R)"
| Authorize: "authorize_handler st U X E server_state c ar s = (r, s') \<Longrightarrow> flow_step st U E (s, R) (s', R)"
| Callback: "callback_handler U LL E uuid c q s = (r, s') \<Longrightarrow> flow_step st U E (s, R) (s', R)"
| Login: "login_handler cfg LL uuid c sid s = (r, s') \<Longrightarrow> flow_step st U E (s, R) (s', R)"
| Status: "status_handler E c sid s = (r, s') \<Longrightarrow> flow_step st U E (s, R) (s', R)"
| Token: "token_handler st X H E http endpoint uuid oa orf c
      \<lparr>wt_lock_token = tok, wt_locked = (c1, \<lambda>x. x), wt_polls = map (\<lambda>ci. (ci, \<lambda>x. x)) polls\<rparr> hs body s = Some (r, s') \<Longrightarrow>
    flow_step st U E (s, R) (s', R)"

type_synonym ('b, 'c, 'k) cluster = "(nat \<Rightarrow> ('b, 'c, 'k) token_store) \<times> 'b \<times> string set"

text \<open>A step of instance \<open>i\<close> runs on its own memory and the shared backend.\<close>

inductive reachable_cluster :: "mcp_oauth_state \<Rightarrow> ('u, 'o) url_lib \<Rightarrow> ('b, 'v, 'c) store_env \<Rightarrow> 'b \<Rightarrow>
    ('b, 'c, 'k) cluster \<Rightarrow> bool"
  for st U E b0
where
  Boot: "\<forall>i. insts i = token_store_new b0 \<or> (\<exists>cfg. insts i = with_refresh_config cfg b0) \<Longrightarrow>
    reachable_cluster st U E b0 (insts, b0, {})"
| Serve: "reachable_cluster st U E b0 (insts, b, R) \<Longrightarrow>
    flow_step st U E ((insts i)\<lparr>backend := b\<rparr>, R) (s', R') \<Longrightarrow>
    reachable_cluster st U E b0 (insts(i := s'), backend s', R')"

inductive_cases flow_stepE: "flow_step st U E (s, R) (s', R')"
inductive_simps reachable_cluster_simps: "reachable_cluster st U E b0 S"

section \<open>The invariant\<close>

definition sanctioned :: "mcp_oauth_state \<Rightarrow> ('u, 'o) url_lib \<Rightarrow> string set \<Rightarrow> proxied_authorization \<Rightarrow> bool" where
  "sanctioned st U R a \<longleftrightarrow>
     pa_issuer a = mo_public_url st \<and>
     (is_own_uri U (mo_public_url st) (mo_allowed_redirect_uris st) (pa_redirect_uri a) \<or> pa_redirect_uri a \<in> R) \<and>
     (\<exists>u. url_parse U (pa_redirect_uri a) = Some u \<and> url_fragment U u = None)"

lemma sanctioned_mono: "sanctioned st U R a \<Longrightarrow> R \<subseteq> R' \<Longrightarrow> sanctioned st U R' a"
  by (auto simp: sanctioned_def)

definition parked_ok :: "('b \<Rightarrow> bool) \<Rightarrow> (instant \<Rightarrow> 'b \<Rightarrow> data_key \<Rightarrow> 'v option) \<Rightarrow> mcp_oauth_state \<Rightarrow>
    ('u, 'o) url_lib \<Rightarrow> ('b, 'v, 'c) store_env \<Rightarrow> string set \<Rightarrow> ('b, 'c, 'k) token_store \<Rightarrow> bool" where
  "parked_ok binv look st U E R s \<longleftrightarrow>
     hm_ok (proxied_auths s) \<and> binv (backend s) \<and>
     (\<forall>k a t. hm_get (proxied_auths s) k = Some (a, t) \<longrightarrow> sanctioned st U R a) \<and>
     (\<forall>t k v a. look t (backend s) (NS_PROXIED_AUTH, k) = Some v \<longrightarrow> dec_proxied (serde E) v = Some a \<longrightarrow>
        sanctioned st U R a) \<and>
     (\<forall>k us. hm_get (client_redirects s) k = Some us \<longrightarrow> set us \<subseteq> R) \<and>
     (\<forall>t k v us. look t (backend s) (NS_OAUTH_CLIENTS, k) = Some v \<longrightarrow> dec_uris (serde E) v = Some us \<longrightarrow> set us \<subseteq> R)"

lemma parked_okI:
  assumes "hm_ok (proxied_auths s)" "binv (backend s)"
    and "\<And>k a t. hm_get (proxied_auths s) k = Some (a, t) \<Longrightarrow> sanctioned st U R a"
    and "\<And>t k v a. look t (backend s) (NS_PROXIED_AUTH, k) = Some v \<Longrightarrow> dec_proxied (serde E) v = Some a \<Longrightarrow> sanctioned st U R a"
    and "\<And>k us. hm_get (client_redirects s) k = Some us \<Longrightarrow> set us \<subseteq> R"
    and "\<And>t k v us. look t (backend s) (NS_OAUTH_CLIENTS, k) = Some v \<Longrightarrow> dec_uris (serde E) v = Some us \<Longrightarrow> set us \<subseteq> R"
  shows "parked_ok binv look st U E R s"
  using assms unfolding parked_ok_def by blast

lemma parked_okD:
  assumes "parked_ok binv look st U E R s"
  shows "hm_ok (proxied_auths s)" "binv (backend s)"
    and "hm_get (proxied_auths s) k = Some (a, t) \<Longrightarrow> sanctioned st U R a"
    and "look t (backend s) (NS_PROXIED_AUTH, k) = Some v \<Longrightarrow> dec_proxied (serde E) v = Some a \<Longrightarrow> sanctioned st U R a"
    and "hm_get (client_redirects s) k = Some us \<Longrightarrow> set us \<subseteq> R"
    and "look t (backend s) (NS_OAUTH_CLIENTS, k) = Some v \<Longrightarrow> dec_uris (serde E) v = Some us \<Longrightarrow> set us \<subseteq> R"
  using assms unfolding parked_ok_def by blast+

lemma parked_ok_mono:
  assumes "parked_ok binv look st U E R s" "R \<subseteq> R'"
  shows "parked_ok binv look st U E R' s"
  using assms unfolding parked_ok_def by (meson sanctioned_mono subset_trans)

lemma parked_ok_frame:
  assumes "parked_ok binv look st U E R s" "same_parking binv look s s'"
  shows "parked_ok binv look st U E R s'"
  using assms by (simp add: parked_ok_def same_parking_def)

lemma sanctionedI:
  assumes "redirect_uri_allowed U uri registered (mo_public_url st) (mo_allowed_redirect_uris st)"
    and "\<And>us. registered = Some us \<Longrightarrow> set us \<subseteq> R"
  shows "sanctioned st U R \<lparr>pa_redirect_uri = uri, pa_client_state = cs, pa_issuer = mo_public_url st\<rparr>"
  using redirect_uri_allowed_cases [OF assms(1)] redirect_uri_allowed_parses [OF assms(1)] assms(2)
  by (auto simp: sanctioned_def)

context coordinated_backend
begin

lemma client_redirects_parked:
  assumes "parked_ok binv look st U E R s" "persistence E = Some ops"
    and "get_client_redirects E c cid s = (us, s')"
  shows "parked_ok binv look st U E R s'" and "us = Some uris \<Longrightarrow> set uris \<subseteq> R"
proof -
  note inv = parked_okD [OF assms(1)]
  have read: "read_through E c NS_OAUTH_CLIENTS cid s = look (mono c) (backend s) (NS_OAUTH_CLIENTS, cid)"
    using assms(2) inv(2) by (simp add: read_through_look)
  have found: "us = Some uris \<Longrightarrow> set uris \<subseteq> R" for uris
    using assms(3) inv(5,6) unfolding get_client_redirects_def read
    by (auto split: option.splits)
  then show "us = Some uris \<Longrightarrow> set uris \<subseteq> R" .
  have "s' = s \<or> (\<exists>uris. us = Some uris \<and> s' = s\<lparr>client_redirects := hm_insert cid uris (client_redirects s)\<rparr>)"
    using assms(3) by (cases us) (auto simp: get_client_redirects_def split: option.splits if_splits)
  with assms(1) show "parked_ok binv look st U E R s'"
  proof (elim disjE exE conjE)
    fix uris
    assume "us = Some uris" and s': "s' = s\<lparr>client_redirects := hm_insert cid uris (client_redirects s)\<rparr>"
    then have "set uris \<subseteq> R" using found by simp
    then show "parked_ok binv look st U E R s'"
      unfolding s' by (intro parked_okI) (simp_all add: inv split: if_splits)
  qed simp
qed

lemma store_proxied_parked:
  assumes "parked_ok binv look st U E R s" "persistence E = Some ops" "serde_ok (serde E)" "sanctioned st U R a"
  shows "parked_ok binv look st U E R (store_proxied_authorization E c state a s)"
proof -
  note inv = parked_okD [OF assms(1)]
  obtain v where v: "enc_proxied (serde E) a = Some v" "dec_proxied (serde E) v = Some a"
    using assms(3) unfolding serde_ok_def by blast
  let ?b = "persist_raw ops c NS_PROXIED_AUTH state v (Some PROXIED_AUTH_TIMEOUT) (backend s)"
  let ?s = "store_proxied_authorization E c state a s"
  have b: "backend ?s = ?b"
    using assms(2) v by (simp add: store_proxied_authorization_def write_through_def persist_def Let_def)
  have mem: "hm_get (proxied_auths ?s) k = Some (a', t) \<Longrightarrow> sanctioned st U R a'" for k a' t
    using inv(3) [of k a' t] assms(4) inv(1)
    by (auto simp: store_proxied_authorization_def Let_def hm_get_retain split: if_splits option.splits)
  have stored: "sanctioned st U R a'"
    if "look t ?b (NS_PROXIED_AUTH, k) = Some w" "dec_proxied (serde E) w = Some a'" for t k w a'
  proof (cases "k = state")
    case True
    with that inv(2) have "w = v"
      using persist_raw_range [of "backend s" t c NS_PROXIED_AUTH state v "Some PROXIED_AUTH_TIMEOUT"] by auto
    with that(2) v assms(4) show ?thesis by simp
  next
    case False
    with that(1) inv(2) have "look t (backend s) (NS_PROXIED_AUTH, k) = Some w" by (simp add: persist_raw_other)
    from inv(4) [OF this that(2)] show ?thesis .
  qed
  have other: "look t ?b (NS_OAUTH_CLIENTS, k) = look t (backend s) (NS_OAUTH_CLIENTS, k)" for t k
    using inv(2) by (intro persist_raw_other) (auto simp: ns_defs)
  have "client_redirects ?s = client_redirects s" "hm_ok (proxied_auths ?s)" "binv ?b"
    using inv(1,2) by (simp_all add: store_proxied_authorization_def Let_def persist_raw_inv)
  then show ?thesis
    using mem stored inv(5,6) by (intro parked_okI) (simp_all add: b other)
qed

lemma take_proxied_parked:
  assumes "parked_ok binv look st U E R s" "persistence E = Some ops"
    and "take_proxied_authorization E c state s = (r, s')"
  shows "parked_ok binv look st U E R s'" and "r = Some a \<Longrightarrow> sanctioned st U R a"
proof -
  note inv = parked_okD [OF assms(1)]
  let ?s1 = "s\<lparr>proxied_auths := hm_remove state (proxied_auths s)\<rparr>"
  let ?del = "write_through E (\<lambda>ops. discard ops c NS_PROXIED_AUTH state) ?s1"
  have read: "read_through E c NS_PROXIED_AUTH state ?s1 = look (mono c) (backend s) (NS_PROXIED_AUTH, state)"
    using assms(2) inv(2) by (simp add: read_through_look)
  have s1: "parked_ok binv look st U E R ?s1" by (intro parked_okI) (simp_all add: inv split: if_splits)
  have del: "parked_ok binv look st U E R ?del"
    by (intro parked_okI)
       (simp_all add: inv write_through_backend [OF assms(2)] discard_inv discard_look split: if_splits)
  have "s' = ?s1 \<or> s' = ?del"
    using assms(3) by (auto simp: take_proxied_authorization_def Let_def split: option.splits prod.splits)
  then show "parked_ok binv look st U E R s'" using s1 del by auto
  show "r = Some a \<Longrightarrow> sanctioned st U R a"
    using inv(3,4) assms(3) unfolding take_proxied_authorization_def Let_def read
    by (auto split: option.splits if_splits)
qed

lemma register_parked:
  assumes "parked_ok binv look st U E R s" "persistence E = Some ops" "serde_ok (serde E)"
  shows "parked_ok binv look st U E (R \<union> set uris) (register_client_redirects E c cid uris s)"
proof -
  note inv = parked_okD [OF parked_ok_mono [OF assms(1), of "R \<union> set uris", OF Un_upper1]]
  let ?s = "register_client_redirects E c cid uris s"
  let ?m = "merge_uris (case hm_get (client_redirects s) cid of None \<Rightarrow> [] | Some us \<Rightarrow> us) uris"
  obtain v where v: "enc_uris (serde E) ?m = Some v" "dec_uris (serde E) v = Some ?m"
    using assms(3) unfolding serde_ok_def by blast
  let ?b = "persist_raw ops c NS_OAUTH_CLIENTS cid v None (backend s)"
  have b: "backend ?s = ?b"
    using assms(2) v by (simp add: register_client_redirects_def write_through_def persist_def Let_def)
  have merged: "set ?m \<subseteq> R \<union> set uris"
    using inv(5) [of cid] by (cases "hm_get (client_redirects s) cid") (auto simp: merge_uris_set)
  have clients: "hm_get (client_redirects ?s) k = Some us \<Longrightarrow> set us \<subseteq> R \<union> set uris" for k us
    using inv(5) [of k us] merged
    by (auto simp: register_client_redirects_def Let_def split: if_splits)
  have stored: "set us \<subseteq> R \<union> set uris"
    if "look t ?b (NS_OAUTH_CLIENTS, k) = Some w" "dec_uris (serde E) w = Some us" for t k w us
  proof (cases "k = cid")
    case True
    with that inv(2) have "w = v" using persist_raw_range [of "backend s" t c NS_OAUTH_CLIENTS cid v None] by auto
    with that(2) v merged show ?thesis by simp
  next
    case False
    with that(1) inv(2) have "look t (backend s) (NS_OAUTH_CLIENTS, k) = Some w" by (simp add: persist_raw_other)
    from inv(6) [OF this that(2)] show ?thesis .
  qed
  have other: "look t ?b (NS_PROXIED_AUTH, k) = look t (backend s) (NS_PROXIED_AUTH, k)" for t k
    using inv(2) by (intro persist_raw_other) (auto simp: ns_defs)
  have "proxied_auths ?s = proxied_auths s" "binv ?b"
    using inv(2) by (simp_all add: register_client_redirects_def Let_def persist_raw_inv)
  then show ?thesis
    using clients stored inv(1,3,4) by (intro parked_okI) (simp_all add: b other)
qed

lemma register_handler_parked:
  assumes "parked_ok binv look st U E R s" "persistence E = Some ops" "serde_ok (serde E)"
    and "register_handler st E post uuid c rq s = (r, s')"
  shows "case r of Inr (status, resp) \<Rightarrow> parked_ok binv look st U E (R \<union> set (rs_redirect_uris resp)) s'
                 | Inl e \<Rightarrow> parked_ok binv look st U E R s'"
proof -
  have remember: "parked_ok binv look st U E (R \<union> set uris) (remember_registration st E c cid uris s)" for cid uris
    using register_parked [OF assms(1-3)] parked_ok_mono [OF assms(1), of "R \<union> set uris"]
    by (simp add: remember_registration_def)
  show ?thesis
    using assms(1,4) remember
    by (auto simp: register_handler_def Let_def split: http_result.splits if_splits sum.splits)
qed

lemma login_callback_parked:
  assumes "persistence E = Some ops" "login_callback LL E uuid c q s = (r, s')"
  shows "same_parking binv look s s'"
proof -
  have "same_parking binv look s (s\<lparr>pending_auths := x\<rparr>)" for x by (rule same_parking_memory) simp_all
  then show ?thesis
    using assms(2)
    by (auto simp: login_callback_def take_pending_auth_def Let_def
        split: option.splits prod.splits sum.splits if_splits
        intro: same_parking_trans [OF _ store_token_parking [OF assms(1)]])
qed

lemma login_handler_parked: "login_handler cfg LL uuid c sid s = (r, s') \<Longrightarrow> same_parking binv look s s'"
  by (rule same_parking_memory)
     (auto simp: login_handler_def store_pending_auth_def Let_def split: if_splits prod.splits)

lemma status_handler_parked: "status_handler E c sid s = (r, s') \<Longrightarrow> same_parking binv look s s'"
  using get_token_raw_parking [of s E c]
  by (auto simp: status_handler_def has_valid_token_def split: option.splits prod.splits)
     (metis snd_conv)+

lemma flow_step_parked:
  assumes "flow_step st U E (s, R) (s', R')" "parked_ok binv look st U E R s"
    and P: "persistence E = Some ops" and S: "serde_ok (serde E)"
  shows "parked_ok binv look st U E R' s'"
  using assms(1)
proof (cases rule: flow_stepE [consumes 1, case_names Register Register_Failed Authorize Callback Login Status Token])
  case (Register post uuid c rq status resp)
  with register_handler_parked [OF assms(2) P S] show ?thesis by fastforce
next
  case (Register_Failed post uuid c rq e)
  with register_handler_parked [OF assms(2) P S] show ?thesis by fastforce
next
  case (Authorize X server_state c ar r)
  obtain registered s1 where g: "get_client_redirects E c (ar_client_id ar) s = (registered, s1)"
    by (cases "get_client_redirects E c (ar_client_id ar) s")
  note c = client_redirects_parked [OF assms(2) P g]
  show ?thesis
  proof (cases "redirect_uri_allowed U (ar_redirect_uri ar) registered (mo_public_url st) (mo_allowed_redirect_uris st)")
    case True
    have "sanctioned st U R \<lparr>pa_redirect_uri = ar_redirect_uri ar, pa_client_state = ar_state ar, pa_issuer = mo_public_url st\<rparr>"
      by (rule sanctionedI [OF True]) (rule c(2))
    with store_proxied_parked [OF c(1) P S] Authorize g True show ?thesis by (auto simp: authorize_handler_def)
  next
    case False
    with Authorize g c(1) show ?thesis by (auto simp: authorize_handler_def)
  qed
next
  case (Callback LL uuid c q r)
  obtain a s1 where t: "take_proxied_authorization E c (cq_state q) s = (a, s1)"
    by (cases "take_proxied_authorization E c (cq_state q) s")
  have s1: "parked_ok binv look st U E R s1" by (rule take_proxied_parked(1) [OF assms(2) P t])
  from Callback t have "s' = s1 \<or> (\<exists>r. login_callback LL E uuid c q s1 = (r, s'))"
    by (auto simp: callback_handler_def split: option.splits prod.splits)
  with s1 login_callback_parked [OF P] parked_ok_frame Callback(1) show ?thesis by blast
next
  case (Login cfg LL uuid c sid r)
  with parked_ok_frame [OF assms(2) login_handler_parked] show ?thesis by blast
next
  case (Status c sid r)
  with parked_ok_frame [OF assms(2) status_handler_parked] show ?thesis by blast
next
  case (Token X H http endpoint uuid oa orf c tok c1 polls hs body r)
  have "same_parking binv look s s'" by (rule token_handler_parking [OF P _ _ Token(2)]) simp_all
  with Token(1) parked_ok_frame [OF assms(2)] show ?thesis by simp
qed

lemma reachable_cluster_parked:
  assumes "reachable_cluster st U E b0 (insts, b, R)"
    and P: "persistence E = Some ops" and S: "serde_ok (serde E)"
    and B: "binv b0" "\<And>t p. look t b0 p = None"
  shows "parked_ok binv look st U E R ((insts i)\<lparr>backend := b\<rparr>)"
  using assms(1)
proof (induction "(insts, b, R)" arbitrary: insts b R i rule: reachable_cluster.induct)
  case (Boot insts)
  then have "proxied_auths (insts i) = []" "client_redirects (insts i) = []"
    by (auto simp: token_store_new_def with_refresh_config_def dest!: spec [of _ i])
  then show ?case by (intro parked_okI) (simp_all add: B)
next
  case (Serve insts b R j s' R')
  have step: "parked_ok binv look st U E R' s'"
    using flow_step_parked [OF Serve(3) Serve(2) P S] .
  have "R \<subseteq> R'" using Serve(3) by (auto elim: flow_stepE)
  then have mem: "parked_ok binv look st U E R' ((insts i)\<lparr>backend := b\<rparr>)"
    using Serve(2) by (rule parked_ok_mono [rotated])
  show ?case
  proof (cases "i = j")
    case True
    with step show ?thesis by simp
  next
    case False
    with parked_okD [OF step] parked_okD [OF mem] show ?thesis by (intro parked_okI) simp_all
  qed
qed

end

end
