(* ===== verification/OAuth_Properties.thy ===== *)
theory OAuth_Properties
  imports Code_Flow Samples
begin

text \<open>
  Properties of the OAuth endpoints: where an authorization code may go, that it arrives, what a
  token request becomes on its way to Keycloak and back, and what each token mode keeps.
\<close>

section \<open>Lemmas\<close>

context kv_backend
begin

lemma parked_reaches_peer:
  assumes P: "persistence E = Some ops" and S: "serde_ok (serde E)" and I: "binv (backend s)"
    and s1: "s1 = store_proxied_authorization E c state a s"
    and peer: "peer = s1 \<or> (backend peer = backend s1 \<and> hm_get (proxied_auths peer) state = None)"
    and T: "mono c \<le> mono c'" "mono c' < mono c + PROXIED_AUTH_TIMEOUT"
  shows "fst (take_proxied_authorization E c' state peer) = Some a" and "binv (backend peer)"
proof -
  obtain v where v: "enc_proxied (serde E) a = Some v" "dec_proxied (serde E) v = Some a"
    using S unfolding serde_ok_def by blast
  let ?b = "persist ops c NS_PROXIED_AUTH state (Some v) (Some PROXIED_AUTH_TIMEOUT) (backend s)"
  have b: "backend s1 = ?b" using P v s1 by (simp add: store_proxied_authorization_def write_through_def Let_def)
  have inv: "binv ?b" using I by (rule persist_inv)
  then show "binv (backend peer)" using peer b by auto
  have mem: "hm_get (proxied_auths s1) state = Some (a, mono c)"
    by (simp add: s1 store_proxied_authorization_def Let_def)
  show "fst (take_proxied_authorization E c' state peer) = Some a"
  proof (cases "peer = s1")
    case True
    with mem T show ?thesis by (simp add: take_proxied_authorization_def proxied_alive_def Let_def)
  next
    case False
    with peer have p: "backend peer = ?b" "hm_get (proxied_auths peer) state = None" using b by auto
    have "look (mono c') ?b (NS_PROXIED_AUTH, state) = Some v" using I T by (rule persist_same_ttl)
    then have "read_through E c' NS_PROXIED_AUTH state (peer\<lparr>proxied_auths := hm_remove state (proxied_auths peer)\<rparr>) = Some v"
      using P inv p(1) by (simp add: read_through_look)
    with p(2) v(2) show ?thesis by (simp add: take_proxied_authorization_def Let_def)
  qed
qed

end


section \<open>Samples for the witnesses\<close>

text \<open>URLs as they are, all of them on the loopback host.\<close>

definition sample_url :: "(string, string) url_lib" where
  "sample_url = \<lparr>url_parse = Some, url_fragment = \<lambda>u. None, url_scheme = \<lambda>u. ''http'',
     url_host_of = \<lambda>u. Some (Domain ''localhost''), url_origin = (\<lambda>u. u),
     url_append_pair = (\<lambda>k v u. u @ ''&'' @ k @ ''='' @ v), url_text = (\<lambda>u. u)\<rparr>"

lemma sample_url_fields [simp]:
  "url_parse sample_url = Some" "url_fragment sample_url u = None" "url_scheme sample_url u = ''http''"
  "url_host_of sample_url u = Some (Domain ''localhost'')" "url_origin sample_url u = u"
  "url_append_pair sample_url k v u = u @ ''&'' @ k @ ''='' @ v" "url_text sample_url u = u"
  by (simp_all add: sample_url_def)

definition sample_oauth :: "token_mode \<Rightarrow> mcp_oauth_state" where
  "sample_oauth m = \<lparr>mo_public_url = ''http://mcp'', mo_realm_url = ''http://kc'', mo_client_id = ''ours'',
     mo_client_secret = Some ''secret'', mo_token_mode = m, mo_scopes = [''openid''], mo_allowed_redirect_uris = []\<rparr>"

text \<open>Keycloak's answer, as the proxy's JSON parser reads it.\<close>

definition sample_proxy :: proxy_lib where
  "sample_proxy = \<lparr>px_form_parse = \<lambda>s. [(''grant_type'', s), (''refresh_token'', ''old'')],
     px_json_parse = \<lambda>s. Some (JObj [(''access_token'', JStr s), (''refresh_token'', JStr ''new''), (''expires_in'', JInt 60)]),
     px_json_text = \<lambda>j. [], px_encode = \<lambda>s. s, px_utf8_lossy = \<lambda>s. s\<rparr>"

definition sample_authorize :: authorize_request where
  "sample_authorize = \<lparr>ar_response_type = ''code'', ar_client_id = ''c'', ar_redirect_uri = ''http://localhost/cb'',
     ar_scope = None, ar_state = Some ''cs'', ar_code_challenge = None, ar_code_challenge_method = None, ar_resource = None\<rparr>"

definition sample_callback :: callback_query where
  "sample_callback = \<lparr>cq_code = Some ''k'', cq_state = ''st'', cq_error = None, cq_error_description = None, cq_error_uri = None\<rparr>"

lemma sample_callback_fields [simp]:
  "cq_code sample_callback = Some ''k''" "cq_state sample_callback = ''st''" "cq_error sample_callback = None"
  by (simp_all add: sample_callback_def)

definition sample_login :: login_lib where
  "sample_login = \<lparr>ll_client_ok = True, ll_pkce = (''ch'', ''ve''), ll_authorize_url = (\<lambda>s ch sc. s),
     ll_exchange = (\<lambda>code ver. Inr (''at'', None, None))\<rparr>"

definition sample_authorized :: "(http_error + string) \<times> sample_store" where
  "sample_authorized = authorize_handler (sample_oauth Passthrough) sample_url sample_proxy sample_env ''st'' sample_clock
     sample_authorize fresh_store"

lemma sample_clients [simp]: "get_client_redirects sample_env c cid fresh_store = (None, fresh_store)"
  by (simp add: get_client_redirects_def read_through_def im_get_def)

lemma sample_redirect_allowed:
  "redirect_uri_allowed sample_url ''http://localhost/cb'' None p l"
  by (simp add: redirect_uri_allowed_def is_loopback_def eq_ignore_ascii_case_def)

definition sample_entry :: proxied_authorization where
  "sample_entry = \<lparr>pa_redirect_uri = ''http://localhost/cb'', pa_client_state = Some ''cs'', pa_issuer = ''http://mcp''\<rparr>"

lemma sample_authorized_Inr:
  "\<exists>url. sample_authorized = (Inr url, store_proxied_authorization sample_env sample_clock ''st'' sample_entry fresh_store)"
  by (simp add: sample_authorized_def authorize_handler_def sample_authorize_def sample_redirect_allowed
      sample_oauth_def sample_entry_def)

lemma sample_taken:
  "fst (take_proxied_authorization sample_env (later 1) ''st''
     (store_proxied_authorization sample_env sample_clock ''st'' sample_entry fresh_store)) = Some sample_entry"
  by (simp add: take_proxied_authorization_def store_proxied_authorization_def proxied_alive_def
      PROXIED_AUTH_TIMEOUT_def secs_def Let_def)

lemma fresh_backend: "fresh_store\<lparr>backend := im_new\<rparr> = fresh_store"
  by (simp add: fresh_store_def token_store_new_def)

section \<open>Properties\<close>

text \<open>C5. An authorization code only ever goes where the policy allows: in a cluster of instances
  on a shared backend, whatever requests they have answered in whatever order, when a callback
  redirects, it completes a parked authorization that carries this server's issuer, and whose
  redirect URI is a fragment-free URL that is loopback, on the public origin, on the allowlist, or
  was announced by a successful registration.\<close>

theorem codes_reach_only_sanctioned_uris:
  assumes "persistence E = Some in_memory_ops" "serde_ok (serde E)"
    and "reachable_cluster st U E im_new (insts, b, R)"
    and "callback_handler U LL E uuid c q ((insts i)\<lparr>backend := b\<rparr>) = (Inr (Found location), s')"
  shows "\<exists>a u. forward_proxied_callback U a q = Inr location \<and> pa_issuer a = mo_public_url st \<and>
    url_parse U (pa_redirect_uri a) = Some u \<and> url_fragment U u = None \<and>
    (is_own_uri U (mo_public_url st) (mo_allowed_redirect_uris st) (pa_redirect_uri a) \<or> pa_redirect_uri a \<in> R)"
proof -
  let ?s = "(insts i)\<lparr>backend := b\<rparr>"
  have ok: "parked_ok (\<lambda>b. hm_ok (data b)) (\<lambda>_ b. hm_get (data b)) st U E R ?s"
    by (rule im_co.reachable_cluster_parked [OF assms(3) assms(1,2)]) (simp_all add: im_new_def)
  obtain r s1 where t: "take_proxied_authorization E c (cq_state q) ?s = (r, s1)"
    by (cases "take_proxied_authorization E c (cq_state q) ?s")
  from assms(4) t obtain a where a: "r = Some a" "forward_proxied_callback U a q = Inr location"
    by (auto simp: callback_handler_def map_sum_def split: option.splits prod.splits sum.splits)
  with im_co.take_proxied_parked(2) [OF ok assms(1) t] show ?thesis by (auto simp: sanctioned_def)
qed

theorem codes_reach_only_sanctioned_uris_witness:
  "\<exists>location s' R. reachable_cluster (sample_oauth Passthrough) sample_url sample_env im_new
      ((\<lambda>i. fresh_store)(0 := snd sample_authorized), backend (snd sample_authorized), R) \<and>
     callback_handler sample_url sample_login sample_env ''u'' (later 1) sample_callback
       (((\<lambda>i :: nat. fresh_store)(0 := snd sample_authorized)) 0\<lparr>backend := backend (snd sample_authorized)\<rparr>) =
       (Inr (Found location), s') \<and>
     (\<exists>a. forward_proxied_callback sample_url a sample_callback = Inr location \<and> pa_issuer a = ''http://mcp'')"
proof -
  let ?st = "sample_oauth Passthrough" and ?i = "(\<lambda>i :: nat. fresh_store)(0 := snd sample_authorized)"
  obtain url s where auth: "sample_authorized = (Inr url, s)"
    and s: "s = store_proxied_authorization sample_env sample_clock ''st'' sample_entry fresh_store"
    using sample_authorized_Inr by blast
  have boot: "reachable_cluster ?st sample_url sample_env im_new (\<lambda>i. fresh_store, im_new, {})"
    by (rule reachable_cluster.Boot) (simp add: fresh_store_def)
  from auth have "flow_step ?st sample_url sample_env (fresh_store, {}) (s, {})"
    unfolding sample_authorized_def by (rule flow_step.Authorize)
  then have "flow_step ?st sample_url sample_env (((\<lambda>i. fresh_store) 0)\<lparr>backend := im_new\<rparr>, {}) (s, {})"
    by (simp only: fresh_backend)
  from reachable_cluster.Serve [OF boot, where i = 0, OF this] auth
  have reach: "reachable_cluster ?st sample_url sample_env im_new (?i, backend (snd sample_authorized), {})"
    by (simp only: auth snd_conv)
  have self: "?i 0\<lparr>backend := backend (snd sample_authorized)\<rparr> = s"
    unfolding auth by (simp add: s)
  obtain s' where taken: "take_proxied_authorization sample_env (later 1) ''st'' s = (Some sample_entry, s')"
    using sample_taken unfolding s by (cases "take_proxied_authorization sample_env (later 1) ''st'' s") (simp add: s)
  obtain location where cb: "callback_handler sample_url sample_login sample_env ''u'' (later 1) sample_callback
      (?i 0\<lparr>backend := backend (snd sample_authorized)\<rparr>) = (Inr (Found location), s')"
    unfolding self by (simp add: callback_handler_def taken [simplified] forward_proxied_callback_def)
  have "\<exists>a. forward_proxied_callback sample_url a sample_callback = Inr location \<and> pa_issuer a = ''http://mcp''"
    using codes_reach_only_sanctioned_uris [where insts = ?i and i = 0, OF sample_env_fields(1) _ reach cb] by (auto simp: sample_oauth_def)
  with reach cb show ?thesis by blast
qed



end
