(* ===== verification/OAuth_Token_Properties.thy ===== *)
theory OAuth_Token_Properties
  imports OAuth_Properties Middleware_Properties
begin

text \<open>
  Properties of the token and registration endpoints: what is sent to Keycloak, what comes back to
  the client in each mode, and what the store keeps of it.
\<close>

section \<open>Lemmas\<close>

lemma token_handler_opaque:
  "mo_token_mode st = Opaque \<Longrightarrow> token_handler st X H E post endpoint uuid oa orf c w hs body s =
     opaque_token_handler st X H E post endpoint uuid oa orf c w hs body s"
  by (simp add: token_handler_def)

lemma some_key: "(\<exists>(k, v) \<in> set xs. P k) \<longleftrightarrow> filter (\<lambda>(k, v). P k) xs \<noteq> []"
  by (auto simp: filter_empty_conv)

lemma map_filter_keys:
  "filter (\<lambda>(k, v). P k) (map (\<lambda>(k, v). (k, f k v)) xs) = map (\<lambda>(k, v). (k, f k v)) (filter (\<lambda>(k, v). P k) xs)"
  by (induction xs) auto

lemma map_keys_id:
  "(\<And>k v. (k, v) \<in> set xs \<Longrightarrow> f k v = v) \<Longrightarrow> map (\<lambda>(k, v). (k, f k v)) xs = xs"
  by (induction xs) auto

text \<open>The three steps of \<open>inject_keycloak_credentials\<close>.\<close>

definition code_grant_params :: "mcp_oauth_state \<Rightarrow> (string \<times> string) list \<Rightarrow> (string \<times> string) list" where
  "code_grant_params st params =
     (if \<exists>(k, v) \<in> set params. k = ''grant_type'' \<and> v = ''authorization_code''
      then filter (\<lambda>(k, v). k \<noteq> ''redirect_uri'') params @ [(''redirect_uri'', callback_url st)] else params)"

definition our_client_id :: "mcp_oauth_state \<Rightarrow> (string \<times> string) list \<Rightarrow> (string \<times> string) list" where
  "our_client_id st params = map (\<lambda>(k, v). (k, if k = ''client_id'' then mo_client_id st else v)) params"

definition our_secret :: "mcp_oauth_state \<Rightarrow> (string \<times> string) list \<Rightarrow> (string \<times> string) list" where
  "our_secret st params = (case mo_client_secret st of None \<Rightarrow> []
     | Some secret \<Rightarrow> if \<exists>(k, v) \<in> set params. k = ''client_secret'' then [] else [(''client_secret'', secret)])"

lemma inject_parts:
  "inject_keycloak_credentials st params =
     our_client_id st (code_grant_params st params) @ our_secret st (our_client_id st (code_grant_params st params))"
  by (simp add: inject_keycloak_credentials_def code_grant_params_def our_client_id_def our_secret_def Let_def
      split: option.split)

lemma our_client_kept:
  "\<not> P ''client_id'' \<Longrightarrow> filter (\<lambda>(k, v). P k) (our_client_id st params) = filter (\<lambda>(k, v). P k) params"
  unfolding our_client_id_def map_filter_keys by (rule map_keys_id) auto

lemma code_grant_kept:
  assumes "\<not> P ''redirect_uri''"
  shows "filter (\<lambda>(k, v). P k) (code_grant_params st params) = filter (\<lambda>(k, v). P k) params"
proof -
  have "filter (\<lambda>(k, v). P k) (filter (\<lambda>(k, v). k \<noteq> ''redirect_uri'') params) = filter (\<lambda>(k, v). P k) params"
    using assms by (induction params) auto
  with assms show ?thesis by (simp add: code_grant_params_def)
qed

lemma inject_kept:
  "\<not> P ''client_id'' \<Longrightarrow> \<not> P ''redirect_uri'' \<Longrightarrow>
     filter (\<lambda>(k, v). P k) (our_client_id st (code_grant_params st params)) = filter (\<lambda>(k, v). P k) params"
  by (simp add: our_client_kept code_grant_kept)

lemma build_opaque_answer:
  assumes "build_opaque_response E oa orf c key kc s = (answer, s')"
  shows "\<exists>n. answer = Issued (JObj [(''access_token'', JStr oa), (''token_type'', JStr ''Bearer''),
           (''expires_in'', JInt (int n)), (''refresh_token'', JStr orf)]) \<and>
      n \<le> 3600 \<and> (\<forall>k. kc = Some k \<longrightarrow> n \<le> k) \<and>
      s' = store_opaque_mapping_with_access_ttl E c key oa orf (secs n) s"
  using assms by (auto simp: build_opaque_response_def Let_def OPAQUE_ACCESS_TTL_def secs_def split: option.splits)

context kv_backend
begin

lemma removed_token_records:
  assumes "persistence E = Some ops" "binv (backend s)"
  shows "binv (backend (remove_token E c sid s))"
    and "look t (backend (remove_token E c sid s)) (NS_TOKENS, sid) = None"
    and "k \<noteq> sid \<Longrightarrow> look t (backend (remove_token E c sid s)) (NS_TOKENS, k) = look t (backend s) (NS_TOKENS, k)"
    and "look t (backend (remove_token E c sid s)) (NS_GRANT_REFRESH, k) = look t (backend s) (NS_GRANT_REFRESH, k)"
proof -
  let ?s1 = "s\<lparr>tokens := hm_remove sid (tokens s), refresh_locks := hm_remove sid (refresh_locks s)\<rparr>"
  have "backend (remove_opaque_for_session E c sid ?s1) = discard ops c NS_OPAQUE sid (backend s) \<or>
      (\<exists>m. backend (remove_opaque_for_session E c sid ?s1) = drop_inverse ops c m (discard ops c NS_OPAQUE sid (backend s)))"
    using assms(1) by (auto simp: remove_opaque_for_session_def write_through_def Let_def split: prod.split option.split)
  then have b: "binv (backend (remove_opaque_for_session E c sid ?s1))"
    "look t (backend (remove_opaque_for_session E c sid ?s1)) (NS_TOKENS, k) = look t (backend s) (NS_TOKENS, k)"
    "look t (backend (remove_opaque_for_session E c sid ?s1)) (NS_GRANT_REFRESH, k) = look t (backend s) (NS_GRANT_REFRESH, k)" for t k
    using assms(2) by (auto simp: discard_inv drop_inverse_inv drop_inverse_look discard_look ns_defs)
  have r: "backend (remove_token E c sid s) = discard ops c NS_TOKENS sid (backend (remove_opaque_for_session E c sid ?s1))"
    by (simp add: remove_token_def Let_def write_through_backend [OF assms(1)])
  show "binv (backend (remove_token E c sid s))"
    and "look t (backend (remove_token E c sid s)) (NS_TOKENS, sid) = None"
    and "k \<noteq> sid \<Longrightarrow> look t (backend (remove_token E c sid s)) (NS_TOKENS, k) = look t (backend s) (NS_TOKENS, k)"
    and "look t (backend (remove_token E c sid s)) (NS_GRANT_REFRESH, k) = look t (backend s) (NS_GRANT_REFRESH, k)"
    unfolding r using b by (simp_all add: discard_inv discard_look ns_defs)
qed

text \<open>The state after a refresh grant was adopted, seen through the lookups that matter.\<close>

lemma retired:
  assumes P: "persistence E = Some ops" and I: "binv (backend s)"
    and s1: "s1 = retire_spent_grant E c spent key s"
  shows "binv (backend s1)"
    and "hm_get (grant_refresh_index s1) (credential_session_key (jwt E) spent) = None"
    and "look t (backend s1) (NS_GRANT_REFRESH, credential_session_key (jwt E) spent) = None"
    and "fst (resolve_grant_refresh E c spent s) = Some old \<Longrightarrow> old \<noteq> key \<Longrightarrow>
      hm_get (tokens s1) old = None \<and> look t (backend s1) (NS_TOKENS, old) = None"
proof -
  obtain r x where g: "resolve_grant_refresh E c spent s = (r, x)" by (cases "resolve_grant_refresh E c spent s")
  have x: "backend x = backend s"
    using g by (auto simp: resolve_grant_refresh_def Let_def split: option.splits)
  define y where "y = (case r of Some old_key \<Rightarrow> if old_key \<noteq> key then remove_token E c old_key x else x | None \<Rightarrow> x)"
  have y: "binv (backend y)"
    using I x removed_token_records(1) [OF P, of x] by (simp add: y_def split: option.split)
  have e: "s1 = remove_grant_refresh E c spent y" by (simp add: s1 retire_spent_grant_def g y_def)
  have b: "backend s1 = discard ops c NS_GRANT_REFRESH (credential_session_key (jwt E) spent) (backend y)"
    by (simp add: e remove_grant_refresh_def Let_def write_through_backend [OF P])
  show "binv (backend s1)" "look t (backend s1) (NS_GRANT_REFRESH, credential_session_key (jwt E) spent) = None"
    unfolding b using y by (simp_all add: discard_inv discard_same)
  show "hm_get (grant_refresh_index s1) (credential_session_key (jwt E) spent) = None"
    by (simp add: e remove_grant_refresh_def Let_def)
  show "hm_get (tokens s1) old = None \<and> look t (backend s1) (NS_TOKENS, old) = None"
    if "fst (resolve_grant_refresh E c spent s) = Some old" "old \<noteq> key"
  proof -
    have r: "y = remove_token E c old x" using that g by (simp add: y_def)
    have "hm_get (tokens (remove_token E c old x)) old = None"
      by (simp add: remove_token_def remove_opaque_for_session_def Let_def split: prod.split)
    moreover have "tokens s1 = tokens y" by (simp add: e remove_grant_refresh_def Let_def)
    moreover have "look t (backend s1) (NS_TOKENS, old) = look t (backend y) (NS_TOKENS, old)"
      unfolding b using y by (simp add: discard_look ns_defs)
    ultimately show ?thesis
      using removed_token_records(2) [OF P, of x t c old] I x r by simp
  qed
qed

end

text \<open>A deadline at least a second away has time left, on the millisecond clock too.\<close>

lemma fresh_deadline_remains:
  assumes "secs 1 \<le> d" "(wall c + d) div 1000000 \<le> u64_max"
  shows "0 < remaining_until_unix_millis c (instant_to_unix_millis c (mono c + d))"
proof -
  have "wall c div 1000000 < (wall c + d) div 1000000" using assms(1) by (simp add: secs_def)
  with assms(2) show ?thesis
    by (simp add: remaining_until_unix_millis_def instant_to_unix_millis_def unix_millis_def Let_def millis_def)
qed

section \<open>Properties\<close>

text \<open>C6. In opaque mode the client never sees a token of Keycloak: what the token endpoint answers
  is an error, or a document of its own whose tokens are the fresh opaque ones and whose lifetime is
  at most an hour, or Keycloak's reply, relayed only when it is no successful grant.\<close>

theorem opaque_mode_keeps_real_tokens:
  assumes "mo_token_mode st = Opaque"
    and "token_handler st X H E post endpoint uuid oa orf c w hs body s = Some (Inr answer, s')"
  shows "(\<exists>n \<le> 3600. answer = Issued (JObj [(''access_token'', JStr oa), (''token_type'', JStr ''Bearer''),
            (''expires_in'', JInt (int n)), (''refresh_token'', JStr orf)])) \<or>
         (\<exists>status content_type reply. answer = Relayed status content_type reply \<and> s' = s \<and>
            reply_grant X status reply = None)"
proof -
  have own: "\<exists>n \<le> 3600. a = Issued (JObj [(''access_token'', JStr oa), (''token_type'', JStr ''Bearer''),
            (''expires_in'', JInt (int n)), (''refresh_token'', JStr orf)])"
    if "build_opaque_response E oa orf c' key kc s1 = (a, s2)" for c' key kc s1 a s2
    using build_opaque_answer [OF that] by blast
  have refresh: "\<exists>n \<le> 3600. answer = Issued (JObj [(''access_token'', JStr oa), (''token_type'', JStr ''Bearer''),
            (''expires_in'', JInt (int n)), (''refresh_token'', JStr orf)])"
    if "handle_opaque_refresh E post oa orf c w params s = Some (Inr answer, s')" for params
    using that by (auto simp: handle_opaque_refresh_def split: option.splits prod.splits dest: own)
  from assms(2) show ?thesis
    unfolding token_handler_opaque [OF assms(1)]
    by (auto simp: opaque_token_handler_def build_passthrough_response_def
        split: sum.splits prod.splits option.splits if_splits dest: own refresh)
qed

definition sample_endpoint :: token_endpoint where
  "sample_endpoint url params = Reply 200 (Some ''application/json'') ''real''"

abbreviation sample_token_call :: "token_mode \<Rightarrow> string \<Rightarrow> sample_store \<Rightarrow>
    ((http_error + token_answer) \<times> sample_store) option" where
  "sample_token_call m body \<equiv> token_handler (sample_oauth m) sample_proxy sample_headers sample_env sample_post sample_endpoint
     ''uuid'' ''oa'' ''or'' sample_clock sample_waiting [] (Some body)"

lemma sample_read_token [simp]:
  "length body \<le> 100 \<Longrightarrow> read_token_request sample_proxy sample_headers (Some body) [] =
     Inr ([(''grant_type'', body), (''refresh_token'', ''old'')], body)"
  by (simp add: read_token_request_def MAX_TOKEN_BODY_def parse_token_params_def sample_proxy_def find_param_def)

lemma sample_reply_grant [simp]:
  "reply_grant sample_proxy 200 body =
     Some (JObj [(''access_token'', JStr body), (''refresh_token'', JStr ''new''), (''expires_in'', JInt 60)], body)"
  by (simp add: reply_grant_def sample_proxy_def is_success_def json_index_def)

lemma sample_forward [simp]:
  "forward_to_keycloak st sample_endpoint ps = Inr (200, Some ''application/json'', ''real'')"
  by (simp add: forward_to_keycloak_def sample_endpoint_def)

theorem opaque_mode_keeps_real_tokens_witness:
  "\<exists>n s'. sample_token_call Opaque ''authorization_code'' fresh_store =
     Some (Inr (Issued (JObj [(''access_token'', JStr ''oa''), (''token_type'', JStr ''Bearer''),
       (''expires_in'', JInt (int n)), (''refresh_token'', JStr ''or'')])), s') \<and> n \<le> 3600"
proof -
  obtain answer s' where call: "sample_token_call Opaque ''authorization_code'' fresh_store = Some (Inr answer, s')"
      "\<exists>j. answer = Issued j"
    by (simp add: token_handler_def sample_oauth_def opaque_token_handler_def build_opaque_response_def Let_def)
  have "mo_token_mode (sample_oauth Opaque) = Opaque" by (simp add: sample_oauth_def)
  from opaque_mode_keeps_real_tokens [OF this call(1)] call show ?thesis by auto
qed

text \<open>What the proxy makes of a token request: every \<open>client_id\<close> becomes the configured one; on
  a code grant the one \<open>redirect_uri\<close> is this server's callback; the configured secret is added when
  the client sent none, and a secret the client sent is left as it is; all other parameters arrive
  unchanged and in order.\<close>

theorem forwarded_token_request:
  fixes st params
  defines "sent \<equiv> inject_keycloak_credentials st params"
  shows "(\<forall>v. (''client_id'', v) \<in> set sent \<longrightarrow> v = mo_client_id st) \<and>
    ((''grant_type'', ''authorization_code'') \<in> set params \<longrightarrow>
       filter (\<lambda>(k, v). k = ''redirect_uri'') sent = [(''redirect_uri'', callback_url st)]) \<and>
    filter (\<lambda>(k, v). k = ''client_secret'') sent =
      (if filter (\<lambda>(k, v). k = ''client_secret'') params = []
       then (case mo_client_secret st of Some secret \<Rightarrow> [(''client_secret'', secret)] | None \<Rightarrow> [])
       else filter (\<lambda>(k, v). k = ''client_secret'') params) \<and>
    filter (\<lambda>(k, v). k \<notin> {''client_id'', ''redirect_uri'', ''client_secret''}) sent =
      filter (\<lambda>(k, v). k \<notin> {''client_id'', ''redirect_uri'', ''client_secret''}) params"
proof -
  let ?p1 = "code_grant_params st params"
  let ?p2 = "our_client_id st ?p1"
  let ?tail = "our_secret st ?p2"
  note kept = inject_kept [of _ st params]
  have sent: "sent = ?p2 @ ?tail" unfolding sent_def by (rule inject_parts)
  have secret: "(\<exists>(k, v) \<in> set ?p2. k = ''client_secret'') \<longleftrightarrow> filter (\<lambda>(k, v). k = ''client_secret'') params \<noteq> []"
    unfolding some_key using kept [of "\<lambda>k. k = ''client_secret''"] by simp
  show ?thesis
  proof (intro conjI)
    show "\<forall>v. (''client_id'', v) \<in> set sent \<longrightarrow> v = mo_client_id st"
      by (auto simp: sent our_client_id_def our_secret_def split: option.splits if_splits)
    have "filter (\<lambda>(k, v). k = ''redirect_uri'') ?p2 = filter (\<lambda>(k, v). k = ''redirect_uri'') ?p1"
      by (simp add: our_client_kept)
    then show "(''grant_type'', ''authorization_code'') \<in> set params \<longrightarrow>
        filter (\<lambda>(k, v). k = ''redirect_uri'') sent = [(''redirect_uri'', callback_url st)]"
      by (auto simp: sent our_secret_def code_grant_params_def filter_empty_conv split: option.split)
    show "filter (\<lambda>(k, v). k = ''client_secret'') sent =
      (if filter (\<lambda>(k, v). k = ''client_secret'') params = []
       then (case mo_client_secret st of Some secret \<Rightarrow> [(''client_secret'', secret)] | None \<Rightarrow> [])
       else filter (\<lambda>(k, v). k = ''client_secret'') params)"
      unfolding sent filter_append using kept [of "\<lambda>k. k = ''client_secret''"]
      by (simp add: our_secret_def secret split: option.split)
    show "filter (\<lambda>(k, v). k \<notin> {''client_id'', ''redirect_uri'', ''client_secret''}) sent =
        filter (\<lambda>(k, v). k \<notin> {''client_id'', ''redirect_uri'', ''client_secret''}) params"
      unfolding sent filter_append
      using kept [of "\<lambda>k. k \<notin> {''client_id'', ''redirect_uri'', ''client_secret''}"]
      by (simp add: our_secret_def split: option.split)
  qed
qed

theorem forwarded_token_request_witness:
  "filter (\<lambda>(k, v). k = ''redirect_uri'')
     (inject_keycloak_credentials (sample_oauth Opaque)
        [(''grant_type'', ''authorization_code''), (''client_id'', ''theirs''), (''redirect_uri'', ''http://localhost/cb'')]) =
   [(''redirect_uri'', ''http://mcp/oauth/callback'')]"
proof -
  have "callback_url (sample_oauth Opaque) = ''http://mcp/oauth/callback''"
    by (simp add: callback_url_def sample_oauth_def OAUTH_MOUNT_def OAUTH_CALLBACK_PATH_def trim_end_matches_def)
  with forwarded_token_request [of "sample_oauth Opaque"
      "[(''grant_type'', ''authorization_code''), (''client_id'', ''theirs''), (''redirect_uri'', ''http://localhost/cb'')]"]
  show ?thesis by simp
qed

text \<open>C8. An opaque grant works: after a successful code exchange the fresh access token resolves to
  the fresh session, and that session holds exactly the token Keycloak granted.\<close>

theorem opaque_grant_is_usable:
  assumes "mo_token_mode st = Opaque"
    and "read_token_request X H body hs = Inr (params, grant_type)" "grant_type \<noteq> ''refresh_token''"
    and "forward_to_keycloak st endpoint (inject_keycloak_credentials st params) = Inr (status, content_type, reply)"
    and "reply_grant X status reply = Some (j, acc)" "as_u64 (json_index j ''expires_in'') \<noteq> Some 0"
    and "(wall c + OPAQUE_REFRESH_TTL) div 1000000 \<le> u64_max"
  shows "\<exists>answer s'. token_handler st X H E post endpoint uuid oa orf c w hs body s = Some (Inr answer, s') \<and>
    fst (resolve_opaque_access E c oa s') = Some uuid \<and>
    fst (get_token_raw E c uuid s') = Some (apply_decoder E (grant_token c j acc))"
proof -
  let ?s1 = "store_token E c uuid (grant_token c j acc) s"
  obtain answer s' where b: "build_opaque_response E oa orf c uuid (as_u64 (json_index j ''expires_in'')) ?s1 = (answer, s')"
    by (cases "build_opaque_response E oa orf c uuid (as_u64 (json_index j ''expires_in'')) ?s1")
  have call: "token_handler st X H E post endpoint uuid oa orf c w hs body s = Some (Inr answer, s')"
    using assms(1-5) b by (simp add: token_handler_opaque opaque_token_handler_def)
  define n where "n = (case as_u64 (json_index j ''expires_in'') of Some kc \<Rightarrow> min kc 3600 | None \<Rightarrow> 3600)"
  have n: "0 < n" "n \<le> 3600" using assms(6) by (auto simp: n_def split: option.split)
  have s': "s' = store_opaque_mapping_with_access_ttl E c uuid oa orf (secs n) ?s1"
    using b by (auto simp: build_opaque_response_def Let_def OPAQUE_ACCESS_TTL_def secs_def n_def split: option.splits)
  let ?m = "new_mapping c oa orf (secs n)"
  have "secs n \<le> OPAQUE_REFRESH_TTL" using n(2) by (simp add: secs_def OPAQUE_REFRESH_TTL_def)
  then have live: "0 < remaining_until_unix_millis c (instant_to_unix_millis c (mono c + d))"
    if "secs 1 \<le> d" "d \<le> OPAQUE_REFRESH_TTL" for d
    using fresh_deadline_remains [OF that(1)] assms(7) that(2) by (meson add_left_mono div_le_mono order_trans)
  have "secs 1 \<le> secs n" "secs 1 \<le> OPAQUE_REFRESH_TTL" using n by (simp_all add: secs_def OPAQUE_REFRESH_TTL_def)
  with live \<open>secs n \<le> OPAQUE_REFRESH_TTL\<close>
  have rem: "0 < remaining_until_unix_millis c (access_expires_at_unix_ms ?m)"
    "0 < remaining_until_unix_millis c (refresh_expires_at_unix_ms ?m)"
    by (simp_all add: new_mapping_def)
  have "opaque_access ?m = oa" by (simp add: new_mapping_def)
  then have "hm_get (access_to_session (opaque_index s')) oa =
      Some \<lparr>bind_session = uuid, bind_expires_at = mono c + remaining_until_unix_millis c (access_expires_at_unix_ms ?m)\<rparr>"
    unfolding s' store_opaque_mapping_with_access_ttl_def Let_def
    using rem index_insert_lookup(1) [of c ?m uuid _ oa] by (simp split: prod.split)
  then have "fst (resolve_opaque_access E c oa s') = Some uuid"
    using rem(1) by (simp add: resolve_opaque_access_Some)
  moreover have "tokens s' = tokens ?s1"
    by (simp add: s' store_opaque_mapping_with_access_ttl_def Let_def split: prod.split)
  then have "fst (get_token_raw E c uuid s') = Some (apply_decoder E (grant_token c j acc))"
    by (simp add: get_token_raw_def store_token_def Let_def)
  ultimately show ?thesis using call by blast
qed

theorem opaque_grant_is_usable_witness:
  "\<exists>answer s'. sample_token_call Opaque ''authorization_code'' fresh_store = Some (Inr answer, s') \<and>
     fst (resolve_opaque_access sample_env sample_clock ''oa'' s') = Some ''uuid'' \<and>
     map_option access_token (fst (get_token_raw sample_env sample_clock ''uuid'' s')) = Some ''real''"
proof -
  let ?j = "JObj [(''access_token'', JStr ''real''), (''refresh_token'', JStr ''new''), (''expires_in'', JInt 60)]"
  have "as_u64 (json_index ?j ''expires_in'') \<noteq> Some 0" by (simp add: json_index_def u64_max_def)
  moreover have "(wall sample_clock + OPAQUE_REFRESH_TTL) div 1000000 \<le> u64_max"
    by (simp add: OPAQUE_REFRESH_TTL_def secs_def u64_max_def)
  moreover have "mo_token_mode (sample_oauth Opaque) = Opaque" by (simp add: sample_oauth_def)
  ultimately show ?thesis
    using opaque_grant_is_usable [of "sample_oauth Opaque" sample_proxy sample_headers "Some ''authorization_code''" "[]" _ _
        sample_endpoint 200 "Some ''application/json''" "''real''" ?j "''real''" sample_clock sample_env sample_post
        "''uuid''" "''oa''" "''or''" sample_waiting fresh_store]
    by (auto simp: grant_token_def)
qed



end
