(* ===== verification/Registration_Properties.thy ===== *)
theory Registration_Properties
  imports OAuth_Properties
begin

text \<open>
  Properties of client registration, of the server-side login and of the endpoints a pure resource
  server answers.
\<close>

section \<open>Lemmas\<close>

lemma redirect_uri_registered:
  "url_parse U uri = Some u \<Longrightarrow> url_fragment U u = None \<Longrightarrow> uri \<in> set uris \<Longrightarrow>
     redirect_uri_allowed U uri (Some uris) public_url allowlist"
  by (simp add: redirect_uri_allowed_def)

lemma register_handler_remembers:
  assumes "register_handler st E post uuid c rq s = (Inr (status, resp), s1)" "is_stateful (mo_token_mode st)"
  shows "s1 = register_client_redirects E c (rs_client_id resp) (rq_redirect_uris rq) s"
    and "rs_redirect_uris resp = rq_redirect_uris rq"
  using assms
  by (auto simp: register_handler_def remember_registration_def build_fallback_registration_def Let_def
      split: http_result.splits if_splits sum.splits)

context kv_backend
begin

lemma registered_uris_found:
  assumes P: "persistence E = Some ops" and S: "serde_ok (serde E)" and I: "binv (backend s)"
    and s1: "s1 = register_client_redirects E c cid uris s"
    and peer: "peer = s1 \<or> (backend peer = backend s1 \<and> hm_get (client_redirects peer) cid = None)"
    and T: "mono c \<le> mono c'"
  shows "\<exists>us. fst (get_client_redirects E c' cid peer) = Some us \<and> set uris \<subseteq> set us"
proof -
  let ?m = "merge_uris (case hm_get (client_redirects s) cid of None \<Rightarrow> [] | Some us \<Rightarrow> us) uris"
  have m: "set uris \<subseteq> set ?m" by (simp add: merge_uris_set)
  obtain v where v: "enc_uris (serde E) ?m = Some v" "dec_uris (serde E) v = Some ?m"
    using S unfolding serde_ok_def by blast
  have b: "backend s1 = persist ops c NS_OAUTH_CLIENTS cid (Some v) None (backend s)"
    using P v s1 by (simp add: register_client_redirects_def write_through_def Let_def)
  have "look (mono c') (backend s1) (NS_OAUTH_CLIENTS, cid) = Some v"
    unfolding b using I T by (rule persist_same) simp
  moreover have "binv (backend peer)" "backend peer = backend s1" using peer b I by (auto simp: persist_inv)
  ultimately have read: "read_through E c' NS_OAUTH_CLIENTS cid peer = Some v" using P by (simp add: read_through_look)
  show ?thesis
  proof (cases "hm_get (client_redirects peer) cid")
    case None
    with read v(2) m show ?thesis by (auto simp: get_client_redirects_def)
  next
    case (Some us)
    with peer have "hm_get (client_redirects s1) cid = Some us" by auto
    then have "us = ?m" by (auto simp: s1 register_client_redirects_def Let_def split: if_splits)
    with Some m show ?thesis by (simp add: get_client_redirects_def)
  qed
qed

end

lemma split_on_head: "d \<notin> set u \<Longrightarrow> split_on d (u @ d # v) = u # split_on d v"
  by (induction u) auto

lemma split_on_takeWhile: "\<exists>rest. split_on d v = takeWhile (\<lambda>x. x \<noteq> d) v # rest"
  by (induction v) auto

lemma state_session_login:
  assumes "CHR '':'' \<notin> set uuid"
  shows "state_session (login_state uuid (Some sid)) = Some (takeWhile (\<lambda>x. x \<noteq> CHR '':'') sid)"
  using split_on_takeWhile [of "CHR '':''" sid] assms
  by (auto simp: state_session_def login_state_def split_on_head)

section \<open>Properties\<close>

text \<open>Registration opens the door it announces: once a client has registered, every one of its
  redirect URIs that is a URL without a fragment is accepted by \<open>/authorize\<close> for that client, at any
  later time, on the serving instance and on every peer that has not cached an older registration.\<close>

theorem registered_client_may_authorize:
  assumes "persistence E = Some in_memory_ops" "serde_ok (serde E)" "hm_ok (data (backend s))"
    and "register_handler st E post uuid c rq s = (Inr (status, resp), s1)" "is_stateful (mo_token_mode st)"
    and "peer = s1 \<or> (backend peer = backend s1 \<and> hm_get (client_redirects peer) (rs_client_id resp) = None)"
    and "mono c \<le> mono c'"
    and "ar_client_id ar = rs_client_id resp" "ar_redirect_uri ar \<in> set (rs_redirect_uris resp)"
    and "url_parse U (ar_redirect_uri ar) = Some u" "url_fragment U u = None"
  shows "fst (authorize_handler st U X E state c' ar peer) = Inr (keycloak_auth_url st X ar state)"
proof -
  note r = register_handler_remembers [OF assms(4,5)]
  obtain us where "fst (get_client_redirects E c' (ar_client_id ar) peer) = Some us" "ar_redirect_uri ar \<in> set us"
    using im.registered_uris_found [OF assms(1,2,3) r(1) assms(6,7)] assms(8,9) r(2) by auto
  with redirect_uri_registered [OF assms(10,11), of us] show ?thesis
    by (cases "get_client_redirects E c' (ar_client_id ar) peer") (simp add: authorize_handler_def)
qed

definition sample_registration :: client_registration_request where
  "sample_registration = \<lparr>rq_client_name = Some ''app'', rq_redirect_uris = [''https://app/cb''], rq_grant_types = None,
     rq_response_types = None, rq_token_endpoint_auth_method = None, rq_scope = None\<rparr>"

definition offline_post :: http_post_json where
  "offline_post url body = SendFailed ''offline''"

theorem registered_client_may_authorize_witness:
  "fst (authorize_handler (sample_oauth Opaque) (sample_url\<lparr>url_scheme := \<lambda>u. ''https''\<rparr>) sample_proxy sample_env ''st'' (later 9)
     (sample_authorize\<lparr>ar_client_id := ''app'', ar_redirect_uri := ''https://app/cb''\<rparr>)
     (snd (register_handler (sample_oauth Opaque) sample_env offline_post ''u'' sample_clock sample_registration fresh_store))) =
   Inr (keycloak_auth_url (sample_oauth Opaque) sample_proxy
     (sample_authorize\<lparr>ar_client_id := ''app'', ar_redirect_uri := ''https://app/cb''\<rparr>) ''st'')"
proof -
  obtain resp s1 where r: "register_handler (sample_oauth Opaque) sample_env offline_post ''u'' sample_clock sample_registration fresh_store =
      (Inr (201, resp), s1)" "rs_client_id resp = ''app''" "rs_redirect_uris resp = [''https://app/cb'']"
    by (simp add: register_handler_def offline_post_def build_fallback_registration_def sample_registration_def
        sample_oauth_def is_stateful_def Let_def)
  have st: "is_stateful (mo_token_mode (sample_oauth Opaque))" by (simp add: sample_oauth_def is_stateful_def)
  have "hm_ok (data (backend fresh_store))" by simp
  from registered_client_may_authorize [OF sample_env_fields(1) _ this r(1) st disjI1 [OF refl], of "later 9"
      "sample_authorize\<lparr>ar_client_id := ''app'', ar_redirect_uri := ''https://app/cb''\<rparr>" "sample_url\<lparr>url_scheme := \<lambda>u. ''https''\<rparr>"]
  show ?thesis using r by (simp add: secs_def)
qed

text \<open>A pure resource server proxies nothing: the only handlers its router mounts are
  registration and the 404, registration hands out the configured client id when Keycloak made none,
  and neither registration nor a token request touches the store.\<close>

theorem resource_server_proxies_nothing:
  assumes "mo_token_mode st = ResourceServer"
  shows "(\<forall>path meth h. (path, meth, h) \<in> set (mcp_oauth_router st) \<longrightarrow>
      h = NotProxiedHandler \<or> (h = RegisterHandler \<and> path = OAUTH_REGISTER_PATH)) \<and>
    snd (register_handler st E post uuid c rq s) = s \<and>
    (post (mo_realm_url st @ ''/clients-registrations/openid-connect'') (keycloak_request rq) = SendFailed e \<longrightarrow>
      (\<exists>resp. fst (register_handler st E post uuid c rq s) = Inr (201, resp) \<and> rs_client_id resp = mo_client_id st)) \<and>
    (\<exists>e. token_handler st X H E http endpoint uuid oa orf c w hs body s = Some (Inl e, s))"
  using assms
  by (auto simp: mcp_oauth_router_def is_stateful_def register_handler_def remember_registration_def
      build_fallback_registration_def token_handler_def Let_def split: http_result.splits sum.splits)

theorem resource_server_proxies_nothing_witness:
  "\<exists>resp. fst (register_handler (sample_oauth ResourceServer) sample_env offline_post ''u'' sample_clock sample_registration fresh_store) =
     Inr (201, resp) \<and> rs_client_id resp = ''ours''"
proof -
  have "mo_token_mode (sample_oauth ResourceServer) = ResourceServer" by (simp add: sample_oauth_def)
  from resource_server_proxies_nothing [OF this, of sample_env offline_post "''u''" sample_clock sample_registration fresh_store "''offline''"]
  show ?thesis by (auto simp: offline_post_def sample_oauth_def)
qed

text \<open>The server-side login: a login started for a session and completed in time with the state
  it was given stores the granted token, under the session's name up to its first colon.\<close>

theorem login_binds_session_up_to_colon:
  assumes "login_handler cfg LL uuid c (Some sid) s = (Inr url, s1)" "CHR '':'' \<notin> set uuid"
    and "login_callback LL E uuid' c' q s1 = (r, s2)"
    and "cq_state q = login_state uuid (Some sid)" "cq_code q = Some code"
    and "mono c' \<le> mono c + PENDING_AUTH_TIMEOUT"
    and "ll_exchange LL code (snd (ll_pkce LL)) = Inr (acc, ref, expires_in)"
  shows "r = Inr (takeWhile (\<lambda>x. x \<noteq> CHR '':'') sid) \<and>
    fst (get_token_raw E c'' (takeWhile (\<lambda>x. x \<noteq> CHR '':'') sid) s2) =
      Some (apply_decoder E (from_token_response c' acc ref expires_in))"
proof -
  let ?state = "login_state uuid (Some sid)"
  let ?p = "\<lparr>pkce_verifier = snd (ll_pkce LL), created_at = mono c\<rparr>"
  have s1: "s1 = store_pending_auth c ?state (snd (ll_pkce LL)) s" "ll_client_ok LL"
    using assms(1) by (auto simp: login_handler_def Let_def split: if_splits prod.splits)
  have "take_pending_auth ?state s1 = (Some ?p, s1\<lparr>pending_auths := hm_remove ?state (pending_auths s1)\<rparr>)"
    by (simp add: take_pending_auth_def s1(1) store_pending_auth_def Let_def)
  moreover have "\<not> pending_is_expired c' ?p" using assms(6) by (simp add: pending_is_expired_def)
  ultimately have "r = Inr (takeWhile (\<lambda>x. x \<noteq> CHR '':'') sid)"
    "s2 = store_token E c' (takeWhile (\<lambda>x. x \<noteq> CHR '':'') sid) (from_token_response c' acc ref expires_in)
       (s1\<lparr>pending_auths := hm_remove ?state (pending_auths s1)\<rparr>)"
    using assms(3-5,7) s1(2) state_session_login [OF assms(2), of sid] by (simp_all add: login_callback_def Let_def)
  then show ?thesis by simp
qed

theorem login_binds_session_up_to_colon_witness:
  "\<exists>url s1 r s2. login_handler \<lparr>oc_client_id = [], oc_client_secret = None, oc_issuer_url = [], oc_redirect_url = [],
       oc_scopes = [], oc_token_mode = Opaque, oc_unknown_token_validation = Jwks, oc_expected_audiences = [],
       oc_allowed_redirect_uris = []\<rparr> sample_login ''u'' sample_clock (Some ''team:7'') fresh_store = (Inr url, s1) \<and>
     login_callback sample_login sample_env ''v'' (later 1) (sample_callback\<lparr>cq_state := ''u:team:7''\<rparr>) s1 = (r, s2) \<and> r = Inr ''team''"
proof -
  let ?cfg = "\<lparr>oc_client_id = [], oc_client_secret = None, oc_issuer_url = [], oc_redirect_url = [],
       oc_scopes = [], oc_token_mode = Opaque, oc_unknown_token_validation = Jwks, oc_expected_audiences = [],
       oc_allowed_redirect_uris = []\<rparr>"
  let ?q = "sample_callback\<lparr>cq_state := ''u:team:7''\<rparr>"
  obtain url s1 where l: "login_handler ?cfg sample_login ''u'' sample_clock (Some ''team:7'') fresh_store = (Inr url, s1)"
    by (simp add: login_handler_def sample_login_def Let_def)
  obtain r s2 where cb: "login_callback sample_login sample_env ''v'' (later 1) ?q s1 = (r, s2)"
    by (cases "login_callback sample_login sample_env ''v'' (later 1) ?q s1")
  have "mono (later 1) \<le> mono sample_clock + PENDING_AUTH_TIMEOUT" by (simp add: PENDING_AUTH_TIMEOUT_def secs_def)
  from login_binds_session_up_to_colon [OF l _ cb _ _ this, of "''k''" "''at''" None None]
  have "r = Inr ''team''" by (simp add: login_state_def sample_login_def)
  with l cb show ?thesis by blast
qed

end
