(* ===== verification/Json_Object.thy ===== *)
theory Json_Object
  imports Mcp_Prelude "HOL-Library.List_Lexorder" "HOL-Library.Char_ord"
begin

text \<open>
  The objects of \<open>serde_json\<close>: \<open>Map\<close> is a \<open>BTreeMap\<close> here (no \<open>preserve_order\<close>), so an object is
  an association list that is sorted by key, and iteration is in that order. \<open>json_ok\<close> says so of
  every object inside a value; it is the type of JSON values the sanitizer's lemmas preserve.
\<close>

section \<open>Insertion\<close>

fun obj_insert :: "string \<Rightarrow> 'v \<Rightarrow> (string \<times> 'v) list \<Rightarrow> (string \<times> 'v) list" where
  "obj_insert k v [] = [(k, v)]"
| "obj_insert k v ((a, w) # m) =
     (if k = a then (k, v) # m
      else if k < a then (k, v) # (a, w) # m
      else (a, w) # obj_insert k v m)"

abbreviation contains_key :: "(string \<times> 'v) list \<Rightarrow> string \<Rightarrow> bool" where
  "contains_key m k \<equiv> hm_get m k \<noteq> None"

definition obj_ok :: "(string \<times> 'v) list \<Rightarrow> bool" where
  "obj_ok m \<longleftrightarrow> sorted_wrt (<) (map fst m)"

lemma obj_ok_Nil [simp]: "obj_ok []"
  by (simp add: obj_ok_def)

lemma obj_ok_Cons: "obj_ok ((a, w) # m) \<longleftrightarrow> (\<forall>k \<in> fst ` set m. a < k) \<and> obj_ok m"
  by (simp add: obj_ok_def)

lemma obj_ok_hm_ok: "obj_ok m \<Longrightarrow> hm_ok m"
  by (induction m) (auto simp: obj_ok_def hm_ok_def)

lemma hm_get_below: "\<forall>a \<in> fst ` set (m :: (string \<times> 'v) list). k < a \<Longrightarrow> hm_get m k = None"
  by (metis hm_get_in_keys less_irrefl)

lemma obj_insert_get [simp]:
  "hm_get (obj_insert k v m) k' = (if k' = k then Some v else hm_get m k')"
  by (induction k v m rule: obj_insert.induct) auto

lemma hm_remove_absent: "hm_get m k = None \<Longrightarrow> hm_remove k m = m"
  by (induction m) (auto split: if_splits)

lemma obj_insert_keys: "fst ` set (obj_insert k v m) = insert k (fst ` set m)"
  by (induction k v m rule: obj_insert.induct) (simp_all add: insert_commute)

lemma obj_insert_set: "set (obj_insert k v m) \<subseteq> insert (k, v) (set m)"
  by (induction k v m rule: obj_insert.induct) (auto split: if_splits)

lemma obj_insert_mem: "(k, v) \<in> set (obj_insert k v m)"
  by (induction m) auto

lemma obj_insert_ok [simp]: "obj_ok m \<Longrightarrow> obj_ok (obj_insert k v m)"
proof (induction m)
  case (Cons p m)
  obtain a w where p: "p = (a, w)" by (cases p)
  with Cons have m: "obj_ok m" "\<forall>x \<in> fst ` set m. a < x" by (auto simp: obj_ok_Cons)
  show ?case
  proof (cases "a < k")
    case True
    with Cons.IH [OF m(1)] m(2) show ?thesis
      by (auto simp: p obj_ok_Cons obj_insert_keys simp del: image_iff dest: order.asym)
  next
    case False
    with m show ?thesis by (force simp: p obj_ok_Cons dest: order.strict_trans)
  qed
qed (simp add: obj_ok_def)

lemma hm_remove_subset: "set (hm_remove k m) \<subseteq> set m"
  by (induction m) (auto split: if_splits)

lemma hm_remove_ok [simp]: "obj_ok m \<Longrightarrow> obj_ok (hm_remove k m)"
  using hm_remove_subset by (induction m) (fastforce simp: obj_ok_Cons)+

lemma obj_ok_map_snd [simp]: "obj_ok (map (\<lambda>(k, v). (k, f k v)) m) = obj_ok m"
  by (simp add: obj_ok_def comp_def case_prod_beta)

lemma hm_get_map_snd [simp]: "hm_get (map (\<lambda>(k, v). (k, f k v)) m) k = map_option (f k) (hm_get m k)"
  by (induction m) auto

section \<open>Well-formed values\<close>

text \<open>Children are smaller: the measure of every recursion over a JSON value.\<close>

lemma size_entry [termination_simp]: "(k, v) \<in> set m \<Longrightarrow> size v < size (JObj m)"
  by (induction m) auto

lemma size_item [termination_simp]: "v \<in> set xs \<Longrightarrow> size v < size (JArr xs)"
  by (induction xs) auto

fun json_ok :: "json \<Rightarrow> bool" where
  "json_ok (JObj m) = (obj_ok m \<and> (\<forall>(k, v) \<in> set m. json_ok v))"
| "json_ok (JArr xs) = (\<forall>v \<in> set xs. json_ok v)"
| "json_ok _ = True"

definition entries_ok :: "(string \<times> json) list \<Rightarrow> bool" where
  "entries_ok m \<longleftrightarrow> json_ok (JObj m)"

lemma json_ok_obj [simp]: "json_ok (JObj m) \<longleftrightarrow> entries_ok m"
  by (simp add: entries_ok_def)

lemma entries_ok_iff: "entries_ok m \<longleftrightarrow> obj_ok m \<and> (\<forall>(k, v) \<in> set m. json_ok v)"
  by (simp add: entries_ok_def del: json_ok_obj)

declare json_ok.simps(1) [simp del]

lemma entries_ok_Nil [simp]: "entries_ok []"
  by (simp add: entries_ok_iff)

lemma entries_ok_insert [simp]: "entries_ok m \<Longrightarrow> json_ok v \<Longrightarrow> entries_ok (obj_insert k v m)"
  using obj_insert_set [of k v m] by (auto simp: entries_ok_iff)

lemma entries_ok_remove [simp]: "entries_ok m \<Longrightarrow> entries_ok (hm_remove k m)"
  using hm_remove_subset [of k m] by (auto simp: entries_ok_iff)

lemma entries_ok_obj [simp]: "entries_ok m \<Longrightarrow> obj_ok m"
  by (simp add: entries_ok_iff)

lemma entries_ok_get: "entries_ok m \<Longrightarrow> hm_get m k = Some v \<Longrightarrow> json_ok v"
  by (auto simp: entries_ok_iff dest: hm_get_SomeD)

lemma entries_ok_get_obj: "hm_get m k = Some (JObj x) \<Longrightarrow> entries_ok m \<Longrightarrow> entries_ok x"
  using entries_ok_get by fastforce

lemma json_get_ok: "json_ok v \<Longrightarrow> json_get v k = Some w \<Longrightarrow> json_ok w"
  by (cases v) (auto dest: entries_ok_get)

lemma entries_ok_map:
  "entries_ok m \<Longrightarrow> (\<And>k v. (k, v) \<in> set m \<Longrightarrow> json_ok v \<Longrightarrow> json_ok (f k v)) \<Longrightarrow>
     entries_ok (map (\<lambda>(k, v). (k, f k v)) m)"
  by (auto simp: entries_ok_iff)

end
