(* ===== verification/Sanitize.thy ===== *)
theory Sanitize
  imports Json_Object Auth_Config "HOL-Library.Word"
begin

text \<open>
  The schema sanitizer of \<open>src/src/capability/sanitize.rs\<close>: the schemas a tool advertises are
  stripped of meta-fields, their \<open>$ref\<close>s are inlined, and a combinator at the root is flattened.
  A schema is a JSON object, a definition per function, in the order of the file.
\<close>

section \<open>Stripping meta-fields\<close>

definition nonblank :: "json option \<Rightarrow> string option" where
  "nonblank value =
     (case Option.bind value as_str of
        Some s \<Rightarrow> if str_trim s \<noteq> [] then Some s else None
      | None \<Rightarrow> None)"

definition nonblank_description :: "json \<Rightarrow> string option" where
  "nonblank_description node = nonblank (json_get node ''description'')"

definition NAMED_SUBSCHEMA_CONTAINERS :: "string list" where
  "NAMED_SUBSCHEMA_CONTAINERS =
     [''properties'', ''patternProperties'', ''$defs'', ''definitions'', ''dependentSchemas'']"

definition DATA_KEYWORDS :: "string list" where
  "DATA_KEYWORDS = [''enum'', ''const'', ''default'', ''examples'']"

definition fold_title_into_description :: "(string \<times> json) list \<Rightarrow> (string \<times> json) list" where
  "fold_title_into_description m =
     (case hm_get m ''title'' of
        None \<Rightarrow> m
      | Some title \<Rightarrow>
          (let m' = hm_remove ''title'' m
           in case title of
                JStr title_str \<Rightarrow>
                  if str_trim title_str = [] then m'
                  else if nonblank (hm_get m' ''description'') = None
                  then obj_insert ''description'' title m'
                  else m'
              | _ \<Rightarrow> m'))"

text \<open>What happens at the node itself, before its children are visited.\<close>

definition strip_node :: "(string \<times> json) list \<Rightarrow> (string \<times> json) list" where
  "strip_node m = fold_title_into_description (hm_remove ''$schema'' m)"

lemma fold_title_mem:
  assumes "(k, v) \<in> set (fold_title_into_description m)"
  shows "(k, v) \<in> set m \<or> (k = ''description'' \<and> (''title'', v) \<in> set m)"
proof (cases "hm_get m ''title''")
  case None
  with assms show ?thesis by (simp add: fold_title_into_description_def)
next
  case (Some title)
  with assms show ?thesis
    by (cases title)
       (auto simp: fold_title_into_description_def Let_def split: if_splits
          dest: subsetD [OF obj_insert_set] subsetD [OF hm_remove_subset] hm_get_SomeD)
qed

lemma strip_node_size [termination_simp]:
  assumes "(k, v) \<in> set (strip_node m)"
  shows "size v < size (JObj m)"
proof -
  have "\<exists>k'. (k', v) \<in> set m"
    using fold_title_mem [OF assms [unfolded strip_node_def]] hm_remove_subset [of "''$schema''" m] by blast
  then show ?thesis using size_entry by blast
qed

function (sequential) sanitize_schema_node :: "(string \<times> json) list \<Rightarrow> (string \<times> json) list"
  and sanitize_value_recursive :: "json \<Rightarrow> json" where
  "sanitize_schema_node m =
     map (\<lambda>(key, v).
       (key,
        if key \<in> set DATA_KEYWORDS then v
        else if key \<in> set NAMED_SUBSCHEMA_CONTAINERS then
          (case v of
             JObj named \<Rightarrow> JObj (map (\<lambda>(name, subschema). (name, sanitize_value_recursive subschema)) named)
           | _ \<Rightarrow> v)
        else sanitize_value_recursive v)) (strip_node m)"
| "sanitize_value_recursive (JBool True) = JObj []"
| "sanitize_value_recursive (JObj m) = JObj (sanitize_schema_node m)"
| "sanitize_value_recursive (JArr xs) = JArr (map sanitize_value_recursive xs)"
| "sanitize_value_recursive v = v"
  by pat_completeness auto
termination
proof (relation "measure (\<lambda>x. case x of Inl m \<Rightarrow> 2 * size (JObj m) | Inr v \<Rightarrow> 2 * size v + 1)", goal_cases)
  case 1
  then show ?case by simp
next
  case (2 m p key v named q name sub)
  then have "size v < size (JObj m)" "size sub < size v"
    using strip_node_size [of key v m] size_entry [of name sub named] by auto
  then show ?case by simp
next
  case (3 m p key v)
  then show ?case using strip_node_size [of key v m] by auto
next
  case (4 m)
  then show ?case by simp
next
  case (5 xs x)
  then show ?case using size_item [of x xs] by simp
qed

declare sanitize_schema_node.simps [simp del]

definition strip_meta_fields :: "(string \<times> json) list \<Rightarrow> (string \<times> json) list" where
  "strip_meta_fields schema = sanitize_schema_node schema"

section \<open>Inlining references\<close>

definition MAX_REF_DEPTH :: nat where "MAX_REF_DEPTH = 64"

definition truncate_to_permissive_object :: "(string \<times> json) list \<Rightarrow> (string \<times> json) list" where
  "truncate_to_permissive_object m =
     (let m' = hm_remove ''$ref'' m
      in if \<not> contains_key m' ''type'' then obj_insert ''type'' (JStr ''object'') m' else m')"

text \<open>The definition a node's \<open>$ref\<close> names, when it names one.\<close>

definition ref_target :: "(string \<times> json) list \<Rightarrow> (string \<times> json) list \<Rightarrow> (string \<times> json) option" where
  "ref_target defs m =
     (case hm_get m ''$ref'' of
        Some (JStr ref_str) \<Rightarrow>
          (case strip_prefix ''#/$defs/'' ref_str of
             Some name \<Rightarrow> map_option (\<lambda>def. (name, def)) (hm_get defs name)
           | None \<Rightarrow> None)
      | _ \<Rightarrow> None)"

text \<open>One sibling of the \<open>$ref\<close> is combined with the definition.\<close>

definition merge_sibling :: "string \<times> json \<Rightarrow> (string \<times> json) list \<Rightarrow> (string \<times> json) list" where
  "merge_sibling kv inlined =
     (case kv of (k, v) \<Rightarrow>
        if k = ''$ref'' then inlined
        else
          (case (hm_get inlined k, v) of
             (Some (JObj def_props), JObj sib_props) \<Rightarrow>
               if k = ''properties''
               then obj_insert k (JObj (fold (\<lambda>(pk, pv). obj_insert pk pv) sib_props def_props)) inlined
               else obj_insert k v inlined
           | (Some (JArr def_req), JArr sib_req) \<Rightarrow>
               if k = ''required''
               then obj_insert k (JArr (fold (\<lambda>item req. if item \<in> set req then req else req @ [item]) sib_req def_req)) inlined
               else obj_insert k v inlined
           | _ \<Rightarrow> obj_insert k v inlined))"

definition inline_definition :: "json \<Rightarrow> (string \<times> json) list \<Rightarrow> json" where
  "inline_definition def m = (case def of JObj inlined \<Rightarrow> JObj (fold merge_sibling m inlined) | _ \<Rightarrow> def)"

lemma truncate_mem:
  "(k, v) \<in> set (truncate_to_permissive_object m) \<Longrightarrow> (k, v) \<in> set m \<or> v = JStr ''object''"
  by (auto simp: truncate_to_permissive_object_def Let_def split: if_splits
      dest: subsetD [OF obj_insert_set] subsetD [OF hm_remove_subset])

text \<open>A measure that does not count the text of strings.\<close>

fun height :: "json \<Rightarrow> nat" where
  "height (JObj m) = Suc (foldr max (map (\<lambda>(k, v). height v) m) 0)"
| "height (JArr xs) = Suc (foldr max (map height xs) 0)"
| "height _ = 0"

lemma foldr_max_le: "foldr max xs 0 \<le> (n :: nat) \<longleftrightarrow> (\<forall>x \<in> set xs. x \<le> n)"
  by (induction xs) auto

lemma height_entry: "(k, v) \<in> set m \<Longrightarrow> height v < height (JObj m)"
  using foldr_max_le [of "map (\<lambda>(k, v). height v) m" "foldr max (map (\<lambda>(k, v). height v) m) 0"] by force

lemma height_item: "v \<in> set xs \<Longrightarrow> height v < height (JArr xs)"
  using foldr_max_le [of "map height xs" "foldr max (map height xs) 0"] by force

lemma height_obj_le: "height (JObj m) \<le> Suc n \<longleftrightarrow> (\<forall>(k, v) \<in> set m. height v \<le> n)"
  by (auto simp: foldr_max_le)

lemma height_arr_le: "height (JArr xs) \<le> Suc n \<longleftrightarrow> (\<forall>v \<in> set xs. height v \<le> n)"
  by (auto simp: foldr_max_le)

lemma height_truncate: "(k, v) \<in> set (truncate_to_permissive_object m) \<Longrightarrow> height v < height (JObj m)"
  using truncate_mem [of k v m] height_entry [of k v m] by auto

function (sequential) resolve_refs_inner :: "(string \<times> json) list \<Rightarrow> string list \<Rightarrow> json \<Rightarrow> json" where
  "resolve_refs_inner defs chain (JObj m) =
     (case ref_target defs m of
        Some (def_name, def) \<Rightarrow>
          if def_name \<in> set chain \<or> MAX_REF_DEPTH \<le> length chain
          then JObj (map (\<lambda>(k, v). (k, resolve_refs_inner defs chain v)) (truncate_to_permissive_object m))
          else resolve_refs_inner defs (chain @ [def_name]) (inline_definition def m)
      | None \<Rightarrow> JObj (map (\<lambda>(k, v). (k, resolve_refs_inner defs chain v)) m))"
| "resolve_refs_inner defs chain (JArr xs) = JArr (map (resolve_refs_inner defs chain) xs)"
| "resolve_refs_inner defs chain v = v"
  by pat_completeness auto
termination
  by (relation "measures [\<lambda>(defs, chain, v). MAX_REF_DEPTH - length chain, \<lambda>(defs, chain, v). height v]")
     (auto dest: height_truncate height_entry height_item simp del: height.simps)

declare resolve_refs_inner.simps(1) [simp del]

definition resolve_refs :: "(string \<times> json) list \<Rightarrow> json \<Rightarrow> json" where
  "resolve_refs defs v = resolve_refs_inner defs [] v"

definition inline_defs :: "(string \<times> json) list \<Rightarrow> (string \<times> json) list" where
  "inline_defs schema =
     (case hm_get schema ''$defs'' of
        Some (JObj defs) \<Rightarrow> map (\<lambda>(k, v). (k, resolve_refs defs v)) (hm_remove ''$defs'' schema)
      | _ \<Rightarrow> schema)"

section \<open>Flattening a combinator at the root\<close>

text \<open>Rendering a value that is not a string is left to \<open>serde_json\<close> (\<open>jtext\<close>).\<close>

fun value_label :: "(json \<Rightarrow> string) \<Rightarrow> json \<Rightarrow> string" where
  "value_label jtext (JStr s) = s"
| "value_label jtext v = jtext v"

fun join_with :: "string \<Rightarrow> string list \<Rightarrow> string" where
  "join_with sep [] = []"
| "join_with sep [x] = x"
| "join_with sep (x # xs) = x @ sep @ join_with sep xs"

definition trim_end :: "string \<Rightarrow> string" where
  "trim_end s = rev (dropWhile is_ws (rev s))"

text \<open>The separator is \<open>U+00B7\<close> between blanks, in UTF-8.\<close>

definition compose_discriminant_description :: "(json \<Rightarrow> string) \<Rightarrow> (json \<times> json option) list \<Rightarrow> string option" where
  "compose_discriminant_description jtext entries =
     (if \<forall>(v, d) \<in> set entries. nonblank d = None then None
      else Some (join_with [CHR '' '', CHR 0xC2, CHR 0xB7, CHR '' '']
        (map (\<lambda>(v, d).
           (let lbl = ''`'' @ value_label jtext v @ ''`''
            in case nonblank d of Some doc \<Rightarrow> lbl @ '': '' @ str_trim doc | None \<Rightarrow> lbl)) entries)))"

record flattening =
  fl_props :: "(string \<times> json) list"
  fl_tag_key :: "string option"
  fl_tag_entries :: "(json \<times> json option) list"
  fl_tag_description :: "string option"
  fl_required_by :: "(string \<times> string list) list"

definition flattening_new :: flattening where
  "flattening_new = \<lparr>fl_props = [], fl_tag_key = None, fl_tag_entries = [], fl_tag_description = None,
     fl_required_by = []\<rparr>"

text \<open>First pass over a variant: a property with a \<open>const\<close> is the discriminator.\<close>

definition scan_discriminant :: "(string \<times> json) list \<Rightarrow> string \<times> json \<Rightarrow> flattening \<times> json option \<Rightarrow>
    flattening \<times> json option" where
  "scan_discriminant v_obj prop acc =
     (case (prop, acc) of ((prop_name, prop_schema), (st, variant_tag)) \<Rightarrow>
        (case json_get prop_schema ''const'' of
           None \<Rightarrow> (st, variant_tag)
         | Some const_val \<Rightarrow>
             (let tag_key = (case fl_tag_key st of None \<Rightarrow> prop_name | Some k \<Rightarrow> k);
                  st1 = st\<lparr>fl_tag_key := Some tag_key\<rparr>
              in if tag_key \<noteq> prop_name then (st1, variant_tag)
                 else
                   (let st2 = st1\<lparr>fl_tag_description :=
                          (case fl_tag_description st1 of
                             None \<Rightarrow> nonblank_description prop_schema
                           | Some d \<Rightarrow> Some d)\<rparr>
                    in (if const_val \<in> fst ` set (fl_tag_entries st2) then st2
                        else st2\<lparr>fl_tag_entries := fl_tag_entries st2 @ [(const_val, hm_get v_obj ''description'')]\<rparr>,
                        Some const_val)))))"

text \<open>Second pass: the other properties are merged.\<close>

definition merge_property :: "string \<Rightarrow> json \<Rightarrow> (string \<times> json) list \<Rightarrow> (string \<times> json) list" where
  "merge_property prop_name prop_schema props =
     (case hm_get props prop_name of
        None \<Rightarrow> obj_insert prop_name prop_schema props
      | Some kept \<Rightarrow>
          (case (nonblank_description kept, nonblank_description prop_schema, kept) of
             (None, Some new_description, JObj m) \<Rightarrow>
               obj_insert prop_name (JObj (obj_insert ''description'' (JStr new_description) m)) props
           | _ \<Rightarrow> props))"

definition note_required :: "string \<Rightarrow> string \<Rightarrow> (string \<times> string list) list \<Rightarrow> (string \<times> string list) list" where
  "note_required prop_name lbl required_by =
     (let entry = (case hm_get required_by prop_name of Some e \<Rightarrow> e | None \<Rightarrow> [])
      in obj_insert prop_name (if lbl \<in> set entry then entry else entry @ [lbl]) required_by)"

definition merge_variant_property :: "(json \<Rightarrow> string) \<Rightarrow> json option \<Rightarrow> string list \<Rightarrow> string \<times> json \<Rightarrow>
    flattening \<Rightarrow> flattening" where
  "merge_variant_property jtext variant_tag variant_required prop st =
     (case prop of (prop_name, prop_schema) \<Rightarrow>
        if json_get prop_schema ''const'' \<noteq> None then st
        else st\<lparr>fl_props := merge_property prop_name prop_schema (fl_props st),
               fl_required_by :=
                 (case variant_tag of
                    Some tag \<Rightarrow>
                      if prop_name \<in> set variant_required
                      then note_required prop_name (value_label jtext tag) (fl_required_by st)
                      else fl_required_by st
                  | None \<Rightarrow> fl_required_by st)\<rparr>)"

definition required_names :: "(string \<times> json) list \<Rightarrow> string list" where
  "required_names v_obj =
     (case hm_get v_obj ''required'' of Some (JArr r) \<Rightarrow> List.map_filter as_str r | _ \<Rightarrow> [])"

definition flatten_variant :: "(json \<Rightarrow> string) \<Rightarrow> json \<Rightarrow> flattening \<Rightarrow> flattening" where
  "flatten_variant jtext variant st =
     (case variant of
        JObj v_obj \<Rightarrow>
          (case hm_get v_obj ''properties'' of
             Some (JObj v_props) \<Rightarrow>
               (case fold (scan_discriminant v_obj) v_props (st, None) of
                  (st1, variant_tag) \<Rightarrow>
                    fold (merge_variant_property jtext variant_tag (required_names v_obj)) v_props st1)
           | _ \<Rightarrow> st)
      | _ \<Rightarrow> st)"

text \<open>The requirement of a variant, as prose on the property.\<close>

definition required_prose :: "string \<Rightarrow> string \<times> string list \<Rightarrow> (string \<times> json) list \<Rightarrow> (string \<times> json) list" where
  "required_prose tk req props =
     (case req of (prop_name, tags) \<Rightarrow>
        (case hm_get props prop_name of
           Some (JObj prop) \<Rightarrow>
             (let suffix = ''Required when '' @ tk @ ''='' @ join_with '', '' tags @ ''.'';
                  merged = (case nonblank (hm_get prop ''description'') of
                              Some existing \<Rightarrow> trim_end existing @ '' '' @ suffix
                            | None \<Rightarrow> suffix)
              in obj_insert prop_name (JObj (obj_insert ''description'' (JStr merged) prop)) props)
         | _ \<Rightarrow> props))"

definition discriminant_schema :: "(json \<Rightarrow> string) \<Rightarrow> flattening \<Rightarrow> json" where
  "discriminant_schema jtext st =
     (let base = [(''enum'', JArr (map fst (fl_tag_entries st))), (''type'', JStr ''string'')];
          doc = (case compose_discriminant_description jtext (fl_tag_entries st) of
                   Some d \<Rightarrow> Some d
                 | None \<Rightarrow> fl_tag_description st)
      in JObj (case doc of Some d \<Rightarrow> obj_insert ''description'' (JStr d) base | None \<Rightarrow> base))"

definition flattened_properties :: "(json \<Rightarrow> string) \<Rightarrow> flattening \<Rightarrow> (string \<times> json) list" where
  "flattened_properties jtext st =
     (case fl_tag_key st of
        None \<Rightarrow> fl_props st
      | Some tk \<Rightarrow>
          fold (required_prose tk) (fl_required_by st)
            (obj_insert tk (discriminant_schema jtext st) (fl_props st)))"

definition combinator_key :: "(string \<times> json) list \<Rightarrow> string option" where
  "combinator_key schema = find (contains_key schema) [''oneOf'', ''anyOf'', ''allOf'']"

definition flatten_top_level_combinator :: "(json \<Rightarrow> string) \<Rightarrow> (string \<times> json) list \<Rightarrow> (string \<times> json) list" where
  "flatten_top_level_combinator jtext schema =
     (case combinator_key schema of
        None \<Rightarrow> schema
      | Some ck \<Rightarrow>
          (case hm_get schema ck of
             Some (JArr variants) \<Rightarrow>
               (let st = fold (flatten_variant jtext) variants flattening_new;
                    required = (case fl_tag_key st of Some tk \<Rightarrow> [JStr tk] | None \<Rightarrow> []);
                    schema1 = obj_insert ''properties'' (JObj (flattened_properties jtext st))
                                (obj_insert ''type'' (JStr ''object'') (hm_remove ck schema))
                in if required = [] then hm_remove ''required'' schema1
                   else obj_insert ''required'' (JArr required) schema1)
           | _ \<Rightarrow> hm_remove ck schema))"

section \<open>A tool's schemas\<close>

record mcp_tool =
  tl_name :: string
  tl_description :: "string option"
  tl_input_schema :: "(string \<times> json) list"
  tl_output_schema :: "(string \<times> json) list option"
  tl_meta :: "(string \<times> json) list option"

definition sanitize_schema :: "(json \<Rightarrow> string) \<Rightarrow> (string \<times> json) list \<Rightarrow> (string \<times> json) list" where
  "sanitize_schema jtext schema =
     flatten_top_level_combinator jtext (inline_defs (strip_meta_fields schema))"

text \<open>The flag says whether the input schema had to be patched with a type.\<close>

definition sanitize_one :: "(json \<Rightarrow> string) \<Rightarrow> mcp_tool \<Rightarrow> bool \<times> mcp_tool" where
  "sanitize_one jtext tool =
     (let schema = sanitize_schema jtext (tl_input_schema tool);
          patched_type = \<not> contains_key schema ''type'';
          schema1 = (if patched_type
                     then (let s1 = obj_insert ''type'' (JStr ''object'') schema
                           in if \<not> contains_key s1 ''properties'' then obj_insert ''properties'' (JObj []) s1 else s1)
                     else schema)
      in (patched_type,
          tool\<lparr>tl_input_schema := schema1,
               tl_output_schema := map_option (sanitize_schema jtext) (tl_output_schema tool)\<rparr>))"

section \<open>The documentation audit\<close>

definition audit_descriptions :: "mcp_tool \<Rightarrow> string list" where
  "audit_descriptions tool =
     (let documented = (case tl_description tool of Some d \<Rightarrow> str_trim d \<noteq> [] | None \<Rightarrow> False);
          undocumented = (case hm_get (tl_input_schema tool) ''properties'' of
             Some (JObj props) \<Rightarrow> map fst (filter (\<lambda>(_, schema). nonblank_description schema = None) props)
           | _ \<Rightarrow> [])
      in (if documented then [] else [''the tool itself has no description'']) @
         (if undocumented = [] then [] else [''parameters without a description: '' @ join_with '', '' undocumented]))"

text \<open>The hash of \<open>tool_version_key\<close> is a parameter; \<open>seen\<close> is the set of the audit.\<close>

type_synonym tool_hash = "string \<Rightarrow> string option \<Rightarrow> string \<Rightarrow> 64 word"

definition tool_version_key :: "tool_hash \<Rightarrow> (json \<Rightarrow> string) \<Rightarrow> mcp_tool \<Rightarrow> 64 word" where
  "tool_version_key H jtext tool = H (tl_name tool) (tl_description tool) (jtext (JObj (tl_input_schema tool)))"

definition audit :: "tool_hash \<Rightarrow> (json \<Rightarrow> string) \<Rightarrow> mcp_tool \<Rightarrow> 64 word list \<Rightarrow> string list option \<times> 64 word list" where
  "audit H jtext tool seen =
     (let key = tool_version_key H jtext tool
      in if key \<in> set seen then (None, seen) else (Some (audit_descriptions tool), key # seen))"

definition audit_tool_at_registration :: "tool_hash \<Rightarrow> (json \<Rightarrow> string) \<Rightarrow> mcp_tool \<Rightarrow> 64 word list \<Rightarrow>
    string list option \<times> 64 word list" where
  "audit_tool_at_registration H jtext tool seen = audit H jtext (snd (sanitize_one jtext tool)) seen"

text \<open>Listing sanitizes every tool; what it logs is each tool's findings, once per version.\<close>

fun sanitize_tool_schemas :: "tool_hash \<Rightarrow> (json \<Rightarrow> string) \<Rightarrow> mcp_tool list \<Rightarrow> 64 word list \<Rightarrow>
    mcp_tool list \<times> 64 word list" where
  "sanitize_tool_schemas H jtext [] seen = ([], seen)"
| "sanitize_tool_schemas H jtext (tool # tools) seen =
     (let tool' = snd (sanitize_one jtext tool);
          seen' = snd (audit H jtext tool' seen);
          (tools', seen'') = sanitize_tool_schemas H jtext tools seen'
      in (tool' # tools', seen''))"

end
