(* ===== verification/Sanitize_Facts.thy ===== *)
theory Sanitize_Facts
  imports Sanitize
begin

text \<open>
  Lemmas on the sanitizer: every phase keeps JSON values well formed (\<open>json_ok\<close>), and stripping
  leaves a clean schema and changes nothing the second time.
\<close>

text \<open>What stripping makes of one entry of a node.\<close>

definition sanitize_entry :: "string \<Rightarrow> json \<Rightarrow> json" where
  "sanitize_entry key v =
     (if key \<in> set DATA_KEYWORDS then v
      else if key \<in> set NAMED_SUBSCHEMA_CONTAINERS then
        (case v of
           JObj named \<Rightarrow> JObj (map (\<lambda>(name, subschema). (name, sanitize_value_recursive subschema)) named)
         | _ \<Rightarrow> v)
      else sanitize_value_recursive v)"

lemma sanitize_schema_node_entries:
  "sanitize_schema_node m = map (\<lambda>(key, v). (key, sanitize_entry key v)) (strip_node m)"
  by (simp add: sanitize_schema_node.simps sanitize_entry_def)

lemma sanitize_induct [case_names Node Value True_Schema Object Items]:
  assumes "\<And>m. (\<And>key v named name sub. (key, v) \<in> set (strip_node m) \<Longrightarrow> key \<notin> set DATA_KEYWORDS \<Longrightarrow>
      key \<in> set NAMED_SUBSCHEMA_CONTAINERS \<Longrightarrow> v = JObj named \<Longrightarrow> (name, sub) \<in> set named \<Longrightarrow> Q sub) \<Longrightarrow>
    (\<And>key v. (key, v) \<in> set (strip_node m) \<Longrightarrow> key \<notin> set DATA_KEYWORDS \<Longrightarrow>
      key \<notin> set NAMED_SUBSCHEMA_CONTAINERS \<Longrightarrow> Q v) \<Longrightarrow> P m"
    and "\<And>v. (\<forall>m. v \<noteq> JObj m) \<Longrightarrow> (\<forall>xs. v \<noteq> JArr xs) \<Longrightarrow> v \<noteq> JBool True \<Longrightarrow> Q v"
    and "Q (JBool True)" and "\<And>m. P m \<Longrightarrow> Q (JObj m)"
    and "\<And>xs. (\<And>x. x \<in> set xs \<Longrightarrow> Q x) \<Longrightarrow> Q (JArr xs)"
  shows "P m" "Q v"
proof (induction m and v rule: sanitize_schema_node_sanitize_value_recursive.induct)
  case (1 m)
  show ?case by (rule assms(1)) (use "1.IH" in blast)+
qed (use assms(2-5) in auto)

section \<open>Well-formedness\<close>

lemma fold_title_ok: "entries_ok m \<Longrightarrow> entries_ok (fold_title_into_description m)"
  by (auto simp: fold_title_into_description_def Let_def split: option.split json.split)

lemma strip_node_ok: "entries_ok m \<Longrightarrow> entries_ok (strip_node m)"
  by (simp add: strip_node_def fold_title_ok)

lemma sanitize_ok:
  "entries_ok m \<Longrightarrow> entries_ok (sanitize_schema_node m)"
  "json_ok v \<Longrightarrow> json_ok (sanitize_value_recursive v)"
proof (induction m and v rule: sanitize_induct)
  case (Node m)
  have "json_ok (sanitize_entry key v)" if kv: "(key, v) \<in> set (strip_node m)" "json_ok v" for key v
    using Node.IH [OF kv(1)] kv(2)
    by (auto simp: sanitize_entry_def split: json.split intro!: entries_ok_map)
  then show ?case
    unfolding sanitize_schema_node_entries using strip_node_ok [OF Node.prems] by (intro entries_ok_map)
next
  case (Value v)
  then show ?case by (cases v) auto
qed auto

lemma truncate_ok: "entries_ok m \<Longrightarrow> entries_ok (truncate_to_permissive_object m)"
  by (auto simp: truncate_to_permissive_object_def Let_def)

lemma fold_insert_entries_ok:
  "entries_ok m \<Longrightarrow> (\<forall>(k, v) \<in> set es. json_ok v) \<Longrightarrow> entries_ok (fold (\<lambda>(k, v). obj_insert k v) es m)"
  by (induction es arbitrary: m) auto

lemma fold_union_set:
  "set (fold (\<lambda>item req. if item \<in> set req then req else req @ [item]) es r) = set r \<union> set es"
  by (induction es arbitrary: r) auto

lemma merge_sibling_cases:
  obtains (same) "merge_sibling (k, v) inlined = inlined"
  | (plain) "merge_sibling (k, v) inlined = obj_insert k v inlined"
  | (properties) def_props sib where "v = JObj sib" "hm_get inlined k = Some (JObj def_props)"
      "merge_sibling (k, v) inlined = obj_insert k (JObj (fold (\<lambda>(pk, pv). obj_insert pk pv) sib def_props)) inlined"
  | (required) def_req sib where "v = JArr sib" "hm_get inlined k = Some (JArr def_req)"
      "merge_sibling (k, v) inlined =
         obj_insert k (JArr (fold (\<lambda>item req. if item \<in> set req then req else req @ [item]) sib def_req)) inlined"
proof (cases "k = ''$ref''")
  case True
  then show ?thesis using same by (simp add: merge_sibling_def)
next
  case False
  note kn = this
  show ?thesis
  proof (cases "hm_get inlined k")
    case None
    then show ?thesis using plain by (simp add: merge_sibling_def kn)
  next
    case (Some w)
    show ?thesis
    proof (cases w)
      case (JObj def_props)
      show ?thesis
      proof (cases "\<exists>sib. v = JObj sib \<and> k = ''properties''")
        case True
        then obtain sib where "v = JObj sib" "k = ''properties''" by blast
        with Some JObj show ?thesis by (intro properties [of sib def_props]) (simp_all add: merge_sibling_def)
      next
        case False
        with Some JObj show ?thesis by (intro plain) (cases v; simp add: merge_sibling_def kn)
      qed
    next
      case (JArr def_req)
      show ?thesis
      proof (cases "\<exists>sib. v = JArr sib \<and> k = ''required''")
        case True
        then obtain sib where "v = JArr sib" "k = ''required''" by blast
        with Some JArr show ?thesis by (intro required [of sib def_req]) (simp_all add: merge_sibling_def)
      next
        case False
        with Some JArr show ?thesis by (intro plain) (cases v; simp add: merge_sibling_def kn)
      qed
    qed (use Some plain in \<open>simp_all add: merge_sibling_def kn\<close>)
  qed
qed

lemma merge_sibling_ok:
  assumes "entries_ok inlined" "json_ok v"
  shows "entries_ok (merge_sibling (k, v) inlined)"
proof (cases rule: merge_sibling_cases [of k v inlined])
  case (properties def_props sib)
  then have "entries_ok def_props" "entries_ok sib"
    using entries_ok_get [OF assms(1) properties(2)] assms(2) by simp_all
  then have "entries_ok (fold (\<lambda>(pk, pv). obj_insert pk pv) sib def_props)"
    by (intro fold_insert_entries_ok) (simp_all add: entries_ok_iff)
  with properties(3) assms(1) show ?thesis by simp
next
  case (required def_req sib)
  then have "json_ok (JArr def_req)" "json_ok (JArr sib)"
    using entries_ok_get [OF assms(1) required(2)] assms(2) by simp_all
  then have "json_ok (JArr (fold (\<lambda>item req. if item \<in> set req then req else req @ [item]) sib def_req))"
    by (auto simp: fold_union_set)
  with required(3) assms(1) show ?thesis by (simp del: json_ok.simps)
qed (use assms in simp_all)

lemma fold_merge_ok:
  "entries_ok inlined \<Longrightarrow> (\<forall>(k, v) \<in> set es. json_ok v) \<Longrightarrow> entries_ok (fold merge_sibling es inlined)"
  by (induction es arbitrary: inlined) (auto intro: merge_sibling_ok)

lemma inline_definition_ok:
  assumes "json_ok def" "entries_ok m"
  shows "json_ok (inline_definition def m)"
proof (cases def)
  case (JObj inlined)
  with assms fold_merge_ok [of inlined m] show ?thesis by (simp add: inline_definition_def entries_ok_iff)
qed (use assms in \<open>simp_all add: inline_definition_def\<close>)

lemma ref_target_Some:
  "ref_target defs m = Some (name, def) \<Longrightarrow>
     hm_get defs name = Some def \<and> hm_get m ''$ref'' = Some (JStr (''#/$defs/'' @ name))"
  by (auto simp: ref_target_def split: option.splits json.splits)

lemma resolve_refs_inner_ok:
  assumes "entries_ok defs"
  shows "json_ok v \<Longrightarrow> json_ok (resolve_refs_inner defs chain v)"
  using assms
proof (induction defs chain v rule: resolve_refs_inner.induct)
  case (1 defs chain m)
  then have m: "entries_ok m" by simp
  show ?case
  proof (cases "ref_target defs m")
    case None
    with "1.IH"(1) [OF None] "1.prems"(2) m show ?thesis
      by (auto simp: resolve_refs_inner.simps(1) intro!: entries_ok_map)
  next
    case (Some t)
    obtain name def where t: "t = (name, def)" by (cases t)
    have def: "json_ok def"
      using ref_target_Some [OF Some [unfolded t]] entries_ok_get [OF "1.prems"(2)] by blast
    show ?thesis
    proof (cases "name \<in> set chain \<or> MAX_REF_DEPTH \<le> length chain")
      case True
      with "1.IH"(2) [OF Some t [symmetric] True] "1.prems"(2) truncate_ok [OF m] show ?thesis
        by (auto simp: resolve_refs_inner.simps(1) Some t intro!: entries_ok_map)
    next
      case False
      with "1.IH"(3) [OF Some t [symmetric] False inline_definition_ok [OF def m]] "1.prems"(2) show ?thesis
        by (simp add: resolve_refs_inner.simps(1) Some t)
    qed
  qed
qed auto

lemma inline_defs_ok:
  assumes "entries_ok schema"
  shows "entries_ok (inline_defs schema)"
proof (cases "\<exists>defs. hm_get schema ''$defs'' = Some (JObj defs)")
  case True
  then obtain defs where d: "hm_get schema ''$defs'' = Some (JObj defs)" by blast
  then have "entries_ok defs" using entries_ok_get [OF assms d] by simp
  then have "entries_ok (map (\<lambda>(k, v). (k, resolve_refs defs v)) (hm_remove ''$defs'' schema))"
    using assms by (intro entries_ok_map) (simp_all add: resolve_refs_def resolve_refs_inner_ok)
  then show ?thesis by (simp add: inline_defs_def d)
qed (use assms in \<open>auto simp: inline_defs_def split: option.split json.split\<close>)

definition flattening_ok :: "flattening \<Rightarrow> bool" where
  "flattening_ok st \<longleftrightarrow>
     entries_ok (fl_props st) \<and> (\<forall>(v, d) \<in> set (fl_tag_entries st). json_ok v) \<and> obj_ok (fl_required_by st)"

lemma scan_discriminant_ok:
  "flattening_ok (fst acc) \<Longrightarrow> json_ok v \<Longrightarrow> flattening_ok (fst (scan_discriminant v_obj (k, v) acc))"
  by (cases acc) (auto simp: scan_discriminant_def flattening_ok_def Let_def dest: json_get_ok split: option.split)

lemma scan_discriminants_ok:
  "flattening_ok (fst acc) \<Longrightarrow> (\<forall>(k, v) \<in> set props. json_ok v) \<Longrightarrow>
     flattening_ok (fst (fold (scan_discriminant v_obj) props acc))"
proof (induction props arbitrary: acc)
  case (Cons p props)
  obtain k v where p: "p = (k, v)" by (cases p)
  with Cons.prems Cons.IH [of "scan_discriminant v_obj p acc"] scan_discriminant_ok [of acc v v_obj k]
  show ?case by simp
qed simp

lemma merge_property_ok: "entries_ok props \<Longrightarrow> json_ok v \<Longrightarrow> entries_ok (merge_property k v props)"
  by (auto simp: merge_property_def dest: entries_ok_get_obj split: option.split json.split)

lemma merge_variant_property_ok:
  "flattening_ok st \<Longrightarrow> json_ok v \<Longrightarrow> flattening_ok (merge_variant_property jtext tag rq (k, v) st)"
  by (auto simp: merge_variant_property_def flattening_ok_def note_required_def Let_def merge_property_ok split: option.split)

lemma merge_variant_properties_ok:
  "flattening_ok st \<Longrightarrow> (\<forall>(k, v) \<in> set props. json_ok v) \<Longrightarrow>
     flattening_ok (fold (merge_variant_property jtext tag rq) props st)"
  by (induction props arbitrary: st) (auto simp: merge_variant_property_ok)

lemma flatten_variant_ok:
  assumes "flattening_ok st" "json_ok variant"
  shows "flattening_ok (flatten_variant jtext variant st)"
proof (cases "\<exists>v_obj v_props. variant = JObj v_obj \<and> hm_get v_obj ''properties'' = Some (JObj v_props)")
  case True
  then obtain v_obj v_props where v: "variant = JObj v_obj" "hm_get v_obj ''properties'' = Some (JObj v_props)" by blast
  then have "entries_ok v_props" using assms(2) entries_ok_get [of v_obj, OF _ v(2)] by simp
  then have p: "\<forall>(k, v) \<in> set v_props. json_ok v" by (simp add: entries_ok_iff)
  show ?thesis
    using merge_variant_properties_ok [OF _ p] scan_discriminants_ok [of "(st, None)", OF _ p] assms(1)
    by (auto simp: flatten_variant_def v split: prod.split) (metis fst_conv)
qed (use assms in \<open>auto simp: flatten_variant_def split: json.split option.split\<close>)

lemma flatten_variants_ok:
  "flattening_ok st \<Longrightarrow> \<forall>v \<in> set vs. json_ok v \<Longrightarrow> flattening_ok (fold (flatten_variant jtext) vs st)"
  by (induction vs arbitrary: st) (auto simp: flatten_variant_ok)

lemma required_prose_ok: "entries_ok props \<Longrightarrow> entries_ok (required_prose tk rq props)"
  by (auto simp: required_prose_def Let_def dest: entries_ok_get_obj split: prod.split option.split json.split)

lemma discriminant_schema_ok: "flattening_ok st \<Longrightarrow> json_ok (discriminant_schema jtext st)"
  by (auto simp: discriminant_schema_def flattening_ok_def Let_def entries_ok_iff obj_ok_def split: option.split)

lemma flattened_properties_ok:
  assumes "flattening_ok st"
  shows "entries_ok (flattened_properties jtext st)"
proof -
  have "entries_ok (fold (required_prose tk) reqs props)" if "entries_ok props" for tk reqs props
    using that by (induction reqs arbitrary: props) (auto simp: required_prose_ok)
  with assms discriminant_schema_ok [OF assms, of jtext] show ?thesis
    by (auto simp: flattened_properties_def flattening_ok_def split: option.split)
qed

lemma flatten_top_level_combinator_ok:
  assumes "entries_ok schema"
  shows "entries_ok (flatten_top_level_combinator jtext schema)"
proof (cases "combinator_key schema")
  case (Some ck)
  show ?thesis
  proof (cases "\<exists>vs. hm_get schema ck = Some (JArr vs)")
    case True
    then obtain vs where vs: "hm_get schema ck = Some (JArr vs)" by blast
    then have "\<forall>v \<in> set vs. json_ok v" using entries_ok_get [OF assms vs] by simp
    then have "flattening_ok (fold (flatten_variant jtext) vs flattening_new)"
      by (intro flatten_variants_ok) (simp_all add: flattening_ok_def flattening_new_def)
    from flattened_properties_ok [OF this, of jtext] assms show ?thesis
      by (simp add: flatten_top_level_combinator_def Some vs Let_def split: option.split)
  qed (use Some assms in \<open>auto simp: flatten_top_level_combinator_def split: option.split json.split\<close>)
qed (use assms in \<open>simp add: flatten_top_level_combinator_def\<close>)

lemma sanitize_schema_ok: "entries_ok schema \<Longrightarrow> entries_ok (sanitize_schema jtext schema)"
  by (simp add: sanitize_schema_def strip_meta_fields_def sanitize_ok inline_defs_ok flatten_top_level_combinator_ok)

section \<open>Stripping leaves a clean schema\<close>

text \<open>Clean: no \<open>$schema\<close>, no \<open>title\<close> and no \<open>true\<close> in schema position.\<close>

function clean_schema :: "json \<Rightarrow> bool" where
  "clean_schema v =
     (case v of
        JBool b \<Rightarrow> \<not> b
      | JArr xs \<Rightarrow> (\<forall>x \<in> set xs. clean_schema x)
      | JObj m \<Rightarrow>
          hm_get m ''$schema'' = None \<and> hm_get m ''title'' = None \<and>
          (\<forall>(key, v) \<in> set m.
             if key \<in> set DATA_KEYWORDS then True
             else if key \<in> set NAMED_SUBSCHEMA_CONTAINERS then
               (case v of JObj named \<Rightarrow> (\<forall>(name, subschema) \<in> set named. clean_schema subschema) | _ \<Rightarrow> True)
             else clean_schema v)
      | _ \<Rightarrow> True)"
  by pat_completeness auto
termination
proof (relation "measure size", goal_cases)
  case (3 v m p key w named q name sub)
  then have "size w < size (JObj m)" "size sub < size w"
    using size_entry [of key w m] size_entry [of name sub named] by auto
  with 3 show ?case by simp
next
  case (4 v m p key w)
  then show ?case using size_entry [of key w m] by auto
qed (auto dest: size_item)

declare clean_schema.simps [simp del]

lemma strip_node_clean: "hm_get (strip_node m) ''$schema'' = None" "hm_get (strip_node m) ''title'' = None"
  by (auto simp: strip_node_def fold_title_into_description_def Let_def split: option.split json.split)

lemma strip_node_unchanged:
  "hm_get m ''$schema'' = None \<Longrightarrow> hm_get m ''title'' = None \<Longrightarrow> strip_node m = m"
  by (simp add: strip_node_def hm_remove_absent fold_title_into_description_def)

definition clean_entry :: "string \<Rightarrow> json \<Rightarrow> bool" where
  "clean_entry key v \<longleftrightarrow>
     (if key \<in> set DATA_KEYWORDS then True
      else if key \<in> set NAMED_SUBSCHEMA_CONTAINERS then
        (case v of JObj named \<Rightarrow> (\<forall>(name, subschema) \<in> set named. clean_schema subschema) | _ \<Rightarrow> True)
      else clean_schema v)"

lemma clean_schema_obj:
  "clean_schema (JObj m) \<longleftrightarrow>
     hm_get m ''$schema'' = None \<and> hm_get m ''title'' = None \<and> (\<forall>(key, v) \<in> set m. clean_entry key v)"
  by (subst clean_schema.simps) (simp add: clean_entry_def [abs_def])

lemma clean_schema_simps [simp]:
  "clean_schema (JArr xs) \<longleftrightarrow> (\<forall>x \<in> set xs. clean_schema x)" "clean_schema (JBool b) \<longleftrightarrow> \<not> b"
  "clean_schema JNull" "clean_schema (JInt i)" "clean_schema (JFloat f)" "clean_schema (JStr s)"
  "clean_schema (JObj [])"
  by (simp_all add: clean_schema.simps)

lemma sanitize_clean:
  "clean_schema (JObj (sanitize_schema_node m))"
  "clean_schema (sanitize_value_recursive v)"
proof (induction m and v rule: sanitize_induct)
  case (Node m)
  have "clean_entry key (sanitize_entry key v)" if kv: "(key, v) \<in> set (strip_node m)" for key v
    using Node [OF kv] by (auto simp: sanitize_entry_def clean_entry_def split: json.split)
  then show ?case
    by (auto simp: sanitize_schema_node_entries clean_schema_obj strip_node_clean)
next
  case (Value v)
  then show ?case by (cases v) auto
qed auto

lemma sanitize_clean_unchanged:
  "clean_schema (JObj m) \<Longrightarrow> sanitize_schema_node m = m"
  "clean_schema v \<Longrightarrow> sanitize_value_recursive v = v"
proof (induction m and v rule: sanitize_induct)
  case (Node m)
  have m: "strip_node m = m"
    using Node.prems by (intro strip_node_unchanged) (simp_all add: clean_schema_obj)
  have "sanitize_entry key v = v" if kv: "(key, v) \<in> set m" for key v
  proof -
    have "clean_entry key v" using Node.prems kv by (auto simp: clean_schema_obj)
    then have c: "clean_schema v" if "key \<notin> set DATA_KEYWORDS" "key \<notin> set NAMED_SUBSCHEMA_CONTAINERS"
      using that by (simp add: clean_entry_def)
    have n: "map (\<lambda>(name, subschema). (name, sanitize_value_recursive subschema)) named = named"
      if d: "v = JObj named" "key \<notin> set DATA_KEYWORDS" "key \<in> set NAMED_SUBSCHEMA_CONTAINERS" for named
    proof (rule map_idI)
      fix p
      assume p: "p \<in> set named"
      obtain name sub where ns: "p = (name, sub)" by (cases p)
      with p d \<open>clean_entry key v\<close> have "clean_schema sub" by (auto simp: clean_entry_def)
      with Node.IH(1) [unfolded m, OF kv d(2,3,1)] p ns
      show "(case p of (name, subschema) \<Rightarrow> (name, sanitize_value_recursive subschema)) = p" by simp
    qed
    show ?thesis
      using c n Node.IH(2) [unfolded m, OF kv] by (auto simp: sanitize_entry_def split: json.split)
  qed
  then show ?case by (auto simp: sanitize_schema_node_entries m intro!: map_idI)
next
  case (Value v)
  then show ?case by (cases v) auto
next
  case (Items xs)
  then show ?case by (auto intro: map_idI)
qed auto

lemma strip_idempotent: "strip_meta_fields (strip_meta_fields schema) = strip_meta_fields schema"
  by (simp add: strip_meta_fields_def sanitize_clean sanitize_clean_unchanged)

end
