(* ===== verification/Inline_Facts.thy ===== *)
theory Inline_Facts
  imports Sanitize_Facts
begin

text \<open>
  Inlining of \<open>$ref\<close>s: no reference that the definitions could resolve survives, and calls nest to a
  depth bounded by \<open>MAX_REF_DEPTH\<close> and the height of the schemas.
\<close>

section \<open>Inlining is complete and bounded\<close>

text \<open>No node of a value holds a reference that the definitions could resolve.\<close>

fun refs_free :: "(string \<times> json) list \<Rightarrow> json \<Rightarrow> bool" where
  "refs_free defs (JObj m) = (ref_target defs m = None \<and> (\<forall>(k, v) \<in> set m. refs_free defs v))"
| "refs_free defs (JArr xs) = (\<forall>v \<in> set xs. refs_free defs v)"
| "refs_free defs _ = True"

lemma truncate_no_ref: "hm_get (truncate_to_permissive_object m) ''$ref'' = None"
  by (simp add: truncate_to_permissive_object_def Let_def)

lemma ref_target_none: "hm_get m ''$ref'' = None \<Longrightarrow> ref_target defs m = None"
  by (simp add: ref_target_def)

text \<open>A JSON Schema is an object or a boolean; in particular no definition is a string.\<close>

definition schemas :: "(string \<times> json) list \<Rightarrow> bool" where
  "schemas defs \<longleftrightarrow> (\<forall>(name, def) \<in> set defs. (\<exists>m. def = JObj m) \<or> (\<exists>b. def = JBool b))"

lemma resolved_not_string:
  assumes "schemas defs"
  shows "(\<And>s. v \<noteq> JStr s) \<Longrightarrow> resolve_refs_inner defs chain v \<noteq> JStr t"
  using assms
proof (induction defs chain v rule: resolve_refs_inner.induct)
  case (1 defs chain m)
  show ?case
  proof (cases "ref_target defs m")
    case (Some p)
    obtain name def where p: "p = (name, def)" by (cases p)
    have "hm_get defs name = Some def" using ref_target_Some [OF Some [unfolded p]] by simp
    then have "(name, def) \<in> set defs" by (rule hm_get_SomeD)
    with "1.prems"(2) have "(\<exists>m. def = JObj m) \<or> (\<exists>b. def = JBool b)" by (auto simp: schemas_def)
    then have n: "inline_definition def m \<noteq> JStr s" for s by (auto simp: inline_definition_def)
    show ?thesis
    proof (cases "name \<in> set chain \<or> MAX_REF_DEPTH \<le> length chain")
      case False
      from "1.IH"(3) [OF Some p [symmetric] False n "1.prems"(2)] False show ?thesis
        by (simp add: resolve_refs_inner.simps(1) Some p)
    qed (simp add: resolve_refs_inner.simps(1) Some p)
  qed (simp add: resolve_refs_inner.simps(1))
qed simp_all

lemma ref_target_resolved:
  assumes "schemas defs" "ref_target defs m = None"
  shows "ref_target defs (map (\<lambda>(k, v). (k, resolve_refs_inner defs chain v)) m) = None"
proof (cases "\<exists>s. hm_get m ''$ref'' = Some (JStr s)")
  case True
  with assms(2) show ?thesis by (auto simp: ref_target_def split: option.splits)
next
  case False
  then have "hm_get (map (\<lambda>(k, v). (k, resolve_refs_inner defs chain v)) m) ''$ref'' \<noteq> Some (JStr s)" for s
    using resolved_not_string [OF assms(1)] by (cases "hm_get m ''$ref''") auto
  then show ?thesis by (auto simp: ref_target_def split: option.split json.split)
qed

lemma resolved_refs_free:
  assumes "schemas defs"
  shows "refs_free defs (resolve_refs_inner defs chain v)"
  using assms
proof (induction defs chain v rule: resolve_refs_inner.induct)
  case (1 defs chain m)
  show ?case
  proof (cases "ref_target defs m")
    case None
    with "1.IH"(1) [OF None] "1.prems" ref_target_resolved [OF "1.prems" None, of chain] show ?thesis
      by (auto simp: resolve_refs_inner.simps(1))
  next
    case (Some t)
    obtain name def where t: "t = (name, def)" by (cases t)
    show ?thesis
    proof (cases "name \<in> set chain \<or> MAX_REF_DEPTH \<le> length chain")
      case True
      have "ref_target defs (map (\<lambda>(k, v). (k, resolve_refs_inner defs chain v)) (truncate_to_permissive_object m)) = None"
        by (rule ref_target_resolved [OF "1.prems" ref_target_none [OF truncate_no_ref]])
      with True "1.IH"(2) [OF Some t [symmetric] True] "1.prems" show ?thesis
        by (auto simp: resolve_refs_inner.simps(1) Some t)
    next
      case False
      with "1.IH"(3) [OF Some t [symmetric] False] "1.prems" show ?thesis
        by (simp add: resolve_refs_inner.simps(1) Some t)
    qed
  qed
qed auto

text \<open>The depth to which calls of \<open>resolve_refs_inner\<close> nest.\<close>

function (sequential) resolve_depth :: "(string \<times> json) list \<Rightarrow> string list \<Rightarrow> json \<Rightarrow> nat" where
  "resolve_depth defs chain (JObj m) =
     Suc (case ref_target defs m of
        Some (def_name, def) \<Rightarrow>
          if def_name \<in> set chain \<or> MAX_REF_DEPTH \<le> length chain
          then foldr max (map (\<lambda>(k, v). resolve_depth defs chain v) (truncate_to_permissive_object m)) 0
          else resolve_depth defs (chain @ [def_name]) (inline_definition def m)
      | None \<Rightarrow> foldr max (map (\<lambda>(k, v). resolve_depth defs chain v) m) 0)"
| "resolve_depth defs chain (JArr xs) = Suc (foldr max (map (resolve_depth defs chain) xs) 0)"
| "resolve_depth defs chain v = 1"
  by pat_completeness auto
termination
  by (relation "measures [\<lambda>(defs, chain, v). MAX_REF_DEPTH - length chain, \<lambda>(defs, chain, v). height v]")
     (auto dest: height_truncate height_entry height_item simp del: height.simps)

declare resolve_depth.simps(1) [simp del]

lemma height_fold_insert:
  "(\<forall>(k, v) \<in> set m. height v \<le> n) \<Longrightarrow> (\<forall>(k, v) \<in> set es. height v \<le> n) \<Longrightarrow>
     \<forall>(k, v) \<in> set (fold (\<lambda>(pk, pv). obj_insert pk pv) es m). height v \<le> n"
proof (induction es arbitrary: m)
  case (Cons e es)
  obtain pk pv where e: "e = (pk, pv)" by (cases e)
  with Cons.prems have "\<forall>(k, v) \<in> set (obj_insert pk pv m). height v \<le> n"
    using obj_insert_set [of pk pv m] by auto
  from Cons.IH [OF this] Cons.prems(2) show ?case by (simp add: e)
qed simp

lemma height_merge_sibling:
  assumes old: "\<forall>(k, v) \<in> set inlined. height v \<le> n" and v: "height v \<le> n"
  shows "\<forall>(k', v') \<in> set (merge_sibling (k, v) inlined). height v' \<le> n"
proof -
  have ins: "\<forall>(k', v') \<in> set (obj_insert k w inlined). height v' \<le> n" if "height w \<le> n" for w
    using that old obj_insert_set [of k w inlined] by auto
  have got: "height w \<le> n" if "hm_get inlined k = Some w" for w
    using old hm_get_SomeD [OF that] by auto
  show ?thesis
  proof (cases rule: merge_sibling_cases [of k v inlined])
    case (properties def_props sib)
    then obtain n' where n: "n = Suc n'" using v by (cases n) auto
    have "height (JObj (fold (\<lambda>(pk, pv). obj_insert pk pv) sib def_props)) \<le> n"
      using got [OF properties(2)] v unfolding n properties(1) height_obj_le by (rule height_fold_insert)
    from ins [OF this] show ?thesis unfolding properties(3) .
  next
    case (required def_req sib)
    then obtain n' where n: "n = Suc n'" using v by (cases n) auto
    have "height (JArr (fold (\<lambda>item req. if item \<in> set req then req else req @ [item]) sib def_req)) \<le> n"
      using got [OF required(2)] v unfolding n required(1) height_arr_le by (auto simp: fold_union_set)
    from ins [OF this] show ?thesis unfolding required(3) .
  qed (use old ins [OF v] in simp_all)
qed

lemma height_inline_definition:
  assumes "height def \<le> n" "height (JObj m) \<le> n"
  shows "height (inline_definition def m) \<le> n"
proof (cases def)
  case (JObj inlined)
  obtain n' where n: "n = Suc n'" using assms(2) by (cases n) auto
  have "\<forall>(k, v) \<in> set (fold merge_sibling es d). height v \<le> n'"
    if "\<forall>(k, v) \<in> set d. height v \<le> n'" "\<forall>(k, v) \<in> set es. height v \<le> n'" for es d
    using that
  proof (induction es arbitrary: d)
    case (Cons e es)
    obtain k v where e: "e = (k, v)" by (cases e)
    with Cons.prems have "\<forall>(k', v') \<in> set (merge_sibling (k, v) d). height v' \<le> n'"
      by (intro height_merge_sibling) auto
    from Cons.IH [OF this] Cons.prems(2) show ?case by (simp add: e)
  qed simp
  from this [of inlined m] have "height (JObj (fold merge_sibling m inlined)) \<le> n"
    using assms unfolding n JObj height_obj_le by blast
  then show ?thesis by (simp only: JObj inline_definition_def json.case)
qed (use assms in \<open>simp_all add: inline_definition_def\<close>)

text \<open>Every level of inlining adds at most the height of what it started from.\<close>

lemma resolve_depth_bound:
  assumes "\<forall>(name, def) \<in> set defs. height def \<le> n" and "height v \<le> n"
  shows "resolve_depth defs chain v \<le> Suc (height v) + (MAX_REF_DEPTH - length chain) * (n + 2)"
  using assms
proof (induction defs chain v rule: resolve_depth.induct)
  case (1 defs chain m)
  let ?r = "(MAX_REF_DEPTH - length chain) * (n + 2)"
  show ?case
  proof (cases "ref_target defs m")
    case None
    have "resolve_depth defs chain v \<le> height (JObj m) + ?r" if kv: "(k, v) \<in> set m" for k v
      using "1.IH"(1) [OF None kv refl "1.prems"(1)] height_entry [OF kv] "1.prems"(2) by linarith
    then show ?thesis
      by (auto simp: resolve_depth.simps(1) None foldr_max_le simp del: height.simps)
  next
    case (Some t)
    obtain name def where t: "t = (name, def)" by (cases t)
    show ?thesis
    proof (cases "name \<in> set chain \<or> MAX_REF_DEPTH \<le> length chain")
      case True
      have "resolve_depth defs chain v \<le> height (JObj m) + ?r"
        if kv: "(k, v) \<in> set (truncate_to_permissive_object m)" for k v
        using "1.IH"(2) [OF Some t [symmetric] True kv refl "1.prems"(1)] height_truncate [OF kv] "1.prems"(2) by linarith
      with True show ?thesis
        by (auto simp: resolve_depth.simps(1) Some t foldr_max_le simp del: height.simps)
    next
      case False
      have "hm_get defs name = Some def" using ref_target_Some [OF Some [unfolded t]] by simp
      then have "(name, def) \<in> set defs" by (rule hm_get_SomeD)
      then have h: "height (inline_definition def m) \<le> n"
        using "1.prems" by (intro height_inline_definition) auto
      from False have "MAX_REF_DEPTH - length chain = Suc (MAX_REF_DEPTH - length (chain @ [name]))" by auto
      then have "Suc (Suc n) + (MAX_REF_DEPTH - length (chain @ [name])) * (n + 2) = ?r" by simp
      with "1.IH"(3) [OF Some t [symmetric] False "1.prems"(1) h] h False show ?thesis
        by (simp add: resolve_depth.simps(1) Some t del: height.simps)
    qed
  qed
next
  case (2 defs chain xs)
  have "resolve_depth defs chain v \<le> height (JArr xs) + (MAX_REF_DEPTH - length chain) * (n + 2)" if v: "v \<in> set xs" for v
    using "2.IH" [OF v "2.prems"(1)] height_item [OF v] "2.prems"(2) by linarith
  then show ?case by (auto simp: foldr_max_le simp del: height.simps)
qed auto

text \<open>Resolution with at most \<open>n\<close> nested calls: what the program does on a stack of \<open>n\<close> frames.\<close>

definition entries_within :: "(json \<Rightarrow> json option) \<Rightarrow> (string \<times> json) list \<Rightarrow> (string \<times> json) list option" where
  "entries_within f m =
     (if \<forall>(k, v) \<in> set m. f v \<noteq> None then Some (map (\<lambda>(k, v). (k, the (f v))) m) else None)"

fun resolve_within :: "nat \<Rightarrow> (string \<times> json) list \<Rightarrow> string list \<Rightarrow> json \<Rightarrow> json option" where
  "resolve_within 0 defs chain v = None"
| "resolve_within (Suc n) defs chain (JObj m) =
     (case ref_target defs m of
        Some (def_name, def) \<Rightarrow>
          if def_name \<in> set chain \<or> MAX_REF_DEPTH \<le> length chain
          then map_option JObj (entries_within (resolve_within n defs chain) (truncate_to_permissive_object m))
          else resolve_within n defs (chain @ [def_name]) (inline_definition def m)
      | None \<Rightarrow> map_option JObj (entries_within (resolve_within n defs chain) m))"
| "resolve_within (Suc n) defs chain (JArr xs) =
     (if \<forall>v \<in> set xs. resolve_within n defs chain v \<noteq> None
      then Some (JArr (map (\<lambda>v. the (resolve_within n defs chain v)) xs)) else None)"
| "resolve_within (Suc n) defs chain v = Some v"

lemma entries_within_all:
  "(\<And>k v. (k, v) \<in> set m \<Longrightarrow> f v = Some (g v)) \<Longrightarrow> entries_within f m = Some (map (\<lambda>(k, v). (k, g v)) m)"
  by (auto simp: entries_within_def)

lemma resolve_within_depth:
  "resolve_depth defs chain v \<le> n \<Longrightarrow> resolve_within n defs chain v = Some (resolve_refs_inner defs chain v)"
proof (induction defs chain v arbitrary: n rule: resolve_refs_inner.induct)
  case (1 defs chain m)
  obtain n' where n: "n = Suc n'" using "1.prems" by (cases n) (auto simp: resolve_depth.simps(1))
  show ?case
  proof (cases "ref_target defs m")
    case None
    have "entries_within (resolve_within n' defs chain) m = Some (map (\<lambda>(k, v). (k, resolve_refs_inner defs chain v)) m)"
    proof (rule entries_within_all)
      fix k v assume kv: "(k, v) \<in> set m"
      with "1.prems" have "resolve_depth defs chain v \<le> n'"
        by (auto simp: n resolve_depth.simps(1) None foldr_max_le)
      from "1.IH"(1) [OF None kv refl this]
      show "resolve_within n' defs chain v = Some (resolve_refs_inner defs chain v)" .
    qed
    then show ?thesis by (simp add: n None resolve_refs_inner.simps(1))
  next
    case (Some t)
    obtain name def where t: "t = (name, def)" by (cases t)
    show ?thesis
    proof (cases "name \<in> set chain \<or> MAX_REF_DEPTH \<le> length chain")
      case True
      have "entries_within (resolve_within n' defs chain) (truncate_to_permissive_object m) =
        Some (map (\<lambda>(k, v). (k, resolve_refs_inner defs chain v)) (truncate_to_permissive_object m))"
      proof (rule entries_within_all)
        fix k v assume kv: "(k, v) \<in> set (truncate_to_permissive_object m)"
        with "1.prems" True have "resolve_depth defs chain v \<le> n'"
          by (auto simp: n resolve_depth.simps(1) Some t foldr_max_le)
        from "1.IH"(2) [OF Some t [symmetric] True kv refl this]
        show "resolve_within n' defs chain v = Some (resolve_refs_inner defs chain v)" .
      qed
      with True show ?thesis by (simp add: n Some t resolve_refs_inner.simps(1))
    next
      case False
      with "1.prems" have "resolve_depth defs (chain @ [name]) (inline_definition def m) \<le> n'"
        by (simp add: n resolve_depth.simps(1) Some t)
      from "1.IH"(3) [OF Some t [symmetric] False this] False show ?thesis
        by (simp add: n Some t resolve_refs_inner.simps(1))
    qed
  qed
next
  case (2 defs chain xs)
  obtain n' where n: "n = Suc n'" using "2.prems" by (cases n) auto
  have "resolve_within n' defs chain v = Some (resolve_refs_inner defs chain v)" if v: "v \<in> set xs" for v
    using "2.prems" v by (intro "2.IH" [OF v]) (auto simp: n foldr_max_le)
  then show ?case by (auto simp: n)
qed (case_tac n; simp)+

end
