(* ===== verification/Flatten_Facts.thy ===== *)
theory Flatten_Facts
  imports Inline_Facts
begin

text \<open>
  Flattening of a combinator at the root: every property of every variant is kept, and the
  discriminator's \<open>enum\<close> has the constants of all variants.
\<close>

section \<open>Flattening keeps the variants' properties\<close>

abbreviation props_of :: "flattening \<Rightarrow> string set" where
  "props_of st \<equiv> fst ` set (fl_props st)"

lemma merge_property_keys [simp]: "fst ` set (merge_property k v props) = insert k (fst ` set props)"
proof (cases "hm_get props k")
  case (Some kept)
  then have "k \<in> fst ` set props" using hm_get_in_keys [of props k] by simp
  with Some show ?thesis
    by (auto simp: merge_property_def obj_insert_keys insert_absorb split: option.split json.split)
qed (simp add: merge_property_def obj_insert_keys)

lemma merge_variant_property_step [simp]:
  "props_of (merge_variant_property jtext tag rq p st) =
     props_of st \<union> (if json_get (snd p) ''const'' = None then {fst p} else {})"
  "fl_tag_key (merge_variant_property jtext tag rq p st) = fl_tag_key st"
  "fl_tag_entries (merge_variant_property jtext tag rq p st) = fl_tag_entries st"
  by (cases p; simp add: merge_variant_property_def)+

lemma merge_variant_properties:
  "props_of (fold (merge_variant_property jtext tag rq) ps st) =
     props_of st \<union> {k. \<exists>v. (k, v) \<in> set ps \<and> json_get v ''const'' = None}"
  "fl_tag_key (fold (merge_variant_property jtext tag rq) ps st) = fl_tag_key st"
  "fl_tag_entries (fold (merge_variant_property jtext tag rq) ps st) = fl_tag_entries st"
proof -
  show "props_of (fold (merge_variant_property jtext tag rq) ps st) =
     props_of st \<union> {k. \<exists>v. (k, v) \<in> set ps \<and> json_get v ''const'' = None}"
  proof (induction ps arbitrary: st)
    case (Cons p ps)
    show ?case unfolding fold_simps o_apply Cons.IH merge_variant_property_step(1) by (cases p) auto
  qed simp
qed (induction ps arbitrary: st; simp)+

lemma scan_discriminant_step [simp]:
  "fl_props (fst (scan_discriminant v_obj p acc)) = fl_props (fst acc)"
  "fl_tag_key (fst acc) = Some tk \<Longrightarrow> fl_tag_key (fst (scan_discriminant v_obj p acc)) = Some tk"
  by (cases p; cases acc; simp add: scan_discriminant_def Let_def split: option.split)+

lemma scan_discriminant_entries:
  "fst ` set (fl_tag_entries (fst acc)) \<subseteq> fst ` set (fl_tag_entries (fst (scan_discriminant v_obj p acc)))"
  by (cases p; cases acc; auto simp: scan_discriminant_def Let_def split: option.split)

lemma scan_discriminant_constant:
  "json_get v ''const'' = Some c \<Longrightarrow>
     \<exists>tk. fl_tag_key (fst (scan_discriminant v_obj (k, v) acc)) = Some tk \<and>
       (tk = k \<longrightarrow> c \<in> fst ` set (fl_tag_entries (fst (scan_discriminant v_obj (k, v) acc))))"
  by (cases acc) (auto simp: scan_discriminant_def Let_def split: option.split)

lemma scan_discriminants:
  "fl_props (fst (fold (scan_discriminant v_obj) ps acc)) = fl_props (fst acc)"
  "fl_tag_key (fst acc) = Some tk \<Longrightarrow> fl_tag_key (fst (fold (scan_discriminant v_obj) ps acc)) = Some tk"
  by (induction ps arbitrary: acc; simp)+

lemma scan_discriminants_entries:
  "fst ` set (fl_tag_entries (fst acc)) \<subseteq> fst ` set (fl_tag_entries (fst (fold (scan_discriminant v_obj) ps acc)))"
proof (induction ps arbitrary: acc)
  case (Cons p ps)
  show ?case
    using Cons.IH [of "scan_discriminant v_obj p acc"] scan_discriminant_entries [of acc v_obj p] by simp
qed simp

lemma scan_finds_constant:
  assumes "(k, v) \<in> set ps" "json_get v ''const'' = Some c"
    and "fl_tag_key (fst (fold (scan_discriminant v_obj) ps acc)) = Some k"
  shows "c \<in> fst ` set (fl_tag_entries (fst (fold (scan_discriminant v_obj) ps acc)))"
  using assms
proof (induction ps arbitrary: acc)
  case (Cons p ps)
  let ?acc = "scan_discriminant v_obj p acc"
  show ?case
  proof (cases "p = (k, v)")
    case True
    obtain tk where tk: "fl_tag_key (fst ?acc) = Some tk" "tk = k \<longrightarrow> c \<in> fst ` set (fl_tag_entries (fst ?acc))"
      using scan_discriminant_constant [OF Cons.prems(2)] unfolding True by blast
    from scan_discriminants(2) [OF tk(1), of v_obj ps] Cons.prems(3) have "tk = k" by simp
    with tk(2) show ?thesis using scan_discriminants_entries [of ?acc v_obj ps] by auto
  next
    case False
    with Cons show ?thesis by simp
  qed
qed simp

lemma scan_has_key:
  assumes "(k, v) \<in> set ps" "json_get v ''const'' = Some c"
  shows "\<exists>tk. fl_tag_key (fst (fold (scan_discriminant v_obj) ps acc)) = Some tk"
  using assms
proof (induction ps arbitrary: acc)
  case (Cons p ps)
  show ?case
  proof (cases "p = (k, v)")
    case True
    obtain tk where "fl_tag_key (fst (scan_discriminant v_obj (k, v) acc)) = Some tk"
      using scan_discriminant_constant [OF Cons.prems(2)] by blast
    from scan_discriminants(2) [OF this, of v_obj ps] True show ?thesis by auto
  next
    case False
    with Cons show ?thesis by simp
  qed
qed simp

lemma flatten_variant_cases:
  obtains (same) "flatten_variant jtext variant st = st"
  | (merged) v_obj v_props tag where "variant = JObj v_obj" "hm_get v_obj ''properties'' = Some (JObj v_props)"
      "flatten_variant jtext variant st = fold (merge_variant_property jtext tag (required_names v_obj)) v_props
         (fst (fold (scan_discriminant v_obj) v_props (st, None)))"
proof (cases "\<exists>v_obj v_props. variant = JObj v_obj \<and> hm_get v_obj ''properties'' = Some (JObj v_props)")
  case True
  then obtain v_obj v_props where v: "variant = JObj v_obj" "hm_get v_obj ''properties'' = Some (JObj v_props)" by blast
  show ?thesis
    by (rule merged [OF v, of "snd (fold (scan_discriminant v_obj) v_props (st, None))"])
       (simp add: flatten_variant_def v case_prod_beta)
qed (auto simp: flatten_variant_def split: option.split json.split intro!: same)

lemma flatten_variant_grows:
  "props_of st \<subseteq> props_of (flatten_variant jtext variant st)"
  "fl_tag_key st = Some tk \<Longrightarrow> fl_tag_key (flatten_variant jtext variant st) = Some tk"
  "fst ` set (fl_tag_entries st) \<subseteq> fst ` set (fl_tag_entries (flatten_variant jtext variant st))"
proof -
  show "props_of st \<subseteq> props_of (flatten_variant jtext variant st)"
    by (rule flatten_variant_cases [of jtext variant st]) (auto simp: merge_variant_properties scan_discriminants)
  show "fl_tag_key st = Some tk \<Longrightarrow> fl_tag_key (flatten_variant jtext variant st) = Some tk"
    by (rule flatten_variant_cases [of jtext variant st]) (auto simp: merge_variant_properties scan_discriminants)
  show "fst ` set (fl_tag_entries st) \<subseteq> fst ` set (fl_tag_entries (flatten_variant jtext variant st))"
  proof (rule flatten_variant_cases [of jtext variant st])
    fix v_obj v_props tag
    assume "flatten_variant jtext variant st = fold (merge_variant_property jtext tag (required_names v_obj)) v_props
         (fst (fold (scan_discriminant v_obj) v_props (st, None)))"
    with scan_discriminants_entries [of "(st, None)" v_obj v_props] show ?thesis
      by (simp add: merge_variant_properties)
  qed simp
qed

lemma flatten_variant_takes:
  assumes "variant = JObj v_obj" "hm_get v_obj ''properties'' = Some (JObj v_props)" "(k, v) \<in> set v_props"
  shows "json_get v ''const'' = None \<Longrightarrow> k \<in> props_of (flatten_variant jtext variant st)"
    "json_get v ''const'' = Some c \<Longrightarrow> fl_tag_key (flatten_variant jtext variant st) = Some k \<Longrightarrow>
       c \<in> fst ` set (fl_tag_entries (flatten_variant jtext variant st))"
  using assms scan_finds_constant [OF assms(3), of c v_obj "(st, None)"]
  by (auto simp: flatten_variant_def merge_variant_properties split: prod.split)

lemma flatten_variants_grow:
  "props_of st \<subseteq> props_of (fold (flatten_variant jtext) vs st)"
  "fl_tag_key st = Some tk \<Longrightarrow> fl_tag_key (fold (flatten_variant jtext) vs st) = Some tk"
  "fst ` set (fl_tag_entries st) \<subseteq> fst ` set (fl_tag_entries (fold (flatten_variant jtext) vs st))"
proof -
  show "props_of st \<subseteq> props_of (fold (flatten_variant jtext) vs st)"
  proof (induction vs arbitrary: st)
    case (Cons v vs)
    show ?case
      using flatten_variant_grows(1) [of st jtext v] Cons.IH [of "flatten_variant jtext v st"] by simp
  qed simp
  show "fl_tag_key st = Some tk \<Longrightarrow> fl_tag_key (fold (flatten_variant jtext) vs st) = Some tk"
    by (induction vs arbitrary: st) (simp_all add: flatten_variant_grows(2))
  show "fst ` set (fl_tag_entries st) \<subseteq> fst ` set (fl_tag_entries (fold (flatten_variant jtext) vs st))"
  proof (induction vs arbitrary: st)
    case (Cons v vs)
    show ?case
      using flatten_variant_grows(3) [of st jtext v] Cons.IH [of "flatten_variant jtext v st"] by simp
  qed simp
qed

lemma flatten_variants_take:
  assumes "JObj v_obj \<in> set vs" "hm_get v_obj ''properties'' = Some (JObj v_props)" "(k, v) \<in> set v_props"
  shows "json_get v ''const'' = None \<Longrightarrow> k \<in> props_of (fold (flatten_variant jtext) vs st)"
    "json_get v ''const'' = Some c \<Longrightarrow>
       \<exists>tk. fl_tag_key (fold (flatten_variant jtext) vs st) = Some tk \<and>
         (tk = k \<longrightarrow> c \<in> fst ` set (fl_tag_entries (fold (flatten_variant jtext) vs st)))"
proof -
  obtain us ws where vs: "vs = us @ JObj v_obj # ws" using split_list [OF assms(1)] by blast
  let ?st = "fold (flatten_variant jtext) us st"
  let ?st' = "flatten_variant jtext (JObj v_obj) ?st"
  show "json_get v ''const'' = None \<Longrightarrow> k \<in> props_of (fold (flatten_variant jtext) vs st)"
    using flatten_variant_takes(1) [OF refl assms(2,3), of jtext ?st] flatten_variants_grow(1) [of ?st' jtext ws]
    by (auto simp: vs)
  assume c: "json_get v ''const'' = Some c"
  obtain tk where tk: "fl_tag_key ?st' = Some tk"
    using scan_has_key [OF assms(3) c, of v_obj "(?st, None)"]
    by (auto simp: flatten_variant_def assms(2) merge_variant_properties case_prod_beta)
  then have "fl_tag_key (fold (flatten_variant jtext) vs st) = Some tk"
    using flatten_variants_grow(2) [OF tk, of jtext ws] by (simp add: vs)
  moreover have "c \<in> fst ` set (fl_tag_entries (fold (flatten_variant jtext) vs st))" if "tk = k"
    using flatten_variant_takes(2) [OF refl assms(2,3) c, of jtext ?st] tk that flatten_variants_grow(3) [of ?st' jtext ws]
    by (auto simp: vs)
  ultimately show "\<exists>tk. fl_tag_key (fold (flatten_variant jtext) vs st) = Some tk \<and>
         (tk = k \<longrightarrow> c \<in> fst ` set (fl_tag_entries (fold (flatten_variant jtext) vs st)))" by blast
qed

lemma required_prose_keys: "fst ` set props \<subseteq> fst ` set (required_prose tk rq props)"
proof (cases "\<exists>prop. hm_get props (fst rq) = Some (JObj prop)")
  case True
  then obtain w where "required_prose tk rq props = obj_insert (fst rq) w props"
    by (auto simp: required_prose_def Let_def case_prod_beta)
  then show ?thesis unfolding obj_insert_keys by (simp add: obj_insert_keys subset_insertI)
next
  case False
  then have "required_prose tk rq props = props"
    by (auto simp: required_prose_def case_prod_beta split: option.split json.split)
  then show ?thesis by simp
qed

lemma required_prose_enum:
  assumes "\<exists>d. hm_get props k = Some (JObj d) \<and> hm_get d ''enum'' = Some e"
  shows "\<exists>d. hm_get (required_prose tk rq props) k = Some (JObj d) \<and> hm_get d ''enum'' = Some e"
  using assms by (auto simp: required_prose_def Let_def split: prod.split option.split json.split)

lemma flattened_properties_keys: "props_of st \<subseteq> fst ` set (flattened_properties jtext st)"
proof -
  have "fst ` set props \<subseteq> fst ` set (fold (required_prose tk) reqs props)" for tk reqs props
  proof (induction reqs arbitrary: props)
    case (Cons r reqs)
    show ?case using required_prose_keys [of props tk r] Cons.IH [of "required_prose tk r props"] by simp
  qed simp
  from this [of "obj_insert tk (discriminant_schema jtext st) (fl_props st)" for tk] show ?thesis
    by (auto simp: flattened_properties_def obj_insert_keys split: option.split)
qed

lemma flattened_properties_tag:
  assumes "fl_tag_key st = Some tk"
  shows "\<exists>d. hm_get (flattened_properties jtext st) tk = Some (JObj d) \<and>
    hm_get d ''enum'' = Some (JArr (map fst (fl_tag_entries st)))"
proof -
  let ?P = "\<lambda>props. \<exists>d. hm_get props tk = Some (JObj d) \<and> hm_get d ''enum'' = Some (JArr (map fst (fl_tag_entries st)))"
  have "?P (fold (required_prose tk) reqs props)" if "?P props" for reqs props
    using that by (induction reqs arbitrary: props) (simp_all add: required_prose_enum)
  moreover have "?P (obj_insert tk (discriminant_schema jtext st) (fl_props st))"
    by (simp add: discriminant_schema_def Let_def split: option.split)
  ultimately show ?thesis by (simp add: flattened_properties_def assms)
qed

end
