(* ===== verification/Schema_Properties.thy ===== *)
theory Schema_Properties
  imports Flatten_Facts
begin

text \<open>
  Properties of the schema sanitizer, with the concrete schemas their witnesses use.
\<close>

lemma flatten_array:
  assumes "combinator_key schema = Some ck" "hm_get schema ck = Some (JArr vs)"
  shows "hm_get (flatten_top_level_combinator jtext schema) k =
    (let st = fold (flatten_variant jtext) vs flattening_new
     in if k = ''required'' then map_option (\<lambda>tk. JArr [JStr tk]) (fl_tag_key st)
        else if k = ''properties'' then Some (JObj (flattened_properties jtext st))
        else if k = ''type'' then Some (JStr ''object'')
        else if k = ck then None else hm_get schema k)"
  by (simp add: flatten_top_level_combinator_def assms Let_def split: option.split)

lemma combinator_keyD: "combinator_key schema = Some ck \<Longrightarrow> ck \<in> {''oneOf'', ''anyOf'', ''allOf''} \<and> hm_get schema ck \<noteq> None"
  by (auto simp: combinator_key_def split: if_splits)

text \<open>A recursive type, a tagged union, and a tool that takes it.\<close>

abbreviation node_ref :: json where
  "node_ref \<equiv> JObj [(''$ref'', JStr ''#/$defs/Node'')]"

definition sample_defs :: "(string \<times> json) list" where
  "sample_defs = [(''Node'', JObj [(''properties'', JObj [(''next'', node_ref)]), (''type'', JStr ''object'')])]"

definition sample_schema :: "(string \<times> json) list" where
  "sample_schema = [(''$defs'', JObj sample_defs), (''properties'', JObj [(''root'', node_ref)])]"




section \<open>Properties\<close>



text \<open>Stripping leaves no \<open>$schema\<close>, no \<open>title\<close> and no \<open>true\<close> in schema position, at any depth,
  whatever the schema, and stripping a stripped schema changes nothing: what is audited at
  registration is what is listed later.\<close>

theorem stripping_cleans_once:
  "clean_schema (JObj (strip_meta_fields schema)) \<and>
   strip_meta_fields (strip_meta_fields schema) = strip_meta_fields schema"
  by (simp add: strip_idempotent) (simp add: strip_meta_fields_def sanitize_clean)

text \<open>C29. Inlining is complete: when \<open>$defs\<close> holds schemas, it is gone afterwards, the other keys
  are still there, and no node below the root holds a reference to one of the definitions, even
  where the definitions are recursive.\<close>

theorem inlining_is_complete:
  assumes "hm_get schema ''$defs'' = Some (JObj defs)" "schemas defs"
  shows "hm_get (inline_defs schema) ''$defs'' = None \<and>
    (\<forall>k. k \<noteq> ''$defs'' \<longrightarrow> hm_get (inline_defs schema) k = map_option (resolve_refs defs) (hm_get schema k)) \<and>
    (\<forall>(k, v) \<in> set (inline_defs schema). refs_free defs v)"
  using resolved_refs_free [OF assms(2)] by (auto simp: inline_defs_def assms(1) resolve_refs_def [abs_def])

theorem inlining_is_complete_witness:
  "schemas sample_defs \<and> hm_get (inline_defs sample_schema) ''$defs'' = None \<and>
   list_all (\<lambda>(k, v). refs_free sample_defs v) (inline_defs sample_schema)"
proof -
  have "hm_get sample_schema ''$defs'' = Some (JObj sample_defs)" by (simp add: sample_schema_def)
  moreover have "schemas sample_defs" by (simp add: schemas_def sample_defs_def)
  ultimately show ?thesis using inlining_is_complete [of sample_schema sample_defs] by (simp add: list_all_iff)
qed

text \<open>C30. Resolution is bounded: on any schema, recursive or not, whose definitions and value nest at
  most \<open>n\<close> levels deep, \<open>n + 1 + 64 * (n + 2)\<close> nested calls are enough.\<close>

theorem reference_resolution_is_bounded:
  assumes "\<forall>(name, def) \<in> set defs. height def \<le> n" "height v \<le> n"
  shows "resolve_within (Suc n + MAX_REF_DEPTH * (n + 2)) defs [] v = Some (resolve_refs defs v)"
  unfolding resolve_refs_def
  by (rule resolve_within_depth)
     (use resolve_depth_bound [OF assms, of "[]"] assms(2) in simp)

theorem reference_resolution_is_bounded_witness:
  "resolve_within (Suc 3 + MAX_REF_DEPTH * (3 + 2)) sample_defs [] node_ref = Some (resolve_refs sample_defs node_ref)"
  by (rule reference_resolution_is_bounded) (simp_all add: sample_defs_def)



text \<open>C40. Three things the sanitizer should keep and does not: a keyword whose value is the boolean
  true, such as \<open>uniqueItems\<close>, becomes an empty object; the properties a schema declares beside a
  combinator at its root have no influence on the flattened schema; a reference at the root is
  left in place although the definitions it points into are removed.\<close>

theorem sanitizer_loses_information:
  assumes "key \<notin> {''$schema'', ''title'', ''description''} \<union> set DATA_KEYWORDS \<union> set NAMED_SUBSCHEMA_CONTAINERS"
  shows "(hm_get m key = Some (JBool True) \<longrightarrow> hm_get (strip_meta_fields m) key = Some (JObj [])) \<and>
    (combinator_key schema = Some ck \<longrightarrow> hm_get schema ck = Some (JArr vs) \<longrightarrow>
       hm_get (flatten_top_level_combinator jtext (obj_insert ''properties'' declared schema)) k =
       hm_get (flatten_top_level_combinator jtext schema) k) \<and>
    (hm_get rooted ''$defs'' = Some (JObj defs) \<longrightarrow> hm_get rooted ''$ref'' = Some (JStr r) \<longrightarrow>
       hm_get (inline_defs rooted) ''$ref'' = Some (JStr r) \<and> hm_get (inline_defs rooted) ''$defs'' = None)"
proof (intro conjI impI)
  assume "hm_get m key = Some (JBool True)"
  moreover have "hm_get (strip_node m) key = hm_get m key"
    using assms by (auto simp: strip_node_def fold_title_into_description_def Let_def split: option.split json.split)
  ultimately show "hm_get (strip_meta_fields m) key = Some (JObj [])"
    using assms by (simp add: strip_meta_fields_def sanitize_schema_node_entries sanitize_entry_def)
next
  assume c: "combinator_key schema = Some ck" "hm_get schema ck = Some (JArr vs)"
  let ?s = "obj_insert ''properties'' declared schema"
  have "combinator_key ?s = combinator_key schema" by (simp add: combinator_key_def)
  moreover from combinator_keyD [OF c(1)] have "hm_get ?s ck = hm_get schema ck" by auto
  ultimately have "combinator_key ?s = Some ck" "hm_get ?s ck = Some (JArr vs)" using c by simp_all
  from flatten_array [OF this] flatten_array [OF c]
  show "hm_get (flatten_top_level_combinator jtext ?s) k = hm_get (flatten_top_level_combinator jtext schema) k"
    by (simp add: Let_def)
qed (simp_all add: inline_defs_def resolve_refs_def)

theorem sanitizer_loses_information_witness:
  "hm_get (strip_meta_fields [(''type'', JStr ''array''), (''uniqueItems'', JBool True)]) ''uniqueItems'' = Some (JObj [])"
proof -
  have "''uniqueItems'' \<notin> {''$schema'', ''title'', ''description''} \<union> set DATA_KEYWORDS \<union> set NAMED_SUBSCHEMA_CONTAINERS"
    by (simp add: DATA_KEYWORDS_def NAMED_SUBSCHEMA_CONTAINERS_def)
  from sanitizer_loses_information [OF this, of "[(''type'', JStr ''array''), (''uniqueItems'', JBool True)]"]
  show ?thesis by simp
qed

end
