(* ===== verification/Protocol.thy ===== *)
theory Protocol
  imports Middleware Redirect Json_Object
begin

text \<open>
  Protocol negotiation, \<open>src/src/transport/protocol.rs\<close>: the ceiling on the revisions a server
  advertises, and the repair of clients that announce a sessionless revision through the legacy
  \<open>initialize\<close>. The revisions \<open>rmcp\<close> knows and the JSON codec are parameters.
\<close>

section \<open>Revisions\<close>

text \<open>A revision is an ISO date; revisions are compared as their strings are.\<close>

datatype protocol_version = Revision (version_str: string)

instantiation protocol_version :: linorder
begin

definition less_eq_protocol_version :: "protocol_version \<Rightarrow> protocol_version \<Rightarrow> bool" where
  "less_eq_protocol_version v w \<longleftrightarrow> version_str v \<le> version_str w"

definition less_protocol_version :: "protocol_version \<Rightarrow> protocol_version \<Rightarrow> bool" where
  "less_protocol_version v w \<longleftrightarrow> version_str v < version_str w"

instance
  by standard
    (auto simp: less_eq_protocol_version_def less_protocol_version_def protocol_version.expand)

end

definition MODERN_PROTOCOL_VERSION :: string where "MODERN_PROTOCOL_VERSION = ''2026-07-28''"
definition LEGACY_FALLBACK_VERSION :: string where "LEGACY_FALLBACK_VERSION = ''2025-11-25''"
definition MCP_PROTOCOL_VERSION_HEADER :: string where "MCP_PROTOCOL_VERSION_HEADER = ''mcp-protocol-version''"
definition CONTENT_LENGTH :: string where "CONTENT_LENGTH = ''content-length''"
definition MAX_REQUEST_BODY_BYTES :: nat where "MAX_REQUEST_BODY_BYTES = 4 * 1024 * 1024"
definition MAX_PROTOCOL_VERSION_ENV :: string where "MAX_PROTOCOL_VERSION_ENV = ''MCP_MAX_PROTOCOL_VERSION''"
definition UNCAPPED_ALIASES :: "string list" where "UNCAPPED_ALIASES = [''none'', ''off'', ''latest'', ''unset'']"

datatype protocol_lifecycle_policy = Hybrid | Strict

text \<open>The configuration error names the offending value.\<close>

datatype revision_error = UnknownRevision string

definition validate_max_protocol_version :: "protocol_version list \<Rightarrow> protocol_version option \<Rightarrow>
    revision_error + protocol_version option" where
  "validate_max_protocol_version known cap =
     (case cap of
        None \<Rightarrow> Inr None
      | Some version \<Rightarrow>
          if version \<in> set known then Inr (Some version) else Inl (UnknownRevision (version_str version)))"

definition resolve_max_protocol_version :: "protocol_version list \<Rightarrow> env_var \<Rightarrow> protocol_version option \<Rightarrow>
    revision_error + protocol_version option" where
  "resolve_max_protocol_version known env builder_default =
     (case env MAX_PROTOCOL_VERSION_ENV of
        None \<Rightarrow> validate_max_protocol_version known builder_default
      | Some raw \<Rightarrow>
          (let trimmed = str_trim raw
           in if trimmed = [] then validate_max_protocol_version known builder_default
              else if \<exists>a \<in> set UNCAPPED_ALIASES. eq_ignore_ascii_case trimmed a then Inr None
              else (case find (\<lambda>v. version_str v = trimmed) known of
                      Some v \<Rightarrow> Inr (Some v)
                    | None \<Rightarrow> Inl (UnknownRevision trimmed))))"

definition cap_protocol_versions :: "protocol_version list \<Rightarrow> protocol_version option \<Rightarrow> protocol_version list" where
  "cap_protocol_versions advertised cap =
     (case cap of
        None \<Rightarrow> advertised
      | Some m \<Rightarrow>
          (let capped = filter (\<lambda>v. v \<le> m) advertised
           in if capped = [] then advertised else capped))"

section \<open>Normalizing the lifecycle\<close>

definition is_ascii_digit :: "char \<Rightarrow> bool" where
  "is_ascii_digit ch \<longleftrightarrow> 48 \<le> (of_char ch :: nat) \<and> (of_char ch :: nat) \<le> 57"

definition is_modern_date_version :: "string \<Rightarrow> bool" where
  "is_modern_date_version version \<longleftrightarrow>
     length version = 10 \<and> version ! 4 = CHR ''-'' \<and> version ! 7 = CHR ''-'' \<and>
     list_all (\<lambda>(index, byte). index = 4 \<or> index = 7 \<or> is_ascii_digit byte) (enumerate 0 version) \<and>
     MODERN_PROTOCOL_VERSION \<le> version"

text \<open>The changed message with the requested version, or nothing when the message stays as it is.\<close>

definition normalize_initialize :: "json \<Rightarrow> (json \<times> string) option" where
  "normalize_initialize value =
     (case value of
        JObj object \<Rightarrow>
          if Option.bind (hm_get object ''method'') as_str \<noteq> Some ''initialize'' then None
          else
            (case hm_get object ''params'' of
               Some (JObj params) \<Rightarrow>
                 (case Option.bind (hm_get params ''protocolVersion'') as_str of
                    None \<Rightarrow> None
                  | Some requested \<Rightarrow>
                      if \<not> is_modern_date_version requested then None
                      else Some (JObj (obj_insert ''params''
                             (JObj (obj_insert ''protocolVersion'' (JStr LEGACY_FALLBACK_VERSION) params)) object),
                           requested))
             | _ \<Rightarrow> None)
      | _ \<Rightarrow> None)"

record json_codec =
  jc_parse :: "string \<Rightarrow> json option"
  jc_print :: "json \<Rightarrow> string option"

text \<open>The body is \<open>None\<close> when reading it fails.\<close>

record http_message =
  hq_method :: string
  hq_headers :: headers
  hq_body :: "string option"

datatype lifecycle_outcome = NextRun http_message | StatusOnly nat

definition to_bytes :: "string option \<Rightarrow> nat \<Rightarrow> string option" where
  "to_bytes body limit =
     (case body of Some bytes \<Rightarrow> if length bytes \<le> limit then Some bytes else None | None \<Rightarrow> None)"

text \<open>A matching version header is rewritten with the body; one that differs is not.\<close>

definition relabel_headers :: "header_lib \<Rightarrow> string \<Rightarrow> headers \<Rightarrow> headers" where
  "relabel_headers H requested_version h =
     hdr_remove CONTENT_LENGTH
       (if Option.bind (hdr_get h MCP_PROTOCOL_VERSION_HEADER) (to_str H) = Some requested_version
        then hdr_insert MCP_PROTOCOL_VERSION_HEADER LEGACY_FALLBACK_VERSION h
        else h)"

definition normalize_protocol_lifecycle :: "json_codec \<Rightarrow> header_lib \<Rightarrow> protocol_lifecycle_policy \<Rightarrow>
    http_message \<Rightarrow> lifecycle_outcome" where
  "normalize_protocol_lifecycle J H pol request =
     (if pol \<noteq> Hybrid \<or> hq_method request \<noteq> ''POST'' then NextRun request
      else
        (case to_bytes (hq_body request) MAX_REQUEST_BODY_BYTES of
           None \<Rightarrow> StatusOnly 413
         | Some bytes \<Rightarrow>
             (case Option.bind (jc_parse J bytes) normalize_initialize of
                None \<Rightarrow> NextRun (request\<lparr>hq_body := Some bytes\<rparr>)
              | Some (normalized, requested_version) \<Rightarrow>
                  (case jc_print J normalized of
                     Some sent \<Rightarrow>
                       NextRun (request\<lparr>hq_headers := relabel_headers H requested_version (hq_headers request),
                                        hq_body := Some sent\<rparr>)
                   | None \<Rightarrow> StatusOnly 500))))"

section \<open>Lemmas\<close>



lemma legacy_is_not_modern: "\<not> is_modern_date_version LEGACY_FALLBACK_VERSION"
  by (simp add: is_modern_date_version_def LEGACY_FALLBACK_VERSION_def MODERN_PROTOCOL_VERSION_def)

lemma validated_is_known:
  "validate_max_protocol_version known d = Inr (Some m) \<Longrightarrow> m \<in> set known"
  by (auto simp: validate_max_protocol_version_def split: option.splits if_splits)

lemma resolved_is_known:
  "resolve_max_protocol_version known env d = Inr (Some m) \<Longrightarrow> m \<in> set known"
  by (auto simp: resolve_max_protocol_version_def Let_def validated_is_known find_Some_iff
      split: option.splits if_splits)

lemma normalize_twice: "normalize_initialize v = Some (v', r) \<Longrightarrow> normalize_initialize v' = None"
  by (auto simp: normalize_initialize_def legacy_is_not_modern split: json.splits option.splits if_splits)

lemma normalize_protocol_lifecycle_cases:
  assumes "normalize_protocol_lifecycle J H pol r = NextRun r'"
  shows "r' = r \<or>
    (\<exists>bytes v v' requested sent. hq_body r = Some bytes \<and> jc_parse J bytes = Some v \<and>
       normalize_initialize v = Some (v', requested) \<and> jc_print J v' = Some sent \<and>
       r' = r\<lparr>hq_headers := relabel_headers H requested (hq_headers r), hq_body := Some sent\<rparr>)"
proof (cases "pol = Hybrid \<and> hq_method r = ''POST''")
  case True
  then obtain bytes where b: "hq_body r = Some bytes" "length bytes \<le> MAX_REQUEST_BODY_BYTES"
    using assms by (auto simp: normalize_protocol_lifecycle_def to_bytes_def split: option.splits if_splits)
  show ?thesis
  proof (cases "Option.bind (jc_parse J bytes) normalize_initialize")
    case None
    with assms True b have "r' = r\<lparr>hq_body := Some bytes\<rparr>"
      by (simp add: normalize_protocol_lifecycle_def to_bytes_def)
    also have "\<dots> = r" using b(1) by (cases r) simp
    finally show ?thesis ..
  next
    case (Some p)
    then obtain v v' requested where "jc_parse J bytes = Some v" "normalize_initialize v = Some (v', requested)"
      by (cases p) (auto simp: bind_eq_Some_conv)
    with assms True b show ?thesis
      by (cases "jc_print J v'") (simp_all add: normalize_protocol_lifecycle_def to_bytes_def)
  qed
qed (use assms in \<open>auto simp: normalize_protocol_lifecycle_def\<close>)

lemma relabel_headers_get:
  "hdr_get (relabel_headers H requested h) CONTENT_LENGTH = None"
  "n \<noteq> CONTENT_LENGTH \<Longrightarrow> n \<noteq> MCP_PROTOCOL_VERSION_HEADER \<Longrightarrow> hdr_get (relabel_headers H requested h) n = hdr_get h n"
  "hdr_get (relabel_headers H requested h) MCP_PROTOCOL_VERSION_HEADER =
     (if Option.bind (hdr_get h MCP_PROTOCOL_VERSION_HEADER) (to_str H) = Some requested
      then Some LEGACY_FALLBACK_VERSION else hdr_get h MCP_PROTOCOL_VERSION_HEADER)"
  by (simp_all add: relabel_headers_def MCP_PROTOCOL_VERSION_HEADER_def CONTENT_LENGTH_def)

end
