(* ===== verification/Protocol_Properties.thy ===== *)
theory Protocol_Properties
  imports Protocol Middleware_Properties
begin

text \<open>Properties of protocol negotiation.\<close>

lemma hdr_get_remove_other: "m \<noteq> n \<Longrightarrow> hdr_get (hdr_remove n h) m = hdr_get h m"
  by simp



section \<open>Properties\<close>

text \<open>The boot-time ceiling holds on the wire: a ceiling that resolution accepts is a revision
  \<open>rmcp\<close> knows; the environment overrides the builder; what is served is advertised by the handler,
  is never empty when the handler's set is not, keeps the handler's order, and lies at or below the
  ceiling unless every advertised revision lies above it.\<close>

theorem served_revisions_respect_the_ceiling:
  assumes "resolve_max_protocol_version known env builder_default = Inr cap"
    and "served = cap_protocol_versions advertised cap"
  shows "(\<forall>m. cap = Some m \<longrightarrow> m \<in> set known \<and>
      ((\<forall>v \<in> set served. v \<le> m) \<or> (\<forall>v \<in> set advertised. m < v) \<and> served = advertised)) \<and>
    (\<exists>P. served = filter P advertised) \<and> (advertised \<noteq> [] \<longrightarrow> served \<noteq> []) \<and>
    (\<forall>raw. env MAX_PROTOCOL_VERSION_ENV = Some raw \<longrightarrow> str_trim raw \<noteq> [] \<longrightarrow>
       cap = None \<or> cap = Some (Revision (str_trim raw)))"
proof (intro conjI allI impI)
  fix m assume "cap = Some m"
  with assms(1) show "m \<in> set known" using resolved_is_known by blast
  from \<open>cap = Some m\<close> assms(2)
  show "(\<forall>v \<in> set served. v \<le> m) \<or> (\<forall>v \<in> set advertised. m < v) \<and> served = advertised"
    by (auto simp: cap_protocol_versions_def Let_def filter_empty_conv not_le split: if_splits)
next
  have "served = filter (\<lambda>v. True) advertised \<or> (\<exists>m. served = filter (\<lambda>v. v \<le> m) advertised)"
    using assms(2) by (auto simp: cap_protocol_versions_def Let_def split: option.split)
  then show "\<exists>P. served = filter P advertised" by blast
  show "served \<noteq> []" if "advertised \<noteq> []"
    using that assms(2) by (simp add: cap_protocol_versions_def Let_def split: option.split)
next
  fix raw assume "env MAX_PROTOCOL_VERSION_ENV = Some raw" "str_trim raw \<noteq> []"
  with assms(1) show "cap = None \<or> cap = Some (Revision (str_trim raw))"
    by (auto simp: resolve_max_protocol_version_def Let_def find_Some_iff split: if_splits option.splits)
       (metis protocol_version.collapse)
qed

theorem served_revisions_respect_the_ceiling_witness:
  "cap_protocol_versions [Revision ''2024-11-05'', Revision ''2026-07-28''] (Some (Revision ''2025-11-25'')) =
     [Revision ''2024-11-05''] \<and>
   list_all (\<lambda>v. v \<le> Revision ''2025-11-25'')
     (cap_protocol_versions [Revision ''2024-11-05'', Revision ''2026-07-28''] (Some (Revision ''2025-11-25'')))"
proof -
  let ?known = "[Revision ''2024-11-05'', Revision ''2025-11-25'', Revision ''2026-07-28'']"
  let ?adv = "[Revision ''2024-11-05'', Revision ''2026-07-28'']"
  have r: "resolve_max_protocol_version ?known (\<lambda>_. None) (Some (Revision ''2025-11-25'')) = Inr (Some (Revision ''2025-11-25''))"
    by (simp add: resolve_max_protocol_version_def validate_max_protocol_version_def)
  have c: "cap_protocol_versions ?adv (Some (Revision ''2025-11-25'')) = [Revision ''2024-11-05'']"
    by (simp add: cap_protocol_versions_def less_eq_protocol_version_def)
  with served_revisions_respect_the_ceiling [OF r refl, of ?adv] show ?thesis by (auto simp: list_all_iff)
qed






end
