(* ===== verification/Capability_Request.thy ===== *)
theory Capability_Request
  imports Middleware Sanitize
begin

text \<open>
  What a call carries besides its arguments: \<open>src/src/capability/request.rs\<close>, the filters and
  validators an application may supply (\<open>filter.rs\<close>, \<open>validator.rs\<close>), how a handler finds the
  session and the credential of a call (\<open>resolve_session_id\<close> of \<open>src/src/session/mod.rs\<close>,
  \<open>resolve_token\<close>), and the part of \<open>rmcp\<close>'s data model the handler reads. Application code is
  a function on \<open>'w\<close>, the world it acts on; percent decoding (\<open>urlencoding\<close>) is a parameter.
\<close>

section \<open>Data of \<open>rmcp\<close>\<close>

datatype mcp_error = McpError (err_code: int) (err_message: string)

definition invalid_request :: "string \<Rightarrow> mcp_error" where "invalid_request = McpError (-32600)"
definition invalid_params :: "string \<Rightarrow> mcp_error" where "invalid_params = McpError (-32602)"
definition internal_error :: "string \<Rightarrow> mcp_error" where "internal_error = McpError (-32603)"

text \<open>A name between apostrophes, as the messages show it.\<close>

definition quoted :: "string \<Rightarrow> string" where "quoted s = [CHR 0x27] @ s @ [CHR 0x27]"

record mcp_prompt =
  pr_name :: string
  pr_description :: "string option"

record mcp_resource =
  rs_uri :: string
  rs_name :: string
  rs_mime_type :: "string option"

datatype content_block =
  TextContent string | ImageContent | ResourceContent | AudioContent | ResourceLinkContent | OtherContent

record call_tool_result =
  tr_content :: "content_block list"
  tr_is_error :: "bool option"

datatype resource_contents = TextResource (rc_text: string) (rc_uri: string) (rc_mime_type: "string option")

text \<open>A response is complete, or one of the forms that answer later.\<close>

datatype 'r mcp_response = Complete 'r | InputRequired | TaskCreated | OtherResponse

type_synonym json_object = "(string \<times> json) list"

record tool_request =
  tq_name :: string
  tq_arguments :: "json_object option"

record prompt_request =
  pq_name :: string
  pq_arguments :: "json_object option"

section \<open>The request a call arrived on\<close>

text \<open>
  \<open>http::request::Parts\<close>: the headers and typed extensions of the request the middleware
  forwarded, and the query of its URI. The method is always POST and is not read.
\<close>

record 'c parts =
  pt_request :: "'c request"
  pt_query :: "string option"

record 'c call_request =
  cr_headers :: headers
  cr_query :: "string option"
  cr_bearer :: "string option"
  cr_token :: "'c stored_token option"

definition call_request_from_parts :: "'c parts \<Rightarrow> 'c call_request" where
  "call_request_from_parts parts =
     \<lparr>cr_headers = headers (pt_request parts), cr_query = pt_query parts,
      cr_bearer = bearer_ext (pt_request parts), cr_token = token_ext (pt_request parts)\<rparr>"

definition query_param :: "(string \<Rightarrow> string option) \<Rightarrow> string \<Rightarrow> 'c call_request \<Rightarrow> string option" where
  "query_param url_decode name request =
     (case cr_query request of
        None \<Rightarrow> None
      | Some q \<Rightarrow>
          map_option (\<lambda>pair.
             (let v = (case split_once (CHR ''='') pair of Some (_, v) \<Rightarrow> v | None \<Rightarrow> [])
              in case url_decode v of Some d \<Rightarrow> d | None \<Rightarrow> v))
            (find (\<lambda>pair. (case split_once (CHR ''='') pair of Some (k, _) \<Rightarrow> k | None \<Rightarrow> pair) = name)
               (split_on (CHR ''&'') q)))"

record 'c call_info =
  ci_session_id :: string
  ci_token :: "'c stored_token option"
  ci_request :: "'c call_request option"

definition call_info_new :: "string \<Rightarrow> 'c stored_token option \<Rightarrow> 'c call_request option \<Rightarrow> 'c call_info" where
  "call_info_new sid token request = \<lparr>ci_session_id = sid, ci_token = token, ci_request = request\<rparr>"

section \<open>The identity of a call\<close>

definition DEFAULT_SESSION_ID :: string where "DEFAULT_SESSION_ID = ''default''"

definition session_id_from_parts :: "header_lib \<Rightarrow> 'c parts \<Rightarrow> string" where
  "session_id_from_parts H parts =
     (let h = headers (pt_request parts);
          v = (case hdr_get h MCP_FALLBACK_SESSION_HEADER of
                 Some v \<Rightarrow> Some v
               | None \<Rightarrow> hdr_get h MCP_SESSION_ID_HEADER)
      in case Option.bind v (to_str H) of Some sid \<Rightarrow> sid | None \<Rightarrow> DEFAULT_SESSION_ID)"

text \<open>The extensions of a call hold the request's parts, except in stdio mode.\<close>

definition resolve_session_id :: "header_lib \<Rightarrow> 'c parts option \<Rightarrow> string" where
  "resolve_session_id H ext =
     (case ext of Some parts \<Rightarrow> session_id_from_parts H parts | None \<Rightarrow> DEFAULT_SESSION_ID)"

definition resolve_call_request :: "'c parts option \<Rightarrow> 'c call_request option" where
  "resolve_call_request ext = map_option call_request_from_parts ext"

definition resolve_query_filter :: "(string \<Rightarrow> string option) \<Rightarrow> 'c parts option \<Rightarrow> string list" where
  "resolve_query_filter url_decode ext =
     (case Option.bind ext pt_query of
        None \<Rightarrow> []
      | Some q \<Rightarrow>
          (case List.map_filter (strip_prefix ''filter='') (split_on (CHR ''&'') q) of
             [] \<Rightarrow> []
           | value # _ \<Rightarrow>
               (let decoded = (case url_decode value of Some d \<Rightarrow> d | None \<Rightarrow> value)
                in filter (\<lambda>s. s \<noteq> []) (map str_trim (split_on (CHR '','') decoded)))))"

text \<open>
  The credential of a call: the one the middleware attached, or else the session's token in the
  store, refreshed if need be. \<open>None\<close> is a wait that outlasts its schedule (see \<open>Token_Refresh\<close>).
\<close>

record ('b, 'v, 'c) token_lookup =
  lk_headers :: header_lib
  lk_store :: "('b, 'v, 'c) store_env"
  lk_post :: http_post

definition resolve_token :: "('b, 'v, 'c) token_lookup \<Rightarrow> ('b, 'c, 'k) waiting \<Rightarrow> clock \<Rightarrow> 'c parts option \<Rightarrow>
    ('b, 'c, 'k) token_store \<Rightarrow> ('c stored_token option \<times> clock \<times> ('b, 'c, 'k) token_store) option" where
  "resolve_token L W c ext s =
     (case Option.bind ext (\<lambda>parts. token_ext (pt_request parts)) of
        Some t \<Rightarrow> Some (Some t, c, s)
      | None \<Rightarrow>
          get_token (lk_store L) (lk_post L) (wt_lock_token W) (resolve_session_id (lk_headers L) ext) c
            (wt_locked W) (wt_polls W) s)"

section \<open>Filters and validators\<close>

text \<open>The traits are records of their methods; a field the application leaves out has the default.\<close>

record 'c capability_filter =
  cf_tools_for :: "mcp_tool list \<Rightarrow> 'c call_info \<Rightarrow> mcp_tool list"
  cf_prompts :: "mcp_prompt list \<Rightarrow> 'c stored_token option \<Rightarrow> mcp_prompt list"
  cf_resources :: "mcp_resource list \<Rightarrow> 'c stored_token option \<Rightarrow> mcp_resource list"

definition default_filter :: "'c capability_filter" where
  "default_filter = \<lparr>cf_tools_for = (\<lambda>tools call. tools), cf_prompts = (\<lambda>prompts token. prompts),
     cf_resources = (\<lambda>resources token. resources)\<rparr>"

definition tool_filter :: "(mcp_tool list \<Rightarrow> 'c stored_token option \<Rightarrow> mcp_tool list) \<Rightarrow> 'c capability_filter" where
  "tool_filter f = default_filter\<lparr>cf_tools_for := (\<lambda>tools call. f tools (ci_token call))\<rparr>"

definition prompt_filter :: "(mcp_prompt list \<Rightarrow> 'c stored_token option \<Rightarrow> mcp_prompt list) \<Rightarrow>
    'c capability_filter" where
  "prompt_filter f = default_filter\<lparr>cf_prompts := f\<rparr>"

definition resource_filter :: "(mcp_resource list \<Rightarrow> 'c stored_token option \<Rightarrow> mcp_resource list) \<Rightarrow>
    'c capability_filter" where
  "resource_filter f = default_filter\<lparr>cf_resources := f\<rparr>"

datatype access_decision = Allow | Deny string

record ('c, 'w) access_validator =
  av_call :: "string \<Rightarrow> json_object option \<Rightarrow> 'c call_info \<Rightarrow> 'w \<Rightarrow> access_decision \<times> 'w"
  av_prompt :: "string \<Rightarrow> json_object option \<Rightarrow> 'c stored_token option \<Rightarrow> string \<Rightarrow> 'w \<Rightarrow> access_decision \<times> 'w"
  av_resource :: "string \<Rightarrow> 'c stored_token option \<Rightarrow> string \<Rightarrow> 'w \<Rightarrow> access_decision \<times> 'w"

definition default_validator :: "('c, 'w) access_validator" where
  "default_validator = \<lparr>av_call = (\<lambda>name args call w. (Allow, w)),
     av_prompt = (\<lambda>name args token sid w. (Allow, w)), av_resource = (\<lambda>uri token sid w. (Allow, w))\<rparr>"

text \<open>A validator that supplies the older \<open>validate_tool_call\<close> only.\<close>

definition validator_of_tool_call :: "(string \<Rightarrow> json_object option \<Rightarrow> 'c stored_token option \<Rightarrow> string \<Rightarrow> 'w \<Rightarrow>
    access_decision \<times> 'w) \<Rightarrow> ('c, 'w) access_validator" where
  "validator_of_tool_call f =
     default_validator\<lparr>av_call := (\<lambda>name args call w. f name args (ci_token call) (ci_session_id call) w)\<rparr>"

definition tool_call_validator :: "(string \<Rightarrow> json_object option \<Rightarrow> 'c stored_token option \<Rightarrow> string \<Rightarrow>
    access_decision) \<Rightarrow> ('c, 'w) access_validator" where
  "tool_call_validator f = validator_of_tool_call (\<lambda>name args token sid w. (f name args token sid, w))"

end
