(* ===== verification/Tool_Audit.thy ===== *)
theory Tool_Audit
  imports Capability_Request
begin

text \<open>
  The audit records of tool calls and the loggers that take them: \<open>src/src/audit/record.rs\<close> and
  \<open>src/src/audit/logger.rs\<close>. A logger's \<open>log\<close> does something at once and returns a future that does
  the rest when it is awaited; both act on the world \<open>'w\<close>.
\<close>

datatype tool_call_source = FromRegistry | FromInner

datatype tool_call_outcome =
    Success (oc_is_error: bool) (oc_summary: "string option")
  | McpFailure int string

record tool_call_record =
  tcr_tool_name :: string
  tcr_arguments :: "json_object option"
  tcr_session_id :: string
  tcr_timestamp :: nat
  tcr_duration :: duration
  tcr_source :: tool_call_source
  tcr_outcome :: tool_call_outcome

record 'w tool_call_logger =
  lg_start :: "tool_call_record \<Rightarrow> 'w \<Rightarrow> 'w"
  lg_future :: "tool_call_record \<Rightarrow> 'w \<Rightarrow> 'w"

text \<open>A logger that supplies \<open>log_sync\<close> only; the default of that does nothing.\<close>

definition sync_logger :: "(tool_call_record \<Rightarrow> 'w \<Rightarrow> 'w) \<Rightarrow> 'w tool_call_logger" where
  "sync_logger log_sync = \<lparr>lg_start = log_sync, lg_future = (\<lambda>r w. w)\<rparr>"

definition noop_logger :: "'w tool_call_logger" where
  "noop_logger = sync_logger (\<lambda>r w. w)"

definition run_logger :: "'w tool_call_logger \<Rightarrow> tool_call_record \<Rightarrow> 'w \<Rightarrow> 'w" where
  "run_logger l r w = lg_future l r (lg_start l r w)"

text \<open>Every inner logger is started in order; the futures are then awaited one after the other.\<close>

definition composite_logger :: "'w tool_call_logger list \<Rightarrow> 'w tool_call_logger" where
  "composite_logger loggers =
     \<lparr>lg_start = (\<lambda>r. fold (\<lambda>l. lg_start l r) loggers),
      lg_future = (\<lambda>r. fold (\<lambda>l. lg_future l r) loggers)\<rparr>"

text \<open>The fields of the event a \<open>TracingLogger\<close> emits; \<open>decimal\<close> prints a number.\<close>

record tracing_event =
  te_tool :: string
  te_session_id :: string
  te_duration_ms :: nat
  te_source :: string
  te_outcome :: string
  te_detail :: string

definition tracing_event_of :: "(int \<Rightarrow> string) \<Rightarrow> tool_call_record \<Rightarrow> tracing_event" where
  "tracing_event_of decimal r =
     (let (outcome, detail) =
        (case tcr_outcome r of
           Success is_error summary \<Rightarrow>
             (if is_error then ''tool_error'' else ''success'', case summary of Some s \<Rightarrow> s | None \<Rightarrow> [])
         | McpFailure code message \<Rightarrow> (''mcp_error'', ''['' @ decimal code @ ''] '' @ message))
      in \<lparr>te_tool = tcr_tool_name r, te_session_id = tcr_session_id r,
          te_duration_ms = tcr_duration r div 1000000 mod 2 ^ 64,
          te_source = (case tcr_source r of FromRegistry \<Rightarrow> ''registry'' | FromInner \<Rightarrow> ''inner''),
          te_outcome = outcome, te_detail = detail\<rparr>)"

text \<open>A composite of synchronous loggers runs each of them once, in the order given.\<close>

lemma composite_sync:
  "run_logger (composite_logger (map sync_logger fs)) r w = fold (\<lambda>f. f r) fs w"
proof -
  have "fold (\<lambda>l. lg_start l r) (map sync_logger fs) w = fold (\<lambda>f. f r) fs w" for w
    by (induction fs arbitrary: w) (simp_all add: sync_logger_def)
  moreover have "fold (\<lambda>l. lg_future l r) (map sync_logger fs) w = w" for w
    by (induction fs arbitrary: w) (simp_all add: sync_logger_def)
  ultimately show ?thesis by (simp add: run_logger_def composite_logger_def)
qed

end
