(* ===== verification/Capability_Registry.thy ===== *)
theory Capability_Registry
  imports Tool_Audit "HOL-Library.Multiset"
begin

text \<open>
  The registry of dynamic tools, prompts and resources: \<open>src/src/capability/registry.rs\<close>. A handler
  is a function of its request and of the world \<open>'w\<close> it acts on. What \<open>rmcp\<close> reports of a peer
  (\<open>peer_lib\<close>), the hash of a sequence of names (\<open>DefaultHasher\<close>) and the JSON encoding of a version
  are parameters. Every operation that notifies returns the notifications it attempted.
\<close>

section \<open>State\<close>

datatype notify_kind = NotifyTools | NotifyPrompts | NotifyResources

fun display_kind :: "notify_kind \<Rightarrow> string" where
  "display_kind NotifyTools = ''tool list''"
| "display_kind NotifyPrompts = ''prompt list''"
| "display_kind NotifyResources = ''resource list''"

record ('p, 'c) tool_call_context =
  tc_peer :: 'p
  tc_meta :: json_object
  tc_session_id :: string
  tc_token :: "'c stored_token option"
  tc_request :: "'c call_request option"

type_synonym ('p, 'c, 'w) stored_handler =
  "json_object option \<Rightarrow> ('p, 'c) tool_call_context option \<Rightarrow> 'w \<Rightarrow> (mcp_error + call_tool_result) \<times> 'w"
type_synonym 'w prompt_handler = "prompt_request \<Rightarrow> 'w \<Rightarrow> (mcp_error + json) \<times> 'w"
type_synonym 'w resource_handler = "string \<Rightarrow> 'w \<Rightarrow> (mcp_error + resource_contents list) \<times> 'w"

record ('b, 'p, 'c, 'w) registry =
  rg_tools :: "(string \<times> mcp_tool \<times> ('p, 'c, 'w) stored_handler) list"
  rg_prompts :: "(string \<times> mcp_prompt \<times> 'w prompt_handler) list"
  rg_resources :: "(string \<times> mcp_resource \<times> 'w resource_handler) list"
  rg_peers :: "'p list"
  rg_version :: "64 word"
  rg_session_versions :: "(string \<times> 64 word) list"
  rg_persistence :: "'b option"
  rg_seen :: "64 word list"

record ('b, 'v) registry_env =
  re_ops :: "('b, 'v) backend_ops"
  re_hash :: "string list \<Rightarrow> 64 word"
  re_encode :: "64 word \<Rightarrow> 'v option"
  re_decode :: "'v \<Rightarrow> 64 word option"
  re_tool_hash :: tool_hash
  re_jtext :: "json \<Rightarrow> string"

text \<open>A peer as \<open>rmcp\<close> reports it: whether its transport closed, and whether a notification is sent.\<close>

record 'p peer_lib =
  is_transport_closed :: "'p \<Rightarrow> bool"
  notify_ok :: "'p \<Rightarrow> notify_kind \<Rightarrow> bool"

definition NS_CAP_VERSIONS :: string where "NS_CAP_VERSIONS = ''cap_versions''"
definition APP_MIME_TYPE :: string where "APP_MIME_TYPE = ''text/html;profile=mcp-app''"

definition registry_new :: "('b, 'v) registry_env \<Rightarrow> ('b, 'p, 'c, 'w) registry" where
  "registry_new E = \<lparr>rg_tools = [], rg_prompts = [], rg_resources = [], rg_peers = [],
     rg_version = re_hash E [], rg_session_versions = [], rg_persistence = None, rg_seen = []\<rparr>"

section \<open>Versions\<close>

definition sorted_keys :: "(string \<times> 'a) list \<Rightarrow> string list" where
  "sorted_keys m = sort (map fst m)"

definition recompute_version :: "('b, 'v) registry_env \<Rightarrow> ('b, 'p, 'c, 'w) registry \<Rightarrow> ('b, 'p, 'c, 'w) registry" where
  "recompute_version E g =
     g\<lparr>rg_version := re_hash E (sorted_keys (rg_tools g) @ sorted_keys (rg_prompts g) @ sorted_keys (rg_resources g))\<rparr>"

definition set_persistence :: "'b \<Rightarrow> ('b, 'p, 'c, 'w) registry \<Rightarrow> ('b, 'p, 'c, 'w) registry" where
  "set_persistence b g = g\<lparr>rg_persistence := Some b\<rparr>"

text \<open>The first backend error ends the load and keeps what was loaded so far.\<close>

fun load_versions :: "('b, 'v) registry_env \<Rightarrow> instant \<Rightarrow> 'b \<Rightarrow> string list \<Rightarrow> (string \<times> 64 word) list \<Rightarrow>
    (persistence_error + unit) \<times> (string \<times> 64 word) list" where
  "load_versions E now b [] versions = (Inr (), versions)"
| "load_versions E now b (key # ks) versions =
     (case be_get (re_ops E) now NS_CAP_VERSIONS key b of
        Inl e \<Rightarrow> (Inl e, versions)
      | Inr None \<Rightarrow> load_versions E now b ks versions
      | Inr (Some bytes) \<Rightarrow>
          (case re_decode E bytes of
             Some v \<Rightarrow> load_versions E now b ks (hm_insert key v versions)
           | None \<Rightarrow> load_versions E now b ks versions))"

definition load_persisted_versions :: "('b, 'v) registry_env \<Rightarrow> clock \<Rightarrow> ('b, 'p, 'c, 'w) registry \<Rightarrow>
    (persistence_error + unit) \<times> ('b, 'p, 'c, 'w) registry" where
  "load_persisted_versions E c g =
     (case rg_persistence g of
        None \<Rightarrow> (Inr (), g)
      | Some b \<Rightarrow>
          (case be_keys (re_ops E) (mono c) NS_CAP_VERSIONS b of
             Inl e \<Rightarrow> (Inl e, g)
           | Inr ks \<Rightarrow>
               (case load_versions E (mono c) b ks (rg_session_versions g) of
                  (r, versions) \<Rightarrow> (r, g\<lparr>rg_session_versions := versions\<rparr>))))"

text \<open>What it sends to the peer, whether or not the sending succeeds.\<close>

definition notify_if_changed :: "('b, 'v) registry_env \<Rightarrow> clock \<Rightarrow> string \<Rightarrow> ('b, 'p, 'c, 'w) registry \<Rightarrow>
    notify_kind list \<times> ('b, 'p, 'c, 'w) registry" where
  "notify_if_changed E c sid g =
     (let current = rg_version g;
          stale = (case hm_get (rg_session_versions g) sid of Some v \<Rightarrow> v \<noteq> current | None \<Rightarrow> True)
      in if stale then
           ([NotifyTools, NotifyPrompts, NotifyResources],
            g\<lparr>rg_session_versions := hm_insert sid current (rg_session_versions g),
              rg_persistence :=
                map_option (persist (re_ops E) c NS_CAP_VERSIONS sid (re_encode E current) None)
                  (rg_persistence g)\<rparr>)
         else ([], g))"

section \<open>Peers\<close>

definition register_peer :: "'p \<Rightarrow> ('b, 'p, 'c, 'w) registry \<Rightarrow> ('b, 'p, 'c, 'w) registry" where
  "register_peer peer g = g\<lparr>rg_peers := rg_peers g @ [peer]\<rparr>"

definition open_peers :: "'p peer_lib \<Rightarrow> ('b, 'p, 'c, 'w) registry \<Rightarrow> 'p list \<times> ('b, 'p, 'c, 'w) registry" where
  "open_peers P g =
     (let ps = filter (\<lambda>p. \<not> is_transport_closed P p) (rg_peers g)
      in (ps, g\<lparr>rg_peers := ps\<rparr>))"

text \<open>\<open>Vec::swap_remove\<close>: the last element takes the place of the one removed.\<close>

definition swap_remove :: "nat \<Rightarrow> 'a list \<Rightarrow> 'a list" where
  "swap_remove i xs = butlast (xs[i := last xs])"

text \<open>The indices to remove, and the peers a notification was attempted on.\<close>

fun notify_each :: "'p peer_lib \<Rightarrow> notify_kind \<Rightarrow> nat \<Rightarrow> 'p list \<Rightarrow> nat list \<times> 'p list" where
  "notify_each P kind i [] = ([], [])"
| "notify_each P kind i (peer # peers) =
     (case notify_each P kind (Suc i) peers of
        (to_remove, notified) \<Rightarrow>
          if is_transport_closed P peer then (i # to_remove, notified)
          else if \<not> notify_ok P peer kind then (i # to_remove, peer # notified)
          else (to_remove, peer # notified))"

definition notify_peers :: "'p peer_lib \<Rightarrow> notify_kind \<Rightarrow> ('b, 'p, 'c, 'w) registry \<Rightarrow>
    'p list \<times> ('b, 'p, 'c, 'w) registry" where
  "notify_peers P kind g =
     (case notify_each P kind 0 (rg_peers g) of
        (to_remove, notified) \<Rightarrow> (notified, g\<lparr>rg_peers := fold swap_remove (rev to_remove) (rg_peers g)\<rparr>))"

section \<open>Tools\<close>

definition insert_tool :: "('b, 'v) registry_env \<Rightarrow> 'p peer_lib \<Rightarrow> mcp_tool \<Rightarrow> ('p, 'c, 'w) stored_handler \<Rightarrow>
    ('b, 'p, 'c, 'w) registry \<Rightarrow> 'p list \<times> ('b, 'p, 'c, 'w) registry" where
  "insert_tool E P tool h g =
     (let seen = snd (audit_tool_at_registration (re_tool_hash E) (re_jtext E) tool (rg_seen g));
          g1 = g\<lparr>rg_seen := seen, rg_tools := hm_insert (tl_name tool) (tool, h) (rg_tools g)\<rparr>
      in notify_peers P NotifyTools (recompute_version E g1))"

definition add_tool :: "('b, 'v) registry_env \<Rightarrow> 'p peer_lib \<Rightarrow> mcp_tool \<Rightarrow>
    (json_object option \<Rightarrow> 'w \<Rightarrow> (mcp_error + call_tool_result) \<times> 'w) \<Rightarrow>
    ('b, 'p, 'c, 'w) registry \<Rightarrow> 'p list \<times> ('b, 'p, 'c, 'w) registry" where
  "add_tool E P tool handler g = insert_tool E P tool (\<lambda>args ctx. handler args) g"

definition add_tool_with_context :: "('b, 'v) registry_env \<Rightarrow> 'p peer_lib \<Rightarrow> mcp_tool \<Rightarrow>
    (json_object option \<Rightarrow> ('p, 'c) tool_call_context \<Rightarrow> 'w \<Rightarrow> (mcp_error + call_tool_result) \<times> 'w) \<Rightarrow>
    ('b, 'p, 'c, 'w) registry \<Rightarrow> 'p list \<times> ('b, 'p, 'c, 'w) registry" where
  "add_tool_with_context E P tool handler g =
     insert_tool E P tool
       (\<lambda>args ctx w. case ctx of
          Some ctx \<Rightarrow> handler args ctx w
        | None \<Rightarrow> (Inl (internal_error
            ''tool requires call context but none was provided (programmatic call)''), w)) g"

definition remove_tool :: "('b, 'v) registry_env \<Rightarrow> 'p peer_lib \<Rightarrow> string \<Rightarrow> ('b, 'p, 'c, 'w) registry \<Rightarrow>
    bool \<times> 'p list \<times> ('b, 'p, 'c, 'w) registry" where
  "remove_tool E P name g =
     (if hm_get (rg_tools g) name \<noteq> None
      then (True, notify_peers P NotifyTools
                    (recompute_version E (g\<lparr>rg_tools := hm_remove name (rg_tools g)\<rparr>)))
      else (False, [], g))"

definition registry_tools :: "('b, 'p, 'c, 'w) registry \<Rightarrow> mcp_tool list" where
  "registry_tools g = map (\<lambda>(name, t, h). t) (rg_tools g)"

section \<open>Prompts and resources\<close>

definition add_prompt :: "('b, 'v) registry_env \<Rightarrow> 'p peer_lib \<Rightarrow> mcp_prompt \<Rightarrow> 'w prompt_handler \<Rightarrow>
    ('b, 'p, 'c, 'w) registry \<Rightarrow> 'p list \<times> ('b, 'p, 'c, 'w) registry" where
  "add_prompt E P p h g =
     notify_peers P NotifyPrompts
       (recompute_version E (g\<lparr>rg_prompts := hm_insert (pr_name p) (p, h) (rg_prompts g)\<rparr>))"

definition remove_prompt :: "('b, 'v) registry_env \<Rightarrow> 'p peer_lib \<Rightarrow> string \<Rightarrow> ('b, 'p, 'c, 'w) registry \<Rightarrow>
    bool \<times> 'p list \<times> ('b, 'p, 'c, 'w) registry" where
  "remove_prompt E P name g =
     (if hm_get (rg_prompts g) name \<noteq> None
      then (True, notify_peers P NotifyPrompts
                    (recompute_version E (g\<lparr>rg_prompts := hm_remove name (rg_prompts g)\<rparr>)))
      else (False, [], g))"

definition registry_prompts :: "('b, 'p, 'c, 'w) registry \<Rightarrow> mcp_prompt list" where
  "registry_prompts g = map (\<lambda>(name, p, h). p) (rg_prompts g)"

definition add_resource :: "('b, 'v) registry_env \<Rightarrow> 'p peer_lib \<Rightarrow> mcp_resource \<Rightarrow> 'w resource_handler \<Rightarrow>
    ('b, 'p, 'c, 'w) registry \<Rightarrow> 'p list \<times> ('b, 'p, 'c, 'w) registry" where
  "add_resource E P r h g =
     notify_peers P NotifyResources
       (recompute_version E (g\<lparr>rg_resources := hm_insert (rs_uri r) (r, h) (rg_resources g)\<rparr>))"

definition remove_resource :: "('b, 'v) registry_env \<Rightarrow> 'p peer_lib \<Rightarrow> string \<Rightarrow> ('b, 'p, 'c, 'w) registry \<Rightarrow>
    bool \<times> 'p list \<times> ('b, 'p, 'c, 'w) registry" where
  "remove_resource E P uri g =
     (if hm_get (rg_resources g) uri \<noteq> None
      then (True, notify_peers P NotifyResources
                    (recompute_version E (g\<lparr>rg_resources := hm_remove uri (rg_resources g)\<rparr>)))
      else (False, [], g))"

definition registry_resources :: "('b, 'p, 'c, 'w) registry \<Rightarrow> mcp_resource list" where
  "registry_resources g = map (\<lambda>(uri, r, h). r) (rg_resources g)"

section \<open>App resources\<close>

definition register_app_resource :: "('b, 'v) registry_env \<Rightarrow> 'p peer_lib \<Rightarrow> string \<Rightarrow> string \<Rightarrow>
    ('b, 'p, 'c, 'w) registry \<Rightarrow> 'p list \<times> ('b, 'p, 'c, 'w) registry" where
  "register_app_resource E P uri html g =
     add_resource E P \<lparr>rs_uri = uri, rs_name = uri, rs_mime_type = Some APP_MIME_TYPE\<rparr>
       (\<lambda>params w. (Inr [TextResource html uri (Some APP_MIME_TYPE)], w)) g"

definition app_tool :: "mcp_tool \<Rightarrow> string \<Rightarrow> mcp_tool" where
  "app_tool tool resource_uri =
     (let meta = (case tl_meta tool of Some m \<Rightarrow> m | None \<Rightarrow> [])
      in tool\<lparr>tl_meta := Some (obj_insert ''ui'' (JObj [(''resourceUri'', JStr resource_uri)]) meta)\<rparr>)"

definition contains_tool :: "('b, 'p, 'c, 'w) registry \<Rightarrow> string \<Rightarrow> bool" where
  "contains_tool g name \<longleftrightarrow> hm_get (rg_tools g) name \<noteq> None"

definition has_tools :: "('b, 'p, 'c, 'w) registry \<Rightarrow> bool" where "has_tools g \<longleftrightarrow> rg_tools g \<noteq> []"
definition has_prompts :: "('b, 'p, 'c, 'w) registry \<Rightarrow> bool" where "has_prompts g \<longleftrightarrow> rg_prompts g \<noteq> []"
definition has_resources :: "('b, 'p, 'c, 'w) registry \<Rightarrow> bool" where "has_resources g \<longleftrightarrow> rg_resources g \<noteq> []"

section \<open>Dispatch\<close>

fun validate_tool_args :: "json option \<Rightarrow> mcp_error + json_object option" where
  "validate_tool_args None = Inr None"
| "validate_tool_args (Some (JObj m)) = Inr (Some m)"
| "validate_tool_args (Some JNull) = Inr None"
| "validate_tool_args (Some _) = Inl (invalid_params ''tool arguments must be a JSON object'')"

definition tool_not_found :: "string \<Rightarrow> mcp_error" where
  "tool_not_found name = invalid_request (''tool '' @ quoted name @ '' not found in registry'')"

definition invoke_tool :: "string \<Rightarrow> json option \<Rightarrow> ('p, 'c) tool_call_context option \<Rightarrow> ('b, 'p, 'c, 'w) registry \<Rightarrow>
    'w \<Rightarrow> (mcp_error + call_tool_result) \<times> 'w" where
  "invoke_tool name args ctx g w =
     (case validate_tool_args args of
        Inl e \<Rightarrow> (Inl e, w)
      | Inr json_args \<Rightarrow>
          (case hm_get (rg_tools g) name of
             Some (t, h) \<Rightarrow> h json_args ctx w
           | None \<Rightarrow> (Inl (tool_not_found name), w)))"

definition registry_call_tool :: "string \<Rightarrow> json option \<Rightarrow> ('b, 'p, 'c, 'w) registry \<Rightarrow> 'w \<Rightarrow>
    (mcp_error + call_tool_result) \<times> 'w" where
  "registry_call_tool name args g w = invoke_tool name args None g w"

definition call_tool_with_context :: "string \<Rightarrow> json option \<Rightarrow> ('p, 'c) tool_call_context \<Rightarrow>
    ('b, 'p, 'c, 'w) registry \<Rightarrow> 'w \<Rightarrow> (mcp_error + call_tool_result) \<times> 'w" where
  "call_tool_with_context name args ctx g w = invoke_tool name args (Some ctx) g w"

definition try_call_tool :: "string \<Rightarrow> json_object option \<Rightarrow> ('p, 'c) tool_call_context option \<Rightarrow>
    ('b, 'p, 'c, 'w) registry \<Rightarrow> 'w \<Rightarrow> ((mcp_error + call_tool_result) \<times> 'w) option" where
  "try_call_tool name args ctx g w = map_option (\<lambda>(t, h). h args ctx w) (hm_get (rg_tools g) name)"

definition registry_get_prompt :: "prompt_request \<Rightarrow> ('b, 'p, 'c, 'w) registry \<Rightarrow> 'w \<Rightarrow>
    ((mcp_error + json) \<times> 'w) option" where
  "registry_get_prompt params g w = map_option (\<lambda>(p, h). h params w) (hm_get (rg_prompts g) (pq_name params))"

definition registry_read_resource :: "string \<Rightarrow> ('b, 'p, 'c, 'w) registry \<Rightarrow> 'w \<Rightarrow>
    ((mcp_error + resource_contents list) \<times> 'w) option" where
  "registry_read_resource uri g w = map_option (\<lambda>(r, h). h uri w) (hm_get (rg_resources g) uri)"

end
