(* ===== verification/Registry_Facts.thy ===== *)
theory Registry_Facts
  imports Capability_Registry
begin

text \<open>
  Lemmas on the registry: which peers a notification reaches and which it leaves, the registry as
  three maps from names (\<open>catalog\<close>) with one abstract step per operation, and the version as the
  hash of the names in them.
\<close>

section \<open>Peers\<close>

lemma swap_remove_mset:
  assumes "i < length xs"
  shows "mset (swap_remove i xs) + {#xs ! i#} = mset xs"
proof -
  obtain ys l where xs: "xs = ys @ [l]" using assms by (cases xs rule: rev_exhaust) auto
  show ?thesis
  proof (cases "i = length ys")
    case True
    with xs show ?thesis by (simp add: swap_remove_def)
  next
    case False
    with assms xs have i: "i < length ys" by simp
    with xs show ?thesis by (simp add: swap_remove_def list_update_append nth_append mset_update)
  qed
qed

lemma swap_remove_nth: "j < i \<Longrightarrow> i < length xs \<Longrightarrow> swap_remove i xs ! j = xs ! j"
  by (simp add: swap_remove_def nth_butlast)

lemma swap_remove_length [simp]: "length (swap_remove i xs) = length xs - 1"
  by (simp add: swap_remove_def)

lemma swap_removes_mset:
  assumes "sorted_wrt (<) is" "\<forall>i \<in> set is. i < length xs"
  shows "mset (fold swap_remove (rev is) xs) + mset (map ((!) xs) is) = mset xs"
  using assms
proof (induction "is" arbitrary: xs rule: rev_induct)
  case Nil
  then show ?case by simp
next
  case (snoc i js)
  have js: "sorted_wrt (<) js" "\<forall>j \<in> set js. j < i" and i: "i < length xs"
    using snoc.prems by (auto simp: sorted_wrt_append)
  have "mset (fold swap_remove (rev js) (swap_remove i xs)) + mset (map ((!) (swap_remove i xs)) js)
      = mset (swap_remove i xs)"
    using js i by (intro snoc.IH) auto
  moreover have "map ((!) (swap_remove i xs)) js = map ((!) xs) js"
    using js(2) i by (auto simp: swap_remove_nth)
  ultimately show ?case using swap_remove_mset [OF i] by (auto simp: ac_simps)
qed

definition is_live :: "'p peer_lib \<Rightarrow> notify_kind \<Rightarrow> 'p \<Rightarrow> bool" where
  "is_live P kind p \<longleftrightarrow> \<not> is_transport_closed P p \<and> notify_ok P p kind"

lemma notify_each_enumerate:
  "notify_each P kind i ps =
     (map fst (filter (\<lambda>(j, p). \<not> is_live P kind p) (enumerate i ps)), filter (\<lambda>p. \<not> is_transport_closed P p) ps)"
  by (induction ps arbitrary: i) (auto simp: is_live_def)

lemma sorted_wrt_filter_enumerate: "sorted_wrt (<) (map fst (filter Q (enumerate i xs)))"
proof -
  have "sorted_wrt (\<lambda>a b. fst a < fst b) (enumerate i xs)"
    by (simp add: sorted_wrt_map [of "(<)" fst, symmetric])
  then show ?thesis by (simp add: sorted_wrt_map sorted_wrt_filter)
qed

lemma map_nth_filter_enumerate:
  "map ((!) xs) (map fst (filter (\<lambda>(j, p). Q p) (enumerate 0 xs))) = filter Q xs"
proof -
  have "map ((!) xs) (map fst (filter (\<lambda>(j, p). Q p) (enumerate 0 xs))) = map snd (filter (\<lambda>(j, p). Q p) (enumerate 0 xs))"
    by (auto simp: in_set_enumerate_eq)
  also have "map snd (filter (\<lambda>(j, p). Q p) (enumerate i xs)) = filter Q xs" for i
    by (induction xs arbitrary: i) auto
  finally show ?thesis .
qed

lemma notify_peers_sent: "fst (notify_peers P kind g) = filter (\<lambda>p. \<not> is_transport_closed P p) (rg_peers g)"
  by (simp add: notify_peers_def notify_each_enumerate)

lemma notify_peers_kept: "mset (rg_peers (snd (notify_peers P kind g))) = mset (filter (is_live P kind) (rg_peers g))"
proof -
  let ?is = "map fst (filter (\<lambda>(j, p). \<not> is_live P kind p) (enumerate 0 (rg_peers g)))"
  have "mset (fold swap_remove (rev ?is) (rg_peers g)) + mset (filter (\<lambda>p. \<not> is_live P kind p) (rg_peers g)) = mset (rg_peers g)"
    using swap_removes_mset [OF sorted_wrt_filter_enumerate, of "\<lambda>(j, p). \<not> is_live P kind p" 0 "rg_peers g" "rg_peers g"]
    unfolding map_nth_filter_enumerate by (auto simp: in_set_enumerate_eq)
  moreover have "mset (rg_peers g) = mset (filter (is_live P kind) (rg_peers g)) + mset (filter (\<lambda>p. \<not> is_live P kind p) (rg_peers g))"
    unfolding mset_filter by (rule multiset_partition)
  ultimately have "mset (fold swap_remove (rev ?is) (rg_peers g)) = mset (filter (is_live P kind) (rg_peers g))"
    by (metis add_right_cancel)
  then show ?thesis by (simp add: notify_peers_def notify_each_enumerate)
qed

lemma notify_peers_frame [simp]:
  "rg_tools (snd (notify_peers P kind g)) = rg_tools g" "rg_prompts (snd (notify_peers P kind g)) = rg_prompts g"
  "rg_resources (snd (notify_peers P kind g)) = rg_resources g" "rg_version (snd (notify_peers P kind g)) = rg_version g"
  "rg_session_versions (snd (notify_peers P kind g)) = rg_session_versions g"
  "rg_persistence (snd (notify_peers P kind g)) = rg_persistence g"
  by (simp_all add: notify_peers_def split: prod.split)

section \<open>The registry as three maps\<close>

record ('p, 'c, 'w) catalog =
  ct_tools :: "string \<rightharpoonup> mcp_tool \<times> ('p, 'c, 'w) stored_handler"
  ct_prompts :: "string \<rightharpoonup> mcp_prompt \<times> 'w prompt_handler"
  ct_resources :: "string \<rightharpoonup> mcp_resource \<times> 'w resource_handler"

definition empty_catalog :: "('p, 'c, 'w) catalog" where
  "empty_catalog = \<lparr>ct_tools = Map.empty, ct_prompts = Map.empty, ct_resources = Map.empty\<rparr>"

definition catalog_of :: "('b, 'p, 'c, 'w) registry \<Rightarrow> ('p, 'c, 'w) catalog" where
  "catalog_of g = \<lparr>ct_tools = hm_get (rg_tools g), ct_prompts = hm_get (rg_prompts g),
     ct_resources = hm_get (rg_resources g)\<rparr>"

text \<open>The operations of the registry, as events.\<close>

datatype ('b, 'p, 'c, 'w) registry_op =
    AddTool mcp_tool "json_object option \<Rightarrow> 'w \<Rightarrow> (mcp_error + call_tool_result) \<times> 'w"
  | AddToolWithContext mcp_tool
      "json_object option \<Rightarrow> ('p, 'c) tool_call_context \<Rightarrow> 'w \<Rightarrow> (mcp_error + call_tool_result) \<times> 'w"
  | RemoveTool string
  | AddPrompt mcp_prompt "'w prompt_handler"
  | RemovePrompt string
  | AddResource mcp_resource "'w resource_handler"
  | RemoveResource string
  | RegisterPeer 'p
  | PrunePeers
  | AttachBackend 'b
  | LoadVersions clock
  | SessionInitialized clock string

text \<open>A step on the registry, with the list-changed notifications it broadcasts.\<close>

fun registry_step :: "('b, 'v) registry_env \<Rightarrow> 'p peer_lib \<Rightarrow> ('b, 'p, 'c, 'w) registry_op \<Rightarrow>
    ('b, 'p, 'c, 'w) registry \<Rightarrow> 'p list \<times> ('b, 'p, 'c, 'w) registry" where
  "registry_step E P (AddTool t h) g = add_tool E P t h g"
| "registry_step E P (AddToolWithContext t h) g = add_tool_with_context E P t h g"
| "registry_step E P (RemoveTool n) g = snd (remove_tool E P n g)"
| "registry_step E P (AddPrompt p h) g = add_prompt E P p h g"
| "registry_step E P (RemovePrompt n) g = snd (remove_prompt E P n g)"
| "registry_step E P (AddResource r h) g = add_resource E P r h g"
| "registry_step E P (RemoveResource u) g = snd (remove_resource E P u g)"
| "registry_step E P (RegisterPeer p) g = ([], register_peer p g)"
| "registry_step E P PrunePeers g = ([], snd (open_peers P g))"
| "registry_step E P (AttachBackend b) g = ([], set_persistence b g)"
| "registry_step E P (LoadVersions c) g = ([], snd (load_persisted_versions E c g))"
| "registry_step E P (SessionInitialized c sid) g = ([], snd (notify_if_changed E c sid g))"

fun registry_run :: "('b, 'v) registry_env \<Rightarrow> ('p peer_lib \<times> ('b, 'p, 'c, 'w) registry_op) list \<Rightarrow>
    ('b, 'p, 'c, 'w) registry \<Rightarrow> ('b, 'p, 'c, 'w) registry" where
  "registry_run E [] g = g"
| "registry_run E ((P, op) # ops) g = registry_run E ops (snd (registry_step E P op g))"

text \<open>What the registry promises: the same operation on three maps.\<close>

fun catalog_step :: "('b, 'p, 'c, 'w) registry_op \<Rightarrow> ('p, 'c, 'w) catalog \<Rightarrow> ('p, 'c, 'w) catalog" where
  "catalog_step (AddTool t h) k = k\<lparr>ct_tools := (ct_tools k)(tl_name t \<mapsto> (t, \<lambda>args ctx. h args))\<rparr>"
| "catalog_step (AddToolWithContext t h) k =
     k\<lparr>ct_tools := (ct_tools k)(tl_name t \<mapsto>
       (t, \<lambda>args ctx w. case ctx of
          Some ctx \<Rightarrow> h args ctx w
        | None \<Rightarrow> (Inl (internal_error
            ''tool requires call context but none was provided (programmatic call)''), w)))\<rparr>"
| "catalog_step (RemoveTool n) k = k\<lparr>ct_tools := (ct_tools k)(n := None)\<rparr>"
| "catalog_step (AddPrompt p h) k = k\<lparr>ct_prompts := (ct_prompts k)(pr_name p \<mapsto> (p, h))\<rparr>"
| "catalog_step (RemovePrompt n) k = k\<lparr>ct_prompts := (ct_prompts k)(n := None)\<rparr>"
| "catalog_step (AddResource r h) k = k\<lparr>ct_resources := (ct_resources k)(rs_uri r \<mapsto> (r, h))\<rparr>"
| "catalog_step (RemoveResource u) k = k\<lparr>ct_resources := (ct_resources k)(u := None)\<rparr>"
| "catalog_step _ k = k"

definition names :: "(string \<rightharpoonup> 'a) \<Rightarrow> string list" where
  "names m = sorted_list_of_set (dom m)"

definition content_hash :: "('b, 'v) registry_env \<Rightarrow> ('p, 'c, 'w) catalog \<Rightarrow> 64 word" where
  "content_hash E k = re_hash E (names (ct_tools k) @ names (ct_prompts k) @ names (ct_resources k))"

definition registry_ok :: "('b, 'v) registry_env \<Rightarrow> ('b, 'p, 'c, 'w) registry \<Rightarrow> bool" where
  "registry_ok E g \<longleftrightarrow> hm_ok (rg_tools g) \<and> hm_ok (rg_prompts g) \<and> hm_ok (rg_resources g) \<and>
     rg_version g = content_hash E (catalog_of g) \<and>
     (\<forall>n t h. hm_get (rg_tools g) n = Some (t, h) \<longrightarrow> tl_name t = n)"

lemma hm_get_insert_map: "hm_get (hm_insert k v m) = (hm_get m)(k \<mapsto> v)"
  by (rule ext) simp

lemma hm_get_remove_map: "hm_get (hm_remove k m) = (hm_get m)(k := None)"
  by (rule ext) simp

lemma sorted_keys_names: "hm_ok m \<Longrightarrow> sorted_keys m = names (hm_get m)"
  by (simp add: sorted_keys_def names_def hm_ok_def hm_get_def [abs_def] dom_map_of_conv_image_fst
      sorted_list_of_set_sort_remdups distinct_remdups_id flip: set_map)

lemmas registry_op_defs = add_tool_def add_tool_with_context_def insert_tool_def remove_tool_def add_prompt_def
  remove_prompt_def add_resource_def remove_resource_def register_peer_def open_peers_def set_persistence_def
  load_persisted_versions_def notify_if_changed_def recompute_version_def Let_def

lemma absent_upd: "\<forall>a b. m k \<noteq> Some (a, b) \<Longrightarrow> m = m(k := None)"
  by (rule sym, rule fun_upd_idem) (cases "m k", auto)

lemma registry_step_catalog:
  "catalog_of (snd (registry_step E P op g)) = catalog_step op (catalog_of g)"
  by (cases op)
     (auto simp: registry_op_defs catalog_of_def hm_get_insert_map hm_get_remove_map
       intro: absent_upd split: option.split sum.split prod.split)

lemma recompute_ok:
  "hm_ok (rg_tools g) \<Longrightarrow> hm_ok (rg_prompts g) \<Longrightarrow> hm_ok (rg_resources g) \<Longrightarrow>
     \<forall>n t h. hm_get (rg_tools g) n = Some (t, h) \<longrightarrow> tl_name t = n \<Longrightarrow>
     registry_ok E (snd (notify_peers P kind (recompute_version E g)))"
  by (simp add: registry_ok_def recompute_version_def content_hash_def catalog_of_def sorted_keys_names)

lemma registry_ok_frame:
  "registry_ok E g \<Longrightarrow> rg_tools g' = rg_tools g \<Longrightarrow> rg_prompts g' = rg_prompts g \<Longrightarrow>
     rg_resources g' = rg_resources g \<Longrightarrow> rg_version g' = rg_version g \<Longrightarrow> registry_ok E g'"
  by (simp add: registry_ok_def catalog_of_def)

lemma registry_step_ok:
  assumes "registry_ok E g"
  shows "registry_ok E (snd (registry_step E P op g))"
proof -
  have h: "hm_ok (rg_tools g)" "hm_ok (rg_prompts g)" "hm_ok (rg_resources g)"
      "\<forall>n t h. hm_get (rg_tools g) n = Some (t, h) \<longrightarrow> tl_name t = n"
    using assms by (simp_all add: registry_ok_def)
  show ?thesis
  proof (cases op)
    case (AddTool t h)
    then show ?thesis using h by (simp add: add_tool_def insert_tool_def Let_def recompute_ok)
  next
    case (AddToolWithContext t h)
    then show ?thesis using h by (simp add: add_tool_with_context_def insert_tool_def Let_def recompute_ok)
  next
    case (RemoveTool n)
    then show ?thesis using h assms by (simp add: remove_tool_def recompute_ok)
  next
    case (AddPrompt p h)
    then show ?thesis using h by (simp add: add_prompt_def recompute_ok)
  next
    case (RemovePrompt n)
    then show ?thesis using h assms by (simp add: remove_prompt_def recompute_ok)
  next
    case (AddResource r h)
    then show ?thesis using h by (simp add: add_resource_def recompute_ok)
  next
    case (RemoveResource u)
    then show ?thesis using h assms by (simp add: remove_resource_def recompute_ok)
  qed (use registry_ok_frame [OF assms] in
      \<open>auto simp: register_peer_def open_peers_def set_persistence_def load_persisted_versions_def
        notify_if_changed_def Let_def split: option.split sum.split prod.split\<close>)
qed

lemma registry_new_ok: "registry_ok E (registry_new E)"
  by (simp add: registry_ok_def registry_new_def content_hash_def catalog_of_def names_def hm_get_def [abs_def])

lemma registry_run_ok: "registry_ok E g \<Longrightarrow> registry_ok E (registry_run E ops g)"
  by (induction E ops g rule: registry_run.induct) (simp_all add: registry_step_ok)

lemma registry_run_catalog:
  "catalog_of (registry_run E ops g) = fold (\<lambda>(P, op). catalog_step op) ops (catalog_of g)"
  by (induction E ops g rule: registry_run.induct) (simp_all add: registry_step_catalog)

section \<open>Versions\<close>

lemma notify_if_changed_sent:
  "fst (notify_if_changed E c sid g) =
     (if hm_get (rg_session_versions g) sid = Some (rg_version g) then []
      else [NotifyTools, NotifyPrompts, NotifyResources])"
  by (auto simp: notify_if_changed_def Let_def split: option.split)

lemma notify_if_changed_after:
  "hm_get (rg_session_versions (snd (notify_if_changed E c sid g))) k =
     (if k = sid then Some (rg_version g) else hm_get (rg_session_versions g) k)"
  "rg_version (snd (notify_if_changed E c sid g)) = rg_version g"
  by (auto simp: notify_if_changed_def Let_def split: option.split)

lemma load_versions_step:
  "load_versions E now b (k # ks) vs =
     (case be_get (re_ops E) now NS_CAP_VERSIONS k b of
        Inl e \<Rightarrow> (Inl e, vs)
      | Inr bytes \<Rightarrow>
          load_versions E now b ks
            (case Option.bind bytes (re_decode E) of Some v \<Rightarrow> hm_insert k v vs | None \<Rightarrow> vs))"
  by (simp split: sum.split option.split)

text \<open>On a backend: what was recorded for a session is what a restarted registry starts from.\<close>

context kv_backend
begin

lemma load_versions_get:
  assumes "binv b" "re_ops E = ops"
  shows "\<exists>vs'. load_versions E now b ks vs = (Inr (), vs') \<and>
    (\<forall>k. hm_get vs' k =
       (case (if k \<in> set ks then Option.bind (look now b (NS_CAP_VERSIONS, k)) (re_decode E) else None) of
          Some v \<Rightarrow> Some v | None \<Rightarrow> hm_get vs k))"
proof (induction ks arbitrary: vs)
  case Nil
  then show ?case by simp
next
  case (Cons key ks)
  let ?old = "Option.bind (look now b (NS_CAP_VERSIONS, key)) (re_decode E)"
  let ?vs = "case ?old of Some v \<Rightarrow> hm_insert key v vs | None \<Rightarrow> vs"
  have "load_versions E now b (key # ks) vs = load_versions E now b ks ?vs"
    unfolding load_versions_step by (simp add: assms get_law [OF assms(1)] del: load_versions.simps)
  with Cons.IH [of ?vs] show ?case
    by (auto split: option.split simp del: load_versions.simps)
qed

lemma notify_persists:
  assumes "binv b" "re_ops E = ops" "rg_persistence g = Some b" "re_encode E (rg_version g) = Some bytes"
    and "hm_get (rg_session_versions g) sid \<noteq> Some (rg_version g)" "mono c \<le> t"
  shows "\<exists>b1. rg_persistence (snd (notify_if_changed E c sid g)) = Some b1 \<and> binv b1 \<and>
    look t b1 (NS_CAP_VERSIONS, sid) = Some bytes"
proof -
  have "rg_persistence (snd (notify_if_changed E c sid g)) =
      Some (persist ops c NS_CAP_VERSIONS sid (Some bytes) None b)"
    using assms by (auto simp: notify_if_changed_def Let_def split: option.split)
  then show ?thesis using assms(1,6) persist_inv persist_same by (metis option.distinct(1))
qed

lemma load_persisted_versions_get:
  assumes "binv b" "re_ops E = ops" "rg_persistence g = Some b"
    and "look (mono c) b (NS_CAP_VERSIONS, sid) = Some bytes" "re_decode E bytes = Some v"
  shows "\<exists>vs. load_persisted_versions E c g = (Inr (), g\<lparr>rg_session_versions := vs\<rparr>) \<and> hm_get vs sid = Some v"
proof -
  obtain ks where ks: "be_keys ops (mono c) NS_CAP_VERSIONS b = Inr ks"
      "set ks = {k. look (mono c) b (NS_CAP_VERSIONS, k) \<noteq> None}"
    using keys_law [OF assms(1)] by blast
  obtain vs where vs: "load_versions E (mono c) b ks (rg_session_versions g) = (Inr (), vs)"
      "hm_get vs sid = (case (if sid \<in> set ks then Option.bind (look (mono c) b (NS_CAP_VERSIONS, sid)) (re_decode E) else None) of
         Some v \<Rightarrow> Some v | None \<Rightarrow> hm_get (rg_session_versions g) sid)"
    using load_versions_get [OF assms(1,2), of "mono c" ks "rg_session_versions g"] by blast
  then show ?thesis using ks assms(2-5) by (intro exI [of _ vs]) (simp add: load_persisted_versions_def)
qed

end

section \<open>Peers over a run\<close>

text \<open>The kind of list a step changes, when it changes one.\<close>

fun announced :: "('b, 'p, 'c, 'w) registry_op \<Rightarrow> ('p, 'c, 'w) catalog \<Rightarrow> notify_kind option" where
  "announced (AddTool t h) k = Some NotifyTools"
| "announced (AddToolWithContext t h) k = Some NotifyTools"
| "announced (RemoveTool n) k = (if ct_tools k n = None then None else Some NotifyTools)"
| "announced (AddPrompt p h) k = Some NotifyPrompts"
| "announced (RemovePrompt n) k = (if ct_prompts k n = None then None else Some NotifyPrompts)"
| "announced (AddResource r h) k = Some NotifyResources"
| "announced (RemoveResource u) k = (if ct_resources k u = None then None else Some NotifyResources)"
| "announced _ k = None"

lemma recompute_version_peers [simp]: "rg_peers (recompute_version E g) = rg_peers g"
  by (simp add: recompute_version_def)

lemma registry_step_announces:
  assumes "announced op (catalog_of g) = Some kind"
  shows "fst (registry_step E P op g) = filter (\<lambda>p. \<not> is_transport_closed P p) (rg_peers g) \<and>
    mset (rg_peers (snd (registry_step E P op g))) = mset (filter (is_live P kind) (rg_peers g))"
  using assms
  by (cases op)
     (auto simp: add_tool_def add_tool_with_context_def insert_tool_def remove_tool_def add_prompt_def
        remove_prompt_def add_resource_def remove_resource_def Let_def catalog_of_def
        notify_peers_sent notify_peers_kept simp del: mset_filter split: if_splits)

lemma registry_step_silent:
  assumes "announced op (catalog_of g) = None"
  shows "fst (registry_step E P op g) = [] \<and> catalog_of (snd (registry_step E P op g)) = catalog_of g \<and>
    {p \<in> set (rg_peers g). \<not> is_transport_closed P p} \<subseteq> set (rg_peers (snd (registry_step E P op g)))"
  using assms
  by (cases op)
     (auto simp: remove_tool_def remove_prompt_def remove_resource_def register_peer_def open_peers_def
        set_persistence_def load_persisted_versions_def notify_if_changed_def catalog_of_def Let_def
        split: if_splits option.split sum.split prod.split)

lemma registry_step_keeps_live:
  assumes "p \<in> set (rg_peers g)" "\<forall>kind. is_live P kind p"
  shows "p \<in> set (rg_peers (snd (registry_step E P op g)))"
proof (cases "announced op (catalog_of g)")
  case None
  then show ?thesis using registry_step_silent [OF None, of E P] assms by (auto simp: is_live_def)
next
  case (Some kind)
  have "p \<in> set (filter (is_live P kind) (rg_peers g))" using assms by simp
  with registry_step_announces [OF Some, of E P] show ?thesis by (metis set_mset_mset)
qed

lemma registry_run_keeps_live:
  "p \<in> set (rg_peers g) \<Longrightarrow> \<forall>(P, op) \<in> set ops. \<forall>kind. is_live P kind p \<Longrightarrow>
     p \<in> set (rg_peers (registry_run E ops g))"
proof (induction ops arbitrary: g)
  case Nil
  then show ?case by simp
next
  case (Cons x ops)
  obtain P op where x: "x = (P, op)" by (cases x)
  with Cons.prems have "p \<in> set (rg_peers (snd (registry_step E P op g)))"
    by (intro registry_step_keeps_live) auto
  with Cons x show ?case by auto
qed

end
