(* ===== verification/Registry_Properties.thy ===== *)
theory Registry_Properties
  imports Registry_Facts Samples
begin

text \<open>Properties of the capability registry.\<close>

section \<open>Samples for the witnesses\<close>

definition sample_registry_env :: "(64 word in_memory_backend, 64 word) registry_env" where
  "sample_registry_env = \<lparr>re_ops = in_memory_ops, re_hash = (\<lambda>ns. of_nat (length ns)), re_encode = Some, re_decode = Some,
     re_tool_hash = (\<lambda>n d t. of_nat (length n)), re_jtext = (\<lambda>v. [])\<rparr>"

lemma sample_registry_env_fields [simp]:
  "re_ops sample_registry_env = in_memory_ops" "re_encode sample_registry_env = Some"
  "re_decode sample_registry_env = Some" "re_hash sample_registry_env ns = of_nat (length ns)"
  by (simp_all add: sample_registry_env_def)

definition sample_prompt :: mcp_prompt where
  "sample_prompt = \<lparr>pr_name = ''greet'', pr_description = None\<rparr>"

definition greeting_tool :: mcp_tool where
  "greeting_tool = \<lparr>tl_name = ''greet'', tl_description = None, tl_input_schema = [], tl_output_schema = None,
     tl_meta = None\<rparr>"

definition sample_peers :: "nat peer_lib" where
  "sample_peers = \<lparr>is_transport_closed = (\<lambda>p. p = 0), notify_ok = (\<lambda>p kind. p \<noteq> 1)\<rparr>"

type_synonym sample_registry = "(64 word in_memory_backend, nat, string, nat) registry"

definition connected_registry :: sample_registry where
  "connected_registry = (registry_new sample_registry_env)\<lparr>rg_peers := [0, 1, 2, 3], rg_persistence := Some im_new\<rparr>"

lemma catalog_of_new [simp]: "catalog_of (registry_new E) = empty_catalog"
  by (simp add: catalog_of_def registry_new_def empty_catalog_def hm_get_def [abs_def])

section \<open>Properties\<close>


text \<open>Every change of the capabilities reaches every peer that is connected: a peer whose transport
  is open and accepts notifications is still registered after any sequence of operations, and is
  sent the notification of the next change; the notification goes to the open peers in the order
  they registered, and exactly the peers that took it stay registered.\<close>

theorem live_peer_hears_every_change:
  assumes "p \<in> set (rg_peers g)" "\<forall>(Q, x) \<in> set ops. \<forall>kind. is_live Q kind p"
    and "g1 = registry_run E ops g" "announced op (catalog_of g1) = Some kind"
    and "registry_step E P op g1 = (sent, g2)" "is_live P kind p"
  shows "p \<in> set sent \<and> p \<in> set (rg_peers g2) \<and>
    sent = filter (\<lambda>q. \<not> is_transport_closed P q) (rg_peers g1) \<and>
    mset (rg_peers g2) = mset (filter (is_live P kind) (rg_peers g1))"
proof -
  have p: "p \<in> set (rg_peers g1)" unfolding assms(3) by (rule registry_run_keeps_live [OF assms(1,2)])
  have a: "sent = filter (\<lambda>q. \<not> is_transport_closed P q) (rg_peers g1)"
      "mset (rg_peers g2) = mset (filter (is_live P kind) (rg_peers g1))"
    using registry_step_announces [OF assms(4), of E P] assms(5) by simp_all
  moreover have "set (rg_peers g2) = set (filter (is_live P kind) (rg_peers g1))"
    using a(2) by (rule mset_eq_setD)
  ultimately show ?thesis using p assms(6) by (simp add: is_live_def)
qed

theorem live_peer_hears_every_change_witness:
  "\<exists>sent g2. registry_step sample_registry_env sample_peers (AddPrompt sample_prompt (\<lambda>q w. (Inr JNull, w)))
       connected_registry = (sent, g2) \<and> 3 \<in> set sent \<and> 3 \<in> set (rg_peers g2)"
proof -
  let ?op = "AddPrompt sample_prompt (\<lambda>q w. (Inr JNull, w)) :: (64 word in_memory_backend, nat, string, nat) registry_op"
  obtain sent g2 where s: "registry_step sample_registry_env sample_peers ?op connected_registry = (sent, g2)"
    by (cases "registry_step sample_registry_env sample_peers ?op connected_registry")
  have p: "3 \<in> set (rg_peers connected_registry)" by (simp add: connected_registry_def)
  have l: "\<forall>(Q, x) \<in> set []. \<forall>kind. is_live Q kind (3 :: nat)" by simp
  have r: "connected_registry = registry_run sample_registry_env [] connected_registry" by simp
  have a: "announced ?op (catalog_of connected_registry) = Some NotifyPrompts" by simp
  have q: "is_live sample_peers NotifyPrompts 3" by (simp add: is_live_def sample_peers_def)
  have "3 \<in> set sent \<and> 3 \<in> set (rg_peers g2)"
    using live_peer_hears_every_change [OF p l r a s q] by blast
  with s show ?thesis by blast
qed

text \<open>A session is told once per version: it is sent the three notifications exactly when the
  version it saw last is not the current one, and not again until the version changes, on this
  process or, when it was told here, after a restart that reloads the persisted versions.\<close>

theorem session_is_told_once:
  assumes "re_ops E = in_memory_ops" "\<forall>v. \<exists>bytes. re_encode E v = Some bytes \<and> re_decode E bytes = Some v"
    and "rg_persistence g = Some b" "hm_ok (data b)" "notify_if_changed E c sid g = (sent, g1)"
    and "rg_persistence g2 = rg_persistence g1" "load_persisted_versions E c2 g2 = (r, g3)"
    and "rg_version g3 = rg_version g"
  shows "sent = (if hm_get (rg_session_versions g) sid = Some (rg_version g) then []
                 else [NotifyTools, NotifyPrompts, NotifyResources]) \<and>
    fst (notify_if_changed E c2 sid g1) = [] \<and>
    (sent \<noteq> [] \<longrightarrow> r = Inr () \<and> fst (notify_if_changed E c2 sid g3) = [])"
proof (intro conjI impI)
  show s: "sent = (if hm_get (rg_session_versions g) sid = Some (rg_version g) then []
                 else [NotifyTools, NotifyPrompts, NotifyResources])"
    using notify_if_changed_sent [of E c sid g] assms(5) by simp
  show "fst (notify_if_changed E c2 sid g1) = []"
    using notify_if_changed_after [of E c sid g] assms(5) by (simp add: notify_if_changed_sent)
  assume "sent \<noteq> []"
  with s have unseen: "hm_get (rg_session_versions g) sid \<noteq> Some (rg_version g)" by auto
  obtain bytes where bytes: "re_encode E (rg_version g) = Some bytes" "re_decode E bytes = Some (rg_version g)"
    using assms(2) by blast
  obtain b1 where b1: "rg_persistence g1 = Some b1" "hm_ok (data b1)" "hm_get (data b1) (NS_CAP_VERSIONS, sid) = Some bytes"
    using im.notify_persists [OF assms(4,1,3) bytes(1) unseen order_refl, of c] assms(5) by auto
  with im.load_persisted_versions_get [OF b1(2) assms(1), of g2 sid bytes "rg_version g" c2] bytes(2) assms(6,7)
  show "r = Inr ()" "fst (notify_if_changed E c2 sid g3) = []"
    using assms(8) by (auto simp: notify_if_changed_sent)
qed

theorem session_is_told_once_witness:
  "\<exists>g1. notify_if_changed sample_registry_env sample_clock ''s'' connected_registry =
      ([NotifyTools, NotifyPrompts, NotifyResources], g1) \<and>
    fst (notify_if_changed sample_registry_env (later 60) ''s''
      (snd (load_persisted_versions sample_registry_env (later 60)
        (connected_registry\<lparr>rg_persistence := rg_persistence g1\<rparr>)))) = []"
proof -
  obtain sent g1 where n: "notify_if_changed sample_registry_env sample_clock ''s'' connected_registry = (sent, g1)"
    by (cases "notify_if_changed sample_registry_env sample_clock ''s'' connected_registry")
  let ?g2 = "connected_registry\<lparr>rg_persistence := rg_persistence g1\<rparr>"
  obtain r g3 where l: "load_persisted_versions sample_registry_env (later 60) ?g2 = (r, g3)"
    by (cases "load_persisted_versions sample_registry_env (later 60) ?g2")
  have new: "hm_get (rg_session_versions connected_registry) ''s'' = None"
    by (simp add: connected_registry_def registry_new_def)
  moreover have "rg_persistence connected_registry = Some im_new" by (simp add: connected_registry_def)
  moreover have "rg_version g3 = rg_version connected_registry"
    using l by (auto simp: load_persisted_versions_def split: option.splits sum.splits prod.splits)
  ultimately have "sent = [NotifyTools, NotifyPrompts, NotifyResources] \<and> (sent \<noteq> [] \<longrightarrow>
      fst (notify_if_changed sample_registry_env (later 60) ''s'' g3) = [])"
    using session_is_told_once [OF _ _ _ _ n _ l] by simp
  with n l show ?thesis by simp
qed

text \<open>The version does not say which kind a name is of: a session that saw a prompt is told nothing
  when it initializes again after the prompt was replaced by a tool of the same name, although both
  lists changed.\<close>

theorem version_confuses_kinds:
  assumes "tl_name t = pr_name p"
    and "g = registry_run E [(P, AddPrompt p ph), (P, SessionInitialized c sid)] (registry_new E)"
    and "g' = registry_run E [(P, RemovePrompt (pr_name p)), (P, AddTool t th)] g"
  shows "ct_prompts (catalog_of g) (pr_name p) \<noteq> None \<and> ct_tools (catalog_of g) (pr_name p) = None \<and>
    ct_prompts (catalog_of g') (pr_name p) = None \<and> ct_tools (catalog_of g') (pr_name p) \<noteq> None \<and>
    fst (notify_if_changed E c' sid g') = []"
proof -
  let ?k = "catalog_of g" and ?k' = "catalog_of g'"
  have ok: "registry_ok E g" "registry_ok E g'" unfolding assms(2,3)
    by (intro registry_run_ok registry_new_ok)+
  have k: "?k = empty_catalog\<lparr>ct_prompts := [pr_name p \<mapsto> (p, ph)]\<rparr>"
      "ct_tools ?k' = [pr_name p \<mapsto> (t, \<lambda>args ctx. th args)]" "ct_prompts ?k' = Map.empty" "ct_resources ?k' = Map.empty"
    unfolding assms(2,3) registry_run_catalog by (simp_all add: assms(1) empty_catalog_def)
  have "rg_version g' = rg_version g"
    using ok k by (simp add: registry_ok_def content_hash_def names_def empty_catalog_def)
  moreover have "rg_session_versions g' = rg_session_versions g"
    by (simp add: assms(3) remove_prompt_def add_tool_def insert_tool_def recompute_version_def Let_def)
  moreover have "hm_get (rg_session_versions g) sid = Some (rg_version g)"
    by (simp add: assms(2) notify_if_changed_after)
  ultimately show ?thesis using k by (simp add: notify_if_changed_sent empty_catalog_def)
qed

theorem version_confuses_kinds_witness:
  "\<exists>g. fst (notify_if_changed sample_registry_env sample_clock ''s'' g) = [] \<and>
     ct_tools (catalog_of (g :: sample_registry)) ''greet'' \<noteq> None"
proof -
  let ?E = sample_registry_env and ?P = sample_peers
  define g :: sample_registry where "g = registry_run ?E [(?P, AddPrompt sample_prompt (\<lambda>q w. (Inr JNull, w))),
    (?P, SessionInitialized sample_clock ''s'')] (registry_new ?E)"
  define g' where "g' = registry_run ?E [(?P, RemovePrompt (pr_name sample_prompt)),
    (?P, AddTool greeting_tool (\<lambda>args w. (Inr \<lparr>tr_content = [], tr_is_error = None\<rparr>, w)))] g"
  have "tl_name greeting_tool = pr_name sample_prompt" by (simp add: greeting_tool_def sample_prompt_def)
  from version_confuses_kinds [OF this g_def g'_def] show ?thesis
    by (intro exI [of _ g']) (simp add: sample_prompt_def)
qed

end
