(* ===== verification/Capability_Handler.thy ===== *)
theory Capability_Handler
  imports Capability_Registry Protocol
begin

text \<open>
  The dynamic handler, \<open>src/src/capability/handler.rs\<close>: how a request meets the validator, the
  client's own filter, the registry and the application's handler, and what is audited of it; and
  the identity of an in-process caller (\<open>LoopbackIdentity\<close> of \<open>src/src/transport/loopback.rs\<close>), from
  which the handler makes the request parts such a caller does not have. The application's handler
  is a \<open>server_handler\<close>; an operation that has to wait for a token is \<open>None\<close> when the wait outlasts
  its schedule. Log lines are left out.
\<close>

section \<open>The identity of an in-process caller\<close>

text \<open>Of the typed extensions an application may attach, the two the framework itself reads.\<close>

record 'c loopback_identity =
  li_session_id :: string
  li_bearer_token :: "string option"
  li_bearer_ext :: "string option"
  li_token_ext :: "'c stored_token option"

definition loopback_identity_new :: "string \<Rightarrow> 'c loopback_identity" where
  "loopback_identity_new sid =
     \<lparr>li_session_id = sid, li_bearer_token = None, li_bearer_ext = None, li_token_ext = None\<rparr>"

definition with_bearer_token :: "string \<Rightarrow> 'c loopback_identity \<Rightarrow> 'c loopback_identity" where
  "with_bearer_token token ident = ident\<lparr>li_bearer_token := Some token\<rparr>"

definition build_parts :: "header_lib \<Rightarrow> 'c loopback_identity \<Rightarrow> 'c parts option" where
  "build_parts H ident =
     (case parse_value H (li_session_id ident) of
        None \<Rightarrow> None
      | Some v \<Rightarrow>
          (let parts = (\<lambda>hs. \<lparr>pt_request = \<lparr>headers = (MCP_SESSION_ID_HEADER, v) # hs,
                               bearer_ext = li_bearer_ext ident, token_ext = li_token_ext ident\<rparr>,
                             pt_query = None\<rparr>)
           in case li_bearer_token ident of
                None \<Rightarrow> Some (parts [])
              | Some token \<Rightarrow>
                  map_option (\<lambda>a. parts [(AUTHORIZATION_HEADER, a)]) (parse_value H (''Bearer '' @ token))))"

definition to_parts :: "header_lib \<Rightarrow> 'c loopback_identity \<Rightarrow> 'c parts option" where
  "to_parts H ident = build_parts H ident"

section \<open>The application's handler\<close>

record ('p, 'c) request_context =
  cx_peer :: 'p
  cx_meta :: json_object
  cx_parts :: "'c parts option"

record server_capabilities =
  sc_tools :: "json_object option"
  sc_prompts :: "json_object option"
  sc_resources :: "json_object option"

record initialize_result =
  ir_capabilities :: server_capabilities
  ir_rest :: json

record discover_result =
  dr_capabilities :: server_capabilities
  dr_supported_versions :: "protocol_version list"

text \<open>A list operation takes a cursor, and answers a page with the next cursor.\<close>

record ('p, 'c, 'w) server_handler =
  sh_initialize :: "json \<Rightarrow> ('p, 'c) request_context \<Rightarrow> 'w \<Rightarrow> (mcp_error + initialize_result) \<times> 'w"
  sh_discover :: "('p, 'c) request_context \<Rightarrow> 'w \<Rightarrow> (mcp_error + discover_result) \<times> 'w"
  sh_supported_versions :: "protocol_version list"
  sh_list_tools :: "string option \<Rightarrow> ('p, 'c) request_context \<Rightarrow> 'w \<Rightarrow>
    (mcp_error + mcp_tool list \<times> string option) \<times> 'w"
  sh_list_prompts :: "string option \<Rightarrow> ('p, 'c) request_context \<Rightarrow> 'w \<Rightarrow>
    (mcp_error + mcp_prompt list \<times> string option) \<times> 'w"
  sh_list_resources :: "string option \<Rightarrow> ('p, 'c) request_context \<Rightarrow> 'w \<Rightarrow>
    (mcp_error + mcp_resource list \<times> string option) \<times> 'w"
  sh_call_tool :: "tool_request \<Rightarrow> ('p, 'c) request_context \<Rightarrow> 'w \<Rightarrow>
    (mcp_error + call_tool_result mcp_response) \<times> 'w"
  sh_get_prompt :: "prompt_request \<Rightarrow> ('p, 'c) request_context \<Rightarrow> 'w \<Rightarrow> (mcp_error + json mcp_response) \<times> 'w"
  sh_read_resource :: "string \<Rightarrow> ('p, 'c) request_context \<Rightarrow> 'w \<Rightarrow>
    (mcp_error + resource_contents list mcp_response) \<times> 'w"
  sh_get_tool :: "string \<Rightarrow> mcp_tool option"
  sh_on_initialized :: "('p, 'c) request_context \<Rightarrow> 'w \<Rightarrow> 'w"

record ('c, 'w) handler_context =
  hc_filter :: "'c capability_filter option"
  hc_validator :: "('c, 'w) access_validator option"
  hc_logs :: bool
  hc_max_version :: "protocol_version option"
  hc_loopback :: "'c loopback_identity option"

record ('b, 'v, 'c) handler_env =
  hd_lookup :: "('b, 'v, 'c) token_lookup"
  hd_registry :: "('b, 'v) registry_env"
  hd_url_decode :: "string \<Rightarrow> string option"

record ('b, 'c, 'k, 'p, 'w) handler_state =
  hs_store :: "('b, 'c, 'k) token_store"
  hs_registry :: "('b, 'p, 'c, 'w) registry"
  hs_world :: 'w

abbreviation hd_headers :: "('b, 'v, 'c) handler_env \<Rightarrow> header_lib" where
  "hd_headers E \<equiv> lk_headers (hd_lookup E)"

section \<open>Shared steps\<close>

definition merge_registry_items :: "('a \<Rightarrow> 'k) \<Rightarrow> 'a list \<Rightarrow> 'a list \<Rightarrow> 'a list" where
  "merge_registry_items key inner registry =
     fold (\<lambda>ri. filter (\<lambda>item. key item \<noteq> key ri)) registry inner @ registry"

definition enrich_extensions :: "header_lib \<Rightarrow> ('c, 'w) handler_context \<Rightarrow> ('p, 'c) request_context \<Rightarrow>
    ('p, 'c) request_context" where
  "enrich_extensions H C ctx =
     (case Option.bind (hc_loopback C) (to_parts H) of
        Some parts \<Rightarrow> ctx\<lparr>cx_parts := Some parts\<rparr>
      | None \<Rightarrow> ctx)"

definition augment_capabilities :: "('b, 'p, 'c, 'w) registry \<Rightarrow> server_capabilities \<Rightarrow> server_capabilities" where
  "augment_capabilities g caps =
     (let c1 = (if sc_tools caps = None \<and> has_tools g then caps\<lparr>sc_tools := Some []\<rparr> else caps);
          c2 = (if sc_prompts c1 = None \<and> has_prompts g then c1\<lparr>sc_prompts := Some []\<rparr> else c1)
      in if sc_resources c2 = None \<and> has_resources g then c2\<lparr>sc_resources := Some []\<rparr> else c2)"

definition access_denied :: "string \<Rightarrow> string \<Rightarrow> string \<Rightarrow> mcp_error" where
  "access_denied what name reason =
     invalid_request (''Access denied for '' @ what @ '' '' @ quoted name @ '': '' @ reason)"

section \<open>The handshake\<close>

definition handle_initialize :: "('b, 'v, 'c) handler_env \<Rightarrow> ('p, 'c, 'w) server_handler \<Rightarrow> ('c, 'w) handler_context \<Rightarrow>
    json \<Rightarrow> ('p, 'c) request_context \<Rightarrow> ('b, 'c, 'k, 'p, 'w) handler_state \<Rightarrow>
    (mcp_error + initialize_result) \<times> ('b, 'c, 'k, 'p, 'w) handler_state" where
  "handle_initialize E inner C request ctx s =
     (let ctx1 = enrich_extensions (hd_headers E) C ctx;
          g = register_peer (cx_peer ctx1) (hs_registry s)
      in case sh_initialize inner request ctx1 (hs_world s) of
           (r, w) \<Rightarrow>
             (map_sum id (\<lambda>x. x\<lparr>ir_capabilities := augment_capabilities g (ir_capabilities x)\<rparr>) r,
              s\<lparr>hs_registry := g, hs_world := w\<rparr>))"

definition supported_protocol_versions :: "('p, 'c, 'w) server_handler \<Rightarrow> ('c, 'w) handler_context \<Rightarrow>
    protocol_version list" where
  "supported_protocol_versions inner C = cap_protocol_versions (sh_supported_versions inner) (hc_max_version C)"

definition handle_discover :: "('b, 'v, 'c) handler_env \<Rightarrow> ('p, 'c, 'w) server_handler \<Rightarrow> ('c, 'w) handler_context \<Rightarrow>
    ('p, 'c) request_context \<Rightarrow> ('b, 'c, 'k, 'p, 'w) handler_state \<Rightarrow>
    (mcp_error + discover_result) \<times> ('b, 'c, 'k, 'p, 'w) handler_state" where
  "handle_discover E inner C ctx s =
     (case sh_discover inner (enrich_extensions (hd_headers E) C ctx) (hs_world s) of
        (r, w) \<Rightarrow>
          (map_sum id (\<lambda>x. x\<lparr>dr_capabilities := augment_capabilities (hs_registry s) (dr_capabilities x),
                             dr_supported_versions := supported_protocol_versions inner C\<rparr>) r,
           s\<lparr>hs_world := w\<rparr>))"

definition handle_on_initialized :: "('b, 'v, 'c) handler_env \<Rightarrow> ('p, 'c, 'w) server_handler \<Rightarrow> ('c, 'w) handler_context \<Rightarrow>
    clock \<Rightarrow> ('p, 'c) request_context \<Rightarrow> ('b, 'c, 'k, 'p, 'w) handler_state \<Rightarrow>
    notify_kind list \<times> ('b, 'c, 'k, 'p, 'w) handler_state" where
  "handle_on_initialized E inner C c ctx s =
     (let ctx1 = enrich_extensions (hd_headers E) C ctx
      in case notify_if_changed (hd_registry E) c (resolve_session_id (hd_headers E) (cx_parts ctx1)) (hs_registry s) of
           (sent, g) \<Rightarrow>
             (sent, s\<lparr>hs_registry := g, hs_world := sh_on_initialized inner ctx1 (hs_world s)\<rparr>))"

section \<open>Listing\<close>

definition list_tools :: "('b, 'v, 'c) handler_env \<Rightarrow> ('p, 'c, 'w) server_handler \<Rightarrow> ('c, 'w) handler_context \<Rightarrow>
    ('b, 'c, 'k) waiting \<Rightarrow> clock \<Rightarrow> string option \<Rightarrow> ('p, 'c) request_context \<Rightarrow> ('b, 'c, 'k, 'p, 'w) handler_state \<Rightarrow>
    ((mcp_error + mcp_tool list \<times> string option) \<times> ('b, 'c, 'k, 'p, 'w) handler_state) option" where
  "list_tools E inner C W c cursor ctx s =
     (let ctx1 = enrich_extensions (hd_headers E) C ctx; ext = cx_parts ctx1
      in case resolve_token (hd_lookup E) W c ext (hs_store s) of
           None \<Rightarrow> None
         | Some (token, c1, store1) \<Rightarrow>
             (case sh_list_tools inner cursor ctx1 (hs_world s) of
                (Inl e, w) \<Rightarrow> Some (Inl e, s\<lparr>hs_store := store1, hs_world := w\<rparr>)
              | (Inr (tools, next_cursor), w) \<Rightarrow>
                  (let g = hs_registry s; R = hd_registry E;
                       merged = merge_registry_items tl_name tools (registry_tools g);
                       (sane, seen) = sanitize_tool_schemas (re_tool_hash R) (re_jtext R) merged (rg_seen g);
                       call = call_info_new (resolve_session_id (hd_headers E) ext) token (resolve_call_request ext);
                       visible = (case hc_filter C of Some f \<Rightarrow> cf_tools_for f sane call | None \<Rightarrow> sane);
                       hidden = resolve_query_filter (hd_url_decode E) ext
                   in Some (Inr (filter (\<lambda>t. tl_name t \<notin> set hidden) visible, next_cursor),
                            s\<lparr>hs_store := store1, hs_registry := g\<lparr>rg_seen := seen\<rparr>, hs_world := w\<rparr>))))"

definition list_prompts :: "('b, 'v, 'c) handler_env \<Rightarrow> ('p, 'c, 'w) server_handler \<Rightarrow> ('c, 'w) handler_context \<Rightarrow>
    ('b, 'c, 'k) waiting \<Rightarrow> clock \<Rightarrow> string option \<Rightarrow> ('p, 'c) request_context \<Rightarrow> ('b, 'c, 'k, 'p, 'w) handler_state \<Rightarrow>
    ((mcp_error + mcp_prompt list \<times> string option) \<times> ('b, 'c, 'k, 'p, 'w) handler_state) option" where
  "list_prompts E inner C W c cursor ctx s =
     (let ctx1 = enrich_extensions (hd_headers E) C ctx
      in case resolve_token (hd_lookup E) W c (cx_parts ctx1) (hs_store s) of
           None \<Rightarrow> None
         | Some (token, c1, store1) \<Rightarrow>
             (case sh_list_prompts inner cursor ctx1 (hs_world s) of
                (Inl e, w) \<Rightarrow> Some (Inl e, s\<lparr>hs_store := store1, hs_world := w\<rparr>)
              | (Inr (prompts, next_cursor), w) \<Rightarrow>
                  (let merged = merge_registry_items pr_name prompts (registry_prompts (hs_registry s));
                       visible = (case hc_filter C of Some f \<Rightarrow> cf_prompts f merged token | None \<Rightarrow> merged)
                   in Some (Inr (visible, next_cursor), s\<lparr>hs_store := store1, hs_world := w\<rparr>))))"

definition list_resources :: "('b, 'v, 'c) handler_env \<Rightarrow> ('p, 'c, 'w) server_handler \<Rightarrow> ('c, 'w) handler_context \<Rightarrow>
    ('b, 'c, 'k) waiting \<Rightarrow> clock \<Rightarrow> string option \<Rightarrow> ('p, 'c) request_context \<Rightarrow> ('b, 'c, 'k, 'p, 'w) handler_state \<Rightarrow>
    ((mcp_error + mcp_resource list \<times> string option) \<times> ('b, 'c, 'k, 'p, 'w) handler_state) option" where
  "list_resources E inner C W c cursor ctx s =
     (let ctx1 = enrich_extensions (hd_headers E) C ctx
      in case resolve_token (hd_lookup E) W c (cx_parts ctx1) (hs_store s) of
           None \<Rightarrow> None
         | Some (token, c1, store1) \<Rightarrow>
             (case sh_list_resources inner cursor ctx1 (hs_world s) of
                (Inl e, w) \<Rightarrow> Some (Inl e, s\<lparr>hs_store := store1, hs_world := w\<rparr>)
              | (Inr (resources, next_cursor), w) \<Rightarrow>
                  (let merged = merge_registry_items rs_uri resources (registry_resources (hs_registry s));
                       visible = (case hc_filter C of Some f \<Rightarrow> cf_resources f merged token | None \<Rightarrow> merged)
                   in Some (Inr (visible, next_cursor), s\<lparr>hs_store := store1, hs_world := w\<rparr>))))"

section \<open>Calling a tool\<close>

text \<open>The validator's verdict; on \<open>Allow\<close>, the identity it was given goes to the tool.\<close>

definition authorize_call :: "('b, 'v, 'c) handler_env \<Rightarrow> ('c, 'w) handler_context \<Rightarrow> ('b, 'c, 'k) waiting \<Rightarrow> clock \<Rightarrow>
    tool_request \<Rightarrow> 'c parts option \<Rightarrow> ('b, 'c, 'k, 'p, 'w) handler_state \<Rightarrow>
    ((mcp_error + ('c stored_token option \<times> 'c call_request option) option) \<times> clock \<times>
     ('b, 'c, 'k, 'p, 'w) handler_state) option" where
  "authorize_call E C W c request ext s =
     (case hc_validator C of
        None \<Rightarrow> Some (Inr None, c, s)
      | Some v \<Rightarrow>
          (case resolve_token (hd_lookup E) W c ext (hs_store s) of
             None \<Rightarrow> None
           | Some (token, c1, store1) \<Rightarrow>
               (let call_request = resolve_call_request ext;
                    call = call_info_new (resolve_session_id (hd_headers E) ext) token call_request;
                    (decision, w) = av_call v (tq_name request) (tq_arguments request) call (hs_world s);
                    s1 = s\<lparr>hs_store := store1, hs_world := w\<rparr>
                in Some (case decision of
                           Deny reason \<Rightarrow> (Inl (access_denied ''tool'' (tq_name request) reason), c1, s1)
                         | Allow \<Rightarrow> (Inr (Some (token, call_request)), c1, s1)))))"

text \<open>The registry is tried first; the tool's context is built only when the registry has the tool.\<close>

definition call_registry :: "('b, 'v, 'c) handler_env \<Rightarrow> ('b, 'c, 'k) waiting \<Rightarrow> clock \<Rightarrow> tool_request \<Rightarrow>
    ('p, 'c) request_context \<Rightarrow> ('c stored_token option \<times> 'c call_request option) option \<Rightarrow>
    ('b, 'c, 'k, 'p, 'w) handler_state \<Rightarrow>
    ((mcp_error + call_tool_result) option \<times> ('b, 'c, 'k, 'p, 'w) handler_state) option" where
  "call_registry E W c request ctx ident s =
     (if \<not> contains_tool (hs_registry s) (tq_name request) then Some (None, s)
      else
        (case (case ident of
                 Some (token, call_request) \<Rightarrow> Some (token, call_request, hs_store s)
               | None \<Rightarrow>
                   map_option (\<lambda>(token, c1, store1). (token, resolve_call_request (cx_parts ctx), store1))
                     (resolve_token (hd_lookup E) W c (cx_parts ctx) (hs_store s))) of
           None \<Rightarrow> None
         | Some (token, call_request, store1) \<Rightarrow>
             (let tool_ctx = \<lparr>tc_peer = cx_peer ctx, tc_meta = cx_meta ctx,
                    tc_session_id = resolve_session_id (hd_headers E) (cx_parts ctx),
                    tc_token = token, tc_request = call_request\<rparr>
              in case try_call_tool (tq_name request) (tq_arguments request) (Some tool_ctx) (hs_registry s) (hs_world s) of
                   Some (r, w) \<Rightarrow> Some (Some r, s\<lparr>hs_store := store1, hs_world := w\<rparr>)
                 | None \<Rightarrow> Some (None, s\<lparr>hs_store := store1\<rparr>))))"

text \<open>\<open>str::floor_char_boundary\<close> on UTF-8 bytes.\<close>

fun floor_char_boundary :: "nat \<Rightarrow> string \<Rightarrow> nat" where
  "floor_char_boundary 0 s = 0"
| "floor_char_boundary (Suc n) s =
     (if length s \<le> Suc n then length s
      else if of_char (s ! Suc n) div (64 :: nat) = 2 then floor_char_boundary n s
      else Suc n)"

fun summarize_block :: "content_block \<Rightarrow> string" where
  "summarize_block (TextContent t) =
     (if 256 < length t then take (floor_char_boundary 256 t) t @ ''...'' else t)"
| "summarize_block ImageContent = ''<image>''"
| "summarize_block ResourceContent = ''<resource>''"
| "summarize_block AudioContent = ''<audio>''"
| "summarize_block ResourceLinkContent = ''<resource_link>''"
| "summarize_block OtherContent = ''<content>''"

definition summarize_content :: "content_block list \<Rightarrow> string option" where
  "summarize_content content =
     (if content = [] then None else Some (join_with ''; '' (map summarize_block content)))"

fun call_outcome :: "mcp_error + call_tool_result mcp_response \<Rightarrow> tool_call_outcome" where
  "call_outcome (Inr (Complete r)) =
     Success (case tr_is_error r of Some e \<Rightarrow> e | None \<Rightarrow> False) (summarize_content (tr_content r))"
| "call_outcome (Inr InputRequired) = Success False (Some ''<input_required>'')"
| "call_outcome (Inr TaskCreated) = Success False (Some ''<task>'')"
| "call_outcome (Inr OtherResponse) = Success False (Some ''<pending>'')"
| "call_outcome (Inl e) = McpFailure (err_code e) (err_message e)"

text \<open>
  The clocks are the moment the call arrives and the moment its result is there. The record is what
  is handed to the logger in a task of its own, when one is configured.
\<close>

definition handle_call_tool :: "('b, 'v, 'c) handler_env \<Rightarrow> ('p, 'c, 'w) server_handler \<Rightarrow> ('c, 'w) handler_context \<Rightarrow>
    ('b, 'c, 'k) waiting \<Rightarrow> clock \<Rightarrow> clock \<Rightarrow> tool_request \<Rightarrow> ('p, 'c) request_context \<Rightarrow>
    ('b, 'c, 'k, 'p, 'w) handler_state \<Rightarrow>
    ((mcp_error + call_tool_result mcp_response) \<times> tool_call_record option \<times>
     ('b, 'c, 'k, 'p, 'w) handler_state) option" where
  "handle_call_tool E inner C W c c_end request ctx s =
     (let ctx1 = enrich_extensions (hd_headers E) C ctx; ext = cx_parts ctx1
      in case authorize_call E C W c request ext s of
           None \<Rightarrow> None
         | Some (Inl denied, c1, s1) \<Rightarrow> Some (Inl denied, None, s1)
         | Some (Inr ident, c1, s1) \<Rightarrow>
             if tq_name request \<in> set (resolve_query_filter (hd_url_decode E) ext)
             then Some (Inl (invalid_request (''Tool '' @ quoted (tq_name request) @ '' is not available'')), None, s1)
             else
               map_option
                 (\<lambda>(result, source, s2).
                    (result,
                     if hc_logs C then
                       Some \<lparr>tcr_tool_name = tq_name request, tcr_arguments = tq_arguments request,
                             tcr_session_id = resolve_session_id (hd_headers E) ext,
                             tcr_timestamp = wall c1, tcr_duration = mono c_end - mono c1,
                             tcr_source = source, tcr_outcome = call_outcome result\<rparr>
                     else None, s2))
                 (case call_registry E W c1 request ctx1 ident s1 of
                    None \<Rightarrow> None
                  | Some (Some r, s2) \<Rightarrow> Some (map_sum id Complete r, FromRegistry, s2)
                  | Some (None, s2) \<Rightarrow>
                      (case sh_call_tool inner request ctx1 (hs_world s2) of
                         (r, w) \<Rightarrow> Some (r, FromInner, s2\<lparr>hs_world := w\<rparr>))))"

section \<open>Prompts and resources\<close>

text \<open>The check before a prompt or a resource: the validator's method, given the credential and the session.\<close>

definition authorize_access :: "('b, 'v, 'c) handler_env \<Rightarrow> ('c, 'w) handler_context \<Rightarrow> ('b, 'c, 'k) waiting \<Rightarrow> clock \<Rightarrow>
    (('c, 'w) access_validator \<Rightarrow> 'c stored_token option \<Rightarrow> string \<Rightarrow> 'w \<Rightarrow> access_decision \<times> 'w) \<Rightarrow>
    (string \<Rightarrow> mcp_error) \<Rightarrow> 'c parts option \<Rightarrow> ('b, 'c, 'k, 'p, 'w) handler_state \<Rightarrow>
    (mcp_error option \<times> ('b, 'c, 'k, 'p, 'w) handler_state) option" where
  "authorize_access E C W c check denied ext s =
     (case hc_validator C of
        None \<Rightarrow> Some (None, s)
      | Some v \<Rightarrow>
          (case resolve_token (hd_lookup E) W c ext (hs_store s) of
             None \<Rightarrow> None
           | Some (token, c1, store1) \<Rightarrow>
               (case check v token (resolve_session_id (hd_headers E) ext) (hs_world s) of
                  (Deny reason, w) \<Rightarrow> Some (Some (denied reason), s\<lparr>hs_store := store1, hs_world := w\<rparr>)
                | (Allow, w) \<Rightarrow> Some (None, s\<lparr>hs_store := store1, hs_world := w\<rparr>))))"

definition handle_get_prompt :: "('b, 'v, 'c) handler_env \<Rightarrow> ('p, 'c, 'w) server_handler \<Rightarrow> ('c, 'w) handler_context \<Rightarrow>
    ('b, 'c, 'k) waiting \<Rightarrow> clock \<Rightarrow> prompt_request \<Rightarrow> ('p, 'c) request_context \<Rightarrow> ('b, 'c, 'k, 'p, 'w) handler_state \<Rightarrow>
    ((mcp_error + json mcp_response) \<times> ('b, 'c, 'k, 'p, 'w) handler_state) option" where
  "handle_get_prompt E inner C W c request ctx s =
     (let ctx1 = enrich_extensions (hd_headers E) C ctx
      in case authorize_access E C W c (\<lambda>v. av_prompt v (pq_name request) (pq_arguments request))
                (access_denied ''prompt'' (pq_name request)) (cx_parts ctx1) s of
           None \<Rightarrow> None
         | Some (Some e, s1) \<Rightarrow> Some (Inl e, s1)
         | Some (None, s1) \<Rightarrow>
             (case registry_get_prompt request (hs_registry s1) (hs_world s1) of
                Some (r, w) \<Rightarrow> Some (map_sum id Complete r, s1\<lparr>hs_world := w\<rparr>)
              | None \<Rightarrow>
                  (case sh_get_prompt inner request ctx1 (hs_world s1) of
                     (r, w) \<Rightarrow> Some (r, s1\<lparr>hs_world := w\<rparr>))))"

definition handle_read_resource :: "('b, 'v, 'c) handler_env \<Rightarrow> ('p, 'c, 'w) server_handler \<Rightarrow> ('c, 'w) handler_context \<Rightarrow>
    ('b, 'c, 'k) waiting \<Rightarrow> clock \<Rightarrow> string \<Rightarrow> ('p, 'c) request_context \<Rightarrow> ('b, 'c, 'k, 'p, 'w) handler_state \<Rightarrow>
    ((mcp_error + resource_contents list mcp_response) \<times> ('b, 'c, 'k, 'p, 'w) handler_state) option" where
  "handle_read_resource E inner C W c uri ctx s =
     (let ctx1 = enrich_extensions (hd_headers E) C ctx
      in case authorize_access E C W c (\<lambda>v. av_resource v uri) (access_denied ''resource'' uri) (cx_parts ctx1) s of
           None \<Rightarrow> None
         | Some (Some e, s1) \<Rightarrow> Some (Inl e, s1)
         | Some (None, s1) \<Rightarrow>
             (case registry_read_resource uri (hs_registry s1) (hs_world s1) of
                Some (r, w) \<Rightarrow> Some (map_sum id Complete r, s1\<lparr>hs_world := w\<rparr>)
              | None \<Rightarrow>
                  (case sh_read_resource inner uri ctx1 (hs_world s1) of
                     (r, w) \<Rightarrow> Some (r, s1\<lparr>hs_world := w\<rparr>))))"

definition handle_get_tool :: "('p, 'c, 'w) server_handler \<Rightarrow> string \<Rightarrow> mcp_tool option" where
  "handle_get_tool inner name = sh_get_tool inner name"

text \<open>Every other request goes to the application's handler, with the context enriched.\<close>

definition handle_delegated :: "('b, 'v, 'c) handler_env \<Rightarrow> ('c, 'w) handler_context \<Rightarrow>
    ('q \<Rightarrow> ('p, 'c) request_context \<Rightarrow> 'w \<Rightarrow> 'r \<times> 'w) \<Rightarrow> 'q \<Rightarrow> ('p, 'c) request_context \<Rightarrow>
    ('b, 'c, 'k, 'p, 'w) handler_state \<Rightarrow> 'r \<times> ('b, 'c, 'k, 'p, 'w) handler_state" where
  "handle_delegated E C inner_op request ctx s =
     (case inner_op request (enrich_extensions (hd_headers E) C ctx) (hs_world s) of
        (r, w) \<Rightarrow> (r, s\<lparr>hs_world := w\<rparr>))"

end
