(* ===== verification/Loopback.thy ===== *)
theory Loopback
  imports Capability_Handler Sessions
begin

text \<open>
  The in-process transport, \<open>src/src/transport/loopback.rs\<close>: what an endpoint refuses, what opening
  a session does to the endpoint's own token store, and what forgetting one removes. Whether \<open>rmcp\<close>'s
  handshake over the channels succeeds is an argument; the tasks that serve a session are left out.
\<close>

section \<open>Identities\<close>

datatype loopback_connect_error =
    InvalidIdentity string
  | UnresolvableCredential (uc_session_id: string) (uc_reason: string)
  | HandshakeFailed

definition validate_identity :: "header_lib \<Rightarrow> 'c loopback_identity \<Rightarrow> loopback_connect_error option" where
  "validate_identity H ident =
     (if li_session_id ident = [] then Some (InvalidIdentity ''the session id is empty'')
      else if li_token_ext ident \<noteq> None \<or> li_bearer_ext ident \<noteq> None then
        Some (InvalidIdentity ''a credential extension (RequestToken / BearerToken) is written only by the auth middleware'')
      else if build_parts H ident = None then Some (InvalidIdentity ''http error'')
      else None)"

section \<open>Endpoints\<close>

text \<open>
  The parts of an endpoint that are not shared with the network transport, and what it hands to
  every handler it makes. The server factory and the registry are those of the application.
\<close>

record ('b, 'v, 'c, 't, 'w) loopback_endpoint =
  le_filter :: "'c capability_filter option"
  le_validator :: "('c, 'w) access_validator option"
  le_logs :: bool
  le_store_env :: "('b, 'v, 'c) store_env"
  le_session_env :: "('b, 'v, 't) session_env"
  le_token_mode :: token_mode

record ('b, 'c, 'k, 't) loopback_state =
  ls_tokens :: "('b, 'c, 'k) token_store"
  ls_sessions :: "('b, 't) session_store"

definition loopback_context :: "('b, 'v, 'c, 't, 'w) loopback_endpoint \<Rightarrow> 'c loopback_identity \<Rightarrow>
    ('c, 'w) handler_context" where
  "loopback_context L ident =
     \<lparr>hc_filter = le_filter L, hc_validator = le_validator L, hc_logs = le_logs L, hc_max_version = None,
      hc_loopback = Some ident\<rparr>"

definition connect :: "header_lib \<Rightarrow> ('b, 'v, 'c, 't, 'w) loopback_endpoint \<Rightarrow> clock \<Rightarrow> 'c loopback_identity \<Rightarrow> bool \<Rightarrow>
    ('b, 'c, 'k, 't) loopback_state \<Rightarrow>
    (loopback_connect_error + ('c, 'w) handler_context) \<times> ('b, 'c, 'k, 't) loopback_state" where
  "connect H L c ident handshake s =
     (case validate_identity H ident of
        Some e \<Rightarrow> (Inl e, s)
      | None \<Rightarrow>
          if le_token_mode L = Opaque \<and> li_bearer_token ident \<noteq> None then
            (Inl (UnresolvableCredential (li_session_id ident)
               ''the application issues opaque tokens, which only the HTTP transport's token store can resolve''), s)
          else
            (let tokens' = (case li_bearer_token ident of
                   Some token \<Rightarrow>
                     store_token (le_store_env L) c (li_session_id ident) (stored_token_new token None None) (ls_tokens s)
                 | None \<Rightarrow> remove_token (le_store_env L) c (li_session_id ident) (ls_tokens s));
                 s1 = s\<lparr>ls_tokens := tokens'\<rparr>
             in if handshake then (Inr (loopback_context L ident), s1) else (Inl HandshakeFailed, s1)))"

text \<open>Removing the session data waits for the session's lock; the data it yields is dropped.\<close>

definition forget_session :: "('b, 'v, 'c, 't, 'w) loopback_endpoint \<Rightarrow> clock \<Rightarrow> string \<Rightarrow> 'b wakeup list \<Rightarrow> string \<Rightarrow>
    ('b, 'c, 'k, 't) loopback_state \<Rightarrow> ('b, 'c, 'k, 't) loopback_state option" where
  "forget_session L c owner ws sid s =
     map_option (\<lambda>(dropped, sess). s\<lparr>ls_tokens := remove_token (le_store_env L) c sid (ls_tokens s), ls_sessions := sess\<rparr>)
       (session_remove (le_session_env L) owner c ws sid (ls_sessions s))"

section \<open>Values attached to an identity\<close>

text \<open>
  The framework reads two types of extension; a value of any other type is the application's and only
  passed on. A second value of a type replaces the first.
\<close>

datatype 'c extension_value = RequestTokenValue "'c stored_token" | BearerTokenValue string | ApplicationValue

definition with_extension :: "'c extension_value \<Rightarrow> 'c loopback_identity \<Rightarrow> 'c loopback_identity" where
  "with_extension v ident =
     (case v of
        RequestTokenValue t \<Rightarrow> ident\<lparr>li_token_ext := Some t\<rparr>
      | BearerTokenValue b \<Rightarrow> ident\<lparr>li_bearer_ext := Some b\<rparr>
      | ApplicationValue \<Rightarrow> ident)"

text \<open>A caller that attaches a credential of its own is refused, and nothing is stored for it.\<close>

lemma attached_credential_is_refused:
  assumes "v \<noteq> ApplicationValue"
  shows "\<exists>e. connect H L c (with_extension v ident) handshake s = (Inl (InvalidIdentity e), s)"
  using assms by (cases v) (auto simp: connect_def validate_identity_def with_extension_def)

section \<open>The life of a session\<close>

text \<open>
  A session is the running client, here the reason it will quit with, and the task that serves it. Only
  \<open>cancel\<close> takes the client out.
\<close>

datatype server_task = Serving | Aborted

record 'q loopback_session =
  lp_client :: "'q option"
  lp_server :: server_task

definition opened_session :: "'q \<Rightarrow> 'q loopback_session" where
  "opened_session reason = \<lparr>lp_client = Some reason, lp_server = Serving\<rparr>"

definition cancel_session :: "'q \<Rightarrow> 'q loopback_session \<Rightarrow> 'q \<times> 'q loopback_session" where
  "cancel_session closed ls =
     ((case lp_client ls of Some reason \<Rightarrow> reason | None \<Rightarrow> closed), ls\<lparr>lp_client := None, lp_server := Aborted\<rparr>)"

definition drop_session :: "'q loopback_session \<Rightarrow> 'q loopback_session" where
  "drop_session ls = ls\<lparr>lp_server := Aborted\<rparr>"

text \<open>The client of a session, \<open>None\<close> is the panic of \<open>deref\<close>.\<close>

definition session_client :: "'q loopback_session \<Rightarrow> 'q option" where
  "session_client ls = lp_client ls"

text \<open>However a session ends, the task that served it ends; until then its client is there.\<close>

lemma session_ends_its_server:
  "lp_server (drop_session ls) = Aborted" "lp_server (snd (cancel_session closed ls)) = Aborted"
  "session_client (opened_session reason) = Some reason" "fst (cancel_session closed (opened_session reason)) = reason"
  by (simp_all add: drop_session_def cancel_session_def session_client_def opened_session_def)

end
