(* ===== verification/Handler_Facts.thy ===== *)
theory Handler_Facts
  imports Loopback Registry_Facts Middleware_Facts
begin

text \<open>
  Lemmas on the dynamic handler: what the merged listing holds, that sanitizing keeps names, how a
  call is dispatched, and which session and credential a handler finds in the request a middleware
  forwarded or an in-process caller presented.
\<close>

section \<open>Listing\<close>

lemma fold_filter: "fold (\<lambda>ri. filter (\<lambda>x. key x \<noteq> key ri)) rs xs = filter (\<lambda>x. key x \<notin> key ` set rs) xs"
  by (induction rs arbitrary: xs) (auto intro: filter_cong)

lemma merge_registry_items_eq: "merge_registry_items key xs rs = filter (\<lambda>x. key x \<notin> key ` set rs) xs @ rs"
  by (simp add: merge_registry_items_def fold_filter)

lemma sanitize_tool_schemas_fst: "fst (sanitize_tool_schemas H jtext tools seen) = map (\<lambda>t. snd (sanitize_one jtext t)) tools"
  by (induction tools arbitrary: seen) (simp_all add: Let_def case_prod_unfold)

lemma sanitize_one_name [simp]: "tl_name (snd (sanitize_one jtext t)) = tl_name t"
  by (simp add: sanitize_one_def Let_def)

lemma registry_ok_named: "registry_ok E g \<Longrightarrow> hm_get (rg_tools g) n = Some (t, h) \<Longrightarrow> tl_name t = n"
  unfolding registry_ok_def by blast

lemma registry_ok_tools: "registry_ok E g \<Longrightarrow> hm_ok (rg_tools g)"
  by (simp add: registry_ok_def)

lemma filter_key_unique:
  "hm_ok m \<Longrightarrow> hm_get m n = Some v \<Longrightarrow> filter (\<lambda>(k, v). k = n) m = [(n, v)]"
proof (induction m)
  case Nil
  then show ?case by simp
next
  case (Cons p m)
  obtain k w where p: "p = (k, w)" by (cases p)
  have "filter (\<lambda>(k, v). k = n) m = []" if "k = n"
    using Cons.prems p that by (auto simp: hm_ok_def filter_empty_conv image_iff)
  with Cons p show ?case by (auto simp: hm_ok_def)
qed

lemma filter_named:
  "\<forall>(k, x) \<in> set m. f x = k \<Longrightarrow> filter (\<lambda>(k, x). f x = n) m = filter (\<lambda>(k, x). k = n) m"
  by (induction m) auto

lemma registry_tools_unique:
  assumes "registry_ok E g" "hm_get (rg_tools g) n = Some (t, h)"
  shows "filter (\<lambda>x. tl_name x = n) (registry_tools g) = [t]"
proof -
  have "\<forall>(k, x) \<in> set (rg_tools g). tl_name (fst x) = k"
    using registry_ok_named [OF assms(1)] registry_ok_tools [OF assms(1)] by (auto simp flip: hm_get_Some_iff)
  from filter_named [OF this, of n] filter_key_unique [OF registry_ok_tools [OF assms(1)] assms(2)]
  show ?thesis by (simp add: registry_tools_def filter_map comp_def case_prod_unfold)
qed

lemma registry_tools_names:
  assumes "registry_ok E g"
  shows "n \<in> tl_name ` set (registry_tools g) \<longleftrightarrow> contains_tool g n"
proof
  assume "n \<in> tl_name ` set (registry_tools g)"
  then obtain k t h where kth: "(k, t, h) \<in> set (rg_tools g)" "tl_name t = n" by (auto simp: registry_tools_def)
  then have "hm_get (rg_tools g) k = Some (t, h)" by (simp add: hm_get_Some_iff registry_ok_tools [OF assms])
  with registry_ok_named [OF assms this] kth(2) show "contains_tool g n" by (auto simp: contains_tool_def)
next
  assume "contains_tool g n"
  then obtain t h where t: "hm_get (rg_tools g) n = Some (t, h)" by (auto simp: contains_tool_def)
  then have "filter (\<lambda>x. tl_name x = n) (registry_tools g) = [t]" by (rule registry_tools_unique [OF assms])
  then have "t \<in> set (filter (\<lambda>x. tl_name x = n) (registry_tools g))" by simp
  then show "n \<in> tl_name ` set (registry_tools g)" by auto
qed

lemma names_visible: "(\<And>t. f (g t) = f t) \<Longrightarrow> f ` set (filter (\<lambda>t. f t \<notin> H) (map g xs)) = f ` set xs - H"
  by (induction xs) auto

lemma filter_visible:
  "(\<And>t. f (g t) = f t) \<Longrightarrow> n \<notin> H \<Longrightarrow>
     filter (\<lambda>x. f x = n) (filter (\<lambda>t. f t \<notin> H) (map g xs)) = map g (filter (\<lambda>x. f x = n) xs)"
  by (induction xs) auto

section \<open>Dispatch\<close>

text \<open>What the dispatch of a call does, once the caller's identity is known.\<close>

definition dispatched :: "('b, 'v, 'c) handler_env \<Rightarrow> ('p, 'c, 'w) server_handler \<Rightarrow> tool_request \<Rightarrow>
    ('p, 'c) request_context \<Rightarrow> 'c call_info \<Rightarrow> ('b, 'p, 'c, 'w) registry \<Rightarrow> 'w \<Rightarrow>
    (mcp_error + call_tool_result mcp_response) \<times> tool_call_source \<times> 'w" where
  "dispatched E inner request ctx call g w =
     (case hm_get (rg_tools g) (tq_name request) of
        Some (t, h) \<Rightarrow>
          (case h (tq_arguments request)
                 (Some \<lparr>tc_peer = cx_peer ctx, tc_meta = cx_meta ctx, tc_session_id = ci_session_id call,
                        tc_token = ci_token call, tc_request = ci_request call\<rparr>) w of
             (r, w') \<Rightarrow> (map_sum id Complete r, FromRegistry, w'))
      | None \<Rightarrow> (case sh_call_tool inner request ctx w of (r, w') \<Rightarrow> (r, FromInner, w')))"

lemma call_registry_known:
  "call_registry E W c request ctx (Some (token, req)) s =
     (case hm_get (rg_tools (hs_registry s)) (tq_name request) of
        None \<Rightarrow> Some (None, s)
      | Some (t, h) \<Rightarrow>
          (case h (tq_arguments request)
                 (Some \<lparr>tc_peer = cx_peer ctx, tc_meta = cx_meta ctx,
                        tc_session_id = resolve_session_id (hd_headers E) (cx_parts ctx),
                        tc_token = token, tc_request = req\<rparr>) (hs_world s) of
             (r, w) \<Rightarrow> Some (Some r, s\<lparr>hs_world := w\<rparr>)))"
  by (auto simp: call_registry_def contains_tool_def try_call_tool_def Let_def split: option.split prod.split)

section \<open>Identities\<close>

text \<open>What a header value was made from is what it reads as.\<close>

definition header_ok :: "header_lib \<Rightarrow> bool" where
  "header_ok H \<longleftrightarrow> (\<forall>s v. parse_value H s = Some v \<longrightarrow> to_str H v = Some s)"

lemma resolved_session:
  assumes "resolve_or_derive_session_id H J token r = (sid, r1)" "fallback_header r = None" "header_ok H"
    and "parse_value H (credential_session_key J token) \<noteq> None" "headers r' = headers r1"
  shows "session_id_from_parts H \<lparr>pt_request = r', pt_query = q\<rparr> = sid"
proof (cases "Option.bind (hdr_get (headers r) MCP_SESSION_ID_HEADER) (to_str H)")
  case (Some x)
  then have "sid = x" "r1 = r" using assms(1) by (auto simp: resolve_or_derive_session_id_def)
  with Some assms(2,5) show ?thesis by (simp add: session_id_from_parts_def Let_def)
next
  case None
  then have sid: "sid = credential_session_key J token" and r1: "r1 = set_framework_session_id H sid r"
    using assms(1) by (auto simp: resolve_or_derive_session_id_def Let_def)
  obtain v where v: "parse_value H sid = Some v" using assms(4) sid by blast
  then have "hdr_get (headers r') MCP_FALLBACK_SESSION_HEADER = Some v"
    using r1 assms(5) set_framework_session_id_header [of H sid r] by simp
  moreover have "to_str H v = Some sid" using assms(3) v by (simp add: header_ok_def)
  ultimately show ?thesis by (simp add: session_id_from_parts_def Let_def)
qed

lemma loopback_parts:
  assumes "header_ok H" "build_parts H ident = Some parts"
  shows "session_id_from_parts H parts = li_session_id ident \<and> token_ext (pt_request parts) = li_token_ext ident \<and>
    bearer_ext (pt_request parts) = li_bearer_ext ident"
proof -
  obtain v hs where v: "parse_value H (li_session_id ident) = Some v"
    "parts = \<lparr>pt_request = \<lparr>headers = (MCP_SESSION_ID_HEADER, v) # hs, bearer_ext = li_bearer_ext ident,
       token_ext = li_token_ext ident\<rparr>, pt_query = None\<rparr>"
    "hs = [] \<or> (\<exists>a. hs = [(AUTHORIZATION_HEADER, a)])"
    using assms(2) by (auto simp: build_parts_def Let_def split: option.splits)
  then have "hdr_get ((MCP_SESSION_ID_HEADER, v) # hs) MCP_FALLBACK_SESSION_HEADER = None"
    "hdr_get ((MCP_SESSION_ID_HEADER, v) # hs) MCP_SESSION_ID_HEADER = Some v"
    by (auto simp: hdr_get_def)
  moreover have "to_str H v = Some (li_session_id ident)" using assms(1) v(1) by (simp add: header_ok_def)
  ultimately show ?thesis using v(2) by (simp add: session_id_from_parts_def Let_def)
qed

lemma validate_identity_None:
  assumes "validate_identity H ident = None"
  shows "li_session_id ident \<noteq> [] \<and> li_token_ext ident = None \<and> li_bearer_ext ident = None \<and> build_parts H ident \<noteq> None"
  using assms by (auto simp: validate_identity_def split: if_splits)

lemma enrich_loopback:
  assumes "hc_loopback C = Some ident" "build_parts H ident = Some parts"
  shows "cx_parts (enrich_extensions H C ctx) = Some parts"
  using assms by (simp add: enrich_extensions_def to_parts_def)

lemma get_token_unexpiring:
  assumes "hm_get (tokens s) sid = Some t" "expires_at t = None"
  shows "get_token E post lock_token sid c locked ws s = Some (Some t, c, s)"
  using assms by (simp add: get_token_def get_token_raw_def is_expired_def)

lemma get_token_unknown:
  assumes "hm_get (tokens s) sid = None" "persistence E = None"
  shows "get_token E post lock_token sid c locked ws s = Some (None, c, s)"
  using assms by (simp add: get_token_def get_token_raw_def load_token_from_backend_def read_through_def)

section \<open>The identity of a forwarded request\<close>

lemma resource_server_identity:
  assumes "authorize_as_resource_server A c token r a = (Forward r', a')" "fallback_header r = None"
    and "header_ok (am_headers A)" "parse_value (am_headers A) (credential_session_key (jwt (am_store A)) token) \<noteq> None"
    and "sid = session_id_from_parts (am_headers A) \<lparr>pt_request = r', pt_query = q\<rparr>"
  shows "(\<exists>e. token_ext r' = Some (transient_token (am_store A) token e)) \<and>
    (hdr_get (headers r) MCP_SESSION_ID_HEADER \<noteq> None \<longrightarrow>
       claim (am_bindings A) c sid (credential_session_key (jwt (am_store A)) token) (au_bindings a) = (True, au_bindings a')) \<and>
    (hdr_get (headers r) MCP_SESSION_ID_HEADER = None \<longrightarrow> sid = credential_session_key (jwt (am_store A)) token)"
proof (cases rule: resource_server_cases [OF assms(1)])
  case (3 vb s k r1 b)
  then have "headers r' = headers r1" by simp
  then have "sid = k" unfolding assms(5) by (rule resolved_session [OF 3(2) assms(2-4)])
  moreover have "k = credential_session_key (jwt (am_store A)) token" if "hdr_get (headers r) MCP_SESSION_ID_HEADER = None"
    using 3(2) that by (simp add: resolve_or_derive_session_id_def Let_def)
  ultimately show ?thesis using 3 by auto
qed simp_all

lemma opaque_identity:
  assumes "authorize_opaque A w c token r s = Some (Forward r', s')" "header_ok (am_headers A)"
  shows "\<exists>sid s1. resolve_opaque_access (am_store A) c token s = (Some sid, s1) \<and>
    (parse_value (am_headers A) sid \<noteq> None \<longrightarrow>
       session_id_from_parts (am_headers A) \<lparr>pt_request = r', pt_query = q\<rparr> = sid)"
proof -
  obtain sid s1 bearer where ok: "resolve_opaque_access (am_store A) c token s = (Some sid, s1)"
      "r' = (set_framework_session_id (am_headers A) sid r)\<lparr>bearer_ext := Some bearer\<rparr>"
    using opaque_forward [OF assms(1)] by blast
  have "session_id_from_parts (am_headers A) \<lparr>pt_request = r', pt_query = q\<rparr> = sid"
    if v: "parse_value (am_headers A) sid = Some v" for v
    using ok(2) v set_framework_session_id_header [of "am_headers A" sid r] assms(2)
    by (simp add: session_id_from_parts_def Let_def header_ok_def)
  with ok(1) show ?thesis by blast
qed

lemma passthrough_identity:
  assumes "authorize_passthrough A w c token r s = Some (Forward r', s')" "fallback_header r = None"
    and "header_ok (am_headers A)" "parse_value (am_headers A) (credential_session_key (jwt (am_store A)) token) \<noteq> None"
  shows "\<exists>r1. resolve_or_derive_session_id (am_headers A) (jwt (am_store A)) token r =
    (session_id_from_parts (am_headers A) \<lparr>pt_request = r', pt_query = q\<rparr>, r1)"
proof (cases rule: passthrough_forward [OF assms(1)])
  case (1 sid r1 st ms mg s0 vb s1 matching e)
  have "headers r' = headers r1" using passthrough_admit_forward [OF 1(4)] by auto
  then have "session_id_from_parts (am_headers A) \<lparr>pt_request = r', pt_query = q\<rparr> = sid"
    by (rule resolved_session [OF 1(1) assms(2-4)])
  with 1(1) show ?thesis by blast
qed

section \<open>The stores of a loopback endpoint\<close>

lemma write_through_none [simp]: "persistence E = None \<Longrightarrow> write_through E f s = s"
  by (simp add: write_through_def)

lemma store_token_alone:
  "persistence E = None \<Longrightarrow> tokens (store_token E c sid t s) = hm_insert sid (apply_decoder E t) (tokens s)"
  by (simp add: store_token_def Let_def)

lemma remove_token_alone:
  "persistence E = None \<Longrightarrow> tokens (remove_token E c sid s) = hm_remove sid (tokens s)"
  by (simp add: remove_token_def remove_opaque_for_session_def Let_def case_prod_unfold)

text \<open>What a successful connect leaves.\<close>

lemma connect_tokens:
  assumes "connect H L c ident handshake s = (res, s')" "persistence (le_store_env L) = None"
  shows "ls_sessions s' = ls_sessions s \<and>
    (sid \<noteq> li_session_id ident \<longrightarrow> hm_get (tokens (ls_tokens s')) sid = hm_get (tokens (ls_tokens s)) sid) \<and>
    (\<forall>C. res = Inr C \<longrightarrow> validate_identity H ident = None \<and> hc_loopback C = Some ident \<and>
       \<not> (le_token_mode L = Opaque \<and> li_bearer_token ident \<noteq> None) \<and>
       hm_get (tokens (ls_tokens s')) (li_session_id ident) =
         map_option (\<lambda>token. apply_decoder (le_store_env L) (stored_token_new token None None)) (li_bearer_token ident))"
  using assms
  by (auto simp: connect_def loopback_context_def Let_def store_token_alone remove_token_alone
      split: option.splits if_splits)

end
