(* ===== verification/Runner.thy ===== *)
theory Runner
  imports Loopback
begin

text \<open>
  The application builder and the runner, \<open>src/src/runner.rs\<close>: the settings, the builder's methods with
  its guard against a diverging loopback endpoint, validation, building, the endpoint that
  \<open>McpAppBuilder::loopback\<close> hands out, and what the runner makes of the settings and the environment. The
  server factory, the registry, the session store, the persistence backend and a route of a router
  are handles of unknown type; a router is the list of its routes. Parsing a socket address and a
  command line are arguments, and starting the log is left out.
\<close>

section \<open>Settings\<close>

datatype transport_mode = Http | Stdio
datatype log_level = LogError | LogInfo | LogDebug | LogTrace

record settings =
  st_transport :: transport_mode
  st_log_level :: log_level
  st_bind_addr :: string
  st_public_url :: "string option"
  st_session_ttl :: "duration option"

definition DEFAULT_BIND_ADDR :: string where "DEFAULT_BIND_ADDR = ''0.0.0.0:4000''"
definition DEFAULT_SESSION_TTL :: duration where "DEFAULT_SESSION_TTL = secs 1800"

definition settings_default :: settings where
  "settings_default = \<lparr>st_transport = Http, st_log_level = LogInfo, st_bind_addr = DEFAULT_BIND_ADDR,
     st_public_url = None, st_session_ttl = None\<rparr>"

datatype auth_provider = NoAuth | BasicAuth basic_auth_config | OAuth oauth_config

section \<open>The builder\<close>

text \<open>Which fields were set after an endpoint was handed out.\<close>

record loopback_guard =
  handed_out :: bool
  diverged :: "string list"

definition note_field :: "string \<Rightarrow> loopback_guard \<Rightarrow> loopback_guard" where
  "note_field field g =
     (if handed_out g \<and> field \<notin> set (diverged g) then g\<lparr>diverged := diverged g @ [field]\<rparr> else g)"

text \<open>
  Until \<open>server\<close> is called there is no factory, and the type of the builder has neither \<open>loopback\<close> nor
  \<open>build\<close>.
\<close>

record ('c, 'w, 'f, 'g, 's, 'p, 'r) app_builder =
  ab_name :: string
  ab_auth :: auth_provider
  ab_factory :: "'f option"
  ab_stdio_token_env :: "string option"
  ab_settings :: "settings option"
  ab_registry :: "'g option"
  ab_filter :: "'c capability_filter option"
  ab_validator :: "('c, 'w) access_validator option"
  ab_claims_decoder :: "(string \<Rightarrow> 'c option) option"
  ab_session_store :: "'s option"
  ab_logger :: "'w tool_call_logger option"
  ab_persistence :: "'p option"
  ab_lifecycle :: protocol_lifecycle_policy
  ab_max_version :: "protocol_version option"
  ab_extra_routes :: "'r list option"
  ab_public_routes :: "'r list option"
  ab_guard :: loopback_guard

definition builder_new :: "string \<Rightarrow> ('c, 'w, 'f, 'g, 's, 'p, 'r) app_builder" where
  "builder_new name =
     \<lparr>ab_name = name, ab_auth = NoAuth, ab_factory = None, ab_stdio_token_env = None, ab_settings = None,
      ab_registry = None, ab_filter = None, ab_validator = None, ab_claims_decoder = None,
      ab_session_store = None, ab_logger = None, ab_persistence = None, ab_lifecycle = Hybrid,
      ab_max_version = None, ab_extra_routes = None, ab_public_routes = None,
      ab_guard = \<lparr>handed_out = False, diverged = []\<rparr>\<rparr>"

definition set_noted :: "string \<Rightarrow> ('c, 'w, 'f, 'g, 's, 'p, 'r) app_builder \<Rightarrow> ('c, 'w, 'f, 'g, 's, 'p, 'r) app_builder" where
  "set_noted field B = B\<lparr>ab_guard := note_field field (ab_guard B)\<rparr>"

text \<open>The session type changes, and with it the type of the session store.\<close>

definition with_sessions :: "('c, 'w, 'f, 'g, 's, 'p, 'r) app_builder \<Rightarrow> ('c, 'w, 'f, 'g, 's2, 'p, 'r) app_builder" where
  "with_sessions B =
     \<lparr>ab_name = ab_name B, ab_auth = ab_auth B, ab_factory = ab_factory B,
      ab_stdio_token_env = ab_stdio_token_env B, ab_settings = ab_settings B, ab_registry = ab_registry B,
      ab_filter = ab_filter B, ab_validator = ab_validator B, ab_claims_decoder = ab_claims_decoder B,
      ab_session_store = None, ab_logger = ab_logger B, ab_persistence = ab_persistence B,
      ab_lifecycle = ab_lifecycle B, ab_max_version = ab_max_version B, ab_extra_routes = ab_extra_routes B,
      ab_public_routes = ab_public_routes B, ab_guard = note_field ''with_sessions'' (ab_guard B)\<rparr>"

definition builder_auth :: "auth_provider \<Rightarrow> ('c, 'w, 'f, 'g, 's, 'p, 'r) app_builder \<Rightarrow> ('c, 'w, 'f, 'g, 's, 'p, 'r) app_builder" where
  "builder_auth auth B = set_noted ''auth'' (B\<lparr>ab_auth := auth\<rparr>)"

definition builder_stdio_token_env :: "string \<Rightarrow> ('c, 'w, 'f, 'g, 's, 'p, 'r) app_builder \<Rightarrow> ('c, 'w, 'f, 'g, 's, 'p, 'r) app_builder" where
  "builder_stdio_token_env env_var B = B\<lparr>ab_stdio_token_env := Some env_var\<rparr>"

definition builder_settings :: "settings \<Rightarrow> ('c, 'w, 'f, 'g, 's, 'p, 'r) app_builder \<Rightarrow> ('c, 'w, 'f, 'g, 's, 'p, 'r) app_builder" where
  "builder_settings st B = set_noted ''settings'' (B\<lparr>ab_settings := Some st\<rparr>)"

definition builder_registry :: "'g \<Rightarrow> ('c, 'w, 'f, 'g, 's, 'p, 'r) app_builder \<Rightarrow> ('c, 'w, 'f, 'g, 's, 'p, 'r) app_builder" where
  "builder_registry registry B = set_noted ''capability_registry'' (B\<lparr>ab_registry := Some registry\<rparr>)"

definition builder_filter :: "'c capability_filter \<Rightarrow> ('c, 'w, 'f, 'g, 's, 'p, 'r) app_builder \<Rightarrow> ('c, 'w, 'f, 'g, 's, 'p, 'r) app_builder" where
  "builder_filter flt B = set_noted ''capability_filter'' (B\<lparr>ab_filter := Some flt\<rparr>)"

definition builder_session_store :: "'s \<Rightarrow> ('c, 'w, 'f, 'g, 's, 'p, 'r) app_builder \<Rightarrow> ('c, 'w, 'f, 'g, 's, 'p, 'r) app_builder" where
  "builder_session_store store B = set_noted ''session_store'' (B\<lparr>ab_session_store := Some store\<rparr>)"

definition builder_validator :: "('c, 'w) access_validator \<Rightarrow> ('c, 'w, 'f, 'g, 's, 'p, 'r) app_builder \<Rightarrow> ('c, 'w, 'f, 'g, 's, 'p, 'r) app_builder" where
  "builder_validator v B = set_noted ''access_validator'' (B\<lparr>ab_validator := Some v\<rparr>)"

definition builder_claims_decoder :: "(string \<Rightarrow> 'c option) \<Rightarrow> ('c, 'w, 'f, 'g, 's, 'p, 'r) app_builder \<Rightarrow> ('c, 'w, 'f, 'g, 's, 'p, 'r) app_builder" where
  "builder_claims_decoder decoder B = set_noted ''claims_decoder'' (B\<lparr>ab_claims_decoder := Some decoder\<rparr>)"

definition builder_logger :: "'w tool_call_logger \<Rightarrow> ('c, 'w, 'f, 'g, 's, 'p, 'r) app_builder \<Rightarrow> ('c, 'w, 'f, 'g, 's, 'p, 'r) app_builder" where
  "builder_logger l B = set_noted ''tool_call_logger'' (B\<lparr>ab_logger := Some l\<rparr>)"

definition builder_public_routes :: "'r list \<Rightarrow> ('c, 'w, 'f, 'g, 's, 'p, 'r) app_builder \<Rightarrow> ('c, 'w, 'f, 'g, 's, 'p, 'r) app_builder" where
  "builder_public_routes routes B =
     B\<lparr>ab_public_routes := Some (case ab_public_routes B of Some existing \<Rightarrow> existing @ routes | None \<Rightarrow> routes)\<rparr>"

text \<open>\<open>collector\<close> is the metrics collector as a logger, \<open>route\<close> what \<open>metrics_router\<close> makes of it.\<close>

definition builder_metrics :: "'w tool_call_logger \<Rightarrow> 'r option \<Rightarrow> ('c, 'w, 'f, 'g, 's, 'p, 'r) app_builder \<Rightarrow> ('c, 'w, 'f, 'g, 's, 'p, 'r) app_builder" where
  "builder_metrics collector route B =
     (let logger = (case ab_logger B of
              Some existing \<Rightarrow> composite_logger [existing, collector]
            | None \<Rightarrow> collector);
          B1 = set_noted ''metrics'' (B\<lparr>ab_logger := Some logger\<rparr>)
      in case route of Some r \<Rightarrow> builder_public_routes [r] B1 | None \<Rightarrow> B1)"

definition builder_extra_routes :: "'r list \<Rightarrow> ('c, 'w, 'f, 'g, 's, 'p, 'r) app_builder \<Rightarrow> ('c, 'w, 'f, 'g, 's, 'p, 'r) app_builder" where
  "builder_extra_routes routes B = B\<lparr>ab_extra_routes := Some routes\<rparr>"

definition builder_persistence :: "'p \<Rightarrow> ('c, 'w, 'f, 'g, 's, 'p, 'r) app_builder \<Rightarrow> ('c, 'w, 'f, 'g, 's, 'p, 'r) app_builder" where
  "builder_persistence p B = B\<lparr>ab_persistence := Some p\<rparr>"

definition builder_lifecycle :: "protocol_lifecycle_policy \<Rightarrow> ('c, 'w, 'f, 'g, 's, 'p, 'r) app_builder \<Rightarrow> ('c, 'w, 'f, 'g, 's, 'p, 'r) app_builder" where
  "builder_lifecycle pol B = B\<lparr>ab_lifecycle := pol\<rparr>"

definition builder_max_version :: "protocol_version \<Rightarrow> ('c, 'w, 'f, 'g, 's, 'p, 'r) app_builder \<Rightarrow> ('c, 'w, 'f, 'g, 's, 'p, 'r) app_builder" where
  "builder_max_version v B = set_noted ''max_protocol_version'' (B\<lparr>ab_max_version := Some v\<rparr>)"

definition with_factory :: "'f \<Rightarrow> ('c, 'w, 'f, 'g, 's, 'p, 'r) app_builder \<Rightarrow> ('c, 'w, 'f, 'g, 's, 'p, 'r) app_builder" where
  "with_factory factory B = (set_noted ''server'' B)\<lparr>ab_factory := Some factory\<rparr>"

definition builder_server :: "'f \<Rightarrow> ('c, 'w, 'f, 'g, 's, 'p, 'r) app_builder \<Rightarrow> ('c, 'w, 'f, 'g, 's, 'p, 'r) app_builder" where
  "builder_server factory B = with_factory factory B"

section \<open>Validation and building\<close>

datatype builder_error =
    InvalidBindAddr string
  | SessionTtlTooShort duration
  | EmptyClientId
  | EmptyIssuerUrl
  | EmptyRedirectUrl
  | UnusableOAuth config_error
  | ConfiguredAfterLoopback "string list"

definition validate_settings :: "(string \<Rightarrow> bool) \<Rightarrow> settings \<Rightarrow> builder_error option" where
  "validate_settings is_socket_addr st =
     (if \<not> is_socket_addr (st_bind_addr st) then Some (InvalidBindAddr (st_bind_addr st))
      else case st_session_ttl st of
             Some ttl \<Rightarrow> if ttl < secs 1 then Some (SessionTtlTooShort ttl) else None
           | None \<Rightarrow> None)"

definition validate_auth :: "auth_provider \<Rightarrow> builder_error option" where
  "validate_auth auth =
     (case auth of
        OAuth cfg \<Rightarrow>
          if oc_client_id cfg = [] then Some EmptyClientId
          else if oc_issuer_url cfg = [] then Some EmptyIssuerUrl
          else if oc_redirect_url cfg = [] then Some EmptyRedirectUrl
          else (case validate_config cfg of Inl e \<Rightarrow> Some (UnusableOAuth e) | Inr u \<Rightarrow> None)
      | _ \<Rightarrow> None)"

definition validate_builder :: "(string \<Rightarrow> bool) \<Rightarrow> ('c, 'w, 'f, 'g, 's, 'p, 'r) app_builder \<Rightarrow> builder_error + unit" where
  "validate_builder is_socket_addr B =
     (case Option.bind (ab_settings B) (validate_settings is_socket_addr) of
        Some e \<Rightarrow> Inl e
      | None \<Rightarrow>
          (case validate_auth (ab_auth B) of
             Some e \<Rightarrow> Inl e
           | None \<Rightarrow>
               if diverged (ab_guard B) \<noteq> [] then Inl (ConfiguredAfterLoopback (diverged (ab_guard B)))
               else Inr ()))"

record ('c, 'w, 'f, 'g, 's, 'p, 'r) mcp_app =
  ma_name :: string
  ma_auth :: auth_provider
  ma_factory :: "'f option"
  ma_stdio_token_env :: "string option"
  ma_settings :: "settings option"
  ma_registry :: "'g option"
  ma_filter :: "'c capability_filter option"
  ma_validator :: "('c, 'w) access_validator option"
  ma_claims_decoder :: "(string \<Rightarrow> 'c option) option"
  ma_session_store :: "'s option"
  ma_logger :: "'w tool_call_logger option"
  ma_persistence :: "'p option"
  ma_lifecycle :: protocol_lifecycle_policy
  ma_max_version :: "protocol_version option"
  ma_extra_routes :: "'r list option"
  ma_public_routes :: "'r list option"

definition build :: "(string \<Rightarrow> bool) \<Rightarrow> ('c, 'w, 'f, 'g, 's, 'p, 'r) app_builder \<Rightarrow>
    builder_error + ('c, 'w, 'f, 'g, 's, 'p, 'r) mcp_app" where
  "build is_socket_addr B =
     (case validate_builder is_socket_addr B of
        Inl e \<Rightarrow> Inl e
      | Inr u \<Rightarrow>
          Inr \<lparr>ma_name = ab_name B, ma_auth = ab_auth B, ma_factory = ab_factory B,
            ma_stdio_token_env = ab_stdio_token_env B, ma_settings = ab_settings B,
            ma_registry = ab_registry B, ma_filter = ab_filter B, ma_validator = ab_validator B,
            ma_claims_decoder = ab_claims_decoder B, ma_session_store = ab_session_store B,
            ma_logger = ab_logger B, ma_persistence = ab_persistence B, ma_lifecycle = ab_lifecycle B,
            ma_max_version = ab_max_version B, ma_extra_routes = ab_extra_routes B,
            ma_public_routes = ab_public_routes B\<rparr>)"

section \<open>The endpoint a builder hands out\<close>

text \<open>
  An endpoint with the handles it shares with the application, and its own stores. Those are new ones
  without a persistence backend; only OAuth has a token mode.
\<close>

record ('b, 'v, 'c, 't, 'w, 'f, 'g) handout =
  ho_factory :: 'f
  ho_registry :: 'g
  ho_logger :: "'w tool_call_logger option"
  ho_endpoint :: "('b, 'v, 'c, 't, 'w) loopback_endpoint"

definition provider_token_mode :: "auth_provider \<Rightarrow> token_mode" where
  "provider_token_mode auth = (case auth of OAuth cfg \<Rightarrow> oc_token_mode cfg | _ \<Rightarrow> Passthrough)"

definition settings_session_ttl :: "settings option \<Rightarrow> duration" where
  "settings_session_ttl st = (case Option.bind st st_session_ttl of Some d \<Rightarrow> d | None \<Rightarrow> DEFAULT_SESSION_TTL)"

definition builder_loopback :: "'v store_serde \<Rightarrow> jwt_lib \<Rightarrow> 't \<Rightarrow> 'g \<Rightarrow> 'f \<Rightarrow> ('c, 'w, 'f, 'g, 's, 'p, 'r) app_builder \<Rightarrow>
    ('b, 'v, 'c, 't, 'w, 'f, 'g) handout \<times> ('c, 'w, 'f, 'g, 's, 'p, 'r) app_builder" where
  "builder_loopback S J dflt fresh_registry factory B =
     (let registry = (case ab_registry B of Some g \<Rightarrow> g | None \<Rightarrow> fresh_registry);
          B1 = B\<lparr>ab_registry := Some registry, ab_guard := (ab_guard B)\<lparr>handed_out := True\<rparr>\<rparr>;
          endpoint = \<lparr>le_filter = ab_filter B, le_validator = ab_validator B, le_logs = ab_logger B \<noteq> None,
            le_store_env = \<lparr>persistence = None, serde = S, claims_decoder = ab_claims_decoder B, jwt = J\<rparr>,
            le_session_env = \<lparr>ss_persistence = None, ss_ttl = settings_session_ttl (ab_settings B), ss_default = dflt,
              enc_session = (\<lambda>p. None), dec_session = (\<lambda>v. None)\<rparr>,
            le_token_mode = provider_token_mode (ab_auth B)\<rparr>
      in (\<lparr>ho_factory = factory, ho_registry = registry, ho_logger = ab_logger B, ho_endpoint = endpoint\<rparr>, B1))"

definition loopback_stores :: "'b \<Rightarrow> ('b, 'c, 'k, 't) loopback_state" where
  "loopback_stores b = \<lparr>ls_tokens = token_store_new b, ls_sessions = session_store_new b\<rparr>"

section \<open>Calls of a builder\<close>

text \<open>The calls an application may chain, in any order.\<close>

datatype ('c, 'w, 'f, 'g, 's, 'p, 'r) builder_call =
    SetAuth auth_provider
  | SetStdioTokenEnv string
  | SetSettings settings
  | SetRegistry 'g
  | SetFilter "'c capability_filter"
  | SetSessionStore 's
  | SetValidator "('c, 'w) access_validator"
  | SetClaimsDecoder "string \<Rightarrow> 'c option"
  | SetLogger "'w tool_call_logger"
  | AddMetrics "'w tool_call_logger" "'r option"
  | SetExtraRoutes "'r list"
  | AddPublicRoutes "'r list"
  | SetPersistence 'p
  | SetLifecycle protocol_lifecycle_policy
  | SetMaxVersion protocol_version
  | SetServer 'f
  | ChangeSessions
  | HandOut 'g

fun builder_step :: "'v store_serde \<Rightarrow> jwt_lib \<Rightarrow> 't \<Rightarrow> ('c, 'w, 'f, 'g, 's, 'p, 'r) builder_call \<Rightarrow>
    ('b, 'v, 'c, 't, 'w, 'f, 'g) handout list \<times> ('c, 'w, 'f, 'g, 's, 'p, 'r) app_builder \<Rightarrow>
    ('b, 'v, 'c, 't, 'w, 'f, 'g) handout list \<times> ('c, 'w, 'f, 'g, 's, 'p, 'r) app_builder" where
  "builder_step S J d (SetAuth a) (es, B) = (es, builder_auth a B)"
| "builder_step S J d (SetStdioTokenEnv v) (es, B) = (es, builder_stdio_token_env v B)"
| "builder_step S J d (SetSettings st) (es, B) = (es, builder_settings st B)"
| "builder_step S J d (SetRegistry g) (es, B) = (es, builder_registry g B)"
| "builder_step S J d (SetFilter x) (es, B) = (es, builder_filter x B)"
| "builder_step S J d (SetSessionStore x) (es, B) = (es, builder_session_store x B)"
| "builder_step S J d (SetValidator v) (es, B) = (es, builder_validator v B)"
| "builder_step S J d (SetClaimsDecoder x) (es, B) = (es, builder_claims_decoder x B)"
| "builder_step S J d (SetLogger l) (es, B) = (es, builder_logger l B)"
| "builder_step S J d (AddMetrics l r) (es, B) = (es, builder_metrics l r B)"
| "builder_step S J d (SetExtraRoutes rs) (es, B) = (es, builder_extra_routes rs B)"
| "builder_step S J d (AddPublicRoutes rs) (es, B) = (es, builder_public_routes rs B)"
| "builder_step S J d (SetPersistence p) (es, B) = (es, builder_persistence p B)"
| "builder_step S J d (SetLifecycle pol) (es, B) = (es, builder_lifecycle pol B)"
| "builder_step S J d (SetMaxVersion v) (es, B) = (es, builder_max_version v B)"
| "builder_step S J d (SetServer f) (es, B) = (es, builder_server f B)"
| "builder_step S J d ChangeSessions (es, B) = (es, with_sessions B)"
| "builder_step S J d (HandOut fresh) (es, B) =
     (case ab_factory B of
        None \<Rightarrow> (es, B)
      | Some f \<Rightarrow> (let (e, B') = builder_loopback S J d fresh f B in (e # es, B')))"

section \<open>Running\<close>

definition resolve_http_addrs :: "env_var \<Rightarrow> settings option \<Rightarrow> string \<times> string" where
  "resolve_http_addrs env st =
     (case st of
        Some s \<Rightarrow>
          (st_bind_addr s, case st_public_url s of Some u \<Rightarrow> u | None \<Rightarrow> ''http://'' @ st_bind_addr s)
      | None \<Rightarrow>
          (let bind_addr = (case env ''BIND_ADDR'' of Some a \<Rightarrow> a | None \<Rightarrow> DEFAULT_BIND_ADDR)
           in (bind_addr, case env ''PUBLIC_URL'' of Some u \<Rightarrow> u | None \<Rightarrow> ''http://'' @ bind_addr)))"

text \<open>The given store, or a new one of which only the TTL matters.\<close>

definition resolve_session_store :: "(duration \<Rightarrow> 's) \<Rightarrow> 's option \<Rightarrow> settings option \<Rightarrow> 's" where
  "resolve_session_store new_store store st =
     (case store of Some s \<Rightarrow> s | None \<Rightarrow> new_store (settings_session_ttl st))"

record cli_args =
  ca_transport :: transport_mode
  ca_debug :: bool
  ca_trace :: bool

definition cli_log_level :: "cli_args \<Rightarrow> string" where
  "cli_log_level args =
     (if ca_trace args then ''trace''
      else if ca_debug args then ''debug''
      else (case ca_transport args of Stdio \<Rightarrow> ''error'' | Http \<Rightarrow> ''info''))"

definition settings_log_level :: "settings \<Rightarrow> string" where
  "settings_log_level st =
     (case st_log_level st of
        LogError \<Rightarrow> ''error'' | LogInfo \<Rightarrow> ''info'' | LogDebug \<Rightarrow> ''debug'' | LogTrace \<Rightarrow> ''trace'')"

text \<open>Which transport runs: that of the settings, or without settings that of the command line.\<close>

definition run_transport :: "cli_args \<Rightarrow> ('c, 'w, 'f, 'g, 's, 'p, 'r) mcp_app \<Rightarrow> transport_mode" where
  "run_transport args app = (case ma_settings app of Some st \<Rightarrow> st_transport st | None \<Rightarrow> ca_transport args)"

text \<open>The token of the environment that the one session of the stdio transport is given.\<close>

definition seed_stdio_token :: "('b, 'v, 'c) store_env \<Rightarrow> clock \<Rightarrow> env_var \<Rightarrow> string option \<Rightarrow>
    ('b, 'c, 'k) token_store \<Rightarrow> ('b, 'c, 'k) token_store" where
  "seed_stdio_token E c env token_env s =
     (case Option.bind token_env env of
        Some t \<Rightarrow> store_token E c DEFAULT_SESSION_ID
          \<lparr>access_token = t, refresh_token = None, expires_at = None, decoded_claims = None\<rparr> s
      | None \<Rightarrow> s)"

end
