(* ===== verification/Handler_Properties.thy ===== *)
theory Handler_Properties
  imports Handler_Facts Middleware_Properties Runner
begin

text \<open>Properties of the dynamic handler and of the loopback transport.\<close>

section \<open>Samples for the witnesses\<close>

text \<open>An application handler without capabilities, and a registry with one tool.\<close>

definition sample_inner :: "(nat, string, nat) server_handler" where
  "sample_inner =
     \<lparr>sh_initialize = (\<lambda>q ctx w. (Inl (internal_error []), w)), sh_discover = (\<lambda>ctx w. (Inl (internal_error []), w)),
      sh_supported_versions = [], sh_list_tools = (\<lambda>k ctx w. (Inr ([], None), w)),
      sh_list_prompts = (\<lambda>k ctx w. (Inr ([], None), w)), sh_list_resources = (\<lambda>k ctx w. (Inr ([], None), w)),
      sh_call_tool = (\<lambda>q ctx w. (Inl (tool_not_found (tq_name q)), w)),
      sh_get_prompt = (\<lambda>q ctx w. (Inl (internal_error []), w)), sh_read_resource = (\<lambda>u ctx w. (Inl (internal_error []), w)),
      sh_get_tool = (\<lambda>n. None), sh_on_initialized = (\<lambda>ctx w. w)\<rparr>"

definition sample_handler_env :: "(sample_backend, sample_value, string) handler_env" where
  "sample_handler_env =
     \<lparr>hd_lookup = \<lparr>lk_headers = sample_headers, lk_store = sample_env, lk_post = sample_post\<rparr>,
      hd_registry = \<lparr>re_ops = in_memory_ops, re_hash = (\<lambda>ns. of_nat (length ns)), re_encode = (\<lambda>v. None),
        re_decode = (\<lambda>v. None), re_tool_hash = (\<lambda>n d t. 0), re_jtext = (\<lambda>v. [])\<rparr>,
      hd_url_decode = Some\<rparr>"

lemma sample_handler_env_fields [simp]:
  "lk_headers (hd_lookup sample_handler_env) = sample_headers" "lk_store (hd_lookup sample_handler_env) = sample_env"
  "hd_url_decode sample_handler_env = Some"
  by (simp_all add: sample_handler_env_def)

definition hello_tool :: mcp_tool where
  "hello_tool = \<lparr>tl_name = ''greet'', tl_description = None, tl_input_schema = [], tl_output_schema = None,
     tl_meta = None\<rparr>"

text \<open>The tool adds one to the world.\<close>

definition hello_registry :: "(sample_backend, nat, string, nat) registry" where
  "hello_registry = snd (add_tool (hd_registry sample_handler_env)
     \<lparr>is_transport_closed = (\<lambda>p. False), notify_ok = (\<lambda>p kind. True)\<rparr> hello_tool
     (\<lambda>args w. (Inr \<lparr>tr_content = [TextContent ''hello''], tr_is_error = None\<rparr>, Suc w))
     (registry_new (hd_registry sample_handler_env)))"

lemma hello_registry_ok: "registry_ok (hd_registry sample_handler_env) hello_registry"
  using registry_step_ok [OF registry_new_ok, of "hd_registry sample_handler_env" _ "AddTool _ _"]
  by (simp add: hello_registry_def)

lemma hello_registry_tools:
  "rg_tools hello_registry =
     [(''greet'', hello_tool, \<lambda>args ctx w. (Inr \<lparr>tr_content = [TextContent ''hello''], tr_is_error = None\<rparr>, Suc w))]"
  by (simp add: hello_registry_def add_tool_def insert_tool_def recompute_version_def registry_new_def
      hello_tool_def Let_def)

definition sample_handler_state :: "(sample_backend, string, nat, nat, nat) handler_state" where
  "sample_handler_state = \<lparr>hs_store = keyed_store, hs_registry = hello_registry, hs_world = 0\<rparr>"

lemma sample_handler_state_fields [simp]:
  "hs_store sample_handler_state = keyed_store" "hs_registry sample_handler_state = hello_registry"
  "hs_world sample_handler_state = 0"
  by (simp_all add: sample_handler_state_def)

text \<open>A call that carries a credential, as the resource-server middleware leaves it.\<close>

definition sample_context :: "string option \<Rightarrow> (nat, string) request_context" where
  "sample_context q = \<lparr>cx_peer = 0, cx_meta = [],
     cx_parts = Some \<lparr>pt_request = \<lparr>headers = [], bearer_ext = Some ''t'',
       token_ext = Some (stored_token_new ''t'' None None)\<rparr>, pt_query = q\<rparr>\<rparr>"

lemma sample_context_token [simp]:
  "resolve_token L W c (cx_parts (sample_context q)) s = Some (Some (stored_token_new ''t'' None None), c, s)"
  by (simp add: resolve_token_def sample_context_def)

definition sample_handler_context :: "(string, nat) access_validator option \<Rightarrow> (string, nat) handler_context" where
  "sample_handler_context v =
     \<lparr>hc_filter = None, hc_validator = v, hc_logs = True, hc_max_version = None, hc_loopback = None\<rparr>"

lemma sample_handler_context_fields [simp]:
  "hc_validator (sample_handler_context v) = v" "hc_filter (sample_handler_context v) = None"
  "enrich_extensions H (sample_handler_context v) ctx = ctx"
  by (simp_all add: sample_handler_context_def enrich_extensions_def)

text \<open>An endpoint on which a privileged caller was connected as \<open>job\<close> before.\<close>

definition sample_builder :: "(string, nat, nat, nat, nat, nat, nat) app_builder" where
  "sample_builder = builder_server 0 (builder_new ''app'')"

definition sample_loopback :: "(sample_backend, sample_value, string, nat, nat) loopback_endpoint" where
  "sample_loopback = ho_endpoint (fst (builder_loopback sample_serde sample_jwt 0 0 0 sample_builder))"

definition privileged_loopback :: "(sample_backend, string, nat, nat) loopback_state" where
  "privileged_loopback =
     \<lparr>ls_tokens = store_token (le_store_env sample_loopback) sample_clock ''job'' (stored_token_new ''root'' None None) fresh_store,
      ls_sessions = session_store_new im_new\<rparr>"

section \<open>Properties\<close>

text \<open>C22. A call runs exactly what the validator allowed, as whom it allowed it: with a validator
  configured, a denied call and a call of a tool the client filtered out answer with an error, run
  nothing else and are not audited; any other call runs the registry's tool, or the application's
  when the registry has none of that name, and a registry tool is given the very session,
  credential and request the validator was asked about.\<close>

theorem call_runs_only_what_was_allowed:
  assumes "handle_call_tool E inner C W c c_end request ctx s = Some (result, trail, s')"
    and "hc_validator C = Some v"
    and "ctx1 = enrich_extensions (hd_headers E) C ctx"
  shows "\<exists>token c1 store1 call decision w1.
    resolve_token (hd_lookup E) W c (cx_parts ctx1) (hs_store s) = Some (token, c1, store1) \<and>
    call = call_info_new (resolve_session_id (hd_headers E) (cx_parts ctx1)) token (resolve_call_request (cx_parts ctx1)) \<and>
    av_call v (tq_name request) (tq_arguments request) call (hs_world s) = (decision, w1) \<and>
    hs_store s' = store1 \<and> hs_registry s' = hs_registry s \<and>
    (case decision of
       Deny reason \<Rightarrow> result = Inl (access_denied ''tool'' (tq_name request) reason) \<and> trail = None \<and> hs_world s' = w1
     | Allow \<Rightarrow>
         if tq_name request \<in> set (resolve_query_filter (hd_url_decode E) (cx_parts ctx1))
         then (\<exists>e. result = Inl e) \<and> trail = None \<and> hs_world s' = w1
         else (\<exists>source. (result, source, hs_world s') = dispatched E inner request ctx1 call (hs_registry s) w1 \<and>
                map_option tcr_source trail = (if hc_logs C then Some source else None)))"
proof (cases "resolve_token (hd_lookup E) W c (cx_parts ctx1) (hs_store s)")
  case None
  with assms show ?thesis by (simp add: handle_call_tool_def authorize_call_def Let_def)
next
  case (Some x)
  obtain token c1 store1 where x: "x = (token, c1, store1)" by (cases x)
  let ?call = "call_info_new (resolve_session_id (hd_headers E) (cx_parts ctx1)) token (resolve_call_request (cx_parts ctx1))"
  obtain decision w1 where d: "av_call v (tq_name request) (tq_arguments request) ?call (hs_world s) = (decision, w1)"
    by (cases "av_call v (tq_name request) (tq_arguments request) ?call (hs_world s)")
  have auth: "authorize_call E C W c request (cx_parts ctx1) s =
      Some (case decision of Deny reason \<Rightarrow> Inl (access_denied ''tool'' (tq_name request) reason)
              | Allow \<Rightarrow> Inr (Some (token, resolve_call_request (cx_parts ctx1))), c1,
            s\<lparr>hs_store := store1, hs_world := w1\<rparr>)"
    by (simp add: authorize_call_def assms(2) Some x d Let_def split: access_decision.split)
  show ?thesis
  proof (intro exI conjI)
    show "resolve_token (hd_lookup E) W c (cx_parts ctx1) (hs_store s) = Some (token, c1, store1)" using Some x by simp
    show "av_call v (tq_name request) (tq_arguments request) ?call (hs_world s) = (decision, w1)" by (rule d)
  qed (use assms(1) auth in
      \<open>auto simp: handle_call_tool_def Let_def assms(3) [symmetric] call_registry_known dispatched_def call_info_new_def
        split: access_decision.splits if_splits option.splits prod.splits\<close>)
qed

text \<open>A validator that denies everything.\<close>

theorem call_runs_only_what_was_allowed_witness:
  "\<exists>result trail s'. handle_call_tool sample_handler_env sample_inner
       (sample_handler_context (Some (tool_call_validator (\<lambda>n args t sid. Deny ''no'')))) sample_waiting
       sample_clock sample_clock \<lparr>tq_name = ''greet'', tq_arguments = None\<rparr> (sample_context None) sample_handler_state
       = Some (result, trail, s') \<and>
     result = Inl (access_denied ''tool'' ''greet'' ''no'') \<and> trail = None \<and> hs_world s' = 0"
proof -
  let ?v = "tool_call_validator (\<lambda>n args t sid. Deny ''no'') :: (string, nat) access_validator"
  let ?C = "sample_handler_context (Some ?v)"
  let ?q = "\<lparr>tq_name = ''greet'', tq_arguments = None\<rparr>"
  have v: "av_call ?v n args call w = (Deny ''no'', w)" for n args call w
    by (simp add: tool_call_validator_def validator_of_tool_call_def)
  obtain result trail s' where h: "handle_call_tool sample_handler_env sample_inner ?C sample_waiting
      sample_clock sample_clock ?q (sample_context None) sample_handler_state = Some (result, trail, s')"
    by (simp add: handle_call_tool_def authorize_call_def Let_def v split: option.splits)
  have "result = Inl (access_denied ''tool'' ''greet'' ''no'') \<and> trail = None \<and> hs_world s' = 0"
    using call_runs_only_what_was_allowed [OF h, of ?v] by (auto simp: v)
  with h show ?thesis by blast
qed

text \<open>C28. Without a filter of the application, what is listed is what can be called: the names listed are
  those of the application's page and of the registry, less the ones the client filtered out; a
  name the registry has is listed once, with the registry's own tool, sanitized, whatever the page
  says of it; and a tool the client filtered out is refused when it is called.\<close>

theorem listing_agrees_with_dispatch:
  assumes "registry_ok (hd_registry E) (hs_registry s)" "hc_filter C = None" "hc_validator C = None"
    and "ctx1 = enrich_extensions (hd_headers E) C ctx"
    and "list_tools E inner C W c cursor ctx s = Some (Inr (listed, next_cursor), s1)"
    and "sh_list_tools inner cursor ctx1 (hs_world s) = (Inr (page, next_cursor), w)"
    and "hidden = resolve_query_filter (hd_url_decode E) (cx_parts ctx1)"
  shows "(n \<in> tl_name ` set listed \<longleftrightarrow>
       n \<notin> set hidden \<and> (n \<in> tl_name ` set page \<or> contains_tool (hs_registry s) n)) \<and>
    (\<forall>t h. hm_get (rg_tools (hs_registry s)) n = Some (t, h) \<longrightarrow> n \<notin> set hidden \<longrightarrow>
       filter (\<lambda>x. tl_name x = n) listed = [snd (sanitize_one (re_jtext (hd_registry E)) t)]) \<and>
    (n \<in> set hidden \<longrightarrow>
       (\<exists>e. handle_call_tool E inner C W c c_end \<lparr>tq_name = n, tq_arguments = args\<rparr> ctx s = Some (Inl e, None, s)))"
proof -
  let ?g = "hs_registry s" and ?sane = "\<lambda>t. snd (sanitize_one (re_jtext (hd_registry E)) t)"
  let ?merged = "filter (\<lambda>x. tl_name x \<notin> tl_name ` set (registry_tools ?g)) page @ registry_tools ?g"
  have listed: "listed = filter (\<lambda>t. tl_name t \<notin> set hidden) (map ?sane ?merged)"
    using assms(2,5,6) assms(4,7) [symmetric] sanitize_tool_schemas_fst [symmetric]
    by (auto simp: list_tools_def Let_def merge_registry_items_eq case_prod_unfold split: option.splits)
  have names: "tl_name ` set listed = tl_name ` set ?merged - set hidden"
    unfolding listed by (rule names_visible) simp
  have "tl_name ` set ?merged = tl_name ` set page \<union> tl_name ` set (registry_tools ?g)" by auto
  then have first: "n \<in> tl_name ` set listed \<longleftrightarrow>
       n \<notin> set hidden \<and> (n \<in> tl_name ` set page \<or> contains_tool ?g n)"
    unfolding names using registry_tools_names [OF assms(1), of n] by blast
  have second: "filter (\<lambda>x. tl_name x = n) listed = [?sane t]"
    if t: "hm_get (rg_tools ?g) n = Some (t, h)" "n \<notin> set hidden" for t h
  proof -
    have "n \<in> tl_name ` set (registry_tools ?g)"
      using t(1) registry_tools_names [OF assms(1)] by (simp add: contains_tool_def)
    then have "filter (\<lambda>x. tl_name x = n) ?merged = [t]"
      using registry_tools_unique [OF assms(1) t(1)] by (auto simp: filter_empty_conv)
    moreover have "filter (\<lambda>x. tl_name x = n) listed = map ?sane (filter (\<lambda>x. tl_name x = n) ?merged)"
      unfolding listed by (rule filter_visible) (simp_all add: t(2))
    ultimately show ?thesis by simp
  qed
  have third: "\<exists>e. handle_call_tool E inner C W c c_end \<lparr>tq_name = n, tq_arguments = args\<rparr> ctx s = Some (Inl e, None, s)"
    if "n \<in> set hidden"
    using that assms(3) assms(4,7) [symmetric] by (simp add: handle_call_tool_def authorize_call_def Let_def)
  show ?thesis using first second third by blast
qed

theorem listing_agrees_with_dispatch_witness:
  "\<exists>listed s1 e. list_tools sample_handler_env sample_inner (sample_handler_context None) sample_waiting sample_clock None
       (sample_context (Some ''filter=greet'')) sample_handler_state = Some (Inr (listed, None), s1) \<and>
     ''greet'' \<notin> tl_name ` set listed \<and>
     handle_call_tool sample_handler_env sample_inner (sample_handler_context None) sample_waiting sample_clock sample_clock
       \<lparr>tq_name = ''greet'', tq_arguments = None\<rparr> (sample_context (Some ''filter=greet'')) sample_handler_state =
       Some (Inl e, None, sample_handler_state)"
proof -
  let ?ctx = "sample_context (Some ''filter=greet'')"
  have i: "sh_list_tools sample_inner None ?ctx (hs_world sample_handler_state) = (Inr ([], None), 0)"
    by (simp add: sample_inner_def)
  obtain listed s1 where l: "list_tools sample_handler_env sample_inner (sample_handler_context None) sample_waiting
      sample_clock None ?ctx sample_handler_state = Some (Inr (listed, None), s1)"
    using i by (auto simp: list_tools_def Let_def case_prod_unfold)
  have f: "resolve_query_filter (hd_url_decode sample_handler_env) (cx_parts ?ctx) = [''greet'']"
    by (simp add: sample_context_def resolve_query_filter_def List.map_filter_def strip_prefix_def str_trim_def is_ws_def)
  have "''greet'' \<notin> tl_name ` set listed \<and>
     (\<exists>e. handle_call_tool sample_handler_env sample_inner (sample_handler_context None) sample_waiting sample_clock sample_clock
       \<lparr>tq_name = ''greet'', tq_arguments = None\<rparr> ?ctx sample_handler_state = Some (Inl e, None, sample_handler_state))"
    using listing_agrees_with_dispatch [where E = sample_handler_env and s = sample_handler_state and ctx = ?ctx and n = "''greet''", OF _ _ _ _ l _ f [symmetric]]
      hello_registry_ok i by simp
  with l show ?thesis by blast
qed

text \<open>C23. The identity a middleware established is the one the handler works with: of a request the
  bearer middleware forwarded, a handler, its validator and its tools find, in resource-server
  mode, the bearer that was validated as the credential and the session that was claimed for it;
  in opaque mode the session the opaque token stands for; in passthrough mode the session the
  bearer was looked up under.\<close>

theorem forwarded_identity_reaches_the_handler:
  assumes "bearer_auth_middleware A w c (strip_framework_session_header r) a = Some (Forward r', a')"
    and "extract_bearer (am_headers A) (headers r) = Some token" "header_ok (am_headers A)"
    and "parse_value (am_headers A) (credential_session_key (jwt (am_store A)) token) \<noteq> None"
    and "ext = Some \<lparr>pt_request = r', pt_query = q\<rparr>" "lk_headers L = am_headers A"
  shows "(am_token_mode A = ResourceServer \<longrightarrow>
       (\<exists>t. access_token t = token \<and> refresh_token t = None \<and> resolve_token L W c' ext s = Some (Some t, c', s)) \<and>
       (hdr_get (headers r) MCP_SESSION_ID_HEADER \<noteq> None \<longrightarrow>
          claim (am_bindings A) c (resolve_session_id (lk_headers L) ext) (credential_session_key (jwt (am_store A)) token)
            (au_bindings a) = (True, au_bindings a')) \<and>
       (hdr_get (headers r) MCP_SESSION_ID_HEADER = None \<longrightarrow>
          resolve_session_id (lk_headers L) ext = credential_session_key (jwt (am_store A)) token)) \<and>
    (am_token_mode A = Opaque \<longrightarrow>
       (\<exists>sid s1. resolve_opaque_access (am_store A) c token (au_store a) = (Some sid, s1) \<and>
          (parse_value (am_headers A) sid \<noteq> None \<longrightarrow> resolve_session_id (lk_headers L) ext = sid))) \<and>
    (am_token_mode A = Passthrough \<longrightarrow>
       (\<exists>r1. resolve_or_derive_session_id (am_headers A) (jwt (am_store A)) token (strip_framework_session_header r) =
          (resolve_session_id (lk_headers L) ext, r1)))"
proof (intro conjI impI)
  let ?r = "strip_framework_session_header r" and ?H = "am_headers A"
  have here: "resolve_session_id (lk_headers L) ext = session_id_from_parts ?H \<lparr>pt_request = r', pt_query = q\<rparr>"
    by (simp add: resolve_session_id_def assms(5,6))
  have same: "hdr_get (headers ?r) MCP_SESSION_ID_HEADER = hdr_get (headers r) MCP_SESSION_ID_HEADER"
    by (simp add: strip_framework_session_header_def)
  { assume "am_token_mode A = ResourceServer"
    with assms(1,2) have "authorize_as_resource_server A c token ?r a = (Forward r', a')"
      by (simp add: bearer_auth_middleware_def)
    note found = resource_server_identity [OF this _ assms(3,4) here, unfolded same, simplified]
    from found show "\<exists>t. access_token t = token \<and> refresh_token t = None \<and> resolve_token L W c' ext s = Some (Some t, c', s)"
      by (auto simp: resolve_token_def assms(5) transient_token_def)
    from found show "claim (am_bindings A) c (resolve_session_id (lk_headers L) ext) (credential_session_key (jwt (am_store A)) token)
            (au_bindings a) = (True, au_bindings a')" if "hdr_get (headers r) MCP_SESSION_ID_HEADER \<noteq> None"
      using that by blast
    from found show "resolve_session_id (lk_headers L) ext = credential_session_key (jwt (am_store A)) token"
      if "hdr_get (headers r) MCP_SESSION_ID_HEADER = None" using that by blast }
  { assume "am_token_mode A = Opaque"
    with assms(1,2) obtain st where "authorize_opaque A w c token ?r (au_store a) = Some (Forward r', st)"
      by (auto simp: bearer_auth_middleware_def)
    from opaque_identity [OF this assms(3), of q, folded here]
    show "\<exists>sid s1. resolve_opaque_access (am_store A) c token (au_store a) = (Some sid, s1) \<and>
        (parse_value ?H sid \<noteq> None \<longrightarrow> resolve_session_id (lk_headers L) ext = sid)" . }
  { assume "am_token_mode A = Passthrough"
    with assms(1,2) obtain st where p: "authorize_passthrough A w c token ?r (au_store a) = Some (Forward r', st)"
      by (auto simp: bearer_auth_middleware_def)
    show "\<exists>r1. resolve_or_derive_session_id ?H (jwt (am_store A)) token ?r = (resolve_session_id (lk_headers L) ext, r1)"
      unfolding here by (rule passthrough_identity [OF p strip_removes assms(3,4)]) }
qed

theorem forwarded_identity_reaches_the_handler_witness:
  "\<exists>r' a' t. bearer_auth_middleware (sample_auth ResourceServer) sample_waiting sample_clock
       (strip_framework_session_header (bearer_request ''abc'' [])) sample_auth_state = Some (Forward r', a') \<and>
     access_token t = ''abc'' \<and>
     resolve_token (hd_lookup sample_handler_env) sample_waiting sample_clock
       (Some \<lparr>pt_request = r', pt_query = None\<rparr>) keyed_store = Some (Some t, sample_clock, keyed_store)"
proof -
  have s: "strip_framework_session_header (bearer_request ''abc'' []) = bearer_request ''abc'' []"
    by (simp add: strip_framework_session_header_def bearer_request_def hdr_remove_def)
  obtain r' a' where f: "bearer_auth_middleware (sample_auth ResourceServer) sample_waiting sample_clock
       (strip_framework_session_header (bearer_request ''abc'' [])) sample_auth_state = Some (Forward r', a')"
    using sample_resource_server_forward [of "''abc''"] unfolding s by blast
  have "header_ok sample_headers" by (simp add: header_ok_def sample_headers_def)
  then show ?thesis
    using forwarded_identity_reaches_the_handler [OF f, where token = "''abc''" and L = "hd_lookup sample_handler_env"
        and W = sample_waiting and c' = sample_clock and s = keyed_store, OF _ _ _ refl] f
    by auto
qed

text \<open>C26. An in-process caller is who it connected as, and nobody else: after a successful connect, its
  calls run in its own session with the credential it presented then, and with none if it
  presented none, whatever the endpoint held for that session before; no other session's
  credential changes; in opaque mode no credential is accepted; a refused identity changes
  nothing.\<close>

theorem loopback_caller_is_who_connected:
  assumes "connect H L c ident handshake s = (res, s')" "header_ok H" "persistence (le_store_env L) = None"
    and "lk_headers K = H" "lk_store K = le_store_env L"
  shows "(\<forall>e. validate_identity H ident = Some e \<longrightarrow> res = Inl e \<and> s' = s) \<and>
    (\<forall>sid. sid \<noteq> li_session_id ident \<longrightarrow> hm_get (tokens (ls_tokens s')) sid = hm_get (tokens (ls_tokens s)) sid) \<and>
    ls_sessions s' = ls_sessions s \<and>
    (\<forall>C ext. res = Inr C \<longrightarrow> ext = cx_parts (enrich_extensions H C ctx) \<longrightarrow>
       resolve_session_id H ext = li_session_id ident \<and> li_session_id ident \<noteq> [] \<and>
       resolve_token K W c' ext (ls_tokens s') =
         Some (map_option (\<lambda>token. apply_decoder (le_store_env L) (stored_token_new token None None)) (li_bearer_token ident),
               c', ls_tokens s') \<and>
       (le_token_mode L = Opaque \<longrightarrow> li_bearer_token ident = None))"
proof (intro conjI allI impI)
  note after = connect_tokens [OF assms(1,3)]
  show "res = Inl e" "s' = s" if "validate_identity H ident = Some e" for e
    using assms(1) that by (auto simp: connect_def)
  show "hm_get (tokens (ls_tokens s')) sid = hm_get (tokens (ls_tokens s)) sid" if "sid \<noteq> li_session_id ident" for sid
    using after [of sid] that by blast
  show "ls_sessions s' = ls_sessions s" using after by blast
  fix C ext
  assume ext: "ext = cx_parts (enrich_extensions H C ctx)" and "res = Inr C"
  with after have ok: "validate_identity H ident = None" "hc_loopback C = Some ident"
      "\<not> (le_token_mode L = Opaque \<and> li_bearer_token ident \<noteq> None)"
      "hm_get (tokens (ls_tokens s')) (li_session_id ident) =
         map_option (\<lambda>token. apply_decoder (le_store_env L) (stored_token_new token None None)) (li_bearer_token ident)"
    by blast+
  then show "li_bearer_token ident = None" if "le_token_mode L = Opaque" using that by blast
  from validate_identity_None [OF ok(1)] obtain parts where parts: "build_parts H ident = Some parts"
      "li_session_id ident \<noteq> []" "li_token_ext ident = None" by blast
  have ext: "ext = Some parts" using ext enrich_loopback [OF ok(2) parts(1)] by simp
  note found = loopback_parts [OF assms(2) parts(1)]
  show sid: "resolve_session_id H ext = li_session_id ident" using ext found by (simp add: resolve_session_id_def)
  show "li_session_id ident \<noteq> []" by (rule parts(2))
  show "resolve_token K W c' ext (ls_tokens s') =
      Some (map_option (\<lambda>token. apply_decoder (le_store_env L) (stored_token_new token None None)) (li_bearer_token ident),
            c', ls_tokens s')"
    using ext found parts(3) sid ok(4) assms(3-5)
    by (cases "li_bearer_token ident") (simp_all add: resolve_token_def get_token_unexpiring get_token_unknown stored_token_new_def)
qed

theorem loopback_caller_is_who_connected_witness:
  "\<exists>C s'. connect sample_headers sample_loopback sample_clock (loopback_identity_new ''job'') True privileged_loopback = (Inr C, s') \<and>
     resolve_token \<lparr>lk_headers = sample_headers, lk_store = le_store_env sample_loopback, lk_post = sample_post\<rparr> sample_waiting
       sample_clock (cx_parts (enrich_extensions sample_headers C (sample_context None))) (ls_tokens s') =
       Some (None, sample_clock, ls_tokens s')"
proof -
  let ?i = "loopback_identity_new ''job'' :: string loopback_identity"
  let ?K = "\<lparr>lk_headers = sample_headers, lk_store = le_store_env sample_loopback, lk_post = sample_post\<rparr>"
  obtain s' where c: "connect sample_headers sample_loopback sample_clock ?i True privileged_loopback =
      (Inr (loopback_context sample_loopback ?i), s')"
    by (simp add: connect_def validate_identity_def loopback_identity_new_def build_parts_def sample_headers_def Let_def)
  have "header_ok sample_headers" by (simp add: header_ok_def sample_headers_def)
  moreover have "persistence (le_store_env sample_loopback) = None" by (simp add: sample_loopback_def builder_loopback_def Let_def)
  moreover have "li_bearer_token ?i = None" by (simp add: loopback_identity_new_def)
  ultimately show ?thesis using loopback_caller_is_who_connected [OF c, of ?K "sample_context None" sample_waiting sample_clock] c by simp
qed

end
