(* ===== verification/Metrics.thy ===== *)
theory Metrics
  imports Tool_Audit Redirect Complex_Main "HOL-Library.Product_Lexorder"
begin

text \<open>
  The metrics of tool calls, \<open>src/src/metrics\<close>: the fixed-bucket histogram (\<open>histogram.rs\<close>), the
  collector with its per-tool and per-session counters, its snapshot and its Prometheus text
  (\<open>collector.rs\<close>), its configuration (\<open>config.rs\<close>) and the endpoint (\<open>endpoint.rs\<close>). Latencies and
  bounds are real numbers: the rounding of \<open>f64\<close> is not modelled. Counters are natural numbers, a \<open>u64\<close>
  that counts calls does not overflow. How the library reads and prints a floating point number
  is an argument.
\<close>

section \<open>The histogram\<close>

record histogram =
  hg_bounds :: "real list"
  hg_counts :: "nat list"
  hg_sum_ms :: real
  hg_count :: nat

definition histogram_new :: "real list \<Rightarrow> histogram" where
  "histogram_new bounds =
     \<lparr>hg_bounds = bounds, hg_counts = replicate (length bounds + 1) 0, hg_sum_ms = 0, hg_count = 0\<rparr>"

text \<open>The position of the first bound that is not exceeded, or the number of bounds.\<close>

definition bucket_index :: "real list \<Rightarrow> real \<Rightarrow> nat" where
  "bucket_index bounds ms = length (takeWhile (\<lambda>b. \<not> ms \<le> b) bounds)"

definition observe :: "real \<Rightarrow> histogram \<Rightarrow> histogram" where
  "observe ms h =
     (let idx = bucket_index (hg_bounds h) ms
      in h\<lparr>hg_counts := (hg_counts h)[idx := hg_counts h ! idx + 1],
           hg_sum_ms := hg_sum_ms h + ms, hg_count := hg_count h + 1\<rparr>)"

definition mean_ms :: "histogram \<Rightarrow> real" where
  "mean_ms h = (if hg_count h = 0 then 0 else hg_sum_ms h / real (hg_count h))"

text \<open>
  The loop of \<open>quantile\<close> over the buckets: \<open>i\<close> is the position, \<open>cumulative\<close> the observations
  before it; \<open>None\<close> when no bucket holds the rank.
\<close>

fun quantile_scan :: "real \<Rightarrow> real list \<Rightarrow> nat \<Rightarrow> nat \<Rightarrow> nat list \<Rightarrow> real option" where
  "quantile_scan rank bounds i cumulative [] = None"
| "quantile_scan rank bounds i cumulative (bucket_count # rest) =
     (let next_cumulative = cumulative + bucket_count
      in if real next_cumulative \<ge> rank \<and> bucket_count > 0 then
           (let lower = (if i = 0 then 0 else bounds ! (i - 1))
            in if i < length bounds then
                 (let upper = bounds ! i;
                      pos_in_bucket = rank - real cumulative;
                      frac = pos_in_bucket / real bucket_count
                  in Some (lower + frac * (upper - lower)))
               else Some lower)
         else quantile_scan rank bounds (i + 1) next_cumulative rest)"

definition quantile :: "histogram \<Rightarrow> real \<Rightarrow> real" where
  "quantile h q =
     (if hg_count h = 0 then 0
      else (let rank = q * real (hg_count h)
            in case quantile_scan rank (hg_bounds h) 0 0 (hg_counts h) of
                 Some v \<Rightarrow> v
               | None \<Rightarrow> if hg_bounds h = [] then 0 else last (hg_bounds h)))"

fun cumulate :: "nat \<Rightarrow> real list \<Rightarrow> nat list \<Rightarrow> (real \<times> nat) list" where
  "cumulate cumulative (bound # bounds) (n # counts) =
     (bound, cumulative + n) # cumulate (cumulative + n) bounds counts"
| "cumulate cumulative bounds counts = []"

definition cumulative_buckets :: "histogram \<Rightarrow> (real \<times> nat) list" where
  "cumulative_buckets h = cumulate 0 (hg_bounds h) (hg_counts h)"

section \<open>Configuration\<close>

text \<open>A configured bound is any \<open>f64\<close>, also one that is not a number.\<close>

datatype f64 = Finite real | PosInf | NegInf | NaN

definition DEFAULT_METRICS_PATH :: string where "DEFAULT_METRICS_PATH = ''/metrics''"
definition DEFAULT_METRICS_NAMESPACE :: string where "DEFAULT_METRICS_NAMESPACE = ''mcp''"
definition DEFAULT_METRICS_MAX_SESSIONS :: nat where "DEFAULT_METRICS_MAX_SESSIONS = 10000"
definition DEFAULT_METRICS_MAX_TOOLS :: nat where "DEFAULT_METRICS_MAX_TOOLS = 1000"
definition DEFAULT_METRICS_LATENCY_BUCKETS_MS :: "real list" where
  "DEFAULT_METRICS_LATENCY_BUCKETS_MS = [1, 5, 10, 25, 50, 100, 250, 500, 1000, 2500, 5000, 10000]"

record metrics_config =
  mc_latency_buckets_ms :: "f64 list"
  mc_track_sessions :: bool
  mc_max_sessions :: nat
  mc_max_tools :: nat
  mc_endpoint_path :: "string option"
  mc_namespace :: string

definition metrics_config_default :: metrics_config where
  "metrics_config_default =
     \<lparr>mc_latency_buckets_ms = map Finite DEFAULT_METRICS_LATENCY_BUCKETS_MS, mc_track_sessions = True,
      mc_max_sessions = DEFAULT_METRICS_MAX_SESSIONS, mc_max_tools = DEFAULT_METRICS_MAX_TOOLS,
      mc_endpoint_path = Some DEFAULT_METRICS_PATH, mc_namespace = DEFAULT_METRICS_NAMESPACE\<rparr>"

text \<open>\<open>str::parse::<usize>\<close>: decimal digits after an optional plus sign, in 64 bits.\<close>

definition digit_value :: "char \<Rightarrow> nat option" where
  "digit_value ch = (if 48 \<le> (of_char ch :: nat) \<and> of_char ch \<le> (57 :: nat) then Some (of_char ch - 48) else None)"

fun parse_digits :: "nat \<Rightarrow> string \<Rightarrow> nat option" where
  "parse_digits acc [] = Some acc"
| "parse_digits acc (ch # s) =
     (case digit_value ch of Some d \<Rightarrow> parse_digits (10 * acc + d) s | None \<Rightarrow> None)"

definition parse_usize :: "string \<Rightarrow> nat option" where
  "parse_usize s =
     (let digits = (case strip_prefix ''+'' s of Some r \<Rightarrow> r | None \<Rightarrow> s)
      in if digits = [] then None
         else (case parse_digits 0 digits of Some n \<Rightarrow> if n < 2 ^ 64 then Some n else None | None \<Rightarrow> None))"

definition usable_bound :: "f64 \<Rightarrow> bool" where
  "usable_bound v = (case v of Finite x \<Rightarrow> x > 0 | _ \<Rightarrow> False)"

definition metrics_config_from_env :: "(string \<Rightarrow> f64 option) \<Rightarrow> env_var \<Rightarrow> metrics_config" where
  "metrics_config_from_env parse_f64 env =
     (let cfg = metrics_config_default;
          cfg = (case env ''MCP_METRICS_PATH'' of
              Some path \<Rightarrow>
                (let trimmed = str_trim path
                 in cfg\<lparr>mc_endpoint_path :=
                      if trimmed = [] \<or> eq_ignore_ascii_case trimmed ''off'' then None else Some trimmed\<rparr>)
            | None \<Rightarrow> cfg);
          cfg = (case env ''MCP_METRICS_NAMESPACE'' of
              Some ns \<Rightarrow> if str_trim ns \<noteq> [] then cfg\<lparr>mc_namespace := str_trim ns\<rparr> else cfg
            | None \<Rightarrow> cfg);
          cfg = (case env ''MCP_METRICS_TRACK_SESSIONS'' of
              Some track \<Rightarrow>
                cfg\<lparr>mc_track_sessions :=
                  map ascii_lower (str_trim track) \<notin> {''false'', ''0'', ''off'', ''no''}\<rparr>
            | None \<Rightarrow> cfg);
          cfg = (case env ''MCP_METRICS_MAX_SESSIONS'' of
              Some m \<Rightarrow> (case parse_usize (str_trim m) of Some n \<Rightarrow> cfg\<lparr>mc_max_sessions := n\<rparr> | None \<Rightarrow> cfg)
            | None \<Rightarrow> cfg)
      in case env ''MCP_METRICS_BUCKETS_MS'' of
           Some buckets \<Rightarrow>
             (let parsed = filter usable_bound
                    (List.map_filter (\<lambda>s. parse_f64 (str_trim s)) (split_on (CHR '','') buckets))
              in if parsed \<noteq> [] then cfg\<lparr>mc_latency_buckets_ms := parsed\<rparr> else cfg)
         | None \<Rightarrow> cfg)"

text \<open>What \<open>retain\<close>, \<open>sort_by\<close> and \<open>dedup\<close> make of the configured bounds.\<close>

definition finite_bounds :: "f64 list \<Rightarrow> real list" where
  "finite_bounds vs = List.map_filter (\<lambda>v. case v of Finite x \<Rightarrow> if x > 0 then Some x else None | _ \<Rightarrow> None) vs"

definition sorted_bounds :: "metrics_config \<Rightarrow> real list" where
  "sorted_bounds cfg =
     (let bounds = remdups_adj (sort (finite_bounds (mc_latency_buckets_ms cfg)))
      in if bounds = [] then DEFAULT_METRICS_LATENCY_BUCKETS_MS else bounds)"

section \<open>The collector\<close>

record tool_stats =
  ts_success :: nat
  ts_tool_error :: nat
  ts_mcp_error :: nat
  ts_latency :: histogram

definition tool_stats_new :: "real list \<Rightarrow> tool_stats" where
  "tool_stats_new bounds =
     \<lparr>ts_success = 0, ts_tool_error = 0, ts_mcp_error = 0, ts_latency = histogram_new bounds\<rparr>"

definition tool_calls :: "tool_stats \<Rightarrow> nat" where
  "tool_calls s = ts_success s + ts_tool_error s + ts_mcp_error s"

definition tool_errors :: "tool_stats \<Rightarrow> nat" where
  "tool_errors s = ts_tool_error s + ts_mcp_error s"

datatype metric_outcome = CallSuccess | CallToolError | CallMcpError

definition classify :: "tool_call_outcome \<Rightarrow> metric_outcome" where
  "classify oc =
     (case oc of
        Success is_error summary \<Rightarrow> if is_error then CallToolError else CallSuccess
      | McpFailure code message \<Rightarrow> CallMcpError)"

record session_stats =
  sn_success :: nat
  sn_errors :: nat
  sn_per_tool :: "(string \<times> nat) list"

definition session_stats_default :: session_stats where
  "session_stats_default = \<lparr>sn_success = 0, sn_errors = 0, sn_per_tool = []\<rparr>"

definition session_calls :: "session_stats \<Rightarrow> nat" where
  "session_calls s = sn_success s + sn_errors s"

record metrics_inner =
  mi_tools :: "(string \<times> tool_stats) list"
  mi_sessions :: "(string \<times> session_stats) list"

record metrics_collector =
  co_config :: metrics_config
  co_bounds :: "real list"
  co_started_at :: instant
  co_inner :: metrics_inner

definition collector_new :: "instant \<Rightarrow> metrics_config \<Rightarrow> metrics_collector" where
  "collector_new now cfg =
     \<lparr>co_config = cfg, co_bounds = sorted_bounds cfg, co_started_at = now,
      co_inner = \<lparr>mi_tools = [], mi_sessions = []\<rparr>\<rparr>"

definition endpoint_path :: "metrics_collector \<Rightarrow> string option" where
  "endpoint_path C = mc_endpoint_path (co_config C)"

text \<open>The duration of a record in milliseconds.\<close>

definition latency_ms :: "tool_call_record \<Rightarrow> real" where
  "latency_ms r = real (tcr_duration r) / 1000000000 * 1000"

definition count_tool :: "metric_outcome \<Rightarrow> real \<Rightarrow> tool_stats \<Rightarrow> tool_stats" where
  "count_tool oc ms s =
     (let s1 = (case oc of
            CallSuccess \<Rightarrow> s\<lparr>ts_success := ts_success s + 1\<rparr>
          | CallToolError \<Rightarrow> s\<lparr>ts_tool_error := ts_tool_error s + 1\<rparr>
          | CallMcpError \<Rightarrow> s\<lparr>ts_mcp_error := ts_mcp_error s + 1\<rparr>)
      in s1\<lparr>ts_latency := observe ms (ts_latency s1)\<rparr>)"

definition count_session :: "metric_outcome \<Rightarrow> string \<Rightarrow> session_stats \<Rightarrow> session_stats" where
  "count_session oc tool s =
     (let s1 = (case oc of
            CallSuccess \<Rightarrow> s\<lparr>sn_success := sn_success s + 1\<rparr>
          | _ \<Rightarrow> s\<lparr>sn_errors := sn_errors s + 1\<rparr>)
      in case hm_get (sn_per_tool s1) tool of
           Some n \<Rightarrow> s1\<lparr>sn_per_tool := hm_insert tool (n + 1) (sn_per_tool s1)\<rparr>
         | None \<Rightarrow> s1\<lparr>sn_per_tool := hm_insert tool 1 (sn_per_tool s1)\<rparr>)"

text \<open>
  A key that is known, or for which there is room, is created when it is new and then updated;
  any other key is dropped.
\<close>

definition update_capped :: "nat \<Rightarrow> 'v \<Rightarrow> ('v \<Rightarrow> 'v) \<Rightarrow> string \<Rightarrow> (string \<times> 'v) list \<Rightarrow> (string \<times> 'v) list" where
  "update_capped cap fresh f key m =
     (let known = hm_get m key \<noteq> None
      in if known \<or> length m < cap then
           (let m1 = (if known then m else hm_insert key fresh m)
            in case hm_get m1 key of Some v \<Rightarrow> hm_insert key (f v) m1 | None \<Rightarrow> m1)
         else m)"

definition record_call :: "tool_call_record \<Rightarrow> metrics_collector \<Rightarrow> metrics_collector" where
  "record_call r C =
     (let ms = latency_ms r;
          oc = classify (tcr_outcome r);
          cfg = co_config C;
          inner = co_inner C;
          tools' = update_capped (mc_max_tools cfg) (tool_stats_new (co_bounds C)) (count_tool oc ms)
                     (tcr_tool_name r) (mi_tools inner);
          sessions' = (if mc_track_sessions cfg then
              update_capped (mc_max_sessions cfg) session_stats_default (count_session oc (tcr_tool_name r))
                (tcr_session_id r) (mi_sessions inner)
            else mi_sessions inner)
      in C\<lparr>co_inner := \<lparr>mi_tools = tools', mi_sessions = sessions'\<rparr>\<rparr>)"

text \<open>The collector as a logger of a world that holds it.\<close>

definition metrics_logger :: "metrics_collector tool_call_logger" where
  "metrics_logger = sync_logger record_call"

section \<open>Snapshots\<close>

record tool_metrics =
  tm_tool :: string
  tm_calls :: nat
  tm_success :: nat
  tm_tool_error :: nat
  tm_mcp_error :: nat
  tm_success_rate :: real
  tm_error_rate :: real
  tm_avg_ms :: real
  tm_p50_ms :: real
  tm_p95_ms :: real
  tm_p99_ms :: real

record session_metrics =
  sm_session_id :: string
  sm_calls :: nat
  sm_errors :: nat
  sm_error_rate :: real
  sm_tools :: "(string \<times> nat) list"

record metrics_snapshot =
  sp_uptime_secs :: nat
  sp_total_calls :: nat
  sp_tools :: "tool_metrics list"
  sp_sessions :: "session_metrics list"

definition tool_metrics_of :: "string \<times> tool_stats \<Rightarrow> tool_metrics" where
  "tool_metrics_of = (\<lambda>(name, s).
     let calls = tool_calls s; denom = real (max calls 1)
     in \<lparr>tm_tool = name, tm_calls = calls, tm_success = ts_success s, tm_tool_error = ts_tool_error s,
         tm_mcp_error = ts_mcp_error s, tm_success_rate = real (ts_success s) / denom,
         tm_error_rate = real (tool_errors s) / denom, tm_avg_ms = mean_ms (ts_latency s),
         tm_p50_ms = quantile (ts_latency s) (50 / 100), tm_p95_ms = quantile (ts_latency s) (95 / 100),
         tm_p99_ms = quantile (ts_latency s) (99 / 100)\<rparr>)"

definition session_metrics_of :: "string \<times> session_stats \<Rightarrow> session_metrics" where
  "session_metrics_of = (\<lambda>(sid, s).
     let calls = session_calls s; denom = real (max calls 1)
     in \<lparr>sm_session_id = sid, sm_calls = calls, sm_errors = sn_errors s,
         sm_error_rate = real (sn_errors s) / denom, sm_tools = sn_per_tool s\<rparr>)"

definition snapshot :: "instant \<Rightarrow> metrics_collector \<Rightarrow> metrics_snapshot" where
  "snapshot now C =
     (let tools = sort_key (\<lambda>t. (- int (tm_calls t), tm_tool t)) (map tool_metrics_of (mi_tools (co_inner C)));
          sessions = sort_key (\<lambda>s. (- int (sm_calls s), sm_session_id s))
            (map session_metrics_of (mi_sessions (co_inner C)))
      in \<lparr>sp_uptime_secs = (now - co_started_at C) div 1000000000,
          sp_total_calls = sum_list (map tm_calls tools), sp_tools = tools, sp_sessions = sessions\<rparr>)"

section \<open>Prometheus text\<close>

fun show_nat :: "nat \<Rightarrow> string" where
  "show_nat n = (if n < 10 then [char_of (48 + n)] else show_nat (n div 10) @ [char_of (48 + n mod 10)])"

declare show_nat.simps [simp del]

definition show_int :: "int \<Rightarrow> string" where
  "show_int i = (if i < 0 then CHR ''-'' # show_nat (nat (- i)) else show_nat (nat i))"

definition escape_label :: "string \<Rightarrow> string" where
  "escape_label s =
     replace_char (CHR 0x0A) [CHR 0x5C, CHR ''n'']
       (replace_char (CHR 0x22) [CHR 0x5C, CHR 0x22]
         (replace_char (CHR 0x5C) [CHR 0x5C, CHR 0x5C] s))"

text \<open>An integral value is cast to an \<open>i64\<close>, which saturates.\<close>

definition format_float :: "(real \<Rightarrow> string) \<Rightarrow> real \<Rightarrow> string" where
  "format_float print_f64 v =
     (if v = real_of_int \<lfloor>v\<rfloor> then show_int (max (- (2 ^ 63)) (min (2 ^ 63 - 1) \<lfloor>v\<rfloor>)) else print_f64 v)"

definition newline :: string where "newline = [CHR 0x0A]"
definition dquote :: string where "dquote = [CHR 0x22]"

definition outcome_line :: "string \<Rightarrow> string \<Rightarrow> string \<Rightarrow> nat \<Rightarrow> string" where
  "outcome_line ns tool oc n =
     ns @ ''_tool_calls_total{tool='' @ dquote @ tool @ dquote @ '',outcome='' @ dquote @ oc @ dquote @ ''} ''
       @ show_nat n @ newline"

definition counter_lines :: "string \<Rightarrow> string \<times> tool_stats \<Rightarrow> string" where
  "counter_lines ns = (\<lambda>(name, s).
     let tool = escape_label name
     in outcome_line ns tool ''success'' (ts_success s) @ outcome_line ns tool ''tool_error'' (ts_tool_error s)
        @ outcome_line ns tool ''mcp_error'' (ts_mcp_error s))"

definition bucket_line :: "string \<Rightarrow> string \<Rightarrow> string \<Rightarrow> nat \<Rightarrow> string" where
  "bucket_line ns tool le n =
     ns @ ''_tool_call_duration_ms_bucket{tool='' @ dquote @ tool @ dquote @ '',le='' @ dquote @ le @ dquote @ ''} ''
       @ show_nat n @ newline"

definition histogram_lines :: "(real \<Rightarrow> string) \<Rightarrow> string \<Rightarrow> string \<times> tool_stats \<Rightarrow> string" where
  "histogram_lines print_f64 ns = (\<lambda>(name, s).
     let tool = escape_label name; h = ts_latency s
     in concat (map (\<lambda>(bound, cumulative). bucket_line ns tool (format_float print_f64 bound) cumulative)
          (cumulative_buckets h))
        @ bucket_line ns tool ''+Inf'' (hg_count h)
        @ ns @ ''_tool_call_duration_ms_sum{tool='' @ dquote @ tool @ dquote @ ''} ''
          @ format_float print_f64 (hg_sum_ms h) @ newline
        @ ns @ ''_tool_call_duration_ms_count{tool='' @ dquote @ tool @ dquote @ ''} ''
          @ show_nat (hg_count h) @ newline)"

definition series_header :: "string \<Rightarrow> string \<Rightarrow> string \<Rightarrow> string" where
  "series_header name help kind =
     ''# HELP '' @ name @ '' '' @ help @ newline @ ''# TYPE '' @ name @ '' '' @ kind @ newline"

definition render_prometheus :: "(real \<Rightarrow> string) \<Rightarrow> metrics_collector \<Rightarrow> string" where
  "render_prometheus print_f64 C =
     (let ns = mc_namespace (co_config C); inner = co_inner C
      in series_header (ns @ ''_tool_calls_total'') ''Total tool calls by outcome.'' ''counter''
         @ concat (map (counter_lines ns) (mi_tools inner))
         @ series_header (ns @ ''_tool_call_duration_ms'') ''Tool call latency in milliseconds.'' ''histogram''
         @ concat (map (histogram_lines print_f64 ns) (mi_tools inner))
         @ series_header (ns @ ''_active_sessions'') ''Number of sessions currently tracked.'' ''gauge''
         @ ns @ ''_active_sessions '' @ show_nat (length (mi_sessions inner)) @ newline)"

section \<open>The endpoint\<close>

datatype metrics_answer =
    SnapshotJson metrics_snapshot
  | PlainText (mt_content_type: string) (mt_body: string)

definition serve_metrics :: "(real \<Rightarrow> string) \<Rightarrow> instant \<Rightarrow> metrics_collector \<Rightarrow> string option \<Rightarrow> metrics_answer" where
  "serve_metrics print_f64 now C format =
     (if format = Some ''json'' then SnapshotJson (snapshot now C)
      else PlainText ''text/plain; version=0.0.4'' (render_prometheus print_f64 C))"

text \<open>The one route of the metrics router, and its handler.\<close>

definition metrics_router :: "(real \<Rightarrow> string) \<Rightarrow> metrics_collector \<Rightarrow>
    (string \<times> (instant \<Rightarrow> metrics_collector \<Rightarrow> string option \<Rightarrow> metrics_answer)) option" where
  "metrics_router print_f64 C = map_option (\<lambda>path. (path, serve_metrics print_f64)) (endpoint_path C)"

end
