(* ===== verification/Metrics_Facts.thy ===== *)
theory Metrics_Facts
  imports Metrics
begin

text \<open>
  Facts about the metrics: what a bounded table of counters holds after a sequence of records, the
  counters as tallies of the records, and where a quantile lies. The tallies are the reference the
  collector is compared with.
\<close>

section \<open>The keys a bounded table keeps\<close>

text \<open>The distinct elements of a list in the order in which they first occur.\<close>

definition first_seen :: "'a list \<Rightarrow> 'a list" where
  "first_seen xs = rev (remdups (rev xs))"

lemma first_seen_Nil [simp]: "first_seen [] = []"
  by (simp add: first_seen_def)

lemma first_seen_snoc: "first_seen (xs @ [x]) = (if x \<in> set xs then first_seen xs else first_seen xs @ [x])"
  by (simp add: first_seen_def)

lemma set_first_seen [simp]: "set (first_seen xs) = set xs"
  by (simp add: first_seen_def)

lemma distinct_first_seen [simp]: "distinct (first_seen xs)"
  by (simp add: first_seen_def)

lemma hm_get_tabulate: "hm_get (map (\<lambda>k. (k, g k)) ks) key = (if key \<in> set ks then Some (g key) else None)"
  by (induction ks) auto

lemma hm_insert_tabulate:
  "key \<in> set ks \<Longrightarrow> distinct ks \<Longrightarrow>
     hm_insert key v (map (\<lambda>k. (k, g k)) ks) = map (\<lambda>k. (k, if k = key then v else g k)) ks"
  by (induction ks) auto

lemma hm_insert_new: "key \<notin> fst ` set m \<Longrightarrow> hm_insert key v m = m @ [(key, v)]"
proof (induction m)
  case (Cons p m)
  then show ?case by (cases p) auto
qed simp

lemma hm_insert_tabulate_new:
  "key \<notin> set ks \<Longrightarrow> hm_insert key v (map (\<lambda>k. (k, g k)) ks) = map (\<lambda>k. (k, if k = key then v else g k)) (ks @ [key])"
  by (subst hm_insert_new) auto

lemma update_capped_known:
  assumes "key \<in> set ks" "distinct ks"
  shows "update_capped cap fresh f key (map (\<lambda>k. (k, g k)) ks) = map (\<lambda>k. (k, if k = key then f (g k) else g k)) ks"
  using assms by (simp add: update_capped_def Let_def hm_get_tabulate hm_insert_tabulate cong: map_cong)

lemma update_capped_new:
  assumes "key \<notin> set ks" "distinct ks" "length ks < cap"
  shows "update_capped cap fresh f key (map (\<lambda>k. (k, g k)) ks) =
    map (\<lambda>k. (k, if k = key then f fresh else g k)) (ks @ [key])"
proof -
  have first: "hm_insert key fresh (map (\<lambda>k. (k, g k)) ks) =
      map (\<lambda>k. (k, if k = key then fresh else g k)) (ks @ [key])"
    using assms(1) by (rule hm_insert_tabulate_new)
  have again: "hm_insert key (f fresh) (map (\<lambda>k. (k, if k = key then fresh else g k)) (ks @ [key])) =
      map (\<lambda>k. (k, if k = key then f fresh else if k = key then fresh else g k)) (ks @ [key])"
    using assms(1,2) by (intro hm_insert_tabulate) auto
  have found: "hm_get (map (\<lambda>k. (k, if k = key then fresh else g k)) (ks @ [key])) key = Some fresh"
    by (subst hm_get_tabulate) simp
  show ?thesis
    using assms again by (simp add: update_capped_def Let_def hm_get_tabulate first found del: map_append cong: map_cong)
qed

lemma update_capped_full:
  assumes "key \<notin> set ks" "\<not> length ks < cap"
  shows "update_capped cap fresh f key (map (\<lambda>k. (k, g k)) ks) = map (\<lambda>k. (k, g k)) ks"
  using assms by (simp add: update_capped_def Let_def hm_get_tabulate)

text \<open>
  After a sequence of updates the table holds the first \<open>cap\<close> keys that occurred, each with
  all of its own updates and nothing else.
\<close>

lemma update_capped_run:
  "fold (\<lambda>r. update_capped cap fresh (f r) (key r)) rs [] =
     map (\<lambda>k. (k, fold f (filter (\<lambda>r. key r = k) rs) fresh)) (take cap (first_seen (map key rs)))"
proof (induction rs rule: rev_induct)
  case Nil
  then show ?case by simp
next
  case (snoc r rs)
  let ?seen = "first_seen (map key rs)" and ?new = "first_seen (map key (rs @ [r]))"
  let ?g = "\<lambda>rs k. fold f (filter (\<lambda>r. key r = k) rs) fresh"
  have dist: "distinct (take cap ?seen)" by simp
  have step: "?g (rs @ [r]) k = (if k = key r then f r (?g rs k) else ?g rs k)" for k
    by simp
  consider (known) "key r \<in> set (take cap ?seen)"
    | (room) "key r \<notin> set (take cap ?seen)" "length (take cap ?seen) < cap"
    | (full) "key r \<notin> set (take cap ?seen)" "\<not> length (take cap ?seen) < cap" by blast
  then show ?case
  proof cases
    case known
    then have "key r \<in> set (map key rs)" by (metis set_first_seen in_set_takeD)
    then have "?new = ?seen" by (simp add: first_seen_snoc)
    then show ?thesis using known dist by (simp add: snoc.IH update_capped_known step cong: map_cong if_cong)
  next
    case room
    then have all: "take cap ?seen = ?seen" by simp
    with room(1) have fresh_key: "key r \<notin> set (map key rs)" by (metis set_first_seen)
    then have "?new = ?seen @ [key r]" by (simp add: first_seen_snoc)
    moreover have "?g rs (key r) = fresh"
      using fresh_key by (auto simp: filter_empty_conv image_iff intro: arg_cong [where f = "\<lambda>xs. fold f xs fresh"])
        (metis (mono_tags, lifting) filter_False fold_simps(1))
    moreover have "take cap (?seen @ [key r]) = ?seen @ [key r]" using room all by simp
    ultimately show ?thesis
      using room dist all by (simp add: snoc.IH update_capped_new step cong: map_cong if_cong)
  next
    case full
    have keys: "take cap ?new = take cap ?seen" using full(2) by (simp add: first_seen_snoc)
    moreover have "?g (rs @ [r]) k = ?g rs k" if "k \<in> set (take cap ?seen)" for k
      using that full(1) by auto
    ultimately show ?thesis using full by (simp add: snoc.IH update_capped_full cong: map_cong)
  qed
qed

section \<open>Tallies\<close>

definition tally_histogram :: "real list \<Rightarrow> real list \<Rightarrow> histogram" where
  "tally_histogram bounds xs =
     \<lparr>hg_bounds = bounds,
      hg_counts = map (\<lambda>i. length (filter (\<lambda>x. bucket_index bounds x = i) xs)) [0..<length bounds + 1],
      hg_sum_ms = sum_list xs, hg_count = length xs\<rparr>"

definition with_outcome :: "metric_outcome \<Rightarrow> tool_call_record list \<Rightarrow> nat" where
  "with_outcome oc rs = length (filter (\<lambda>r. classify (tcr_outcome r) = oc) rs)"

definition tally_tool :: "real list \<Rightarrow> tool_call_record list \<Rightarrow> tool_stats" where
  "tally_tool bounds rs =
     \<lparr>ts_success = with_outcome CallSuccess rs, ts_tool_error = with_outcome CallToolError rs,
      ts_mcp_error = with_outcome CallMcpError rs,
      ts_latency = tally_histogram bounds (map latency_ms rs)\<rparr>"

definition tally_session :: "tool_call_record list \<Rightarrow> session_stats" where
  "tally_session rs =
     \<lparr>sn_success = with_outcome CallSuccess rs,
      sn_errors = with_outcome CallToolError rs + with_outcome CallMcpError rs,
      sn_per_tool = map (\<lambda>t. (t, length (filter (\<lambda>r. tcr_tool_name r = t) rs))) (first_seen (map tcr_tool_name rs))\<rparr>"

lemma bucket_index_le: "bucket_index bounds x \<le> length bounds"
  by (simp add: bucket_index_def length_takeWhile_le)

lemma observe_run: "fold observe xs (histogram_new bounds) = tally_histogram bounds xs"
proof (induction xs rule: rev_induct)
  case Nil
  show ?case by (simp add: histogram_new_def tally_histogram_def map_replicate_trivial replicate_append_same)
next
  case (snoc x xs)
  let ?n = "length bounds + 1"
  let ?c = "\<lambda>xs i. length (filter (\<lambda>x. bucket_index bounds x = i) xs)"
  have i: "bucket_index bounds x < ?n" using bucket_index_le [of bounds x] by simp
  have "(map (?c xs) [0..<?n]) [bucket_index bounds x := map (?c xs) [0..<?n] ! bucket_index bounds x + 1]
      = map (?c (xs @ [x])) [0..<?n]"
    by (rule nth_equalityI) (use i in \<open>auto simp: nth_list_update simp del: upt_Suc\<close>)
  with snoc show ?case
    by (simp add: observe_def tally_histogram_def Let_def del: upt_Suc)
qed

lemma count_tool_run:
  "fold (\<lambda>r. count_tool (classify (tcr_outcome r)) (latency_ms r)) rs (tool_stats_new bounds) = tally_tool bounds rs"
proof (induction rs rule: rev_induct)
  case Nil
  show ?case using observe_run [of "[]" bounds]
    by (simp add: tool_stats_new_def tally_tool_def with_outcome_def)
next
  case (snoc r rs)
  have "observe (latency_ms r) (tally_histogram bounds (map latency_ms rs)) = tally_histogram bounds (map latency_ms rs @ [latency_ms r])"
    by (simp add: observe_run [symmetric])
  with snoc show ?case
    by (cases "classify (tcr_outcome r)") (simp_all add: count_tool_def tally_tool_def with_outcome_def Let_def)
qed

lemma hm_get_per_tool:
  "hm_get (sn_per_tool (tally_session rs)) t =
     (if t \<in> tcr_tool_name ` set rs then Some (length (filter (\<lambda>r. tcr_tool_name r = t) rs)) else None)"
  by (simp add: tally_session_def hm_get_tabulate)

lemma per_tool_step:
  "hm_insert t (length (filter (\<lambda>r. tcr_tool_name r = t) rs) + 1) (sn_per_tool (tally_session rs)) =
     map (\<lambda>t'. (t', length (filter (\<lambda>r. tcr_tool_name r = t') rs) + (if t' = t then 1 else 0)))
       (if t \<in> tcr_tool_name ` set rs then first_seen (map tcr_tool_name rs)
        else first_seen (map tcr_tool_name rs) @ [t])"
proof (cases "t \<in> tcr_tool_name ` set rs")
  case True
  then show ?thesis by (auto simp: tally_session_def hm_insert_tabulate)
next
  case False
  then have t: "t \<notin> set (first_seen (map tcr_tool_name rs))" by simp
  have none: "length (filter (\<lambda>r. tcr_tool_name r = t) rs) = 0" using False by (force simp: filter_empty_conv)
  show ?thesis
    unfolding tally_session_def session_stats.simps hm_insert_tabulate_new [OF t] none
    using False none by (auto intro!: map_cong)
qed

lemma count_session_run:
  "fold (\<lambda>r. count_session (classify (tcr_outcome r)) (tcr_tool_name r)) rs session_stats_default = tally_session rs"
proof (induction rs rule: rev_induct)
  case Nil
  show ?case by (simp add: session_stats_default_def tally_session_def with_outcome_def)
next
  case (snoc r rs)
  let ?t = "tcr_tool_name r"
  let ?n = "length (filter (\<lambda>r. tcr_tool_name r = ?t) rs)"
  have none: "?n = 0" if "?t \<notin> tcr_tool_name ` set rs" using that by (simp add: filter_empty_conv image_iff) metis
  have step: "count_session (classify (tcr_outcome r)) ?t s =
      (case classify (tcr_outcome r) of CallSuccess \<Rightarrow> s\<lparr>sn_success := sn_success s + 1\<rparr>
        | _ \<Rightarrow> s\<lparr>sn_errors := sn_errors s + 1\<rparr>)
        \<lparr>sn_per_tool := hm_insert ?t (?n + 1) (sn_per_tool s)\<rparr>" if s: "s = tally_session rs" for s
    using hm_get_per_tool [of rs ?t] none unfolding s
    by (auto simp: count_session_def Let_def split: metric_outcome.split option.split if_splits)
  have tools: "hm_insert ?t (?n + 1) (sn_per_tool (tally_session rs)) = sn_per_tool (tally_session (rs @ [r]))"
    unfolding per_tool_step by (auto simp: tally_session_def first_seen_snoc)
  have "count_session (classify (tcr_outcome r)) ?t (tally_session rs) = tally_session (rs @ [r])"
    unfolding step [OF refl]
    by (rule session_stats.equality, use tools in \<open>simp_all split: metric_outcome.split\<close>)
      (simp_all add: tally_session_def with_outcome_def split: metric_outcome.split)
  then show ?case using snoc.IH by simp
qed

lemma record_call_run:
  "co_inner (fold record_call rs C) =
     \<lparr>mi_tools = fold (\<lambda>r. update_capped (mc_max_tools (co_config C)) (tool_stats_new (co_bounds C))
         (count_tool (classify (tcr_outcome r)) (latency_ms r)) (tcr_tool_name r)) rs (mi_tools (co_inner C)),
      mi_sessions = (if mc_track_sessions (co_config C) then
          fold (\<lambda>r. update_capped (mc_max_sessions (co_config C)) session_stats_default
            (count_session (classify (tcr_outcome r)) (tcr_tool_name r)) (tcr_session_id r)) rs (mi_sessions (co_inner C))
        else mi_sessions (co_inner C))\<rparr>"
  by (induction rs arbitrary: C) (simp_all add: record_call_def Let_def)

lemma collector_run:
  "co_inner (fold record_call rs (collector_new now cfg)) =
     \<lparr>mi_tools = map (\<lambda>t. (t, tally_tool (sorted_bounds cfg) (filter (\<lambda>r. tcr_tool_name r = t) rs)))
         (take (mc_max_tools cfg) (first_seen (map tcr_tool_name rs))),
      mi_sessions = (if mc_track_sessions cfg then
          map (\<lambda>sid. (sid, tally_session (filter (\<lambda>r. tcr_session_id r = sid) rs)))
            (take (mc_max_sessions cfg) (first_seen (map tcr_session_id rs)))
        else [])\<rparr>"
  by (simp add: record_call_run collector_new_def update_capped_run count_tool_run count_session_run)

section \<open>Where a quantile lies\<close>

lemma bucket_index_mono: "x \<le> y \<Longrightarrow> bucket_index bounds x \<le> bucket_index bounds y"
  unfolding bucket_index_def by (induction bounds) auto

lemma bucket_index_upper: "bucket_index bounds x < length bounds \<Longrightarrow> x \<le> bounds ! bucket_index bounds x"
  unfolding bucket_index_def using nth_length_takeWhile [of "\<lambda>b. \<not> x \<le> b" bounds] by simp

lemma bucket_index_lower: "i < bucket_index bounds x \<Longrightarrow> bounds ! i < x"
  unfolding bucket_index_def using nth_mem [of i "takeWhile (\<lambda>b. \<not> x \<le> b) bounds"]
  by (auto simp: takeWhile_nth dest: set_takeWhileD)

text \<open>The \<open>k\<close>-th smallest element and the number of elements up to a class of a monotone map.\<close>

lemma rank_above:
  fixes f :: "'a::linorder \<Rightarrow> nat"
  assumes "\<And>x y. x \<le> y \<Longrightarrow> f x \<le> f y" "sorted ys" "k < length ys" "j < f (ys ! k)"
  shows "length (filter (\<lambda>y. f y \<le> j) ys) \<le> k"
proof -
  have "f (ys ! k) \<le> f y" if "y \<in> set (drop k ys)" for y
    using that assms(1-3) by (auto simp: in_set_conv_nth sorted_iff_nth_mono)
  then have "filter (\<lambda>y. f y \<le> j) (drop k ys) = []"
    using assms(4) by (fastforce simp: filter_empty_conv)
  then have "filter (\<lambda>y. f y \<le> j) ys = filter (\<lambda>y. f y \<le> j) (take k ys)"
    by (metis append_Nil2 append_take_drop_id filter_append)
  then show ?thesis
    by (metis length_filter_le length_take min.cobounded2 order_trans)
qed

lemma rank_within:
  fixes f :: "'a::linorder \<Rightarrow> nat"
  assumes "\<And>x y. x \<le> y \<Longrightarrow> f x \<le> f y" "sorted ys" "k < length ys" "f (ys ! k) \<le> j"
  shows "k + 1 \<le> length (filter (\<lambda>y. f y \<le> j) ys)"
proof -
  have "f y \<le> j" if "y \<in> set (take (k + 1) ys)" for y
  proof -
    have "\<exists>i < k + 1. y = ys ! i" using that unfolding in_set_conv_nth by (metis length_take min_less_iff_conj nth_take)
    then obtain i where "i < k + 1" "y = ys ! i" by blast
    then have "y \<le> ys ! k" using assms(2,3) by (simp add: sorted_iff_nth_mono)
    then show ?thesis using assms(1,4) order_trans by blast
  qed
  then have "filter (\<lambda>y. f y \<le> j) (take (k + 1) ys) = take (k + 1) ys" by simp
  then have "length (filter (\<lambda>y. f y \<le> j) ys) = length (take (k + 1) ys) + length (filter (\<lambda>y. f y \<le> j) (drop (k + 1) ys))"
    by (metis append_take_drop_id filter_append length_append)
  then show ?thesis using assms(3) by simp
qed

lemma filter_sort_length: "length (filter P (sort xs)) = length (filter P xs)"
  by (simp add: filter_sort)

lemma sum_counts:
  "sum_list (map (\<lambda>i. length (filter (\<lambda>x. f x = i) xs)) [0..<n]) = length (filter (\<lambda>x. f x < n) xs)"
proof (induction n)
  case (Suc n)
  have "length (filter (\<lambda>x. f x < Suc n) xs) = length (filter (\<lambda>x. f x < n) xs) + length (filter (\<lambda>x. f x = n) xs)"
    by (induction xs) auto
  with Suc show ?case by simp
qed simp

definition interpolate :: "real \<Rightarrow> real list \<Rightarrow> nat \<Rightarrow> nat \<Rightarrow> nat \<Rightarrow> real" where
  "interpolate rank bounds i cumulative n =
     (let lower = (if i = 0 then 0 else bounds ! (i - 1))
      in if i < length bounds then lower + (rank - real cumulative) / real n * (bounds ! i - lower) else lower)"

text \<open>The scan stops at the first bucket that is not empty and reaches the rank.\<close>

lemma quantile_scan_stops:
  assumes "j < length cs" "rank \<le> real (cum + sum_list (take (j + 1) cs))" "0 < cs ! j"
    and "\<And>j'. j' < j \<Longrightarrow> real (cum + sum_list (take (j' + 1) cs)) < rank \<or> cs ! j' = 0"
  shows "quantile_scan rank bounds i cum cs = Some (interpolate rank bounds (i + j) (cum + sum_list (take j cs)) (cs ! j))"
  using assms
proof (induction cs arbitrary: i cum j)
  case (Cons n cs)
  show ?case
  proof (cases j)
    case 0
    then show ?thesis using Cons.prems by (simp add: interpolate_def Let_def)
  next
    case (Suc m)
    have "\<not> (real (cum + n) \<ge> rank \<and> n > 0)" using Cons.prems(4) [of 0] Suc by auto
    moreover have "quantile_scan rank bounds (i + 1) (cum + n) cs =
        Some (interpolate rank bounds (i + 1 + m) (cum + n + sum_list (take m cs)) (cs ! m))"
    proof (rule Cons.IH)
      show "real (cum + n + sum_list (take (j' + 1) cs)) < rank \<or> cs ! j' = 0" if "j' < m" for j'
        using Cons.prems(4) [of "Suc j'"] that Suc by (simp add: add.assoc)
    qed (use Cons.prems(1-3) Suc in \<open>simp_all add: add.assoc\<close>)
    ultimately have "quantile_scan rank bounds i cum (n # cs) =
        Some (interpolate rank bounds (i + 1 + m) (cum + n + sum_list (take m cs)) (cs ! m))"
      unfolding quantile_scan.simps Let_def by (simp only: if_False)
    then show ?thesis using Suc by (simp add: add.assoc)
  qed
qed simp

definition lower_edge :: "real list \<Rightarrow> nat \<Rightarrow> real" where
  "lower_edge bounds i = (if i = 0 then 0 else bounds ! (i - 1))"

lemma interpolate_between:
  assumes "i < length bounds" "lower_edge bounds i \<le> bounds ! i"
    and "real cum \<le> rank" "rank \<le> real (cum + n)" "0 < n"
  shows "lower_edge bounds i \<le> interpolate rank bounds i cum n \<and> interpolate rank bounds i cum n \<le> bounds ! i"
proof -
  let ?t = "(rank - real cum) / real n" and ?l = "lower_edge bounds i" and ?u = "bounds ! i"
  have "0 \<le> ?t" "?t \<le> 1" using assms(3-5) by (simp_all add: field_simps)
  moreover have "0 \<le> ?u - ?l" using assms(2) by simp
  ultimately have "0 \<le> ?t * (?u - ?l)" and "?t * (?u - ?l) \<le> ?u - ?l"
    by (blast intro: mult_nonneg_nonneg, metis mult_left_le_one_le)
  moreover have "interpolate rank bounds i cum n = ?l + ?t * (?u - ?l)"
    using assms(1) by (simp add: interpolate_def lower_edge_def Let_def)
  ultimately show ?thesis by simp
qed

text \<open>
  The bucket in which the scan stops is the bucket of the observation with that rank in the sorted
  list of all observations.
\<close>

lemma quantile_scan_bucket:
  fixes xs bounds q
  defines "n \<equiv> length xs"
  defines "k \<equiv> nat \<lceil>q * real n\<rceil> - 1"
  defines "i \<equiv> bucket_index bounds (sort xs ! k)"
  defines "below \<equiv> length (filter (\<lambda>x. bucket_index bounds x < i) xs)"
  defines "here \<equiv> length (filter (\<lambda>x. bucket_index bounds x = i) xs)"
  assumes "xs \<noteq> []" "0 \<le> q" "q \<le> 1"
  shows "quantile (tally_histogram bounds xs) q = interpolate (q * real n) bounds i below here"
    and "real below \<le> q * real n" and "q * real n \<le> real (below + here)" and "0 < here"
proof -
  let ?f = "bucket_index bounds"
  let ?rank = "q * real n"
  let ?cs = "map (\<lambda>i. length (filter (\<lambda>x. ?f x = i) xs)) [0..<length bounds + 1]"
  have n: "0 < n" using \<open>xs \<noteq> []\<close> by (simp add: n_def)
  have rank0: "0 \<le> ?rank" using assms(7) by simp
  have "?rank \<le> 1 * real n" by (rule mult_right_mono) (use assms(8) in simp_all)
  then have "\<lceil>?rank\<rceil> \<le> int n" by linarith
  then have k: "k < n" using n unfolding k_def by linarith
  have rank_le: "?rank \<le> real (k + 1)" using rank0 unfolding k_def by linarith
  have k_rank: "real k < ?rank \<or> ?rank = 0 \<and> k = 0" using rank0 unfolding k_def by linarith
  have ilen: "i \<le> length bounds" unfolding i_def by (rule bucket_index_le)
  have k': "k < length (sort xs)" using k by (simp add: n_def)
  have upto: "sum_list (take (j + 1) ?cs) = length (filter (\<lambda>x. ?f x \<le> j) xs)" if "j \<le> length bounds" for j
    using sum_counts [of ?f xs "j + 1"] that by (simp add: take_map less_Suc_eq_le take_upt del: upt_Suc)
  have before: "sum_list (take i ?cs) = below"
    using sum_counts [of ?f xs i] ilen by (simp add: take_map take_upt below_def del: upt_Suc)
  have at: "?cs ! i = here" using ilen by (simp add: here_def del: upt_Suc)
  have split: "length (filter (\<lambda>x. ?f x \<le> i) xs) = below + here"
    using upto [OF ilen] before at ilen by (simp add: take_Suc_conv_app_nth del: upt_Suc)
  have "k + 1 \<le> length (filter (\<lambda>x. ?f x \<le> i) (sort xs))"
    by (rule rank_within) (use k' bucket_index_mono in \<open>auto simp: i_def\<close>)
  then have reach: "k + 1 \<le> below + here" by (simp add: filter_sort_length split)
  have low: "length (filter (\<lambda>x. ?f x \<le> j) xs) \<le> k" if "j < i" for j
    using rank_above [of ?f "sort xs" k j] k' that bucket_index_mono by (simp add: i_def filter_sort_length)
  have "below \<le> k"
  proof (cases i)
    case (Suc m)
    then show ?thesis using low [of m] by (simp add: below_def less_Suc_eq_le)
  qed (simp add: below_def)
  then show "real below \<le> ?rank" using k_rank by auto
  show "?rank \<le> real (below + here)" using rank_le reach by linarith
  have "sort xs ! k \<in> set xs" using k' by (metis nth_mem set_sort)
  then have "sort xs ! k \<in> set (filter (\<lambda>x. ?f x = i) xs)" by (simp add: i_def)
  then show here: "0 < here" unfolding here_def by (metis length_pos_if_in_set)
  have "quantile_scan ?rank bounds 0 0 ?cs = Some (interpolate ?rank bounds (0 + i) (0 + sum_list (take i ?cs)) (?cs ! i))"
  proof (rule quantile_scan_stops)
    show "i < length ?cs" using ilen by simp
    show "?rank \<le> real (0 + sum_list (take (i + 1) ?cs))"
      using \<open>?rank \<le> real (below + here)\<close> upto [OF ilen] split by simp
    show "0 < ?cs ! i" using here at by simp
  next
    fix j assume j: "j < i"
    then have jl: "j \<le> length bounds" using ilen by simp
    have "length (filter (\<lambda>x. ?f x = j) xs) \<le> length (filter (\<lambda>x. ?f x \<le> j) xs)"
      by (induction xs) auto
    then have "?cs ! j \<le> length (filter (\<lambda>x. ?f x \<le> j) xs)" using jl by (simp del: upt_Suc)
    then show "real (0 + sum_list (take (j + 1) ?cs)) < ?rank \<or> ?cs ! j = 0"
      using upto [OF jl] low [OF j] k_rank by auto
  qed
  then have "quantile_scan ?rank bounds 0 0 ?cs = Some (interpolate ?rank bounds i below here)"
    by (simp only: before at add_0)
  then show "quantile (tally_histogram bounds xs) q = interpolate ?rank bounds i below here"
    using n unfolding quantile_def tally_histogram_def n_def by (simp del: upt_Suc)
qed

lemma rank_in_range:
  assumes "xs \<noteq> []" "0 \<le> q" "q \<le> 1"
  shows "nat \<lceil>q * real (length xs)\<rceil> - 1 < length xs"
proof -
  have "q * real (length xs) \<le> 1 * real (length xs)" by (rule mult_right_mono) (use assms in simp_all)
  then have "\<lceil>q * real (length xs)\<rceil> \<le> int (length xs)" by linarith
  moreover have "0 < length xs" using assms(1) by simp
  ultimately show ?thesis by linarith
qed

text \<open>The bounds a collector uses are positive and strictly ascending.\<close>

lemma finite_bounds_pos: "x \<in> set (finite_bounds vs) \<Longrightarrow> 0 < x"
  by (auto simp: finite_bounds_def List.map_filter_def split: f64.splits if_splits)

lemma sorted_wrt_remdups_adj: "sorted xs \<Longrightarrow> sorted_wrt (<) (remdups_adj (xs :: 'a::linorder list))"
  by (induction xs rule: remdups_adj.induct) (auto simp: less_le)

lemma sorted_bounds_ok:
  "sorted_bounds cfg \<noteq> [] \<and> sorted_wrt (<) (sorted_bounds cfg) \<and> (\<forall>b \<in> set (sorted_bounds cfg). 0 < b)"
proof -
  let ?b = "remdups_adj (sort (finite_bounds (mc_latency_buckets_ms cfg)))"
  have "sorted_wrt (<) ?b" by (simp add: sorted_wrt_remdups_adj)
  moreover have "\<forall>b \<in> set ?b. 0 < b" by (auto simp: finite_bounds_pos)
  ultimately show ?thesis
    by (auto simp: sorted_bounds_def Let_def DEFAULT_METRICS_LATENCY_BUCKETS_MS_def)
qed

lemma lower_edge_le:
  assumes "sorted_wrt (<) bounds" "\<forall>b \<in> set bounds. 0 < b" "i < length bounds"
  shows "lower_edge bounds i \<le> bounds ! i"
proof (cases i)
  case 0
  then show ?thesis using assms(2,3) by (auto simp: lower_edge_def intro: less_imp_le)
next
  case (Suc m)
  then show ?thesis using assms(1,3) sorted_wrt_nth_less [of "(<)" bounds m i] by (simp add: lower_edge_def)
qed

text \<open>Below the \<open>i\<close>-th of ascending bounds lie exactly the buckets up to \<open>i\<close>.\<close>

lemma bucket_index_iff:
  assumes "sorted_wrt (<) bounds" "i < length bounds"
  shows "bucket_index bounds x \<le> i \<longleftrightarrow> x \<le> bounds ! i"
proof
  assume le: "bucket_index bounds x \<le> i"
  then have "x \<le> bounds ! bucket_index bounds x" using assms(2) by (intro bucket_index_upper) simp
  also have "\<dots> \<le> bounds ! i"
    using le assms sorted_wrt_nth_less [of "(<)" bounds "bucket_index bounds x" i] by (cases "bucket_index bounds x = i") auto
  finally show "x \<le> bounds ! i" .
next
  assume "x \<le> bounds ! i"
  then show "bucket_index bounds x \<le> i" using bucket_index_lower [of i bounds x] by (rule_tac ccontr) simp
qed

lemma cumulate_nth:
  "length counts \<ge> length bounds \<Longrightarrow>
     cumulate cum bounds counts = map (\<lambda>i. (bounds ! i, cum + sum_list (take (i + 1) counts))) [0..<length bounds]"
proof (induction cum bounds counts rule: cumulate.induct)
  case (1 cum b bs n ns)
  then show ?case by (simp add: upt_rec [of 0 "Suc _"] map_Suc_upt [symmetric] add.assoc del: upt_Suc)
qed auto

lemma cumulative_buckets_tally:
  assumes "sorted_wrt (<) bounds"
  shows "cumulative_buckets (tally_histogram bounds xs) = map (\<lambda>b. (b, length (filter (\<lambda>x. x \<le> b) xs))) bounds"
proof -
  let ?cs = "map (\<lambda>i. length (filter (\<lambda>x. bucket_index bounds x = i) xs)) [0..<length bounds + 1]"
  have "sum_list (take (i + 1) ?cs) = length (filter (\<lambda>x. x \<le> bounds ! i) xs)" if "i < length bounds" for i
  proof -
    have "sum_list (take (i + 1) ?cs) = length (filter (\<lambda>x. bucket_index bounds x < i + 1) xs)"
      using sum_counts [of "bucket_index bounds" xs "i + 1"] that by (simp add: take_map take_upt del: upt_Suc)
    also have "\<dots> = length (filter (\<lambda>x. x \<le> bounds ! i) xs)"
      using bucket_index_iff [OF assms that] by (simp add: less_Suc_eq_le)
    finally show ?thesis .
  qed
  then have "cumulative_buckets (tally_histogram bounds xs) =
      map (\<lambda>i. (bounds ! i, length (filter (\<lambda>x. x \<le> bounds ! i) xs))) [0..<length bounds]"
    unfolding cumulative_buckets_def tally_histogram_def histogram.simps
    by (subst cumulate_nth) (auto simp del: upt_Suc)
  also have "\<dots> = map (\<lambda>b. (b, length (filter (\<lambda>x. x \<le> b) xs))) (map ((!) bounds) [0..<length bounds])"
    by simp
  finally show ?thesis by (simp only: map_nth)
qed

section \<open>Snapshots\<close>

lemma tool_calls_tally: "tool_calls (tally_tool bounds rs) = length rs"
proof -
  have "with_outcome CallSuccess rs + with_outcome CallToolError rs + with_outcome CallMcpError rs = length rs"
  proof (induction rs)
    case (Cons r rs)
    then show ?case by (cases "classify (tcr_outcome r)") (simp_all add: with_outcome_def)
  qed (simp add: with_outcome_def)
  then show ?thesis by (simp add: tool_calls_def tally_tool_def)
qed

lemma sum_of_classes:
  "distinct ks \<Longrightarrow> (\<Sum>k \<leftarrow> ks. length (filter (\<lambda>r. f r = k) rs)) = length (filter (\<lambda>r. f r \<in> set ks) rs)"
proof (induction ks)
  case (Cons k ks)
  have "length (filter (\<lambda>r. f r = k \<or> f r \<in> set ks) rs) =
      length (filter (\<lambda>r. f r = k) rs) + length (filter (\<lambda>r. f r \<in> set ks) rs)"
    using Cons.prems by (induction rs) auto
  with Cons show ?case by simp
qed simp

lemma sum_list_sort_key: "sum_list (map g (sort_key f xs)) = sum_list (map (g :: 'a \<Rightarrow> nat) xs)"
proof (induction xs)
  case (Cons x xs)
  have "sum_list (map g (insort_key f x ys)) = g x + sum_list (map g ys)" for ys by (induction ys) auto
  with Cons show ?case by simp
qed simp

lemma strictly_sorted_by_key:
  fixes f :: "'a \<Rightarrow> 'b::linorder"
  assumes "distinct (map f xs)"
  shows "sorted_wrt (\<lambda>a b. f a < f b) (sort_key f xs)"
proof -
  have "distinct (map f (sort_key f xs))"
    using assms by (simp add: distinct_map)
  then have "sorted_wrt (<) (map f (sort_key f xs))"
    using sorted_sort_key [of f xs] strict_sorted_iff by blast
  then show ?thesis by (simp only: sorted_wrt_map)
qed

end
