(* ===== verification/Metrics_Properties.thy ===== *)
theory Metrics_Properties
  imports Metrics_Facts
begin

text \<open>
  The properties of the metrics: the collector agrees with tallies of the records it was given, and
  a percentile lies in the bucket of the observation it approximates.
\<close>

text \<open>C32.
  What the collector holds after any sequence of records is what one would count from the records
  themselves. It has an entry for the first \<open>max_tools\<close> distinct tools, and for each of them the
  numbers of successes, tool errors and protocol errors, the number of latencies per bucket, their
  sum and their number; with session tracking it has an entry for the first \<open>max_sessions\<close> distinct
  sessions with their successes, errors and calls per tool. A record of a further tool or session
  changes nothing of the others.
\<close>

theorem collector_agrees_with_the_records:
  "co_inner (fold record_call rs (collector_new now cfg)) =
     \<lparr>mi_tools = map (\<lambda>t. (t, tally_tool (sorted_bounds cfg) (filter (\<lambda>r. tcr_tool_name r = t) rs)))
         (take (mc_max_tools cfg) (first_seen (map tcr_tool_name rs))),
      mi_sessions = (if mc_track_sessions cfg then
          map (\<lambda>sid. (sid, tally_session (filter (\<lambda>r. tcr_session_id r = sid) rs)))
            (take (mc_max_sessions cfg) (first_seen (map tcr_session_id rs)))
        else [])\<rparr>"
  by (rule collector_run)

text \<open>
  The buckets that the Prometheus text shows for a tool count its latencies cumulatively: for each
  bound, the calls that took at most that long.
\<close>

theorem prometheus_buckets_are_cumulative:
  assumes "hm_get (mi_tools (co_inner (fold record_call rs (collector_new now cfg)))) t = Some s"
  shows "cumulative_buckets (ts_latency s) =
    map (\<lambda>b. (b, length (filter (\<lambda>r. tcr_tool_name r = t \<and> latency_ms r \<le> b) rs))) (sorted_bounds cfg)"
proof -
  have "s = tally_tool (sorted_bounds cfg) (filter (\<lambda>r. tcr_tool_name r = t) rs)"
    using assms by (auto simp: collector_run hm_get_tabulate split: if_splits)
  moreover have "length (filter (\<lambda>x. x \<le> b) (map latency_ms (filter (\<lambda>r. tcr_tool_name r = t) rs))) =
      length (filter (\<lambda>r. tcr_tool_name r = t \<and> latency_ms r \<le> b) rs)" for b
    by (simp add: filter_map o_def conj_commute)
  ultimately show ?thesis
    using sorted_bounds_ok [of cfg] by (simp add: tally_tool_def cumulative_buckets_tally)
qed

text \<open>
  A snapshot lists the tracked tools by descending number of calls, ties by name, and its total is
  the number of records of tracked tools.
\<close>

theorem snapshot_ranks_the_tools:
  "let S = snapshot later_on (fold record_call rs (collector_new now cfg));
       tracked = take (mc_max_tools cfg) (first_seen (map tcr_tool_name rs))
   in sorted_wrt (\<lambda>a b. (- int (tm_calls a), tm_tool a) < (- int (tm_calls b), tm_tool b)) (sp_tools S) \<and>
      set (map tm_tool (sp_tools S)) = set tracked \<and>
      sp_total_calls S = length (filter (\<lambda>r. tcr_tool_name r \<in> set tracked) rs)"
proof -
  let ?tracked = "take (mc_max_tools cfg) (first_seen (map tcr_tool_name rs))"
  let ?ms = "map tool_metrics_of (map (\<lambda>t. (t, tally_tool (sorted_bounds cfg) (filter (\<lambda>r. tcr_tool_name r = t) rs))) ?tracked)"
  let ?key = "\<lambda>t. (- int (tm_calls t), tm_tool t)"
  have S: "sp_tools (snapshot later_on (fold record_call rs (collector_new now cfg))) = sort_key ?key ?ms"
    "sp_total_calls (snapshot later_on (fold record_call rs (collector_new now cfg))) = sum_list (map tm_calls ?ms)"
    by (simp_all add: snapshot_def collector_run Let_def sum_list_sort_key del: map_map)
  have names: "map tm_tool ?ms = ?tracked"
    by (simp add: tool_metrics_of_def Let_def o_def)
  have calls: "map tm_calls ?ms = map (\<lambda>t. length (filter (\<lambda>r. tcr_tool_name r = t) rs)) ?tracked"
    by (simp add: tool_metrics_of_def Let_def o_def tool_calls_tally)
  have "distinct (map tm_tool ?ms)" unfolding names by simp
  then have "distinct (map ?key ?ms)" by (auto simp: distinct_conv_nth)
  then have "sorted_wrt (\<lambda>a b. ?key a < ?key b) (sort_key ?key ?ms)" by (rule strictly_sorted_by_key)
  moreover have "set (map tm_tool (sort_key ?key ?ms)) = set ?tracked"
    unfolding set_map set_sort by (simp only: set_map [symmetric] names)
  moreover have "sum_list (map tm_calls ?ms) = length (filter (\<lambda>r. tcr_tool_name r \<in> set ?tracked) rs)"
    unfolding calls by (rule sum_of_classes) simp
  ultimately show ?thesis by (simp only: Let_def S simp_thms)
qed

text \<open>C33.
  The quantile \<open>q\<close> of a tool's latencies, taken after any sequence of records, lies in the bucket of the
  latency it approximates: with \<open>x\<close> the observation of rank \<open>q\<close> in the sorted latencies of that tool and
  \<open>i\<close> its bucket, both lie between the bucket's edges, so that they differ by at most the width of the
  bucket; and when \<open>x\<close> exceeds every bound, the quantile is the last bound.
\<close>

theorem quantile_in_the_bucket_of_its_rank:
  assumes stats: "hm_get (mi_tools (co_inner (fold record_call rs (collector_new now cfg)))) t = Some s"
    and q: "0 \<le> q" "q \<le> 1"
  shows "let xs = map latency_ms (filter (\<lambda>r. tcr_tool_name r = t) rs);
             bounds = sorted_bounds cfg;
             x = sort xs ! (nat \<lceil>q * real (length xs)\<rceil> - 1);
             i = bucket_index bounds x;
             estimate = quantile (ts_latency s) q
         in if i < length bounds
            then lower_edge bounds i \<le> x \<and> x \<le> bounds ! i \<and> lower_edge bounds i \<le> estimate \<and> estimate \<le> bounds ! i
            else estimate = last bounds \<and> last bounds < x"
proof -
  let ?mine = "filter (\<lambda>r. tcr_tool_name r = t) rs"
  let ?xs = "map latency_ms ?mine" and ?b = "sorted_bounds cfg"
  let ?k = "nat \<lceil>q * real (length ?xs)\<rceil> - 1"
  let ?x = "sort ?xs ! ?k"
  let ?i = "bucket_index ?b ?x"
  have s: "s = tally_tool ?b ?mine" and "t \<in> tcr_tool_name ` set rs"
    using stats by (auto simp: collector_run hm_get_tabulate split: if_splits dest: in_set_takeD)
  then have ne: "?xs \<noteq> []" by (auto simp: filter_empty_conv)
  then have "?k < length (sort ?xs)" using rank_in_range [OF _ q, of ?xs] by simp
  then have "?x \<in> set ?xs" by (metis nth_mem set_sort)
  then have pos: "0 \<le> ?x" by (auto simp: latency_ms_def)
  note scan = quantile_scan_bucket [OF ne q, of ?b]
  have est: "quantile (ts_latency s) q = quantile (tally_histogram ?b ?xs) q" by (simp add: s tally_tool_def)
  note ok = sorted_bounds_ok [of cfg]
  show ?thesis
  proof (cases "?i < length ?b")
    case True
    have "lower_edge ?b ?i \<le> ?x"
      using pos bucket_index_lower [of "?i - 1" ?b ?x] by (cases ?i) (auto simp: lower_edge_def)
    moreover have "lower_edge ?b ?i \<le> ?b ! ?i" using ok True by (blast intro: lower_edge_le)
    ultimately show ?thesis
      using interpolate_between [OF True _ scan(2) scan(3) scan(4)] bucket_index_upper [OF True] True
      by (simp only: Let_def est scan(1) if_True simp_thms)
  next
    case False
    then have i: "?i = length ?b" using bucket_index_le [of ?b ?x] by simp
    have "last ?b = ?b ! (length ?b - 1)" using ok by (simp add: last_conv_nth)
    moreover have "?b ! (length ?b - 1) < ?x" using ok i by (intro bucket_index_lower) simp
    moreover have "quantile (tally_histogram ?b ?xs) q = ?b ! (length ?b - 1)"
      unfolding scan(1) using ok i by (simp add: interpolate_def)
    ultimately show ?thesis using False by (simp only: Let_def est if_False simp_thms)
  qed
qed

definition sample_call :: "string \<Rightarrow> duration \<Rightarrow> tool_call_record" where
  "sample_call tool d = \<lparr>tcr_tool_name = tool, tcr_arguments = None, tcr_session_id = ''s1'', tcr_timestamp = 0,
     tcr_duration = d, tcr_source = FromRegistry, tcr_outcome = Success False None\<rparr>"

definition sample_calls :: "tool_call_record list" where
  "sample_calls = [sample_call ''echo'' (millis 30), sample_call ''echo'' (millis 3), sample_call ''echo'' (secs 60)]"

theorem quantile_in_the_bucket_of_its_rank_witness:
  "25 \<le> quantile (tally_histogram DEFAULT_METRICS_LATENCY_BUCKETS_MS [30, 3, 60000]) (1 / 2) \<and>
   quantile (tally_histogram DEFAULT_METRICS_LATENCY_BUCKETS_MS [30, 3, 60000]) (1 / 2) \<le> 50"
proof -
  have bounds: "sorted_bounds metrics_config_default = DEFAULT_METRICS_LATENCY_BUCKETS_MS"
    by (simp add: sorted_bounds_def metrics_config_default_def finite_bounds_def List.map_filter_def
        DEFAULT_METRICS_LATENCY_BUCKETS_MS_def)
  have mine: "map latency_ms (filter (\<lambda>r. tcr_tool_name r = ''echo'') sample_calls) = [30, 3, 60000]"
    by (simp add: sample_calls_def sample_call_def latency_ms_def millis_def secs_def)
  have seen: "first_seen (map tcr_tool_name sample_calls) = [''echo'']"
    by (simp add: first_seen_def sample_calls_def sample_call_def)
  have stats: "hm_get (mi_tools (co_inner (fold record_call sample_calls (collector_new 0 metrics_config_default)))) ''echo''
      = Some (tally_tool (sorted_bounds metrics_config_default) (filter (\<lambda>r. tcr_tool_name r = ''echo'') sample_calls))"
    by (simp add: collector_run seen metrics_config_default_def DEFAULT_METRICS_MAX_TOOLS_def)
  have rank: "sort [30, 3, 60000 :: real] ! (nat \<lceil>1 / 2 * real (length [30, 3, 60000 :: real])\<rceil> - 1) = 30"
    by (simp add: numeral_2_eq_2 ceiling_divide_eq_div_numeral)
  have index: "bucket_index DEFAULT_METRICS_LATENCY_BUCKETS_MS 30 = 4"
    by (simp add: bucket_index_def DEFAULT_METRICS_LATENCY_BUCKETS_MS_def)
  show ?thesis
    using quantile_in_the_bucket_of_its_rank [OF stats, of "1 / 2"]
    unfolding mine bounds rank Let_def index tally_tool_def
    by (simp add: lower_edge_def mine DEFAULT_METRICS_LATENCY_BUCKETS_MS_def)
qed

end
