(* ===== verification/Redis_Backend.thy ===== *)
theory Redis_Backend
  imports Persistence
begin

text \<open>
  The Redis backend, \<open>src/src/persistence_redis.rs\<close>: the keys it builds, the commands it sends and
  what it makes of the replies. The server and its client library are the argument \<open>redis_backend\<close>: it
  runs one reading command, or a list of commands as one transaction. \<open>documented\<close> states what the
  Redis documentation says of the commands used, on a key space whose entries may expire;
  \<open>redis_documented\<close> is the hypothesis that a reachable server behaves like that.
\<close>

section \<open>Commands and replies\<close>

datatype 'v redis_command =
    GET string
  | SET string 'v
  | SET_NX_PX string 'v nat
  | EXPIRE string nat
  | DEL string
  | SADD string string
  | SREM string string
  | SMEMBERS string
  | EVAL_release string 'v

datatype 'v redis_reply = NilReply | Okay | IntReply nat | Bulk 'v | Members "string list" | WrongType

text \<open>\<open>rb_bytes\<close> are the bytes of a lock token.\<close>

record ('s, 'v) redis_backend =
  rb_query :: "instant \<Rightarrow> 'v redis_command \<Rightarrow> 's \<Rightarrow> persistence_error + 'v redis_reply"
  rb_exec :: "instant \<Rightarrow> 'v redis_command list \<Rightarrow> 's \<Rightarrow> (persistence_error + 'v redis_reply list) \<times> 's"
  rb_prefix :: "string option"
  rb_bytes :: "string \<Rightarrow> 'v"

definition with_prefix :: "('s, 'v) redis_backend \<Rightarrow> string \<Rightarrow> ('s, 'v) redis_backend" where
  "with_prefix B prefix = B\<lparr>rb_prefix := Some prefix\<rparr>"

definition redis_key :: "('s, 'v) redis_backend \<Rightarrow> string \<Rightarrow> string \<Rightarrow> string" where
  "redis_key B ns key =
     (case rb_prefix B of
        Some p \<Rightarrow> p @ '':'' @ ns @ '':'' @ key
      | None \<Rightarrow> ns @ '':'' @ key)"

definition index_key :: "('s, 'v) redis_backend \<Rightarrow> string \<Rightarrow> string" where
  "index_key B ns =
     (case rb_prefix B of
        Some p \<Rightarrow> p @ '':'' @ ns @ '':__idx__''
      | None \<Rightarrow> ns @ '':__idx__'')"

definition wrong_type :: persistence_error where "wrong_type = ''WRONGTYPE''"

text \<open>A transaction whose replies are ignored fails when one of its commands does.\<close>

definition ignore_replies :: "(persistence_error + 'v redis_reply list) \<times> 's \<Rightarrow> (persistence_error + unit) \<times> 's" where
  "ignore_replies = (\<lambda>(r, s). (case r of
       Inl e \<Rightarrow> Inl e
     | Inr replies \<Rightarrow> if WrongType \<in> set replies then Inl wrong_type else Inr (), s))"

section \<open>The backend's operations\<close>

definition redis_get :: "('s, 'v) redis_backend \<Rightarrow> instant \<Rightarrow> string \<Rightarrow> string \<Rightarrow> 's \<Rightarrow> persistence_error + 'v option" where
  "redis_get B now ns key s =
     (case rb_query B now (GET (redis_key B ns key)) s of
        Inl e \<Rightarrow> Inl e
      | Inr NilReply \<Rightarrow> Inr None
      | Inr (Bulk v) \<Rightarrow> Inr (Some v)
      | Inr reply \<Rightarrow> Inl wrong_type)"

text \<open>A TTL in whole seconds, at least one.\<close>

definition expire_secs :: "duration \<Rightarrow> nat" where
  "expire_secs ttl = max (ttl div 1000000000) 1"

definition redis_set :: "('s, 'v) redis_backend \<Rightarrow> instant \<Rightarrow> string \<Rightarrow> string \<Rightarrow> 'v \<Rightarrow> duration option \<Rightarrow> 's \<Rightarrow>
    (persistence_error + unit) \<times> 's" where
  "redis_set B now ns key v ttl s =
     (let rkey = redis_key B ns key;
          pipe = [SADD (index_key B ns) key, SET rkey v] @
            (case ttl of Some d \<Rightarrow> [EXPIRE rkey (expire_secs d)] | None \<Rightarrow> [])
      in ignore_replies (rb_exec B now pipe s))"

definition redis_touch :: "('s, 'v) redis_backend \<Rightarrow> instant \<Rightarrow> string \<Rightarrow> string \<Rightarrow> duration \<Rightarrow> 's \<Rightarrow>
    (persistence_error + touch) \<times> 's" where
  "redis_touch B now ns key ttl s =
     (case rb_exec B now [EXPIRE (redis_key B ns key) (expire_secs ttl)] s of
        (Inr [IntReply armed], s') \<Rightarrow> (Inr (if armed = 1 then Armed else Missing), s')
      | (Inr replies, s') \<Rightarrow> (Inl wrong_type, s')
      | (Inl e, s') \<Rightarrow> (Inl e, s'))"

definition redis_delete :: "('s, 'v) redis_backend \<Rightarrow> instant \<Rightarrow> string \<Rightarrow> string \<Rightarrow> 's \<Rightarrow>
    (persistence_error + unit) \<times> 's" where
  "redis_delete B now ns key s =
     ignore_replies (rb_exec B now [DEL (redis_key B ns key), SREM (index_key B ns) key] s)"

definition redis_keys :: "('s, 'v) redis_backend \<Rightarrow> instant \<Rightarrow> string \<Rightarrow> 's \<Rightarrow> persistence_error + string list" where
  "redis_keys B now ns s =
     (case rb_query B now (SMEMBERS (index_key B ns)) s of
        Inl e \<Rightarrow> Inl e
      | Inr (Members ms) \<Rightarrow> Inr ms
      | Inr reply \<Rightarrow> Inl wrong_type)"

definition lock_millis :: "duration \<Rightarrow> nat" where
  "lock_millis ttl = max (ttl div 1000000) 1 mod 2 ^ 64"

definition redis_try_acquire_lock :: "('s, 'v) redis_backend \<Rightarrow> instant \<Rightarrow> string \<Rightarrow> string \<Rightarrow> string \<Rightarrow> duration \<Rightarrow> 's \<Rightarrow>
    (persistence_error + bool) \<times> 's" where
  "redis_try_acquire_lock B now ns key token ttl s =
     (case rb_exec B now [SET_NX_PX (redis_key B ns key) (rb_bytes B token) (lock_millis ttl)] s of
        (Inr [NilReply], s') \<Rightarrow> (Inr False, s')
      | (Inr [Okay], s') \<Rightarrow> (Inr True, s')
      | (Inr replies, s') \<Rightarrow> (Inl wrong_type, s')
      | (Inl e, s') \<Rightarrow> (Inl e, s'))"

text \<open>\<open>EVAL_release\<close> is the script \<open>RELEASE_LUA\<close> with its key and its argument.\<close>

definition redis_release_lock :: "('s, 'v) redis_backend \<Rightarrow> instant \<Rightarrow> string \<Rightarrow> string \<Rightarrow> string \<Rightarrow> 's \<Rightarrow>
    (persistence_error + unit) \<times> 's" where
  "redis_release_lock B now ns key token s =
     (case rb_exec B now [EVAL_release (redis_key B ns key) (rb_bytes B token)] s of
        (Inr [IntReply n], s') \<Rightarrow> (Inr (), s')
      | (Inr replies, s') \<Rightarrow> (Inl wrong_type, s')
      | (Inl e, s') \<Rightarrow> (Inl e, s'))"

definition redis_ops :: "('s, 'v) redis_backend \<Rightarrow> ('s, 'v) backend_ops" where
  "redis_ops B = \<lparr>be_get = redis_get B, be_set = redis_set B, be_delete = redis_delete B, be_keys = redis_keys B,
     be_touch = redis_touch B, be_try_acquire_lock = redis_try_acquire_lock B,
     be_release_lock = redis_release_lock B\<rparr>"

lemma redis_ops_simps [simp]:
  "be_get (redis_ops B) = redis_get B" "be_set (redis_ops B) = redis_set B"
  "be_delete (redis_ops B) = redis_delete B" "be_keys (redis_ops B) = redis_keys B"
  "be_touch (redis_ops B) = redis_touch B"
  "be_try_acquire_lock (redis_ops B) = redis_try_acquire_lock B"
  "be_release_lock (redis_ops B) = redis_release_lock B"
  by (simp_all add: redis_ops_def)

section \<open>What Redis documents\<close>

datatype 'v redis_value = StrVal 'v | SetVal "string list"

type_synonym 'v keyspace = "string \<Rightarrow> ('v redis_value \<times> instant option) option"

text \<open>The entry of a key at a moment: a key past its expiry does not exist.\<close>

definition live_entry :: "instant \<Rightarrow> 'v keyspace \<Rightarrow> string \<Rightarrow> ('v redis_value \<times> instant option) option" where
  "live_entry now ks k =
     (case ks k of
        Some (v, Some expiry) \<Rightarrow> if now < expiry then Some (v, Some expiry) else None
      | entry \<Rightarrow> entry)"

fun documented :: "instant \<Rightarrow> 'v redis_command \<Rightarrow> 'v keyspace \<Rightarrow> 'v redis_reply \<times> 'v keyspace" where
  "documented now (GET k) ks =
     (case live_entry now ks k of
        Some (StrVal v, e) \<Rightarrow> (Bulk v, ks) | Some (SetVal ms, e) \<Rightarrow> (WrongType, ks) | None \<Rightarrow> (NilReply, ks))"
| "documented now (SET k v) ks = (Okay, ks(k \<mapsto> (StrVal v, None)))"
| "documented now (SET_NX_PX k v ms) ks =
     (if live_entry now ks k = None then (Okay, ks(k \<mapsto> (StrVal v, Some (now + millis ms)))) else (NilReply, ks))"
| "documented now (EXPIRE k s) ks =
     (case live_entry now ks k of
        Some (v, e) \<Rightarrow> (IntReply 1, ks(k \<mapsto> (v, Some (now + secs s)))) | None \<Rightarrow> (IntReply 0, ks))"
| "documented now (DEL k) ks =
     (IntReply (if live_entry now ks k = None then 0 else 1), ks(k := None))"
| "documented now (SADD k m) ks =
     (case live_entry now ks k of
        Some (SetVal ms, e) \<Rightarrow> (IntReply (if m \<in> set ms then 0 else 1), ks(k \<mapsto> (SetVal (List.insert m ms), e)))
      | Some (StrVal v, e) \<Rightarrow> (WrongType, ks)
      | None \<Rightarrow> (IntReply 1, ks(k \<mapsto> (SetVal [m], None))))"
| "documented now (SREM k m) ks =
     (case live_entry now ks k of
        Some (SetVal ms, e) \<Rightarrow>
          (IntReply (if m \<in> set ms then 1 else 0),
           ks(k := if removeAll m ms = [] then None else Some (SetVal (removeAll m ms), e)))
      | Some (StrVal v, e) \<Rightarrow> (WrongType, ks)
      | None \<Rightarrow> (IntReply 0, ks))"
| "documented now (SMEMBERS k) ks =
     (case live_entry now ks k of
        Some (SetVal ms, e) \<Rightarrow> (Members ms, ks) | Some (StrVal v, e) \<Rightarrow> (WrongType, ks) | None \<Rightarrow> (Members [], ks))"
| "documented now (EVAL_release k v) ks =
     (case live_entry now ks k of
        Some (StrVal w, e) \<Rightarrow> if w = v then (IntReply 1, ks(k := None)) else (IntReply 0, ks)
      | Some (SetVal ms, e) \<Rightarrow> (WrongType, ks)
      | None \<Rightarrow> (IntReply 0, ks))"

text \<open>A transaction runs its commands in order; a command that fails does not stop the others.\<close>

fun documented_all :: "instant \<Rightarrow> 'v redis_command list \<Rightarrow> 'v keyspace \<Rightarrow> 'v redis_reply list \<times> 'v keyspace" where
  "documented_all now [] ks = ([], ks)"
| "documented_all now (c # cs) ks =
     (let (r, ks1) = documented now c ks; (rs, ks2) = documented_all now cs ks1 in (r # rs, ks2))"

text \<open>\<open>view\<close> is the key space a server's state stands for.\<close>

definition redis_documented :: "('s, 'v) redis_backend \<Rightarrow> ('s \<Rightarrow> 'v keyspace) \<Rightarrow> bool" where
  "redis_documented B view \<longleftrightarrow>
     (\<forall>now c s. rb_query B now c s = Inr (fst (documented now c (view s)))) \<and>
     (\<forall>now cs s. fst (rb_exec B now cs s) = Inr (fst (documented_all now cs (view s))) \<and>
        view (snd (rb_exec B now cs s)) = snd (documented_all now cs (view s)))"

end
