(* ===== verification/Redis_Facts.thy ===== *)
theory Redis_Facts
  imports Redis_Backend
begin

text \<open>
  The Redis backend against the contract of an expiring backend: on names whose namespace has no colon
  and whose key is not the name of the index, a server that behaves as documented gives the contract,
  with TTLs truncated to whole seconds.
\<close>

section \<open>Names\<close>

definition redis_name :: "data_key \<Rightarrow> bool" where
  "redis_name p \<longleftrightarrow> CHR '':'' \<notin> set (fst p) \<and> snd p \<noteq> ''__idx__''"

lemma index_key_eq: "index_key B ns = redis_key B ns ''__idx__''"
  by (simp add: index_key_def redis_key_def split: option.split)

lemma colon_split_unique:
  "CHR '':'' \<notin> set a \<Longrightarrow> CHR '':'' \<notin> set b \<Longrightarrow> a @ CHR '':'' # x = b @ CHR '':'' # y \<longleftrightarrow> a = b \<and> x = y"
proof (induction a arbitrary: b)
  case Nil
  then show ?case by (cases b) auto
next
  case (Cons ch a)
  then show ?case by (cases b) auto
qed

lemma redis_key_inject:
  "CHR '':'' \<notin> set ns \<Longrightarrow> CHR '':'' \<notin> set ns' \<Longrightarrow>
     redis_key B ns k = redis_key B ns' k' \<longleftrightarrow> ns = ns' \<and> k = k'"
  by (simp add: redis_key_def colon_split_unique split: option.split)

section \<open>The content of the key space\<close>

definition redis_look :: "('s, 'v) redis_backend \<Rightarrow> ('s \<Rightarrow> 'v keyspace) \<Rightarrow> instant \<Rightarrow> 's \<Rightarrow> data_key \<Rightarrow> 'v option" where
  "redis_look B view now s = (\<lambda>(ns, k).
     case live_entry now (view s) (redis_key B ns k) of Some (StrVal v, e) \<Rightarrow> Some v | _ \<Rightarrow> None)"

text \<open>Index keys hold sets that do not expire, all other keys of the backend hold strings.\<close>

definition is_index_entry :: "('v redis_value \<times> instant option) option \<Rightarrow> bool" where
  "is_index_entry entry \<longleftrightarrow> entry = None \<or> (\<exists>ms. entry = Some (SetVal ms, None))"

definition is_data_entry :: "('v redis_value \<times> instant option) option \<Rightarrow> bool" where
  "is_data_entry entry \<longleftrightarrow> entry = None \<or> (\<exists>v e. entry = Some (StrVal v, e))"

definition keys_ok :: "('s, 'v) redis_backend \<Rightarrow> 'v keyspace \<Rightarrow> bool" where
  "keys_ok B ks \<longleftrightarrow>
     (\<forall>ns. CHR '':'' \<notin> set ns \<longrightarrow> is_index_entry (ks (index_key B ns))) \<and>
     (\<forall>ns k. redis_name (ns, k) \<longrightarrow> is_data_entry (ks (redis_key B ns k)))"

lemma data_key_not_index:
  "redis_name (ns, k) \<Longrightarrow> CHR '':'' \<notin> set ns' \<Longrightarrow> redis_key B ns k \<noteq> index_key B ns'"
  by (simp add: redis_name_def index_key_eq redis_key_inject)

lemma data_keys_differ:
  "redis_name p \<Longrightarrow> redis_name (ns, k) \<Longrightarrow> p \<noteq> (ns, k) \<Longrightarrow> redis_key B (fst p) (snd p) \<noteq> redis_key B ns k"
  by (cases p) (simp add: redis_name_def redis_key_inject)

lemma keys_ok_data_update:
  assumes "keys_ok B ks" "redis_name (ns, k)" "is_data_entry x"
  shows "keys_ok B (ks(redis_key B ns k := x))"
  unfolding keys_ok_def
proof (intro conjI allI impI)
  fix ns' assume "CHR '':'' \<notin> set ns'"
  moreover have "redis_key B ns k \<noteq> index_key B ns'" using assms(2) \<open>CHR '':'' \<notin> set ns'\<close> by (rule data_key_not_index)
  ultimately show "is_index_entry ((ks(redis_key B ns k := x)) (index_key B ns'))"
    using assms(1) by (simp add: keys_ok_def)
next
  fix ns' k' assume "redis_name (ns', k')"
  with assms show "is_data_entry ((ks(redis_key B ns k := x)) (redis_key B ns' k'))"
    by (simp add: keys_ok_def)
qed

lemma keys_ok_index_update:
  assumes "keys_ok B ks" "CHR '':'' \<notin> set ns" "is_index_entry x"
  shows "keys_ok B (ks(index_key B ns := x))"
  unfolding keys_ok_def
proof (intro conjI allI impI)
  fix ns' assume "CHR '':'' \<notin> set ns'"
  with assms show "is_index_entry ((ks(index_key B ns := x)) (index_key B ns'))"
    by (simp add: keys_ok_def)
next
  fix ns' k' assume name: "redis_name (ns', k')"
  have "redis_key B ns' k' \<noteq> index_key B ns" using name assms(2) by (rule data_key_not_index)
  with assms name show "is_data_entry ((ks(index_key B ns := x)) (redis_key B ns' k'))"
    by (simp add: keys_ok_def)
qed

lemma live_entry_update [simp]:
  "live_entry now (ks(a := x)) k = (if k = a then live_entry now (\<lambda>_. x) a else live_entry now ks k)"
  by (simp add: live_entry_def)

lemma live_entry_forever [simp]: "live_entry now (\<lambda>_. Some (v, None)) k = Some (v, None)"
  by (simp add: live_entry_def)

lemma live_entry_gone [simp]: "live_entry now (\<lambda>_. None) k = None"
  by (simp add: live_entry_def)

lemma live_entry_until: "live_entry now (\<lambda>_. Some (v, Some x)) k = (if now < x then Some (v, Some x) else None)"
  by (simp add: live_entry_def)

lemma expire_secs_pos: "0 < secs (expire_secs d)"
  by (simp add: expire_secs_def secs_def)

section \<open>The effect of each operation on the key space\<close>

lemma sadd_index:
  assumes "keys_ok B ks" "CHR '':'' \<notin> set ns"
  obtains n ms where "documented now (SADD (index_key B ns) m) ks = (IntReply n, ks(index_key B ns \<mapsto> (SetVal ms, None)))"
proof -
  consider "ks (index_key B ns) = None" | ms where "ks (index_key B ns) = Some (SetVal ms, None)"
    using assms by (auto simp: keys_ok_def is_index_entry_def)
  then show thesis by cases (auto simp: live_entry_def intro: that)
qed

lemma srem_index:
  assumes "keys_ok B ks" "CHR '':'' \<notin> set ns"
  obtains n x where "documented now (SREM (index_key B ns) m) ks = (IntReply n, ks(index_key B ns := x))" "is_index_entry x"
proof -
  consider "ks (index_key B ns) = None" | ms where "ks (index_key B ns) = Some (SetVal ms, None)"
    using assms by (auto simp: keys_ok_def is_index_entry_def)
  then show thesis
  proof cases
    case 1
    then have "ks(index_key B ns := None) = ks" by auto
    with 1 show ?thesis by (intro that [of 0 None]) (simp_all add: live_entry_def is_index_entry_def)
  next
    case (2 ms)
    then show ?thesis
      by (intro that [of "if m \<in> set ms then 1 else 0"
            "if removeAll m ms = [] then None else Some (SetVal (removeAll m ms), None)"])
        (simp_all add: live_entry_def is_index_entry_def)
  qed
qed

lemma exec_documented:
  assumes "redis_documented B view"
  obtains s' where "rb_exec B now cs s = (Inr (fst (documented_all now cs (view s))), s')"
    "view s' = snd (documented_all now cs (view s))"
  using assms unfolding redis_documented_def by (metis prod.collapse)

lemma redis_set_view:
  assumes "redis_documented B view" "keys_ok B (view s)" "redis_name (ns, k)"
  obtains ms where "fst (redis_set B now ns k v ttl s) = Inr ()"
    "view (snd (redis_set B now ns k v ttl s)) =
       (view s)(index_key B ns \<mapsto> (SetVal ms, None),
                redis_key B ns k \<mapsto> (StrVal v, map_option (\<lambda>d. now + secs (expire_secs d)) ttl))"
proof -
  have ns: "CHR '':'' \<notin> set ns" using assms(3) by (simp add: redis_name_def)
  obtain n ms where sadd: "documented now (SADD (index_key B ns) k) (view s) =
      (IntReply n, (view s)(index_key B ns \<mapsto> (SetVal ms, None)))"
    using sadd_index [OF assms(2) ns] by blast
  let ?pipe = "[SADD (index_key B ns) k, SET (redis_key B ns k) v] @
      (case ttl of Some d \<Rightarrow> [EXPIRE (redis_key B ns k) (expire_secs d)] | None \<Rightarrow> [])"
  obtain s' where run: "rb_exec B now ?pipe s = (Inr (fst (documented_all now ?pipe (view s))), s')"
    "view s' = snd (documented_all now ?pipe (view s))"
    by (rule exec_documented [OF assms(1)])
  show thesis
    by (rule that [of ms]; cases ttl)
      (use run sadd in \<open>simp_all add: redis_set_def ignore_replies_def Let_def\<close>)
qed

lemma redis_delete_view:
  assumes "redis_documented B view" "keys_ok B (view s)" "redis_name (ns, k)"
  obtains x where "fst (redis_delete B now ns k s) = Inr ()" "is_index_entry x"
    "view (snd (redis_delete B now ns k s)) = (view s)(redis_key B ns k := None, index_key B ns := x)"
proof -
  have ns: "CHR '':'' \<notin> set ns" using assms(3) by (simp add: redis_name_def)
  have ok: "keys_ok B ((view s)(redis_key B ns k := None))"
    using assms(2,3) by (intro keys_ok_data_update) (simp_all add: is_data_entry_def)
  obtain n x where srem: "documented now (SREM (index_key B ns) k) ((view s)(redis_key B ns k := None)) =
      (IntReply n, (view s)(redis_key B ns k := None, index_key B ns := x))" "is_index_entry x"
    using srem_index [OF ok ns] by blast
  obtain s' where run: "rb_exec B now [DEL (redis_key B ns k), SREM (index_key B ns) k] s =
      (Inr (fst (documented_all now [DEL (redis_key B ns k), SREM (index_key B ns) k] (view s))), s')"
    "view s' = snd (documented_all now [DEL (redis_key B ns k), SREM (index_key B ns) k] (view s))"
    by (rule exec_documented [OF assms(1)])
  show thesis
    by (rule that [of x]) (use run srem in \<open>simp_all add: redis_delete_def ignore_replies_def del: documented.simps(7)\<close>)
qed

lemma redis_touch_view:
  assumes "redis_documented B view"
  shows "fst (redis_touch B now ns k d s) = Inr (if live_entry now (view s) (redis_key B ns k) = None then Missing else Armed)"
    and "view (snd (redis_touch B now ns k d s)) =
      (case live_entry now (view s) (redis_key B ns k) of
         Some (v, e) \<Rightarrow> (view s)(redis_key B ns k \<mapsto> (v, Some (now + secs (expire_secs d)))) | None \<Rightarrow> view s)"
proof -
  obtain s' where "rb_exec B now [EXPIRE (redis_key B ns k) (expire_secs d)] s =
      (Inr (fst (documented_all now [EXPIRE (redis_key B ns k) (expire_secs d)] (view s))), s')"
    "view s' = snd (documented_all now [EXPIRE (redis_key B ns k) (expire_secs d)] (view s))"
    by (rule exec_documented [OF assms])
  then show "fst (redis_touch B now ns k d s) = Inr (if live_entry now (view s) (redis_key B ns k) = None then Missing else Armed)"
    "view (snd (redis_touch B now ns k d s)) =
      (case live_entry now (view s) (redis_key B ns k) of
         Some (v, e) \<Rightarrow> (view s)(redis_key B ns k \<mapsto> (v, Some (now + secs (expire_secs d)))) | None \<Rightarrow> view s)"
    by (auto simp: redis_touch_def split: option.split)
qed

section \<open>The contract\<close>

lemma redis_look_pair: "redis_look B view now s p =
    (case live_entry now (view s) (redis_key B (fst p) (snd p)) of Some (StrVal v, e) \<Rightarrow> Some v | _ \<Rightarrow> None)"
  by (cases p) (simp add: redis_look_def)

lemma live_fades: "now \<le> t \<Longrightarrow> live_entry t ks k \<noteq> None \<Longrightarrow> live_entry now ks k = live_entry t ks k"
  by (auto simp: live_entry_def split: option.splits prod.splits if_splits)

lemma redis_look_live:
  assumes "keys_ok B (view s)" "redis_name (ns, k)"
  shows "redis_look B view now s (ns, k) = None \<longleftrightarrow> live_entry now (view s) (redis_key B ns k) = None"
proof -
  have "view s (redis_key B ns k) = None \<or> (\<exists>v e. view s (redis_key B ns k) = Some (StrVal v, e))"
    using assms by (auto simp: keys_ok_def is_data_entry_def)
  then show ?thesis by (auto simp: redis_look_def live_entry_def split: option.split)
qed

lemma redis_contract:
  assumes doc: "redis_documented B view"
  shows "expiring_backend (redis_ops B) (\<lambda>s. keys_ok B (view s)) (redis_look B view) redis_name (\<lambda>d. secs (expire_secs d))"
proof
  fix s ns k now assume ok: "keys_ok B (view s)" and name: "redis_name (ns, k)"
  have data: "view s (redis_key B ns k) = None \<or> (\<exists>v e. view s (redis_key B ns k) = Some (StrVal v, e))"
    using ok name by (auto simp: keys_ok_def is_data_entry_def)
  have "rb_query B now (GET (redis_key B ns k)) s = Inr (fst (documented now (GET (redis_key B ns k)) (view s)))"
    using doc by (simp add: redis_documented_def)
  then show "be_get (redis_ops B) now ns k s = Inr (redis_look B view now s (ns, k))"
    using data by (auto simp: redis_get_def redis_look_def live_entry_def split: option.split)
next
  fix s now t p assume "(now::instant) \<le> t" "redis_look B view t s p \<noteq> None"
  then show "redis_look B view now s p = redis_look B view t s p"
    using live_fades [of now t "view s" "redis_key B (fst p) (snd p)"]
    by (auto simp: redis_look_pair split: option.splits)
next
  fix s ns k now v ttl assume ok: "keys_ok B (view s)" and name: "redis_name (ns, k)"
  obtain ms where "fst (redis_set B now ns k v ttl s) = Inr ()"
    "view (snd (redis_set B now ns k v ttl s)) =
       (view s)(index_key B ns \<mapsto> (SetVal ms, None),
                redis_key B ns k \<mapsto> (StrVal v, map_option (\<lambda>d. now + secs (expire_secs d)) ttl))"
    by (rule redis_set_view [OF doc ok name])
  moreover have "CHR '':'' \<notin> set ns" using name by (simp add: redis_name_def)
  ultimately show "fst (be_set (redis_ops B) now ns k v ttl s) = Inr () \<and> keys_ok B (view (snd (be_set (redis_ops B) now ns k v ttl s)))"
    using ok name by (simp add: keys_ok_data_update keys_ok_index_update is_index_entry_def is_data_entry_def)
next
  fix s ns k now t v ttl
  assume ok: "keys_ok B (view s)" and name: "redis_name (ns, k)"
    and ttl: "\<And>d. ttl = Some d \<Longrightarrow> (t::instant) < now + secs (expire_secs d)"
  obtain ms where "view (snd (redis_set B now ns k v ttl s)) =
       (view s)(index_key B ns \<mapsto> (SetVal ms, None),
                redis_key B ns k \<mapsto> (StrVal v, map_option (\<lambda>d. now + secs (expire_secs d)) ttl))"
    by (rule redis_set_view [OF doc ok name])
  then show "redis_look B view t (snd (be_set (redis_ops B) now ns k v ttl s)) (ns, k) = Some v"
    using ttl by (cases ttl) (simp_all add: redis_look_def live_entry_until)
next
  fix s ns k now t v ttl p
  assume ok: "keys_ok B (view s)" and name: "redis_name (ns, k)" and p: "redis_name p" "p \<noteq> (ns, k)"
  obtain ms where "view (snd (redis_set B now ns k v ttl s)) =
       (view s)(index_key B ns \<mapsto> (SetVal ms, None),
                redis_key B ns k \<mapsto> (StrVal v, map_option (\<lambda>d. now + secs (expire_secs d)) ttl))"
    by (rule redis_set_view [OF doc ok name])
  moreover have "redis_key B (fst p) (snd p) \<noteq> index_key B ns"
    using p(1) name by (cases p) (simp add: data_key_not_index redis_name_def)
  ultimately show "redis_look B view t (snd (be_set (redis_ops B) now ns k v ttl s)) p = redis_look B view t s p"
    using data_keys_differ [OF p(1) name p(2), of B] by (simp add: redis_look_pair)
next
  fix s ns k now assume ok: "keys_ok B (view s)" and name: "redis_name (ns, k)"
  obtain x where "fst (redis_delete B now ns k s) = Inr ()" "is_index_entry x"
    "view (snd (redis_delete B now ns k s)) = (view s)(redis_key B ns k := None, index_key B ns := x)"
    by (rule redis_delete_view [OF doc ok name])
  moreover have "CHR '':'' \<notin> set ns" using name by (simp add: redis_name_def)
  ultimately show "fst (be_delete (redis_ops B) now ns k s) = Inr () \<and> keys_ok B (view (snd (be_delete (redis_ops B) now ns k s)))"
    using ok name by (simp add: keys_ok_data_update keys_ok_index_update is_data_entry_def)
next
  fix s ns k now t p
  assume ok: "keys_ok B (view s)" and name: "redis_name (ns, k)" and p: "redis_name p"
  obtain x where view: "view (snd (redis_delete B now ns k s)) = (view s)(redis_key B ns k := None, index_key B ns := x)"
    by (rule redis_delete_view [OF doc ok name])
  have "redis_key B (fst p) (snd p) \<noteq> index_key B ns"
    using p name by (cases p) (simp add: data_key_not_index redis_name_def)
  then show "redis_look B view t (snd (be_delete (redis_ops B) now ns k s)) p =
      (if p = (ns, k) then None else redis_look B view t s p)"
    using data_keys_differ [OF p name, of B] view by (auto simp: redis_look_pair)
next
  fix s ns k now d assume ok: "keys_ok B (view s)" and name: "redis_name (ns, k)"
  have data: "view s (redis_key B ns k) = None \<or> (\<exists>v e. view s (redis_key B ns k) = Some (StrVal v, e))"
    using ok name by (auto simp: keys_ok_def is_data_entry_def)
  then have "keys_ok B (view (snd (redis_touch B now ns k d s)))"
    using ok name by (auto simp: redis_touch_view [OF doc] live_entry_def is_data_entry_def split: option.split intro!: keys_ok_data_update)
  then show "fst (be_touch (redis_ops B) now ns k d s) = Inr (if redis_look B view now s (ns, k) = None then Missing else Armed) \<and>
      keys_ok B (view (snd (be_touch (redis_ops B) now ns k d s)))"
    by (simp add: redis_touch_view [OF doc] redis_look_live [of B view s, OF ok name])
next
  fix s ns k now t d v
  assume "redis_look B view now s (ns, k) = Some v" "(t::instant) < now + secs (expire_secs d)"
  then show "redis_look B view t (snd (be_touch (redis_ops B) now ns k d s)) (ns, k) = Some v"
    by (auto simp: redis_look_def redis_touch_view [OF doc] live_entry_until split: option.splits redis_value.splits)
next
  fix s ns k now t d p
  assume "keys_ok B (view s)" "redis_name (ns, k)" "redis_look B view now s (ns, k) = None"
  then have "live_entry now (view s) (redis_key B ns k) = None" using redis_look_live [of B view s ns k now] by blast
  then have "view (snd (redis_touch B now ns k d s)) = view s" by (simp add: redis_touch_view [OF doc])
  then show "redis_look B view t (snd (be_touch (redis_ops B) now ns k d s)) p = redis_look B view t s p"
    by (simp add: redis_look_pair)
next
  fix s ns k now t d p
  assume "redis_name (ns, k)" "redis_name p" "p \<noteq> (ns, k)"
  then show "redis_look B view t (snd (be_touch (redis_ops B) now ns k d s)) p = redis_look B view t s p"
    using data_keys_differ [of p ns k B] by (auto simp: redis_look_pair redis_touch_view [OF doc] split: option.split)
qed

end
