(* ===== verification/Transport_Sessions.thy ===== *)
theory Transport_Sessions
  imports Persistence
begin

text \<open>
  rmcp's transport sessions in the framework's backend, \<open>src/src/transport/session_persistence.rs\<close>: the
  adapter's three operations, and, inside the contract of an expiring backend, that a session stays
  restorable as long as some instance restores it in time, and that a deleted one is not brought back.
\<close>

section \<open>The adapter\<close>

definition NS_TRANSPORT_SESSIONS :: string where "NS_TRANSPORT_SESSIONS = ''mcp_transport_sessions''"

text \<open>How \<open>serde_json\<close> writes and reads a session's state is part of the environment.\<close>

record ('b, 'v, 'st) transport_store =
  tr_ops :: "('b, 'v) backend_ops"
  tr_ttl :: duration
  tr_encode :: "'st \<Rightarrow> persistence_error + 'v"
  tr_decode :: "'v \<Rightarrow> persistence_error + 'st"

text \<open>
  The state is read at \<open>t1\<close> and its TTL is re-armed at \<open>t2\<close>; \<open>meanwhile\<close> is what other instances did to
  the backend in between.
\<close>

definition transport_load :: "('b, 'v, 'st) transport_store \<Rightarrow> instant \<Rightarrow> ('b \<Rightarrow> 'b) \<Rightarrow> instant \<Rightarrow> string \<Rightarrow> 'b \<Rightarrow>
    (persistence_error + 'st option) \<times> 'b" where
  "transport_load T t1 meanwhile t2 sid b =
     (case be_get (tr_ops T) t1 NS_TRANSPORT_SESSIONS sid b of
        Inl e \<Rightarrow> (Inl e, b)
      | Inr None \<Rightarrow> (Inr None, b)
      | Inr (Some bytes) \<Rightarrow>
          (case tr_decode T bytes of
             Inl e \<Rightarrow> (Inl e, b)
           | Inr state \<Rightarrow>
               (case be_touch (tr_ops T) t2 NS_TRANSPORT_SESSIONS sid (tr_ttl T) (meanwhile b) of
                  (Inr Armed, b') \<Rightarrow> (Inr (Some state), b')
                | (Inr Unsupported, b') \<Rightarrow> (Inr (Some state), b')
                | (Inr Missing, b') \<Rightarrow> (Inr None, b')
                | (Inl e, b') \<Rightarrow> (Inr None, b'))))"

definition transport_store_state :: "('b, 'v, 'st) transport_store \<Rightarrow> instant \<Rightarrow> string \<Rightarrow> 'st \<Rightarrow> 'b \<Rightarrow>
    (persistence_error + unit) \<times> 'b" where
  "transport_store_state T now sid state b =
     (case tr_encode T state of
        Inl e \<Rightarrow> (Inl e, b)
      | Inr bytes \<Rightarrow> be_set (tr_ops T) now NS_TRANSPORT_SESSIONS sid bytes (Some (tr_ttl T)) b)"

definition transport_delete :: "('b, 'v, 'st) transport_store \<Rightarrow> instant \<Rightarrow> string \<Rightarrow> 'b \<Rightarrow> (persistence_error + unit) \<times> 'b" where
  "transport_delete T now sid b = be_delete (tr_ops T) now NS_TRANSPORT_SESSIONS sid b"

text \<open>Several instances restore the session one after the other, at the moments of the list.\<close>

fun restore_repeatedly :: "('b, 'v, 'st) transport_store \<Rightarrow> string \<Rightarrow> (instant \<times> instant) list \<Rightarrow> 'b \<Rightarrow>
    (persistence_error + 'st option) list \<times> 'b" where
  "restore_repeatedly T sid [] b = ([], b)"
| "restore_repeatedly T sid ((t1, t2) # ts) b =
     (let (r, b1) = transport_load T t1 (\<lambda>b. b) t2 sid b; (rs, b2) = restore_repeatedly T sid ts b1 in (r # rs, b2))"

text \<open>Each restore is complete before the TTL armed at \<open>armed\<close>, by the store or the restore before it, lapses.\<close>

fun in_time :: "duration \<Rightarrow> instant \<Rightarrow> (instant \<times> instant) list \<Rightarrow> bool" where
  "in_time d armed [] = True"
| "in_time d armed ((t1, t2) # ts) = (t1 \<le> t2 \<and> t2 < armed + d \<and> in_time d t2 ts)"

section \<open>On an expiring backend\<close>

context expiring_backend
begin

lemma load_found:
  assumes "tr_ops T = ops" "binv b" "good (NS_TRANSPORT_SESSIONS, sid)" "binv (meanwhile b)"
    and "look t1 b (NS_TRANSPORT_SESSIONS, sid) = Some v" "tr_decode T v = Inr st"
  shows "transport_load T t1 meanwhile t2 sid b =
    (Inr (if look t2 (meanwhile b) (NS_TRANSPORT_SESSIONS, sid) = None then None else Some st),
     snd (be_touch ops t2 NS_TRANSPORT_SESSIONS sid (tr_ttl T) (meanwhile b)))"
proof -
  have get: "be_get ops t1 NS_TRANSPORT_SESSIONS sid b = Inr (Some v)" using assms by (simp add: get_law)
  obtain r b' where touch: "be_touch ops t2 NS_TRANSPORT_SESSIONS sid (tr_ttl T) (meanwhile b) = (r, b')"
    by (cases "be_touch ops t2 NS_TRANSPORT_SESSIONS sid (tr_ttl T) (meanwhile b)")
  have "r = Inr (if look t2 (meanwhile b) (NS_TRANSPORT_SESSIONS, sid) = None then Missing else Armed)"
    using touch_law [OF assms(4,3), of t2 "tr_ttl T"] touch by simp
  then show ?thesis using assms(1,6) get touch by (simp add: transport_load_def)
qed

lemma stored_inv:
  "tr_ops T = ops \<Longrightarrow> binv b \<Longrightarrow> good (NS_TRANSPORT_SESSIONS, sid) \<Longrightarrow> tr_encode T st = Inr v \<Longrightarrow>
     binv (snd (transport_store_state T now sid st b))"
  by (simp add: transport_store_state_def set_law)

lemma stored_look:
  assumes "tr_ops T = ops" "binv b" "good (NS_TRANSPORT_SESSIONS, sid)" "tr_encode T st = Inr v"
    and "t < now + effective (tr_ttl T)"
  shows "look t (snd (transport_store_state T now sid st b)) (NS_TRANSPORT_SESSIONS, sid) = Some v"
  using set_same [OF assms(2,3), of "Some (tr_ttl T)" t now v] assms(1,4,5)
  by (simp add: transport_store_state_def)

text \<open>Armed at \<open>armed\<close>, the session is restored by every one of a sequence of restores in time.\<close>

lemma restores_in_time:
  assumes "tr_ops T = ops" "binv b" "good (NS_TRANSPORT_SESSIONS, sid)" "tr_decode T v = Inr st"
    and "\<And>t. t < armed + effective (tr_ttl T) \<Longrightarrow> look t b (NS_TRANSPORT_SESSIONS, sid) = Some v"
    and "in_time (effective (tr_ttl T)) armed ts"
  shows "fst (restore_repeatedly T sid ts b) = replicate (length ts) (Inr (Some st))"
  using assms
proof (induction ts arbitrary: b armed)
  case Nil
  then show ?case by simp
next
  case (Cons p ts)
  obtain t1 t2 where p: "p = (t1, t2)" by (cases p)
  let ?b = "snd (be_touch ops t2 NS_TRANSPORT_SESSIONS sid (tr_ttl T) b)"
  have t2: "t1 \<le> t2" "t2 < armed + effective (tr_ttl T)" "in_time (effective (tr_ttl T)) t2 ts"
    using Cons.prems(6) p by auto
  have found: "look t1 b (NS_TRANSPORT_SESSIONS, sid) = Some v" "look t2 b (NS_TRANSPORT_SESSIONS, sid) = Some v"
    using t2 by (intro Cons.prems(5); simp)+
  then have load: "transport_load T t1 (\<lambda>b. b) t2 sid b = (Inr (Some st), ?b)"
    using load_found [OF Cons.prems(1-3), of "\<lambda>b. b" t1 v st t2] Cons.prems(2,4) by simp
  have "fst (restore_repeatedly T sid ts ?b) = replicate (length ts) (Inr (Some st))"
  proof (rule Cons.IH)
    show "binv ?b" using touch_law [OF Cons.prems(2,3)] by blast
    show "look t ?b (NS_TRANSPORT_SESSIONS, sid) = Some v" if "t < t2 + effective (tr_ttl T)" for t
      using touch_same [OF Cons.prems(2,3) found(2) that] .
  qed (use Cons.prems(1,3,4) t2(3) in auto)
  then show ?case using p load by (simp add: split_beta)
qed

lemma stored_restores_in_time:
  assumes "tr_ops T = ops" "binv b" "good (NS_TRANSPORT_SESSIONS, sid)"
    and "tr_encode T st = Inr v" "tr_decode T v = Inr st" "in_time (effective (tr_ttl T)) now ts"
  shows "fst (restore_repeatedly T sid ts (snd (transport_store_state T now sid st b))) =
    replicate (length ts) (Inr (Some st))"
  using assms(1) stored_inv [OF assms(1-4)] assms(3,5) stored_look [OF assms(1-4)] assms(6)
  by (rule restores_in_time)

lemma deleted_stays_deleted:
  assumes "tr_ops T = ops" "binv b" "good (NS_TRANSPORT_SESSIONS, sid)" "binv (meanwhile b)"
    and "look t1 b (NS_TRANSPORT_SESSIONS, sid) = Some v" "tr_decode T v = Inr st"
    and "look t2 (meanwhile b) (NS_TRANSPORT_SESSIONS, sid) = None"
  shows "fst (transport_load T t1 meanwhile t2 sid b) = Inr None"
    and "look t (snd (transport_load T t1 meanwhile t2 sid b)) p = look t (meanwhile b) p"
  using load_found [of T b sid meanwhile t1 v st t2, OF assms(1-6)] assms(7) touch_gone [OF assms(4,3,7)] by simp_all

end

end
