(* ===== verification/Redis_Properties.thy ===== *)
theory Redis_Properties
  imports Redis_Facts Transport_Sessions Token_Restore Samples
begin

text \<open>
  Properties of what the framework keeps in Redis: transport sessions that survive fail-overs and
  deletions, the distributed lock, and what the companion index of a namespace gets wrong. The
  hypothesis \<open>redis_documented\<close> says that the server answers as the Redis documentation states.
\<close>

section \<open>A server for the witnesses\<close>

definition sample_redis :: "(string \<Rightarrow> 'v) \<Rightarrow> ('v keyspace, 'v) redis_backend" where
  "sample_redis bytes = \<lparr>rb_query = (\<lambda>now c ks. Inr (fst (documented now c ks))),
     rb_exec = (\<lambda>now cs ks. (Inr (fst (documented_all now cs ks)), snd (documented_all now cs ks))),
     rb_prefix = None, rb_bytes = bytes\<rparr>"

definition sample_view :: "'v keyspace \<Rightarrow> 'v keyspace" where "sample_view ks = ks"

lemma sample_redis_documented: "redis_documented (sample_redis bytes) sample_view"
  by (simp add: redis_documented_def sample_redis_def sample_view_def)

lemma empty_keys_ok: "keys_ok B (sample_view Map.empty)"
  by (simp add: sample_view_def keys_ok_def is_index_entry_def is_data_entry_def)

lemma transport_name: "sid \<noteq> ''__idx__'' \<Longrightarrow> redis_name (NS_TRANSPORT_SESSIONS, sid)"
  by (simp add: redis_name_def NS_TRANSPORT_SESSIONS_def)

section \<open>Transport sessions\<close>

text \<open>C20.
  A transport session stored in Redis stays restorable for as long as some instance restores it in
  time: when each restore completes before the TTL that the store or the previous restore armed has
  lapsed, however long the sequence lasts, every one of them yields the stored state.
\<close>

theorem transport_session_stays_restorable:
  assumes "redis_documented B view" "keys_ok B (view s)" "tr_ops T = redis_ops B" "sid \<noteq> ''__idx__''"
    and "tr_encode T state = Inr bytes" "tr_decode T bytes = Inr state"
    and "in_time (secs (expire_secs (tr_ttl T))) now ts"
  shows "fst (restore_repeatedly T sid ts (snd (transport_store_state T now sid state s))) =
    replicate (length ts) (Inr (Some state))"
  using expiring_backend.stored_restores_in_time [OF redis_contract [OF assms(1)] assms(3,2) transport_name [OF assms(4)] assms(5,6,7)] .

definition sample_transport :: "(string keyspace, string, string) transport_store" where
  "sample_transport = \<lparr>tr_ops = redis_ops (sample_redis (\<lambda>s. s)), tr_ttl = secs 1800, tr_encode = Inr, tr_decode = Inr\<rparr>"

lemma sample_transport_fields [simp]:
  "tr_ops sample_transport = redis_ops (sample_redis (\<lambda>s. s))" "tr_ttl sample_transport = secs 1800"
  "tr_encode sample_transport = Inr" "tr_decode sample_transport = Inr"
  by (simp_all add: sample_transport_def)

theorem transport_session_stays_restorable_witness:
  "fst (restore_repeatedly sample_transport ''s1'' [(secs 1000, secs 1001), (secs 2000, secs 2000), (secs 3700, secs 3701)]
     (snd (transport_store_state sample_transport 0 ''s1'' ''params'' Map.empty))) =
   [Inr (Some ''params''), Inr (Some ''params''), Inr (Some ''params'')]"
  using transport_session_stays_restorable [OF sample_redis_documented [of "\<lambda>s. s"], of Map.empty, OF empty_keys_ok, of sample_transport "''s1''"
      "''params''" "''params''" 0 "[(secs 1000, secs 1001), (secs 2000, secs 2000), (secs 3700, secs 3701)]"]
  by (simp add: expire_secs_def secs_def numeral_3_eq_3)



section \<open>The index\<close>

text \<open>
  A token stored under the session id \<open>__idx__\<close> overwrites the set that lists the sessions of the
  namespace. When the record does not expire, every instance that starts afterwards fails to load its
  persisted tokens.
\<close>

lemma record_under_the_index_name:
  assumes "redis_documented B view" "persistence E = Some (redis_ops B)"
    and "persist_ttl c (apply_decoder E t) = None" "enc_token (serde E) (from_stored c (apply_decoder E t)) = Some bytes"
    and "s' = store_token E c ''__idx__'' t s" "backend started = backend s'"
  shows "fst (load_persisted E c' started) = Inl wrong_type"
proof -
  let ?k = "redis_key B NS_TOKENS ''__idx__''"
  have b: "backend s' = snd (redis_set B (mono c) NS_TOKENS ''__idx__'' bytes None (backend s))"
    using assms(2-5) by (simp add: store_token_def write_through_def Let_def persist_def persist_raw_def persist_ttl_def)
  obtain r where "view (backend s') = r(?k \<mapsto> (StrVal bytes, None))"
  proof -
    let ?pipe = "[SADD (index_key B NS_TOKENS) ''__idx__'', SET ?k bytes]"
    obtain b' where "rb_exec B (mono c) ?pipe (backend s) = (Inr (fst (documented_all (mono c) ?pipe (view (backend s)))), b')"
      "view b' = snd (documented_all (mono c) ?pipe (view (backend s)))"
      by (rule exec_documented [OF assms(1)])
    then have "view (backend s') = (snd (documented (mono c) (SADD (index_key B NS_TOKENS) ''__idx__'') (view (backend s))))(?k \<mapsto> (StrVal bytes, None))"
      by (simp add: b redis_set_def ignore_replies_def Let_def split_beta)
    then show thesis by (rule that)
  qed
  then have "redis_keys B (mono c') NS_TOKENS (backend s') = Inl wrong_type"
    using assms(1) by (simp add: redis_keys_def redis_documented_def index_key_eq)
  then show ?thesis using assms(2,6) by (simp add: load_persisted_def)
qed

text \<open>
  The index lists a session until it is deleted, also when its record has expired in the meantime.
\<close>

theorem index_lists_expired_records:
  assumes "redis_documented B view" "keys_ok B (view s)" "redis_name (ns, k)"
    and "s' = snd (redis_set B now ns k v (Some ttl) s)" "now + secs (expire_secs ttl) \<le> t"
  shows "redis_get B t ns k s' = Inr None \<and> (\<exists>ms. redis_keys B t ns s' = Inr ms \<and> k \<in> set ms)"
proof -
  let ?idx = "index_key B ns" and ?k = "redis_key B ns k"
  let ?pipe = "[SADD ?idx k, SET ?k v, EXPIRE ?k (expire_secs ttl)]"
  have ns: "CHR '':'' \<notin> set ns" using assms(3) by (simp add: redis_name_def)
  have differ: "?k \<noteq> ?idx" using assms(3) ns by (rule data_key_not_index)
  obtain ms n where sadd: "documented now (SADD ?idx k) (view s) = (IntReply n, (view s)(?idx \<mapsto> (SetVal ms, None)))" "k \<in> set ms"
  proof -
    consider "view s ?idx = None" | ms where "view s ?idx = Some (SetVal ms, None)"
      using assms(2) ns by (auto simp: keys_ok_def is_index_entry_def)
    then show thesis by cases (auto simp: live_entry_def intro: that)
  qed
  obtain b' where "rb_exec B now ?pipe s = (Inr (fst (documented_all now ?pipe (view s))), b')"
    "view b' = snd (documented_all now ?pipe (view s))"
    by (rule exec_documented [OF assms(1)])
  then have view: "view s' = (view s)(?idx \<mapsto> (SetVal ms, None), ?k \<mapsto> (StrVal v, Some (now + secs (expire_secs ttl))))"
    using sadd(1) by (simp add: assms(4) redis_set_def ignore_replies_def Let_def split_beta)
  show ?thesis
    using assms(1,5) sadd(2) differ
    by (simp add: redis_get_def redis_keys_def redis_documented_def view live_entry_until)
qed

section \<open>The distributed lock\<close>

text \<open>
  While one instance holds a lock, nobody else acquires it, and a release with a different token leaves
  it held.
\<close>

theorem redis_lock_is_exclusive:
  assumes "redis_documented B view" "fst (redis_try_acquire_lock B now ns k tok1 ttl s) = Inr True"
    and "s1 = snd (redis_try_acquire_lock B now ns k tok1 ttl s)" "t < now + millis (lock_millis ttl)"
    and "rb_bytes B tok2 \<noteq> rb_bytes B tok1" "s2 = snd (redis_release_lock B t ns k tok2 s1)"
  shows "fst (redis_try_acquire_lock B t ns k tok2 ttl' s2) = Inr False"
proof -
  let ?k = "redis_key B ns k"
  let ?entry = "(StrVal (rb_bytes B tok1), Some (now + millis (lock_millis ttl)))"
  obtain a where a: "rb_exec B now [SET_NX_PX ?k (rb_bytes B tok1) (lock_millis ttl)] s =
      (Inr (fst (documented_all now [SET_NX_PX ?k (rb_bytes B tok1) (lock_millis ttl)] (view s))), a)"
    "view a = snd (documented_all now [SET_NX_PX ?k (rb_bytes B tok1) (lock_millis ttl)] (view s))"
    by (rule exec_documented [OF assms(1)])
  have v1: "view s1 ?k = Some ?entry"
    using assms(2,3) a by (auto simp: redis_try_acquire_lock_def split: if_splits)
  obtain b where b: "rb_exec B t [EVAL_release ?k (rb_bytes B tok2)] s1 =
      (Inr (fst (documented_all t [EVAL_release ?k (rb_bytes B tok2)] (view s1))), b)"
    "view b = snd (documented_all t [EVAL_release ?k (rb_bytes B tok2)] (view s1))"
    by (rule exec_documented [OF assms(1)])
  have v2: "view s2 ?k = Some ?entry"
    using assms(4-6) b v1 by (simp add: redis_release_lock_def live_entry_def split_beta split: if_splits)
  obtain d where "rb_exec B t [SET_NX_PX ?k (rb_bytes B tok2) (lock_millis ttl')] s2 =
      (Inr (fst (documented_all t [SET_NX_PX ?k (rb_bytes B tok2) (lock_millis ttl')] (view s2))), d)"
    by (rule exec_documented [OF assms(1)])
  then show ?thesis using assms(4) v2 by (simp add: redis_try_acquire_lock_def live_entry_def)
qed

end
