(* ===== verification/Runner_Properties.thy ===== *)
theory Runner_Properties
  imports Runner Samples
begin

text \<open>
  The builder's guard: an application that builds agrees with every loopback endpoint it handed out.
\<close>

section \<open>The guard\<close>

definition agrees :: "('b, 'v, 'c, 't, 'w, 'f, 'g) handout \<Rightarrow> ('c, 'w, 'f, 'g, 's, 'p, 'r) app_builder \<Rightarrow> bool" where
  "agrees e B \<longleftrightarrow>
     ab_factory B = Some (ho_factory e) \<and> ab_registry B = Some (ho_registry e) \<and> ab_logger B = ho_logger e \<and>
     ab_filter B = le_filter (ho_endpoint e) \<and> ab_validator B = le_validator (ho_endpoint e) \<and>
     ab_claims_decoder B = claims_decoder (le_store_env (ho_endpoint e)) \<and>
     provider_token_mode (ab_auth B) = le_token_mode (ho_endpoint e) \<and>
     settings_session_ttl (ab_settings B) = ss_ttl (le_session_env (ho_endpoint e))"

text \<open>
  Once an endpoint is out, the builder either agrees with all of them or has recorded a divergence.
\<close>

definition guarded :: "('b, 'v, 'c, 't, 'w, 'f, 'g) handout list \<times> ('c, 'w, 'f, 'g, 's, 'p, 'r) app_builder \<Rightarrow> bool" where
  "guarded = (\<lambda>(es, B). (es \<noteq> [] \<longrightarrow> handed_out (ab_guard B)) \<and>
     (diverged (ab_guard B) = [] \<longrightarrow> (\<forall>e \<in> set es. agrees e B)))"

lemmas builder_setters =
  builder_auth_def builder_stdio_token_env_def builder_settings_def builder_registry_def builder_filter_def
  builder_session_store_def builder_validator_def builder_claims_decoder_def builder_logger_def
  builder_public_routes_def builder_metrics_def builder_extra_routes_def builder_persistence_def
  builder_lifecycle_def builder_max_version_def builder_server_def with_factory_def with_sessions_def
  set_noted_def note_field_def

lemma noted_diverges: "handed_out g \<Longrightarrow> diverged (note_field x g) \<noteq> []"
  by (auto simp: note_field_def)

lemma noted_handed_out [simp]: "handed_out (note_field x g) = handed_out g"
  by (simp add: note_field_def)

text \<open>A call that notes its field, or one that sets none of the shared fields.\<close>

lemma guarded_noted:
  assumes "guarded (es, B)" "ab_guard B' = note_field x (ab_guard B)"
  shows "guarded (es, B')"
  using assms noted_diverges [of "ab_guard B" x] by (auto simp: guarded_def)

lemma guarded_same:
  assumes "guarded (es, B)" "ab_guard B' = ab_guard B" "\<And>e. e \<in> set es \<Longrightarrow> agrees e B \<Longrightarrow> agrees e B'"
  shows "guarded (es, B')"
  using assms by (auto simp: guarded_def)

lemma guarded_handout:
  assumes "guarded (es, B)" "ab_factory B = Some f" "builder_loopback S J d fresh f B = (e, B')"
  shows "guarded (e # es, B')"
proof -
  have B': "ab_guard B' = (ab_guard B)\<lparr>handed_out := True\<rparr>" "agrees e B'"
    using assms(2,3) by (auto simp: builder_loopback_def Let_def agrees_def)
  have "agrees x B'" if "agrees x B" for x
    using that assms(3) by (auto simp: builder_loopback_def Let_def agrees_def)
  with B' assms(1) show ?thesis by (auto simp: guarded_def)
qed

lemma guarded_step:
  assumes "guarded sB"
  shows "guarded (builder_step S J d call sB)"
proof -
  obtain es B where sB: "sB = (es, B)" by (cases sB)
  with assms have g: "guarded (es, B)" by simp
  note noted = guarded_noted [OF g]
  note same = guarded_same [OF g]
  have out: "guarded (builder_step S J d (HandOut fresh) (es, B))" for fresh
    using g guarded_handout [OF g] by (auto split: option.split prod.split)
  have metrics: "ab_guard (builder_metrics l r B) = note_field ''metrics'' (ab_guard B)" for l r
    by (auto simp: builder_metrics_def set_noted_def builder_public_routes_def Let_def split: option.split)
  show ?thesis
    unfolding sB using noted [OF metrics] out
    by (cases call)
      (auto simp: builder_setters agrees_def intro: noted same)
qed

lemma guarded_run: "guarded sB \<Longrightarrow> guarded (fold (builder_step S J d) calls sB)"
  by (induction calls arbitrary: sB) (simp_all add: guarded_step)

section \<open>The property\<close>

text \<open>C27.
  An application that builds takes the same path for in-process and for network callers. Whatever an
  application calls on the builder, in whatever order, and however often it hands out endpoints: when the
  result builds, every endpoint handed out has the factory, the registry, the logger, the filter, the
  validator, the claims decoder, the token mode and the session TTL of the application.
\<close>

theorem endpoints_agree_with_the_application:
  assumes "fold (builder_step S J d) calls ([], builder_new name) = (es, B)"
    and "build is_socket_addr B = Inr app" "e \<in> set es"
  shows "ma_factory app = Some (ho_factory e) \<and> ma_registry app = Some (ho_registry e) \<and>
    ma_logger app = ho_logger e \<and> ma_filter app = le_filter (ho_endpoint e) \<and>
    ma_validator app = le_validator (ho_endpoint e) \<and>
    ma_claims_decoder app = claims_decoder (le_store_env (ho_endpoint e)) \<and>
    provider_token_mode (ma_auth app) = le_token_mode (ho_endpoint e) \<and>
    settings_session_ttl (ma_settings app) = ss_ttl (le_session_env (ho_endpoint e))"
proof -
  have "guarded (es, B)"
    unfolding assms(1) [symmetric] by (rule guarded_run) (simp add: guarded_def)
  moreover have "diverged (ab_guard B) = []"
    using assms(2) by (auto simp: build_def validate_builder_def split: option.splits if_splits)
  ultimately have "agrees e B" using assms(3) by (auto simp: guarded_def)
  moreover have "ma_factory app = ab_factory B" "ma_registry app = ab_registry B" "ma_logger app = ab_logger B"
    "ma_filter app = ab_filter B" "ma_validator app = ab_validator B" "ma_claims_decoder app = ab_claims_decoder B"
    "ma_auth app = ab_auth B" "ma_settings app = ab_settings B"
    using assms(2) by (auto simp: build_def split: sum.splits)
  ultimately show ?thesis by (simp add: agrees_def)
qed

definition sample_flow :: "(string, nat, nat, nat, nat, nat, nat) builder_call list" where
  "sample_flow = [SetServer 7, SetClaimsDecoder (\<lambda>t. Some t), HandOut 3, SetPersistence 1]"

theorem endpoints_agree_with_the_application_witness:
  "\<exists>es B app. fold (builder_step sample_serde sample_jwt (0::nat)) sample_flow ([], builder_new ''app'') =
      (es :: (sample_backend, sample_value, string, nat, nat, nat, nat) handout list, B) \<and>
     build (\<lambda>a. True) B = Inr app \<and> es \<noteq> [] \<and> ma_registry app = Some 3 \<and>
     ma_claims_decoder app = claims_decoder (le_store_env (ho_endpoint (hd es)))"
proof -
  obtain es B where run: "fold (builder_step sample_serde sample_jwt (0::nat)) sample_flow ([], builder_new ''app'') =
      (es :: (sample_backend, sample_value, string, nat, nat, nat, nat) handout list, B)" by fastforce
  then have es: "es \<noteq> []" and reg: "ab_registry B = Some 3" and ok: "validate_builder (\<lambda>a. True) B = Inr ()"
    by (auto simp: sample_flow_def builder_new_def builder_setters builder_loopback_def validate_builder_def validate_auth_def Let_def)
  obtain app where app: "build (\<lambda>a. True) B = Inr app" "ma_registry app = ab_registry B"
    using ok by (simp add: build_def)
  have "hd es \<in> set es" using es by simp
  with endpoints_agree_with_the_application [OF run app(1)] run app es reg show ?thesis by auto
qed

end
