(* ===== verification/Http_App.thy ===== *)
theory Http_App
  imports Runner OAuth_Routes Transport_Sessions Token_Restore
begin

text \<open>
  The assembly of the HTTP server, \<open>src/src/transport/http.rs\<close>: from the configuration to the stores and
  their environments, the routes outside the authentication layer and the layers around the others, and
  the start of the server with what it loads; and the start of the stdio transport
  (\<open>run_stdio_mode\<close> of \<open>src/src/runner.rs\<close>). What answers a request is a value: the handler of an open
  route, or how far the request gets behind the layers. Matching a path against a route of the
  application is an argument, as \<open>axum\<close> does it; the framework's own routes are literal paths. CORS,
  tracing, sockets and shutdown are left out.
\<close>

section \<open>Configuration\<close>

record ('b, 'v, 'c, 'w, 'r) http_app_config =
  ha_public_url :: string
  ha_bind_addr :: string
  ha_app_name :: string
  ha_auth :: auth_provider
  ha_filter :: "'c capability_filter option"
  ha_validator :: "('c, 'w) access_validator option"
  ha_claims_decoder :: "(string \<Rightarrow> 'c option) option"
  ha_session_ttl :: duration
  ha_logger :: "'w tool_call_logger option"
  ha_persistence :: "('b, 'v) backend_ops option"
  ha_lifecycle :: protocol_lifecycle_policy
  ha_max_version :: "protocol_version option"
  ha_extra_routes :: "'r list option"
  ha_public_routes :: "'r list option"

text \<open>
  The libraries the assembled server works with. \<open>lb_host\<close> parses a URL and gives its host and explicit
  port, \<open>lb_socket_addr\<close> tells which texts are socket addresses.
\<close>

record ('b, 'v, 'c, 'k, 'st, 'r) app_libs =
  lb_serde :: "'v store_serde"
  lb_jwt :: jwt_lib
  lb_headers :: header_lib
  lb_jwks :: "'k jwks_lib"
  lb_post :: http_post
  lb_codec :: json_codec
  lb_bytes :: "string \<Rightarrow> 'v"
  lb_utf8 :: "'v \<Rightarrow> string option"
  lb_encode_state :: "'st \<Rightarrow> persistence_error + 'v"
  lb_decode_state :: "'v \<Rightarrow> persistence_error + 'st"
  lb_host :: "string \<Rightarrow> (string \<times> nat option) option"
  lb_show_nat :: "nat \<Rightarrow> string"
  lb_known_versions :: "protocol_version list"
  lb_env :: env_var
  lb_matches :: "string \<Rightarrow> 'r \<Rightarrow> bool"
  lb_socket_addr :: "string \<Rightarrow> bool"

datatype app_error = BadOAuth config_error | BadRevision revision_error

definition keeps_token_state :: "auth_provider \<Rightarrow> bool" where
  "keeps_token_state auth = (case auth of OAuth cfg \<Rightarrow> is_stateful (oc_token_mode cfg) | _ \<Rightarrow> True)"

section \<open>Stores\<close>

definition app_refresh_config :: "oauth_config \<Rightarrow> refresh_config" where
  "app_refresh_config cfg =
     \<lparr>rf_client_id = oc_client_id cfg, rf_client_secret = oc_client_secret cfg,
      rf_token_url = trim_end_matches (CHR ''/'') (oc_issuer_url cfg) @ ''/protocol/openid-connect/token''\<rparr>"

definition app_token_store :: "auth_provider \<Rightarrow> 'b \<Rightarrow> ('b, 'c, 'k) token_store" where
  "app_token_store auth b =
     (case auth of
        OAuth cfg \<Rightarrow>
          if keeps_token_state auth then with_refresh_config (app_refresh_config cfg) b else token_store_new b
      | _ \<Rightarrow> token_store_new b)"

definition app_validation :: "auth_provider \<Rightarrow> bearer_validation option" where
  "app_validation auth =
     (case auth of OAuth cfg \<Rightarrow> Some (configure_unknown_bearer_validation cfg) | _ \<Rightarrow> None)"

definition app_store_env :: "('b, 'v, 'c, 'k, 'st, 'r) app_libs \<Rightarrow> ('b, 'v, 'c, 'w, 'r) http_app_config \<Rightarrow>
    ('b, 'v, 'c) store_env" where
  "app_store_env L cfg =
     \<lparr>persistence = (if keeps_token_state (ha_auth cfg) then ha_persistence cfg else None),
      serde = lb_serde L, claims_decoder = ha_claims_decoder cfg, jwt = lb_jwt L\<rparr>"

definition app_binding_env :: "('b, 'v, 'c, 'k, 'st, 'r) app_libs \<Rightarrow> ('b, 'v, 'c, 'w, 'r) http_app_config \<Rightarrow>
    ('b, 'v) binding_env" where
  "app_binding_env L cfg =
     \<lparr>bd_persistence = ha_persistence cfg, bd_bytes = lb_bytes L, bd_utf8 = lb_utf8 L,
      bd_ttl = ha_session_ttl cfg, max_entries = SESSION_BINDING_MAX_ENTRIES\<rparr>"

definition app_transport :: "('b, 'v, 'c, 'k, 'st, 'r) app_libs \<Rightarrow> ('b, 'v, 'c, 'w, 'r) http_app_config \<Rightarrow>
    ('b, 'v, 'st) transport_store option" where
  "app_transport L cfg =
     map_option (\<lambda>ops. \<lparr>tr_ops = ops, tr_ttl = ha_session_ttl cfg, tr_encode = lb_encode_state L,
       tr_decode = lb_decode_state L\<rparr>) (ha_persistence cfg)"

section \<open>Routes outside the authentication layer\<close>

definition OAUTH_LOGIN_PATH :: string where "OAUTH_LOGIN_PATH = ''/login''"
definition OAUTH_STATUS_PATH :: string where "OAUTH_STATUS_PATH = ''/status''"

datatype open_route =
    OAuthEndpoint oauth_handler
  | LoginPage
  | LoginCallback
  | LoginStatus
  | ResourceMetadata well_known_state
  | ServerMetadata mcp_oauth_state

definition oauth_router :: "(string \<times> oauth_method \<times> open_route) list" where
  "oauth_router =
     [(OAUTH_LOGIN_PATH, GET, LoginPage), (OAUTH_CALLBACK_PATH, GET, LoginCallback),
      (OAUTH_STATUS_PATH, GET, LoginStatus)]"

definition nest :: "string \<Rightarrow> (string \<times> oauth_method \<times> open_route) list \<Rightarrow> (string \<times> oauth_method \<times> open_route) list" where
  "nest prefix = map (\<lambda>(path, m, h). (prefix @ path, m, h))"

definition setup_oauth_routes :: "oauth_config \<Rightarrow> string \<Rightarrow> (string \<times> oauth_method \<times> open_route) list" where
  "setup_oauth_routes cfg public_url =
     (let stateful = is_stateful (oc_token_mode cfg);
          authorization_server =
            (if stateful then public_url else trim_end_matches (CHR ''/'') (oc_issuer_url cfg));
          wk = \<lparr>wk_resource_url = public_url @ ''/mcp'', wk_authorization_server = authorization_server,
                wk_scopes = oc_scopes cfg\<rparr>;
          st = from_oauth_config cfg public_url;
          proxied = map (\<lambda>(path, m, h). (path, m, OAuthEndpoint h)) (mcp_oauth_router st);
          oauth_routes = (if stateful then proxied @ oauth_router
            else proxied @
              [(OAUTH_LOGIN_PATH, GET, OAuthEndpoint NotProxiedHandler),
               (OAUTH_CALLBACK_PATH, GET, OAuthEndpoint NotProxiedHandler),
               (OAUTH_STATUS_PATH, GET, OAuthEndpoint NotProxiedHandler)])
      in [(''/.well-known/oauth-protected-resource'', GET, ResourceMetadata wk),
          (''/.well-known/oauth-protected-resource/mcp'', GET, ResourceMetadata wk),
          (''/.well-known/oauth-authorization-server'', GET, ServerMetadata st)]
         @ nest OAUTH_MOUNT oauth_routes)"

definition allowed_hosts :: "('b, 'v, 'c, 'k, 'st, 'r) app_libs \<Rightarrow> string \<Rightarrow> string list" where
  "allowed_hosts L public_url =
     (let hosts = [''localhost'', ''127.0.0.1'', ''::1'']
      in case lb_host L public_url of
           Some (host, port) \<Rightarrow>
             (let authority = (case port of Some p \<Rightarrow> host @ '':'' @ lb_show_nat L p | None \<Rightarrow> host)
              in if authority \<in> set hosts then hosts else hosts @ [authority])
         | None \<Rightarrow> hosts)"

section \<open>The assembled server\<close>

record ('b, 'v, 'c, 'k, 'st, 'w, 'r) http_app =
  ap_auth :: auth_provider
  ap_auth_env :: "('b, 'v, 'c, 'k) auth_env"
  ap_open_routes :: "(string \<times> oauth_method \<times> open_route) list"
  ap_public_routes :: "'r list"
  ap_extra_routes :: "'r list"
  ap_lifecycle :: protocol_lifecycle_policy
  ap_context :: "('c, 'w) handler_context"
  ap_logger :: "'w tool_call_logger option"
  ap_hosts :: "string list"
  ap_transport :: "('b, 'v, 'st) transport_store option"

text \<open>\<open>b\<close> is the state of the shared backend.\<close>

definition build_app :: "('b, 'v, 'c, 'k, 'st, 'r) app_libs \<Rightarrow> ('b, 'v, 'c, 'w, 'r) http_app_config \<Rightarrow> 'b \<Rightarrow>
    app_error + ('b, 'v, 'c, 'k, 'st, 'w, 'r) http_app \<times> ('b, 'c, 'k) auth_state" where
  "build_app L cfg b =
     (case (case ha_auth cfg of OAuth oauth \<Rightarrow> validate_config oauth | _ \<Rightarrow> Inr ()) of
        Inl e \<Rightarrow> Inl (BadOAuth e)
      | Inr u \<Rightarrow>
          (case resolve_max_protocol_version (lb_known_versions L) (lb_env L) (ha_max_version cfg) of
             Inl e \<Rightarrow> Inl (BadRevision e)
           | Inr max_version \<Rightarrow>
               Inr (\<lparr>ap_auth = ha_auth cfg,
                     ap_auth_env = \<lparr>am_headers = lb_headers L, am_store = app_store_env L cfg,
                       am_validation = app_validation (ha_auth cfg), am_jwks = lb_jwks L, am_post = lb_post L,
                       am_bindings = app_binding_env L cfg,
                       am_metadata_url = ha_public_url cfg @ ''/.well-known/oauth-protected-resource/mcp'',
                       am_token_mode = provider_token_mode (ha_auth cfg)\<rparr>,
                     ap_open_routes = (case ha_auth cfg of
                         OAuth oauth \<Rightarrow> setup_oauth_routes oauth (ha_public_url cfg) | _ \<Rightarrow> []),
                     ap_public_routes = (case ha_public_routes cfg of Some rs \<Rightarrow> rs | None \<Rightarrow> []),
                     ap_extra_routes = (case ha_extra_routes cfg of Some rs \<Rightarrow> rs | None \<Rightarrow> []),
                     ap_lifecycle = ha_lifecycle cfg,
                     ap_context = \<lparr>hc_filter = ha_filter cfg, hc_validator = ha_validator cfg,
                       hc_logs = ha_logger cfg \<noteq> None, hc_max_version = max_version, hc_loopback = None\<rparr>,
                     ap_logger = ha_logger cfg,
                     ap_hosts = allowed_hosts L (ha_public_url cfg),
                     ap_transport = app_transport L cfg\<rparr>,
                    \<lparr>au_store = app_token_store (ha_auth cfg) b, au_bindings = session_bindings_new b\<rparr>)))"

section \<open>A request\<close>

record 'c app_request =
  aq_path :: string
  aq_method :: string
  aq_body :: "string option"
  aq_request :: "'c request"

datatype ('c, 'r) app_outcome =
    PublicRoute 'r
  | OpenRoute open_route
  | WrongMethod
  | Rejected string
  | ExtraRoute 'r "'c request"
  | StatusAnswer nat
  | McpService http_message "'c request"

text \<open>\<open>get\<close> also answers \<open>HEAD\<close>.\<close>

definition allows_method :: "oauth_method \<Rightarrow> string \<Rightarrow> bool" where
  "allows_method m name = (case m of GET \<Rightarrow> name \<in> {''GET'', ''HEAD''} | POST \<Rightarrow> name = ''POST'')"

definition open_answer :: "(string \<times> oauth_method \<times> open_route) list \<Rightarrow> 'c app_request \<Rightarrow> ('c, 'r) app_outcome option" where
  "open_answer routes q =
     (case find (\<lambda>(path, m, h). path = aq_path q) routes of
        None \<Rightarrow> None
      | Some (path, m, h) \<Rightarrow> Some (if allows_method m (aq_method q) then OpenRoute h else WrongMethod))"

text \<open>Behind the layers: an extra route, or the MCP service behind the lifecycle layer.\<close>

definition inner_service :: "('b, 'v, 'c, 'k, 'st, 'r) app_libs \<Rightarrow> ('b, 'v, 'c, 'k, 'st, 'w, 'r) http_app \<Rightarrow>
    'c app_request \<Rightarrow> 'c request \<Rightarrow> ('c, 'r) app_outcome" where
  "inner_service L app q r =
     (case find (lb_matches L (aq_path q)) (ap_extra_routes app) of
        Some route \<Rightarrow> ExtraRoute route r
      | None \<Rightarrow>
          (case normalize_protocol_lifecycle (lb_codec L) (lb_headers L) (ap_lifecycle app)
                  \<lparr>hq_method = aq_method q, hq_headers = headers r, hq_body = aq_body q\<rparr> of
             NextRun message \<Rightarrow> McpService message r
           | StatusOnly status \<Rightarrow> StatusAnswer status))"

text \<open>The layers: first the framework's session header is stripped, then the provider decides.\<close>

definition auth_layers :: "('b, 'v, 'c, 'k, 'st, 'w, 'r) http_app \<Rightarrow> ('b, 'c, 'k) waiting \<Rightarrow> clock \<Rightarrow> 'c request \<Rightarrow>
    ('b, 'c, 'k) auth_state \<Rightarrow> ('c response \<times> ('b, 'c, 'k) auth_state) option" where
  "auth_layers app w c r a =
     (let r1 = strip_framework_session_header r
      in case ap_auth app of
           NoAuth \<Rightarrow> Some (Forward r1, a)
         | BasicAuth basic \<Rightarrow>
             (let (resp, s) = basic_auth_middleware (am_headers (ap_auth_env app)) (am_store (ap_auth_env app)) basic c r1 (au_store a)
              in Some (resp, a\<lparr>au_store := s\<rparr>))
         | OAuth cfg \<Rightarrow> bearer_auth_middleware (ap_auth_env app) w c r1 a)"

definition app_handle :: "('b, 'v, 'c, 'k, 'st, 'r) app_libs \<Rightarrow> ('b, 'v, 'c, 'k, 'st, 'w, 'r) http_app \<Rightarrow>
    ('b, 'c, 'k) waiting \<Rightarrow> clock \<Rightarrow> 'c app_request \<Rightarrow> ('b, 'c, 'k) auth_state \<Rightarrow>
    (('c, 'r) app_outcome \<times> ('b, 'c, 'k) auth_state) option" where
  "app_handle L app w c q a =
     (case find (lb_matches L (aq_path q)) (ap_public_routes app) of
        Some route \<Rightarrow> Some (PublicRoute route, a)
      | None \<Rightarrow>
          (case open_answer (ap_open_routes app) q of
             Some answer \<Rightarrow> Some (answer, a)
           | None \<Rightarrow>
               (case auth_layers app w c (aq_request q) a of
                  None \<Rightarrow> None
                | Some (Unauthorized challenge, a') \<Rightarrow> Some (Rejected challenge, a')
                | Some (Forward r, a') \<Rightarrow> Some (inner_service L app q r, a'))))"

section \<open>Starting\<close>

datatype start_error =
    Misconfigured app_error
  | BadBindAddr
  | TokensNotLoaded persistence_error
  | VersionsNotLoaded persistence_error
  | SessionsNotLoaded persistence_error

text \<open>\<open>run_http\<close> up to the listener: \<open>g\<close> is the application's registry, or a new one.\<close>

definition run_http :: "('b, 'v, 'c, 'k, 'st, 'r) app_libs \<Rightarrow> ('b, 'v) registry_env \<Rightarrow> ('b, 'v, 'c, 'w, 'r) http_app_config \<Rightarrow>
    clock \<Rightarrow> ('b, 'p, 'c, 'w) registry \<Rightarrow> 'b \<Rightarrow>
    start_error + (('b, 'v, 'c, 'k, 'st, 'w, 'r) http_app \<times> ('b, 'c, 'k) auth_state \<times> ('b, 'p, 'c, 'w) registry)" where
  "run_http L R cfg c g b =
     (case (case ha_auth cfg of OAuth oauth \<Rightarrow> validate_config oauth | _ \<Rightarrow> Inr ()) of
        Inl e \<Rightarrow> Inl (Misconfigured (BadOAuth e))
      | Inr u \<Rightarrow>
          if \<not> lb_socket_addr L (ha_bind_addr cfg) then Inl BadBindAddr
          else
            (case build_app L cfg b of
               Inl e \<Rightarrow> Inl (Misconfigured e)
             | Inr (app, a) \<Rightarrow>
                 (case (if keeps_token_state (ha_auth cfg) then load_persisted (app_store_env L cfg) c (au_store a)
                        else (Inr (), au_store a)) of
                    (Inl e, s) \<Rightarrow> Inl (TokensNotLoaded e)
                  | (Inr u, s) \<Rightarrow>
                      (let g1 = (if ha_persistence cfg = None then g else set_persistence (backend s) g)
                       in case load_persisted_versions R c g1 of
                            (Inl e, g2) \<Rightarrow> Inl (VersionsNotLoaded e)
                          | (Inr u, g2) \<Rightarrow> Inr (app, a\<lparr>au_store := s\<rparr>, g2)))))"

text \<open>
  A session store is its environment and its state; the application's own one, or a new one, is given
  the application's backend and loads what it finds there.
\<close>

type_synonym ('b, 'v, 't) app_sessions = "('b, 'v, 't) session_env \<times> ('b, 't) session_store"

definition open_sessions :: "(duration \<Rightarrow> ('b, 'v, 't) app_sessions) \<Rightarrow>
    ('c, 'w, 'f, 'g, ('b, 'v, 't) app_sessions, ('b, 'v) backend_ops, 'r) mcp_app \<Rightarrow> clock \<Rightarrow> 'b \<Rightarrow>
    (persistence_error + unit) \<times> ('b, 'v, 't) app_sessions" where
  "open_sessions new_store app c b =
     (let (SE, sess) = resolve_session_store new_store (ma_session_store app) (ma_settings app)
      in case ma_persistence app of
           None \<Rightarrow> (Inr (), SE, sess)
         | Some ops \<Rightarrow>
             (let SE1 = SE\<lparr>ss_persistence := Some ops\<rparr>;
                  (res, sess1) = load_persisted_sessions SE1 c (sess\<lparr>ss_backend := b\<rparr>)
              in (res, SE1, sess1)))"

definition app_registry :: "('b, 'v) registry_env \<Rightarrow>
    ('c, 'w, 'f, ('b, 'p, 'c, 'w) registry, 's, 'o, 'r) mcp_app \<Rightarrow> ('b, 'p, 'c, 'w) registry" where
  "app_registry R app = (case ma_registry app of Some g \<Rightarrow> g | None \<Rightarrow> registry_new R)"

definition run_http_mode :: "('b, 'v, 'c, 'k, 'st, 'r) app_libs \<Rightarrow> ('b, 'v) registry_env \<Rightarrow> (duration \<Rightarrow> ('b, 'v, 't) app_sessions) \<Rightarrow>
    ('c, 'w, 'f, ('b, 'p, 'c, 'w) registry, ('b, 'v, 't) app_sessions, ('b, 'v) backend_ops, 'r) mcp_app \<Rightarrow> clock \<Rightarrow> 'b \<Rightarrow>
    start_error + (('b, 'v, 'c, 'k, 'st, 'w, 'r) http_app \<times> ('b, 'c, 'k) auth_state \<times> ('b, 'v, 't) app_sessions \<times>
      ('b, 'p, 'c, 'w) registry)" where
  "run_http_mode L R new_store app c b =
     (case (case ma_auth app of OAuth oauth \<Rightarrow> validate_config oauth | _ \<Rightarrow> Inr ()) of
        Inl e \<Rightarrow> Inl (Misconfigured (BadOAuth e))
      | Inr u \<Rightarrow>
          (let (bind_addr, public_url) = resolve_http_addrs (lb_env L) (ma_settings app)
           in case open_sessions new_store app c b of
                (Inl e, S) \<Rightarrow> Inl (SessionsNotLoaded e)
              | (Inr u, SE, sess) \<Rightarrow>
                  map_sum id (\<lambda>(served, a, g). (served, a, (SE, sess), g))
                    (run_http L R
                       \<lparr>ha_public_url = public_url, ha_bind_addr = bind_addr, ha_app_name = ma_name app,
                        ha_auth = ma_auth app, ha_filter = ma_filter app, ha_validator = ma_validator app,
                        ha_claims_decoder = ma_claims_decoder app, ha_session_ttl = ss_ttl SE,
                        ha_logger = ma_logger app, ha_persistence = ma_persistence app,
                        ha_lifecycle = ma_lifecycle app, ha_max_version = ma_max_version app,
                        ha_extra_routes = ma_extra_routes app, ha_public_routes = ma_public_routes app\<rparr>
                       c (app_registry R app) (if ma_persistence app = None then b else ss_backend sess))))"

text \<open>
  \<open>run_stdio_mode\<close> up to the handler: the stores are loaded, the session of the transport gets the token
  of the environment.
\<close>

definition run_stdio_mode :: "('b, 'v, 'c, 'k, 'st, 'r) app_libs \<Rightarrow> ('b, 'v) registry_env \<Rightarrow> (duration \<Rightarrow> ('b, 'v, 't) app_sessions) \<Rightarrow>
    ('c, 'w, 'f, ('b, 'p, 'c, 'w) registry, ('b, 'v, 't) app_sessions, ('b, 'v) backend_ops, 'r) mcp_app \<Rightarrow> clock \<Rightarrow> 'b \<Rightarrow>
    start_error + (('c, 'w) handler_context \<times> ('b, 'c, 'k) token_store \<times> ('b, 'v, 't) app_sessions \<times> ('b, 'p, 'c, 'w) registry)" where
  "run_stdio_mode L R new_store app c b =
     (case resolve_max_protocol_version (lb_known_versions L) (lb_env L) (ma_max_version app) of
        Inl e \<Rightarrow> Inl (Misconfigured (BadRevision e))
      | Inr max_version \<Rightarrow>
          (let E = \<lparr>persistence = ma_persistence app, serde = lb_serde L, claims_decoder = ma_claims_decoder app,
                    jwt = lb_jwt L\<rparr>
           in case load_persisted E c (token_store_new b) of
                (Inl e, s) \<Rightarrow> Inl (TokensNotLoaded e)
              | (Inr u, s) \<Rightarrow>
                  (case open_sessions new_store app c (backend s) of
                     (Inl e, S) \<Rightarrow> Inl (SessionsNotLoaded e)
                   | (Inr u, SE, sess) \<Rightarrow>
                       (let s1 = (if ma_persistence app = None then s else s\<lparr>backend := ss_backend sess\<rparr>);
                            s2 = seed_stdio_token E c (lb_env L) (ma_stdio_token_env app) s1;
                            g = app_registry R app;
                            g1 = (if ma_persistence app = None then g else set_persistence (backend s2) g)
                        in case (if ma_persistence app = None then (Inr (), g) else load_persisted_versions R c g1) of
                             (Inl e, g2) \<Rightarrow> Inl (VersionsNotLoaded e)
                           | (Inr u, g2) \<Rightarrow>
                               Inr (\<lparr>hc_filter = ma_filter app, hc_validator = ma_validator app,
                                     hc_logs = ma_logger app \<noteq> None, hc_max_version = max_version,
                                     hc_loopback = None\<rparr>, s2, (SE, sess), g2)))))"

text \<open>What an application starts as: a server behind HTTP, or a handler on the standard streams.\<close>

datatype ('h, 's) started = OverHttp 'h | OverStdio 's

definition run_app :: "('b, 'v, 'c, 'k, 'st, 'r) app_libs \<Rightarrow> ('b, 'v) registry_env \<Rightarrow> (duration \<Rightarrow> ('b, 'v, 't) app_sessions) \<Rightarrow> cli_args \<Rightarrow>
    ('c, 'w, 'f, ('b, 'p, 'c, 'w) registry, ('b, 'v, 't) app_sessions, ('b, 'v) backend_ops, 'r) mcp_app \<Rightarrow> clock \<Rightarrow> 'b \<Rightarrow>
    start_error + (('b, 'v, 'c, 'k, 'st, 'w, 'r) http_app \<times> ('b, 'c, 'k) auth_state \<times> ('b, 'v, 't) app_sessions \<times>
        ('b, 'p, 'c, 'w) registry,
      ('c, 'w) handler_context \<times> ('b, 'c, 'k) token_store \<times> ('b, 'v, 't) app_sessions \<times> ('b, 'p, 'c, 'w) registry) started" where
  "run_app L R new_store args app c b =
     (case run_transport args app of
        Http \<Rightarrow> map_sum id OverHttp (run_http_mode L R new_store app c b)
      | Stdio \<Rightarrow> map_sum id OverStdio (run_stdio_mode L R new_store app c b))"

end
