(* ===== verification/Http_App_Properties.thy ===== *)
theory Http_App_Properties
  imports Http_App Redis_Properties Handler_Properties
begin

text \<open>
  Properties of the assembled server: what a request must present to get behind the layers, what a
  resource-server deployment never keeps, and how one request can keep the server from starting again.
\<close>

section \<open>How far a request gets\<close>

lemma build_app_parts:
  assumes "build_app L cfg b = Inr (app, a)"
  shows "ap_auth app = ha_auth cfg" "am_headers (ap_auth_env app) = lb_headers L"
    "am_store (ap_auth_env app) = app_store_env L cfg" "am_validation (ap_auth_env app) = app_validation (ha_auth cfg)"
    "am_jwks (ap_auth_env app) = lb_jwks L" "am_token_mode (ap_auth_env app) = provider_token_mode (ha_auth cfg)"
    "ap_open_routes app = (case ha_auth cfg of OAuth oauth \<Rightarrow> setup_oauth_routes oauth (ha_public_url cfg) | _ \<Rightarrow> [])"
    "au_store a = app_token_store (ha_auth cfg) b"
    "\<And>oauth. ha_auth cfg = OAuth oauth \<Longrightarrow> validate_config oauth = Inr ()"
    "am_post (ap_auth_env app) = lb_post L"
  using assms by (auto simp: build_app_def split: sum.splits auth_provider.splits)

lemma build_app_any_backend:
  assumes "build_app L cfg b = Inr (app, a)"
  obtains a' where "build_app L cfg b' = Inr (app, a')"
  using assms by (auto simp: build_app_def split: sum.splits auth_provider.splits)

text \<open>A request that reaches an extra route or the MCP service went through the layers.\<close>

lemma behind_the_layers:
  assumes "app_handle L app w c q a = Some (out, a')" "out = ExtraRoute x r \<or> out = McpService m r"
  shows "auth_layers app w c (aq_request q) a = Some (Forward r, a') \<and>
    find (lb_matches L (aq_path q)) (ap_public_routes app) = None \<and>
    find (\<lambda>(path, m, h). path = aq_path q) (ap_open_routes app) = None"
  using assms
  by (auto simp: app_handle_def open_answer_def inner_service_def split: option.splits prod.splits response.splits
      lifecycle_outcome.splits if_splits)

lemma stripped_authorization [simp]:
  "hdr_get (headers (strip_framework_session_header r)) AUTHORIZATION_HEADER = hdr_get (headers r) AUTHORIZATION_HEADER"
  "hdr_get (headers (strip_framework_session_header r)) MCP_SESSION_ID_HEADER = hdr_get (headers r) MCP_SESSION_ID_HEADER"
  by (simp_all add: strip_framework_session_header_def AUTHORIZATION_HEADER_def MCP_SESSION_ID_HEADER_def
      MCP_FALLBACK_SESSION_HEADER_def)


lemma stripped_basic [simp]:
  "basic_credentials H (headers (strip_framework_session_header r)) = basic_credentials H (headers r)"
  by (simp add: basic_credentials_def)






section \<open>Samples\<close>

definition sample_libs :: "('b, sample_value, string, nat, string, nat) app_libs" where
  "sample_libs = \<lparr>lb_serde = sample_serde, lb_jwt = sample_jwt, lb_headers = sample_headers, lb_jwks = verifying_jwks,
     lb_post = sample_post, lb_codec = \<lparr>jc_parse = \<lambda>s. None, jc_print = \<lambda>v. None\<rparr>, lb_bytes = VStr,
     lb_utf8 = (\<lambda>v. case v of VStr s \<Rightarrow> Some s | _ \<Rightarrow> None), lb_encode_state = (\<lambda>st. Inr (VStr st)),
     lb_decode_state = (\<lambda>v. case v of VStr s \<Rightarrow> Inr s | _ \<Rightarrow> Inl ''state''), lb_host = (\<lambda>u. None),
     lb_show_nat = (\<lambda>n. []), lb_known_versions = [], lb_env = (\<lambda>name. None), lb_matches = (\<lambda>path route. False),
     lb_socket_addr = (\<lambda>a. True)\<rparr>"

lemma sample_libs_fields [simp]:
  "lb_serde sample_libs = sample_serde" "lb_headers sample_libs = sample_headers" "lb_jwt sample_libs = sample_jwt"
  "lb_jwks sample_libs = verifying_jwks" "lb_matches sample_libs = (\<lambda>path route. False)"
  "lb_socket_addr sample_libs = (\<lambda>a. True)" "lb_known_versions sample_libs = []" "lb_env sample_libs = (\<lambda>name. None)"
  "lb_codec sample_libs = \<lparr>jc_parse = \<lambda>s. None, jc_print = \<lambda>v. None\<rparr>"
  by (simp_all add: sample_libs_def)

definition sample_app_config :: "auth_provider \<Rightarrow> ('b, sample_value) backend_ops \<Rightarrow>
    ('b, sample_value, string, nat, nat) http_app_config" where
  "sample_app_config auth ops = \<lparr>ha_public_url = ''http://localhost:4000'', ha_bind_addr = DEFAULT_BIND_ADDR, ha_app_name = ''app'', ha_auth = auth,
     ha_filter = None, ha_validator = None, ha_claims_decoder = None, ha_session_ttl = secs 1800, ha_logger = None,
     ha_persistence = Some ops, ha_lifecycle = Strict, ha_max_version = None, ha_extra_routes = None,
     ha_public_routes = None\<rparr>"

lemma sample_app_config_fields [simp]:
  "ha_auth (sample_app_config auth ops) = auth" "ha_persistence (sample_app_config auth ops) = Some ops"
  "ha_claims_decoder (sample_app_config auth ops) = None" "ha_max_version (sample_app_config auth ops) = None"
  "ha_lifecycle (sample_app_config auth ops) = Strict" "ha_public_routes (sample_app_config auth ops) = None"
  "ha_extra_routes (sample_app_config auth ops) = None"
  by (simp_all add: sample_app_config_def)

definition sample_basic :: basic_auth_config where
  "sample_basic = \<lparr>ba_username = ''u'', ba_password = ''p''\<rparr>"

definition sample_app_request :: "headers \<Rightarrow> string app_request" where
  "sample_app_request hs = \<lparr>aq_path = ''/mcp'', aq_method = ''POST'', aq_body = None,
     aq_request = \<lparr>headers = (AUTHORIZATION_HEADER, ''Basic u:p'') # hs, bearer_ext = None, token_ext = None\<rparr>\<rparr>"

definition idle_waiting :: "('b, 'c, 'k) waiting" where
  "idle_waiting = \<lparr>wt_lock_token = ''l'', wt_locked = (sample_clock, \<lambda>s. s), wt_polls = []\<rparr>"

lemma sample_max_version [simp]: "resolve_max_protocol_version [] (\<lambda>name. None) None = Inr None"
  by (simp add: resolve_max_protocol_version_def validate_max_protocol_version_def)

lemma sample_basic_credentials:
  "basic_credentials sample_headers ((AUTHORIZATION_HEADER, ''Basic u:p'') # hs) = Some (''u'', ''p'')"
  by (simp add: basic_credentials_def hdr_get_def sample_headers_def strip_either_def strip_prefix_def BASIC_PREFIX_def)

lemma sample_basic_app:
  assumes "build_app sample_libs (sample_app_config (BasicAuth sample_basic) ops) b = Inr (app, a)"
  obtains m r a' where "app_handle sample_libs app w c (sample_app_request hs) a1 = Some (McpService m r, a')"
proof -
  note built = build_app_parts [OF assms]
  obtain r a' where "auth_layers app w c (aq_request (sample_app_request hs)) a1 = Some (Forward r, a')"
    using sample_basic_credentials [of hs] built(1,2)
    by (fastforce simp: auth_layers_def basic_auth_middleware_def sample_app_request_def sample_basic_def Let_def
        stripped_basic [of sample_headers "\<lparr>headers = (AUTHORIZATION_HEADER, ''Basic u:p'') # hs, bearer_ext = None, token_ext = None\<rparr>"]
        split: prod.splits)
  moreover have "ap_open_routes app = []" "ap_public_routes app = []" "ap_extra_routes app = []" "ap_lifecycle app = Strict"
    using assms by (auto simp: build_app_def)
  ultimately show thesis
    by (intro that) (simp add: app_handle_def open_answer_def inner_service_def normalize_protocol_lifecycle_def)
qed


section \<open>A pure resource server\<close>










section \<open>A request that keeps the server from starting again\<close>

text \<open>What Basic authentication stores of a request that names its session.\<close>

lemma basic_stores:
  assumes "basic_auth_middleware H E basic c r s = (Forward r', s')"
    and "Option.bind (hdr_get (headers r) MCP_SESSION_ID_HEADER) (to_str H) = Some sid"
  shows "s' = store_token E c sid
    \<lparr>access_token = ba_password basic, refresh_token = None, expires_at = None, decoded_claims = None\<rparr> s"
  using assms by (auto simp: basic_auth_middleware_def resolve_or_derive_session_id_def Let_def split: option.splits prod.splits if_splits)

text \<open>C36.
  One request can keep the server from ever starting again. With Basic authentication and Redis, a client
  that knows the password and sends the session id \<open>__idx__\<close> makes the middleware store the credential
  under that name: the record overwrites the set in which the backend lists the sessions of the namespace,
  and it never expires. Whenever the server is started on that database afterwards, loading the
  persisted tokens fails, and with it the start.
\<close>

theorem one_request_stops_every_later_start:
  assumes redis: "redis_documented B view" "ha_persistence cfg = Some (redis_ops B)"
    and app: "ha_auth cfg = BasicAuth basic" "build_app L cfg b = Inr (app, a0)" "serde_ok (lb_serde L)"
    and address: "lb_socket_addr L (ha_bind_addr cfg)"
    and request: "Option.bind (hdr_get (headers (aq_request q)) MCP_SESSION_ID_HEADER) (to_str (lb_headers L)) = Some ''__idx__''"
    and admitted: "app_handle L app w c q a = Some (McpService m r, a')"
  shows "run_http L R cfg c' g (backend (au_store a')) = Inl (TokensNotLoaded wrong_type)"
proof -
  note built = build_app_parts [OF app(2)]
  let ?E = "app_store_env L cfg"
  let ?t = "\<lparr>access_token = ba_password basic, refresh_token = None, expires_at = None, decoded_claims = None\<rparr>"
  have keeps: "keeps_token_state (ha_auth cfg)" using app(1) by (simp add: keeps_token_state_def)
  have "auth_layers app w c (aq_request q) a = Some (Forward r, a')"
    using behind_the_layers [OF admitted disjI2 [OF refl]] by blast
  then obtain s1 where stored: "basic_auth_middleware (lb_headers L) ?E basic c (strip_framework_session_header (aq_request q)) (au_store a) = (Forward r, s1)"
    and a': "a' = a\<lparr>au_store := s1\<rparr>"
    using built(1-3) app(1) by (auto simp: auth_layers_def Let_def split: prod.splits)
  have s1: "s1 = store_token ?E c ''__idx__'' ?t (au_store a)"
    by (rule basic_stores [OF stored]) (simp add: request)
  have "serde_ok (serde ?E)" using app(3) by (simp add: app_store_env_def)
  then obtain bytes where bytes: "enc_token (serde ?E) (from_stored c (apply_decoder ?E ?t)) = Some bytes"
    unfolding serde_ok_def by blast
  obtain a1 where start: "build_app L cfg (backend s1) = Inr (app, a1)"
    using app(2) by (auto simp: build_app_def split: sum.splits)
  have "backend (au_store a1) = backend s1"
    using build_app_parts(8) [OF start] app(1) by (simp add: app_token_store_def token_store_new_def)
  moreover have "persistence ?E = Some (redis_ops B)" using redis(2) keeps by (simp add: app_store_env_def)
  moreover have "persist_ttl c (apply_decoder ?E ?t) = None" by (simp add: persist_ttl_def)
  ultimately have "fst (load_persisted ?E c' (au_store a1)) = Inl wrong_type"
    using record_under_the_index_name [OF redis(1) _ _ bytes s1] by blast
  then obtain s2 where "load_persisted ?E c' (au_store a1) = (Inl wrong_type, s2)" by (metis prod.collapse)
  then show ?thesis
    using keeps by (simp add: run_http_def a' start address app(1))
qed

definition idx_request :: "string app_request" where
  "idx_request = sample_app_request [(MCP_SESSION_ID_HEADER, ''__idx__'')]"

definition redis_registry_env :: "(sample_value keyspace, sample_value) registry_env" where
  "redis_registry_env = \<lparr>re_ops = redis_ops (sample_redis VStr), re_hash = (\<lambda>ns. 0), re_encode = (\<lambda>v. None),
     re_decode = (\<lambda>v. None), re_tool_hash = (\<lambda>n d t. 0), re_jtext = (\<lambda>v. [])\<rparr>"

theorem one_request_stops_every_later_start_witness:
  "\<exists>app a0 m r a'.
     build_app sample_libs (sample_app_config (BasicAuth sample_basic) (redis_ops (sample_redis VStr))) Map.empty = Inr (app, a0) \<and>
     app_handle sample_libs app idle_waiting sample_clock idx_request a0 = Some (McpService m r, a') \<and>
     run_http sample_libs redis_registry_env (sample_app_config (BasicAuth sample_basic) (redis_ops (sample_redis VStr)))
       (later 86400) (registry_new redis_registry_env) (backend (au_store a')) = Inl (TokensNotLoaded wrong_type)"
proof -
  let ?cfg = "sample_app_config (BasicAuth sample_basic) (redis_ops (sample_redis VStr))"
  obtain app a0 where app: "build_app sample_libs ?cfg Map.empty = Inr (app, a0)"
    by (simp add: build_app_def)
  obtain m r a' where handled: "app_handle sample_libs app idle_waiting sample_clock idx_request a0 = Some (McpService m r, a')"
    unfolding idx_request_def by (rule sample_basic_app [OF app])
  have "serde_ok (lb_serde sample_libs)" by simp
  moreover have "Option.bind (hdr_get (headers (aq_request idx_request)) MCP_SESSION_ID_HEADER) (to_str (lb_headers sample_libs)) = Some ''__idx__''"
    by (simp add: idx_request_def sample_app_request_def sample_headers_def hdr_get_def MCP_SESSION_ID_HEADER_def AUTHORIZATION_HEADER_def)
  ultimately have "run_http sample_libs redis_registry_env ?cfg (later 86400) (registry_new redis_registry_env)
      (backend (au_store a')) = Inl (TokensNotLoaded wrong_type)"
    by (intro one_request_stops_every_later_start [OF sample_redis_documented [of VStr] _ _ app _ _ _ handled]) simp_all
  with app handled show ?thesis by blast
qed

end
