(* ===== verification/Session_Access.thy ===== *)
theory Session_Access
  imports Capability_Request Sessions
begin

text \<open>
  What the application's code sees of a call: \<open>RequestContextExt\<close> and the handle \<open>Session\<close> of
  \<open>src/src/session/mod.rs\<close>, over the extensions that \<open>DynamicHandler::enrich_extensions\<close> fills. A
  store in the extensions is a handle on shared state, that is its environment; the state is passed
  beside it. A missing store is the panic that the code documents, the value \<open>None\<close>.
\<close>

section \<open>The extensions of a call\<close>

record ('b, 'v, 'c, 't) call_extensions =
  cx_request :: "'c parts option"
  cx_sessions :: "('b, 'v, 't) session_env option"
  cx_tokens :: "('b, 'v, 'c) token_lookup option"

definition inject_stores :: "('b, 'v, 'c) token_lookup \<Rightarrow> ('b, 'v, 't) session_env \<Rightarrow> ('b, 'v, 'c, 't) call_extensions \<Rightarrow>
    ('b, 'v, 'c, 't) call_extensions" where
  "inject_stores lookup store ext = ext\<lparr>cx_tokens := Some lookup, cx_sessions := Some store\<rparr>"

section \<open>The handle of a session\<close>

record ('b, 'v, 't) session =
  se_store :: "('b, 'v, 't) session_env"
  se_session_id :: string

definition session_handle_id :: "('b, 'v, 't) session \<Rightarrow> string" where
  "session_handle_id h = se_session_id h"

definition handle_get :: "('b, 'v, 't) session \<Rightarrow> string \<Rightarrow> clock \<Rightarrow> 'b wakeup list \<Rightarrow>
    ('b, 't) session_store \<Rightarrow> ('t option \<times> ('b, 't) session_store) option" where
  "handle_get h owner c ws = session_get (se_store h) owner c ws (se_session_id h)"

definition handle_get_or_create :: "('b, 'v, 't) session \<Rightarrow> string \<Rightarrow> clock \<Rightarrow> 'b wakeup list \<Rightarrow>
    ('b, 't) session_store \<Rightarrow> ('t \<times> ('b, 't) session_store) option" where
  "handle_get_or_create h owner c ws = session_get_or_create (se_store h) owner c ws (se_session_id h)"

definition handle_update :: "('b, 'v, 't) session \<Rightarrow> string \<Rightarrow> clock \<Rightarrow> 'b wakeup list \<Rightarrow> ('t \<Rightarrow> 't) \<Rightarrow>
    ('b, 't) session_store \<Rightarrow> ('t \<times> ('b, 't) session_store) option" where
  "handle_update h owner c ws f = session_update (se_store h) owner c ws (se_session_id h) f"

definition handle_remove :: "('b, 'v, 't) session \<Rightarrow> string \<Rightarrow> clock \<Rightarrow> 'b wakeup list \<Rightarrow>
    ('b, 't) session_store \<Rightarrow> ('t option \<times> ('b, 't) session_store) option" where
  "handle_remove h owner c ws = session_remove (se_store h) owner c ws (se_session_id h)"

section \<open>The accessors of the context\<close>

definition context_session_id :: "header_lib \<Rightarrow> ('b, 'v, 'c, 't) call_extensions \<Rightarrow> string" where
  "context_session_id H ext = resolve_session_id H (cx_request ext)"

definition context_session :: "header_lib \<Rightarrow> ('b, 'v, 'c, 't) call_extensions \<Rightarrow> ('b, 'v, 't) session option" where
  "context_session H ext =
     (case cx_sessions ext of
        None \<Rightarrow> None
      | Some store \<Rightarrow> Some \<lparr>se_store = store, se_session_id = resolve_session_id H (cx_request ext)\<rparr>)"

definition context_token_store :: "('b, 'v, 'c, 't) call_extensions \<Rightarrow> ('b, 'v, 'c) token_lookup option" where
  "context_token_store ext = cx_tokens ext"

text \<open>The outer \<open>None\<close> is the panic, the inner one a wait that outlasts its schedule.\<close>

definition context_token :: "('b, 'c, 'k) waiting \<Rightarrow> clock \<Rightarrow> ('b, 'v, 'c, 't) call_extensions \<Rightarrow> ('b, 'c, 'k) token_store \<Rightarrow>
    ('c stored_token option \<times> clock \<times> ('b, 'c, 'k) token_store) option option" where
  "context_token W c ext s =
     (case context_token_store ext of
        None \<Rightarrow> None
      | Some lookup \<Rightarrow> Some (resolve_token lookup W c (cx_request ext) s))"

section \<open>The cleanup of the store\<close>

definition cleanup_interval :: "duration \<Rightarrow> duration" where
  "cleanup_interval ttl = max (ttl div 2) (millis 1)"

section \<open>Facts\<close>

text \<open>A call that came through the handler never meets the panics.\<close>

lemma injected_session:
  "context_session H (inject_stores lookup store ext) =
     Some \<lparr>se_store = store, se_session_id = context_session_id H ext\<rparr>"
  by (simp add: context_session_def inject_stores_def context_session_id_def)

lemma injected_token:
  "context_token W c (inject_stores lookup store ext) s =
     Some (resolve_token lookup W c (cx_request ext) s)"
  by (simp add: context_token_def context_token_store_def inject_stores_def)

text \<open>A session is purged at the latest one interval after it is due, and the interval is never zero.\<close>

lemma cleanup_interval_bounds: "0 < cleanup_interval ttl" "millis 2 \<le> ttl \<Longrightarrow> 2 * cleanup_interval ttl \<le> ttl"
  by (auto simp: cleanup_interval_def millis_def max_def)

end
