(* ===== verification/Stdio_Properties.thy ===== *)
theory Stdio_Properties
  imports Http_App Session_Access Handler_Facts
begin

text \<open>
  The stdio transport has one session and no request: what its tools see of the credential and of
  the session is what the start put there.
\<close>

lemma stored_token_is_found:
  "\<exists>tok. hm_get (tokens (store_token E c sid t s)) sid = Some tok \<and> access_token tok = access_token t \<and>
     expires_at tok = expires_at t"
  by (auto simp: store_token_def write_through_def Let_def split: option.split)

lemma seeded_token_is_found:
  assumes "env var = Some t"
  shows "\<exists>tok. hm_get (tokens (seed_stdio_token E c env (Some var) s)) DEFAULT_SESSION_ID = Some tok \<and>
    access_token tok = t \<and> expires_at tok = None"
  using stored_token_is_found [of E c DEFAULT_SESSION_ID
      "\<lparr>access_token = t, refresh_token = None, expires_at = None, decoded_claims = None\<rparr>" s] assms
  by (simp add: seed_stdio_token_def)

lemma stdio_store:
  assumes "run_stdio_mode L R new_store app c b = Inr (C, s, S, g)"
  shows "\<exists>s0. s = seed_stdio_token \<lparr>persistence = ma_persistence app, serde = lb_serde L,
      claims_decoder = ma_claims_decoder app, jwt = lb_jwt L\<rparr> c (lb_env L) (ma_stdio_token_env app) s0"
  using assms by (auto simp: run_stdio_mode_def Let_def split: sum.splits prod.splits if_splits)

text \<open>
  A tool of a server on the standard streams sees the token that the environment gave at the start,
  whatever the backend held for that session, at any later moment; its session handle is that of the
  default session, on the store that the start opened.
\<close>

theorem stdio_tools_see_the_environment_token:
  assumes "run_stdio_mode L R new_store app c b = Inr (C, s, (SE, sess), g)"
    and "ma_stdio_token_env app = Some var" "lb_env L var = Some t"
    and "ext = inject_stores lookup SE \<lparr>cx_request = None, cx_sessions = None, cx_tokens = None\<rparr>"
  shows "(\<exists>tok. access_token tok = t \<and> context_token W c' ext s = Some (Some (Some tok, c', s))) \<and>
    context_session H ext = Some \<lparr>se_store = SE, se_session_id = DEFAULT_SESSION_ID\<rparr>"
proof -
  obtain s0 where s0: "s = seed_stdio_token \<lparr>persistence = ma_persistence app, serde = lb_serde L,
      claims_decoder = ma_claims_decoder app, jwt = lb_jwt L\<rparr> c (lb_env L) (ma_stdio_token_env app) s0"
    using stdio_store [OF assms(1)] by blast
  have "\<exists>tok. hm_get (tokens s) DEFAULT_SESSION_ID = Some tok \<and> access_token tok = t \<and> expires_at tok = None"
    unfolding s0 assms(2) by (rule seeded_token_is_found) (rule assms(3))
  then obtain tok where "hm_get (tokens s) DEFAULT_SESSION_ID = Some tok" "access_token tok = t" "expires_at tok = None"
    by blast
  then show ?thesis
    by (simp add: assms(4) injected_token injected_session context_session_id_def resolve_token_def
        resolve_session_id_def get_token_unexpiring inject_stores_def context_token_def context_token_store_def
        context_session_def)
qed

end
