(* ===== verification/Login_Page.thy ===== *)
theory Login_Page
  imports OAuth_Routes Sanitize
begin

text \<open>
  What the login flow builds around its handlers: the \<open>oauth2\<close> client of a configuration
  (\<open>OAuthConfig::build_client\<close> of \<open>src/src/auth/config.rs\<close>) and the page a successful login ends on
  (\<open>success_page\<close> of \<open>src/src/auth/templates.rs\<close>). Parsing a URL is an argument that gives the error,
  if there is one.
\<close>

section \<open>The client\<close>

record oauth_client =
  cl_client_id :: string
  cl_auth_uri :: string
  cl_token_uri :: string
  cl_redirect_uri :: string
  cl_client_secret :: "string option"

definition build_client :: "(string \<Rightarrow> string option) \<Rightarrow> oauth_config \<Rightarrow> string + oauth_client" where
  "build_client url_error cfg =
     (let issuer = trim_end_matches (CHR ''/'') (oc_issuer_url cfg);
          auth_url = issuer @ ''/protocol/openid-connect/auth'';
          token_url = issuer @ ''/protocol/openid-connect/token''
      in case url_error auth_url of
           Some e \<Rightarrow> Inl e
         | None \<Rightarrow>
             (case url_error token_url of
                Some e \<Rightarrow> Inl e
              | None \<Rightarrow>
                  (case url_error (oc_redirect_url cfg) of
                     Some e \<Rightarrow> Inl e
                   | None \<Rightarrow>
                       Inr \<lparr>cl_client_id = oc_client_id cfg, cl_auth_uri = auth_url, cl_token_uri = token_url,
                         cl_redirect_uri = oc_redirect_url cfg, cl_client_secret = oc_client_secret cfg\<rparr>)))"

text \<open>
  The crate's part of the flow, for a client: a fresh challenge with its verifier, the authorization
  URL, and the exchange of a code. With it the handlers run on the client of their configuration.
\<close>

record oauth2_crate =
  oa_pkce :: "string \<times> string"
  oa_authorize_url :: "oauth_client \<Rightarrow> string \<Rightarrow> string \<Rightarrow> string list \<Rightarrow> string"
  oa_exchange :: "oauth_client \<Rightarrow> string \<Rightarrow> string \<Rightarrow> string + string \<times> string option \<times> duration option"

definition login_lib_of :: "(string \<Rightarrow> string option) \<Rightarrow> oauth2_crate \<Rightarrow> oauth_config \<Rightarrow> login_lib" where
  "login_lib_of url_error crate cfg =
     (case build_client url_error cfg of
        Inl e \<Rightarrow> \<lparr>ll_client_ok = False, ll_pkce = oa_pkce crate, ll_authorize_url = (\<lambda>st ch scopes. []),
          ll_exchange = (\<lambda>code verifier. Inl e)\<rparr>
      | Inr client \<Rightarrow> \<lparr>ll_client_ok = True, ll_pkce = oa_pkce crate, ll_authorize_url = oa_authorize_url crate client,
          ll_exchange = oa_exchange crate client\<rparr>)"

section \<open>The success page\<close>

text \<open>The lines of the page, \<open>dq\<close> is a double quote.\<close>

definition success_page :: "string \<Rightarrow> string \<Rightarrow> string" where
  "success_page session_id0 app_name0 =
     (let session_id = escape_html session_id0; app_name = escape_html app_name0; dq = [CHR 0x22]
      in join_with [CHR 0x0A]
        [''<!DOCTYPE html>'',
         ''<html>'',
         ''<head>'',
         ''    <meta charset='' @ dq @ ''utf-8'' @ dq @ ''>'',
         ''    <title>Authentication Successful</title>'',
         ''    <style>'',
         ''        body { font-family: system-ui, sans-serif; max-width: 600px; margin: 50px auto; padding: 20px; }'',
         ''        .success { color: #059669; }'',
         ''        code { background: #f3f4f6; padding: 2px 6px; border-radius: 4px; }'',
         ''    </style>'',
         ''</head>'',
         ''<body>'',
         ''    <h1 class='' @ dq @ ''success'' @ dq @ ''>Authentication Successful!</h1>'',
         ''    <p>You have been authenticated with '' @ app_name @ ''.</p>'',
         ''    <p>Session ID: <code>'' @ session_id @ ''</code></p>'',
         ''    <p>You can now close this window and return to your MCP client.</p>'',
         ''</body>'',
         ''</html>''])"

text \<open>The answer of a successful login in the browser.\<close>

definition login_answer :: "string \<Rightarrow> http_error + string \<Rightarrow> http_error + string" where
  "login_answer app_name r = map_sum id (\<lambda>sid. success_page sid app_name) r"

section \<open>Facts\<close>

lemma escape_html_count:
  "ch \<in> {CHR ''<'', CHR ''>'', CHR 0x22, CHR 0x27} \<Longrightarrow> count_list (escape_html s) ch = 0"
  using escape_html_safe [of s] by (auto simp: count_list_0_iff)

lemma count_join_with: "count_list (join_with sep ls) ch =
    sum_list (map (\<lambda>l. count_list l ch) ls) + (length ls - 1) * count_list sep ch"
  by (induction ls rule: join_with.induct) (simp_all add: algebra_simps)

text \<open>
  The session id comes from the query of the request that started the login. Whatever it is, and
  whatever the application is called, the page has the markup of the page for empty names: no
  character that opens or closes a tag or a quotation is added.
\<close>

theorem success_page_markup_is_fixed:
  assumes "ch \<in> {CHR ''<'', CHR ''>'', CHR 0x22, CHR 0x27}"
  shows "count_list (success_page session_id app_name) ch = count_list (success_page [] []) ch"
  by (simp only: success_page_def Let_def count_join_with list.map count_list_append escape_html_count [OF assms]
      length_Cons)

end
