(* ===== verification/Registry_Concurrency.thy ===== *)
theory Registry_Concurrency
  imports Registry_Facts
begin

text \<open>
  Changes of the registry that run concurrently. An operation of \<open>src/src/capability/registry.rs\<close> that
  changes a capability takes its locks one by one: it changes one map, reads the sorted names of the
  three maps one after the other, stores the hash, and notifies the peers; another task may run
  between any two of these. Here every task is at one of these points and a step moves one task.
  \<open>Capability_Registry\<close> has the operations as one step each, which is what a task does when no other
  one interferes (\<open>uncontended_change\<close>). The ghost log records for each task when it changed a map, and
  the peers it told with what the registry held at that time.
\<close>

section \<open>Tasks\<close>

datatype phase =
    Pending
  | ReadTools notify_kind
  | ReadPrompts notify_kind "string list"
  | ReadResources notify_kind "string list"
  | StoreVersion notify_kind "64 word"
  | Notifying notify_kind
  | Completed

text \<open>The change itself, without what follows it.\<close>

fun mutate :: "('b, 'v) registry_env \<Rightarrow> ('b, 'p, 'c, 'w) registry_op \<Rightarrow> ('b, 'p, 'c, 'w) registry \<Rightarrow>
    ('b, 'p, 'c, 'w) registry" where
  "mutate E (AddTool t h) g =
     g\<lparr>rg_seen := snd (audit_tool_at_registration (re_tool_hash E) (re_jtext E) t (rg_seen g)),
       rg_tools := hm_insert (tl_name t) (t, \<lambda>args ctx. h args) (rg_tools g)\<rparr>"
| "mutate E (AddToolWithContext t h) g =
     g\<lparr>rg_seen := snd (audit_tool_at_registration (re_tool_hash E) (re_jtext E) t (rg_seen g)),
       rg_tools := hm_insert (tl_name t)
         (t, \<lambda>args ctx w. case ctx of
            Some ctx \<Rightarrow> h args ctx w
          | None \<Rightarrow> (Inl (internal_error
              ''tool requires call context but none was provided (programmatic call)''), w)) (rg_tools g)\<rparr>"
| "mutate E (RemoveTool n) g = g\<lparr>rg_tools := hm_remove n (rg_tools g)\<rparr>"
| "mutate E (AddPrompt p h) g = g\<lparr>rg_prompts := hm_insert (pr_name p) (p, h) (rg_prompts g)\<rparr>"
| "mutate E (RemovePrompt n) g = g\<lparr>rg_prompts := hm_remove n (rg_prompts g)\<rparr>"
| "mutate E (AddResource r h) g = g\<lparr>rg_resources := hm_insert (rs_uri r) (r, h) (rg_resources g)\<rparr>"
| "mutate E (RemoveResource u) g = g\<lparr>rg_resources := hm_remove u (rg_resources g)\<rparr>"
| "mutate E _ g = g"

datatype ('p, 'c, 'w) happening =
    Changed notify_kind
  | Told notify_kind "'p list" "('p, 'c, 'w) catalog"

text \<open>
  One step of a task. An operation that changes no capability, and the removal of one that is absent, is
  done at once.
\<close>

fun task_step :: "('b, 'v) registry_env \<Rightarrow> 'p peer_lib \<Rightarrow> ('b, 'p, 'c, 'w) registry_op \<Rightarrow> phase \<Rightarrow>
    ('b, 'p, 'c, 'w) registry \<Rightarrow> (phase \<times> ('b, 'p, 'c, 'w) registry \<times> ('p, 'c, 'w) happening list) option" where
  "task_step E P op Pending g =
     (case announced op (catalog_of g) of
        None \<Rightarrow> Some (Completed, snd (registry_step E P op g), [])
      | Some kind \<Rightarrow> Some (ReadTools kind, mutate E op g, [Changed kind]))"
| "task_step E P op (ReadTools kind) g = Some (ReadPrompts kind (sorted_keys (rg_tools g)), g, [])"
| "task_step E P op (ReadPrompts kind ns) g = Some (ReadResources kind (ns @ sorted_keys (rg_prompts g)), g, [])"
| "task_step E P op (ReadResources kind ns) g =
     Some (StoreVersion kind (re_hash E (ns @ sorted_keys (rg_resources g))), g, [])"
| "task_step E P op (StoreVersion kind v) g = Some (Notifying kind, g\<lparr>rg_version := v\<rparr>, [])"
| "task_step E P op (Notifying kind) g =
     Some (Completed, snd (notify_peers P kind g), [Told kind (fst (notify_peers P kind g)) (catalog_of g)])"
| "task_step E P op Completed g = None"

type_synonym ('b, 'p, 'c, 'w) tasks = "(('b, 'p, 'c, 'w) registry_op \<times> phase) list"
type_synonym ('p, 'c, 'w) history = "(nat \<times> ('p, 'c, 'w) happening) list"

inductive conc_step :: "('b, 'v) registry_env \<Rightarrow> 'p peer_lib \<Rightarrow>
    ('b, 'p, 'c, 'w) registry \<times> ('b, 'p, 'c, 'w) tasks \<times> ('p, 'c, 'w) history \<Rightarrow>
    ('b, 'p, 'c, 'w) registry \<times> ('b, 'p, 'c, 'w) tasks \<times> ('p, 'c, 'w) history \<Rightarrow> bool"
  for E :: "('b, 'v) registry_env" and P :: "'p peer_lib" where
  move: "i < length ts \<Longrightarrow> ts ! i = (op, ph) \<Longrightarrow> task_step E P op ph g = Some (ph', g', es) \<Longrightarrow>
     conc_step E P (g, ts, log) (g', ts[i := (op, ph')], log @ map (Pair i) es)"

inductive_cases conc_pairE: "conc_step E P (g, ts, log) (g', ts', log')"

section \<open>A change that nobody interferes with\<close>

lemma registry_step_mutates:
  assumes "announced op (catalog_of g) = Some kind"
  shows "registry_step E P op g = notify_peers P kind (recompute_version E (mutate E op g))"
  using assms
  by (cases op)
     (auto simp: add_tool_def add_tool_with_context_def insert_tool_def remove_tool_def add_prompt_def
        remove_prompt_def add_resource_def remove_resource_def Let_def catalog_of_def split: if_splits)

lemma catalog_mutate:
  assumes "announced op (catalog_of g) = Some kind"
  shows "catalog_of (mutate E op g) = catalog_step op (catalog_of g)"
  using registry_step_catalog [of E undefined op g] registry_step_mutates [OF assms, of E undefined]
  by (simp add: catalog_of_def recompute_version_def)

fun run_task :: "nat \<Rightarrow> ('b, 'v) registry_env \<Rightarrow> 'p peer_lib \<Rightarrow> ('b, 'p, 'c, 'w) registry_op \<Rightarrow> phase \<Rightarrow>
    ('b, 'p, 'c, 'w) registry \<Rightarrow> ('p, 'c, 'w) happening list \<Rightarrow>
    phase \<times> ('b, 'p, 'c, 'w) registry \<times> ('p, 'c, 'w) happening list" where
  "run_task 0 E P op ph g log = (ph, g, log)"
| "run_task (Suc n) E P op ph g log =
     (case task_step E P op ph g of
        None \<Rightarrow> (ph, g, log)
      | Some (ph', g', es) \<Rightarrow> run_task n E P op ph' g' (log @ es))"

lemma uncontended_change:
  "run_task 6 E P op Pending g [] =
     (Completed, snd (registry_step E P op g),
      case announced op (catalog_of g) of
        None \<Rightarrow> []
      | Some kind \<Rightarrow> [Changed kind, Told kind (fst (registry_step E P op g)) (catalog_step op (catalog_of g))])"
proof (cases "announced op (catalog_of g)")
  case None
  then show ?thesis by (simp add: eval_nat_numeral)
next
  case (Some kind)
  then show ?thesis
    using catalog_mutate [OF Some, of E] registry_step_mutates [OF Some, of E P]
    by (simp add: eval_nat_numeral recompute_version_def catalog_of_def split: prod.split)
qed

section \<open>What every interleaving keeps\<close>

definition same_kind :: "notify_kind \<Rightarrow> ('p, 'c, 'w) catalog \<Rightarrow> ('p, 'c, 'w) catalog \<Rightarrow> bool" where
  "same_kind kind k k' =
     (case kind of
        NotifyTools \<Rightarrow> ct_tools k = ct_tools k'
      | NotifyPrompts \<Rightarrow> ct_prompts k = ct_prompts k'
      | NotifyResources \<Rightarrow> ct_resources k = ct_resources k')"

lemma same_kind_refl [simp]: "same_kind kind k k"
  by (simp add: same_kind_def split: notify_kind.split)

lemma same_kind_trans: "same_kind kind k k' \<Longrightarrow> same_kind kind k' k'' \<Longrightarrow> same_kind kind k k''"
  by (simp add: same_kind_def split: notify_kind.splits)

lemma catalog_step_same_kind:
  "announced op k = Some kind' \<Longrightarrow> kind \<noteq> kind' \<Longrightarrow> same_kind kind k (catalog_step op k)"
  by (cases op) (auto simp: same_kind_def split: notify_kind.split if_splits)

definition of_task :: "nat \<Rightarrow> ('p, 'c, 'w) history \<Rightarrow> ('p, 'c, 'w) happening list" where
  "of_task i log = map snd (filter (\<lambda>e. fst e = i) log)"

lemma of_task_append [simp]: "of_task i (log @ log') = of_task i log @ of_task i log'"
  by (simp add: of_task_def)

lemma of_task_Pair [simp]: "of_task i (map (Pair j) es) = (if i = j then es else [])"
  by (induction es) (auto simp: of_task_def)

text \<open>What a task has done when it is at a point; \<open>p\<close> is a peer.\<close>

fun done_by :: "'p \<Rightarrow> phase \<Rightarrow> ('p, 'c, 'w) happening list \<Rightarrow> bool" where
  "done_by p Pending es \<longleftrightarrow> es = []"
| "done_by p Completed es \<longleftrightarrow> es = [] \<or> (\<exists>kind ps k. es = [Changed kind, Told kind ps k] \<and> p \<in> set ps)"
| "done_by p (ReadTools kind) es \<longleftrightarrow> es = [Changed kind]"
| "done_by p (ReadPrompts kind ns) es \<longleftrightarrow> es = [Changed kind]"
| "done_by p (ReadResources kind ns) es \<longleftrightarrow> es = [Changed kind]"
| "done_by p (StoreVersion kind v) es \<longleftrightarrow> es = [Changed kind]"
| "done_by p (Notifying kind) es \<longleftrightarrow> es = [Changed kind]"

text \<open>
  A notification that no later change of its kind follows was sent when the registry held for that
  kind what it holds now.
\<close>

definition told_latest :: "('b, 'p, 'c, 'w) registry \<Rightarrow> ('p, 'c, 'w) history \<Rightarrow> bool" where
  "told_latest g log \<longleftrightarrow>
     (\<forall>xs i kind ps k zs. log = xs @ (i, Told kind ps k) # zs \<longrightarrow> Changed kind \<notin> snd ` set zs \<longrightarrow>
        same_kind kind k (catalog_of g))"

fun conc_ok :: "'p \<Rightarrow> ('b, 'p, 'c, 'w) registry \<times> ('b, 'p, 'c, 'w) tasks \<times> ('p, 'c, 'w) history \<Rightarrow> bool" where
  "conc_ok p (g, ts, log) \<longleftrightarrow>
     p \<in> set (rg_peers g) \<and> (\<forall>i < length ts. done_by p (snd (ts ! i)) (of_task i log)) \<and>
     fst ` set log \<subseteq> {..<length ts} \<and> told_latest g log"

lemma told_latestD:
  "told_latest g log \<Longrightarrow> log = xs @ (i, Told kind ps k) # zs \<Longrightarrow> Changed kind \<notin> snd ` set zs \<Longrightarrow>
     same_kind kind k (catalog_of g)"
  unfolding told_latest_def by (elim allE impE) assumption+

lemma told_latest_quiet:
  assumes "told_latest g log" "\<And>kind. same_kind kind (catalog_of g) (catalog_of g')"
  shows "told_latest g' log"
  unfolding told_latest_def by (intro allI impI) (rule same_kind_trans [OF told_latestD [OF assms(1)] assms(2)])

lemma told_latest_changed:
  assumes "told_latest g log" "\<And>kind'. kind' \<noteq> kind \<Longrightarrow> same_kind kind' (catalog_of g) (catalog_of g')"
  shows "told_latest g' (log @ [(i, Changed kind)])"
  unfolding told_latest_def
proof (intro allI impI)
  fix xs j kind' ps k zs
  assume log: "log @ [(i, Changed kind)] = xs @ (j, Told kind' ps k) # zs" and later: "Changed kind' \<notin> snd ` set zs"
  then obtain zs' where zs: "zs = zs' @ [(i, Changed kind)]" by (cases zs rule: rev_cases) auto
  with log have "log = xs @ (j, Told kind' ps k) # zs'" by simp
  moreover have "kind' \<noteq> kind" "Changed kind' \<notin> snd ` set zs'" using later zs by auto
  ultimately show "same_kind kind' k (catalog_of g')"
    by (intro same_kind_trans [OF told_latestD [OF assms(1)] assms(2)])
qed

lemma told_latest_told:
  assumes "told_latest g log" "catalog_of g' = catalog_of g"
  shows "told_latest g' (log @ [(i, Told kind ps (catalog_of g))])"
  unfolding told_latest_def
proof (intro allI impI)
  fix xs j kind' ps' k zs
  assume log: "log @ [(i, Told kind ps (catalog_of g))] = xs @ (j, Told kind' ps' k) # zs"
    and later: "Changed kind' \<notin> snd ` set zs"
  show "same_kind kind' k (catalog_of g')"
  proof (cases zs rule: rev_cases)
    case Nil
    with log assms(2) show ?thesis by simp
  next
    case (snoc zs' z)
    with log have "log = xs @ (j, Told kind' ps' k) # zs'" by simp
    moreover have "Changed kind' \<notin> snd ` set zs'" using later snoc by auto
    ultimately show ?thesis unfolding assms(2) by (rule told_latestD [OF assms(1)])
  qed
qed

lemma mutate_peers: "announced op (catalog_of g) = Some kind \<Longrightarrow> rg_peers (mutate E op g) = rg_peers g"
  by (cases op) auto

lemma told_the_live:
  assumes "p \<in> set (rg_peers g)" "\<forall>kind. is_live P kind p" "notify_peers P kind g = (sent, g')"
  shows "p \<in> set sent" "p \<in> set (rg_peers g')" "catalog_of g' = catalog_of g"
proof -
  have "p \<in> set (filter (is_live P kind) (rg_peers g))" using assms(1,2) by simp
  then show "p \<in> set (rg_peers g')"
    using notify_peers_kept [of P kind g] assms(3) by (metis set_mset_mset snd_conv)
  show "p \<in> set sent"
    using notify_peers_sent [of P kind g] assms by (simp add: is_live_def)
  show "catalog_of g' = catalog_of g"
    using notify_peers_frame(1-3) [of P kind g] assms(3) by (simp add: catalog_of_def)
qed

lemma task_step_ok:
  assumes "task_step E P op ph g = Some (ph', g', es)"
    and "p \<in> set (rg_peers g)" "\<forall>kind. is_live P kind p" "done_by p ph d" "told_latest g log"
  shows "p \<in> set (rg_peers g') \<and> done_by p ph' (d @ es) \<and> told_latest g' (log @ map (Pair i) es)"
proof (cases ph)
  case Pending
  show ?thesis
  proof (cases "announced op (catalog_of g)")
    case None
    with Pending assms(1) have "ph' = Completed" "g' = snd (registry_step E P op g)" "es = []" by auto
    with registry_step_silent [OF None, of E P] registry_step_keeps_live [OF assms(2,3), of E op] Pending assms(4,5) show ?thesis
      by (auto intro: told_latest_quiet)
  next
    case (Some kind)
    with Pending assms(1) have step: "ph' = ReadTools kind" "g' = mutate E op g" "es = [Changed kind]" by auto
    have "told_latest g' (log @ [(i, Changed kind)])"
      using assms(5) by (rule told_latest_changed)
        (simp add: step(2) catalog_mutate [OF Some] catalog_step_same_kind [OF Some])
    with step mutate_peers [OF Some, of E] Pending assms(2,4) show ?thesis by simp
  qed
next
  case (Notifying kind)
  obtain sent g1 where n: "notify_peers P kind g = (sent, g1)" by (cases "notify_peers P kind g")
  with Notifying assms(1) have step: "ph' = Completed" "g' = g1" "es = [Told kind sent (catalog_of g)]" by auto
  note told = told_the_live [OF assms(2,3) n]
  have "told_latest g' (log @ [(i, Told kind sent (catalog_of g))])"
    unfolding step(2) by (rule told_latest_told [OF assms(5) told(3)])
  with step told(1,2) Notifying assms(4) show ?thesis by simp
next
  case (StoreVersion kind v)
  with assms show ?thesis by (auto intro: told_latest_quiet simp: catalog_of_def)
qed (use assms in auto)

lemma conc_step_ok:
  assumes "conc_step E P s s'" "conc_ok p s" "\<forall>kind. is_live P kind p"
  shows "conc_ok p s'"
  using assms(1)
proof (cases rule: conc_step.cases)
  case (move i ts op ph g ph' g' es log)
  have ok: "p \<in> set (rg_peers g)" "\<And>j. j < length ts \<Longrightarrow> done_by p (snd (ts ! j)) (of_task j log)"
      "fst ` set log \<subseteq> {..<length ts}" "told_latest g log"
    using assms(2) by (simp_all add: move(1))
  have "done_by p ph (of_task i log)" using ok(2) [OF move(3)] by (simp add: move(4))
  note after = task_step_ok [OF move(5) ok(1) assms(3) this ok(4), of i]
  have "done_by p (snd (ts[i := (op, ph')] ! j)) (of_task j (log @ map (Pair i) es))" if "j < length ts" for j
    using after ok(2) [OF that] that by (cases "i = j") auto
  moreover have "fst ` set (log @ map (Pair i) es) \<subseteq> {..<length ts}" using ok(3) move(3) by auto
  ultimately show ?thesis using after by (simp add: move(2))
qed

lemma conc_steps_ok:
  assumes "(conc_step E P)\<^sup>*\<^sup>* s s'" "conc_ok p s" "\<forall>kind. is_live P kind p"
  shows "conc_ok p s'"
  using assms(1,2) by (induction rule: rtranclp_induct) (auto intro: conc_step_ok [OF _ _ assms(3)])

section \<open>Runs end\<close>

fun weight :: "phase \<Rightarrow> nat" where
  "weight Pending = 6"
| "weight (ReadTools kind) = 5"
| "weight (ReadPrompts kind ns) = 4"
| "weight (ReadResources kind ns) = 3"
| "weight (StoreVersion kind v) = 2"
| "weight (Notifying kind) = 1"
| "weight Completed = 0"

definition remaining :: "('b, 'p, 'c, 'w) tasks \<Rightarrow> nat" where
  "remaining ts = sum_list (map (weight \<circ> snd) ts)"

lemma task_step_weight: "task_step E P op ph g = Some (ph', g', es) \<Longrightarrow> weight ph' < weight ph"
  by (cases ph) (auto split: option.splits prod.splits)

lemma task_step_progress: "task_step E P op ph g = None \<longleftrightarrow> ph = Completed"
  by (cases ph) (auto split: option.splits prod.splits)

lemma remaining_update:
  "i < length ts \<Longrightarrow> remaining (ts[i := t]) + weight (snd (ts ! i)) = remaining ts + weight (snd t)"
  by (induction ts arbitrary: i) (auto simp: remaining_def split: nat.split)

lemma conc_step_weight:
  assumes "conc_step E P (g, ts, log) (g', ts', log')"
  shows "remaining ts' < remaining ts" "map fst ts' = map fst ts"
proof -
  from assms obtain i op ph ph' es where ts: "i < length ts" "ts ! i = (op, ph)"
      "task_step E P op ph g = Some (ph', g', es)" "ts' = ts[i := (op, ph')]"
    by (rule conc_pairE) simp
  show "remaining ts' < remaining ts"
    using remaining_update [OF ts(1), of "(op, ph')"] task_step_weight [OF ts(3)] by (simp add: ts(2,4))
  show "map fst ts' = map fst ts"
    using ts(1,2) by (simp add: ts(4) map_update list_update_same_conv)
qed

lemma stuck_is_completed:
  assumes "\<nexists>s'. conc_step E P (g, ts, log) s'" "i < length ts"
  shows "snd (ts ! i) = Completed"
proof (rule ccontr)
  obtain op ph where t: "ts ! i = (op, ph)" by (cases "ts ! i")
  moreover assume "snd (ts ! i) \<noteq> Completed"
  ultimately obtain ph' g' es where "task_step E P op ph g = Some (ph', g', es)"
    using task_step_progress [of E P op ph g] by (cases "task_step E P op ph g") auto
  with t assms(2) have "conc_step E P (g, ts, log) (g', ts[i := (op, ph')], log @ map (Pair i) es)"
    by (intro conc_step.intros)
  with assms(1) show False by blast
qed

end
