(* ===== verification/Concurrency_Properties.thy ===== *)
theory Concurrency_Properties
  imports Registry_Concurrency Registry_Properties
begin

text \<open>Properties of registry changes that run concurrently.\<close>

section \<open>Every live peer hears the last change\<close>

lemma conc_steps_tasks:
  assumes "(conc_step E P ^^ n) s s'"
  shows "n + remaining (fst (snd s')) \<le> remaining (fst (snd s)) \<and> map fst (fst (snd s')) = map fst (fst (snd s))"
  using assms
proof (induction n arbitrary: s')
  case 0
  then show ?case by simp
next
  case (Suc n)
  then obtain s1 where s1: "(conc_step E P ^^ n) s s1" "conc_step E P s1 s'" by auto
  obtain g ts log g' ts' log' where "s1 = (g, ts, log)" "s' = (g', ts', log')" by (metis prod_cases3)
  with Suc.IH [OF s1(1)] conc_step_weight [of E P g ts log g' ts' log'] s1(2) show ?case by auto
qed

lemma initial_ok: "p \<in> set (rg_peers g) \<Longrightarrow> conc_ok p (g, map (\<lambda>op. (op, Pending)) ops, [])"
  by (simp add: of_task_def told_latest_def)

lemma initial_remaining: "remaining (map (\<lambda>op. (op, Pending)) ops) = 6 * length ops"
  by (induction ops) (simp_all add: remaining_def)

lemma told_after_the_last_change:
  assumes ok: "conc_ok p (g, ts, log)" and ended: "\<And>i. i < length ts \<Longrightarrow> snd (ts ! i) = Completed"
    and changed: "Changed kind \<in> snd ` set log"
  shows "\<exists>xs i ps k zs. log = xs @ (i, Told kind ps k) # zs \<and> p \<in> set ps \<and> same_kind kind k (catalog_of g)"
proof -
  have "\<exists>e \<in> set log. snd e = Changed kind" using changed by force
  then obtain us e vs where split: "log = us @ e # vs" "snd e = Changed kind" "\<forall>y \<in> set vs. snd y \<noteq> Changed kind"
    by (rule split_list_last_propE)
  obtain j where e: "e = (j, Changed kind)" using split(2) by (cases e) auto
  have "j < length ts" using ok by (auto simp: split(1) e)
  then have "done_by p Completed (of_task j log)" using ok ended [of j] by (metis conc_ok.simps)
  then obtain k' ps k where own: "of_task j us @ Changed kind # of_task j vs = [Changed k', Told k' ps k]" "p \<in> set ps"
    by (auto simp: split(1) e of_task_def)
  then have "Told kind ps k \<in> set (of_task j vs)" by (cases "of_task j us") (auto simp: append_eq_Cons_conv)
  then obtain ws zs where "vs = ws @ (j, Told kind ps k) # zs"
    by (auto simp: of_task_def dest: split_list)
  with split(1,3) have at: "log = (us @ e # ws) @ (j, Told kind ps k) # zs" and later: "\<forall>y \<in> set zs. snd y \<noteq> Changed kind"
    by simp_all
  from later have "Changed kind \<notin> snd ` set zs" by force
  note later = this
  have "told_latest g log" using ok by simp
  from told_latestD [OF this at later] at own(2) show ?thesis by blast
qed

text \<open>C25.
  Capabilities may be changed by tasks that run concurrently, between whose lock acquisitions any other
  task may run. Whatever the interleaving of a set of operations: it ends after at most six steps per
  operation; when no step is left, every change was followed by a notification of its kind to
  each peer that is connected throughout; and for each kind of which something changed, each such peer
  was sent a notification at a moment when the registry already held what it finally holds of that
  kind. A client that lists again on each notification ends with the final list.
\<close>

theorem concurrent_changes_reach_every_live_peer:
  assumes peer: "p \<in> set (rg_peers g)" "\<forall>kind. is_live P kind p"
    and run: "(conc_step E P ^^ n) (g, map (\<lambda>op. (op, Pending)) ops, []) (g', ts, log)"
    and stuck: "\<nexists>s. conc_step E P (g', ts, log) s"
  shows "n \<le> 6 * length ops \<and>
    (\<forall>i < length ops. of_task i log = [] \<or>
       (\<exists>kind ps k. of_task i log = [Changed kind, Told kind ps k] \<and> p \<in> set ps)) \<and>
    (\<forall>kind. Changed kind \<in> snd ` set log \<longrightarrow>
       (\<exists>xs i ps k zs. log = xs @ (i, Told kind ps k) # zs \<and> p \<in> set ps \<and> same_kind kind k (catalog_of g')))"
proof (intro conjI allI impI)
  note tasks = conc_steps_tasks [OF run]
  then show "n \<le> 6 * length ops" by (simp add: initial_remaining)
  have "map fst ts = ops" using tasks by (simp add: comp_def)
  then have len: "length ts = length ops" by (metis length_map)
  have "(conc_step E P)\<^sup>*\<^sup>* (g, map (\<lambda>op. (op, Pending)) ops, []) (g', ts, log)" using run by (rule relpowp_imp_rtranclp)
  then have ok: "conc_ok p (g', ts, log)" by (rule conc_steps_ok) (rule initial_ok [OF peer(1)], rule peer(2))
  have ended: "snd (ts ! i) = Completed" if "i < length ts" for i using stuck_is_completed [OF stuck that] .
  {
    fix i assume "i < length ops"
    then have "done_by p Completed (of_task i log)" using ok ended [of i] len by (metis conc_ok.simps)
    then show "of_task i log = [] \<or> (\<exists>kind ps k. of_task i log = [Changed kind, Told kind ps k] \<and> p \<in> set ps)" by simp
  next
    fix kind assume "Changed kind \<in> snd ` set log"
    then show "\<exists>xs i ps k zs. log = xs @ (i, Told kind ps k) # zs \<and> p \<in> set ps \<and> same_kind kind k (catalog_of g')"
      using told_after_the_last_change [OF ok] ended by blast
  }
qed

section \<open>Schedules\<close>

text \<open>A schedule names the task that moves next; it is how the runs below are given.\<close>

fun move_task :: "('b, 'v) registry_env \<Rightarrow> 'p peer_lib \<Rightarrow> nat \<Rightarrow>
    ('b, 'p, 'c, 'w) registry \<times> ('b, 'p, 'c, 'w) tasks \<times> ('p, 'c, 'w) history \<Rightarrow>
    (('b, 'p, 'c, 'w) registry \<times> ('b, 'p, 'c, 'w) tasks \<times> ('p, 'c, 'w) history) option" where
  "move_task E P i (g, ts, log) =
     (if i < length ts then
        (case task_step E P (fst (ts ! i)) (snd (ts ! i)) g of
           None \<Rightarrow> None
         | Some (ph', g', es) \<Rightarrow> Some (g', ts[i := (fst (ts ! i), ph')], log @ map (Pair i) es))
      else None)"

fun run_schedule :: "('b, 'v) registry_env \<Rightarrow> 'p peer_lib \<Rightarrow> nat list \<Rightarrow>
    ('b, 'p, 'c, 'w) registry \<times> ('b, 'p, 'c, 'w) tasks \<times> ('p, 'c, 'w) history \<Rightarrow>
    (('b, 'p, 'c, 'w) registry \<times> ('b, 'p, 'c, 'w) tasks \<times> ('p, 'c, 'w) history) option" where
  "run_schedule E P [] s = Some s"
| "run_schedule E P (i # is) s = (case move_task E P i s of None \<Rightarrow> None | Some s' \<Rightarrow> run_schedule E P is s')"

lemma move_task_step: "move_task E P i s = Some s' \<Longrightarrow> conc_step E P s s'"
  by (cases s) (auto split: if_splits option.splits intro!: conc_step.intros)

lemma run_schedule_steps: "run_schedule E P is s = Some s' \<Longrightarrow> (conc_step E P ^^ length is) s s'"
proof (induction "is" arbitrary: s)
  case Nil
  then show ?case by simp
next
  case (Cons i "is")
  then obtain s1 where s1: "move_task E P i s = Some s1" "run_schedule E P is s1 = Some s'"
    by (auto split: option.splits)
  show ?case using relpowp_Suc_I2 [OF move_task_step [OF s1(1)] Cons.IH [OF s1(2)]] by simp
qed

lemma completed_is_stuck: "list_all (\<lambda>t. snd t = Completed) ts \<Longrightarrow> \<not> conc_step E P (g, ts, log) s"
  by (auto elim!: conc_step.cases simp: list_all_length)

theorem concurrent_changes_reach_every_live_peer_witness:
  "\<exists>g' ts log xs i ps k zs.
     (conc_step sample_registry_env sample_peers ^^ 12)
       (connected_registry, map (\<lambda>op. (op, Pending)) [AddPrompt sample_prompt (\<lambda>q w. (Inr JNull, w)),
          RemovePrompt ''greet''], []) (g', ts, log) \<and>
     log = xs @ (i, Told NotifyPrompts ps k) # zs \<and> 3 \<in> set ps \<and> same_kind NotifyPrompts k (catalog_of g')"
proof -
  let ?ops = "[AddPrompt sample_prompt (\<lambda>q w. (Inr JNull, w)), RemovePrompt ''greet''] ::
    (64 word in_memory_backend, nat, string, nat) registry_op list"
  let ?is = "[0, 0, 1, 1, 0, 1, 0, 1, 1, 1, 0, 0] :: nat list"
  obtain g' ts log where run: "run_schedule sample_registry_env sample_peers ?is
      (connected_registry, map (\<lambda>op. (op, Pending)) ?ops, []) = Some (g', ts, log)"
    and ended: "list_all (\<lambda>t. snd t = Completed) ts" and changed: "Changed NotifyPrompts \<in> snd ` set log"
    by (simp add: catalog_of_def connected_registry_def registry_new_def sample_prompt_def hm_get_def hm_insert_def
        sorted_keys_def split: prod.split)
  have steps12: "length ?is = 12" by simp
  have steps: "(conc_step sample_registry_env sample_peers ^^ 12)
      (connected_registry, map (\<lambda>op. (op, Pending)) ?ops, []) (g', ts, log)"
    using run_schedule_steps [OF run] unfolding steps12 .
  have p: "3 \<in> set (rg_peers connected_registry)" by (simp add: connected_registry_def)
  have l: "\<forall>kind. is_live sample_peers kind (3 :: nat)" by (simp add: is_live_def sample_peers_def)
  have stuck: "\<nexists>s. conc_step sample_registry_env sample_peers (g', ts, log) s"
    using completed_is_stuck [OF ended] by blast
  from concurrent_changes_reach_every_live_peer [OF p l steps stuck] changed steps show ?thesis by blast
qed

section \<open>The version may be that of an earlier state\<close>

text \<open>
  Two tasks add a tool each; the first has computed its hash before the second changes the map, and
  stores it after the second has stored its own.
\<close>

lemma stale_schedule:
  assumes "tl_name t1 \<noteq> tl_name t2"
  shows "\<exists>g log. run_schedule E P [0, 0, 0, 0, 1, 1, 1, 1, 1, 1, 0, 0]
      (registry_new E, [(AddTool t1 h1, Pending), (AddTool t2 h2, Pending)], []) =
      Some (g, [(AddTool t1 h1, Completed), (AddTool t2 h2, Completed)], log) \<and>
    rg_version g = re_hash E [tl_name t1] \<and>
    rg_tools g = [(tl_name t1, t1, \<lambda>args ctx. h1 args), (tl_name t2, t2, \<lambda>args ctx. h2 args)] \<and>
    rg_prompts g = [] \<and> rg_resources g = []"
  using assms by (simp add: registry_new_def notify_peers_def hm_insert_def sorted_keys_def Let_def)

lemma names_pair: "a \<noteq> b \<Longrightarrow> dom m = {a, b} \<Longrightarrow> names m = sort [a, b]"
  by (simp add: names_def sorted_list_of_set_sort_remdups [symmetric])

lemma dom_one_tool: "rg_tools g = [(n, x)] \<Longrightarrow> dom (ct_tools (catalog_of g)) = {n}"
  by (auto simp: catalog_of_def hm_get_def split: if_splits)

text \<open>C39.
  The version that the registry stores may describe a state that is gone. Of two tasks that add a tool
  each, the one that hashed first may store last: both tools are registered, and the version is that of
  the first alone. A client that initializes then and lists both tools is not told when it initializes
  again after the second tool was removed.
\<close>

theorem concurrent_changes_leave_a_stale_version:
  fixes E :: "('b, 'v) registry_env" and P :: "'p peer_lib"
  assumes names: "tl_name t1 \<noteq> tl_name t2"
    and hash: "re_hash E [tl_name t1] \<noteq> re_hash E (sort [tl_name t1, tl_name t2])"
  shows "\<exists>g log. (conc_step E P)\<^sup>*\<^sup>* (registry_new E :: ('b, 'p, 'c, 'w) registry, [(AddTool t1 h1, Pending), (AddTool t2 h2, Pending)], [])
        (g, [(AddTool t1 h1, Completed), (AddTool t2 h2, Completed)], log) \<and>
      dom (ct_tools (catalog_of g)) = {tl_name t1, tl_name t2} \<and>
      rg_version g \<noteq> content_hash E (catalog_of g) \<and>
      (let g1 = snd (notify_if_changed E c sid g);
           g2 = snd (registry_step E P (RemoveTool (tl_name t2)) g1)
       in dom (ct_tools (catalog_of g2)) = {tl_name t1} \<and> fst (notify_if_changed E c' sid g2) = [])"
proof -
  obtain g log where run: "run_schedule E P [0, 0, 0, 0, 1, 1, 1, 1, 1, 1, 0, 0]
      (registry_new E :: ('b, 'p, 'c, 'w) registry, [(AddTool t1 h1, Pending), (AddTool t2 h2, Pending)], []) =
      Some (g, [(AddTool t1 h1, Completed), (AddTool t2 h2, Completed)], log)"
    and g: "rg_version g = re_hash E [tl_name t1]"
      "rg_tools g = [(tl_name t1, t1, \<lambda>args ctx. h1 args), (tl_name t2, t2, \<lambda>args ctx. h2 args)]"
      "rg_prompts g = []" "rg_resources g = []"
    using stale_schedule [OF names] by blast
  have steps: "(conc_step E P)\<^sup>*\<^sup>* (registry_new E :: ('b, 'p, 'c, 'w) registry, [(AddTool t1 h1, Pending), (AddTool t2 h2, Pending)], [])
      (g, [(AddTool t1 h1, Completed), (AddTool t2 h2, Completed)], log)"
    using run_schedule_steps [OF run] by (rule relpowp_imp_rtranclp)
  have both: "dom (ct_tools (catalog_of g)) = {tl_name t1, tl_name t2}"
    by (auto simp: catalog_of_def g(2) hm_get_def split: if_splits)
  have none: "names (ct_prompts (catalog_of g)) = []" "names (ct_resources (catalog_of g)) = []"
    by (simp_all add: catalog_of_def g names_def hm_get_def [abs_def])
  have stale: "rg_version g \<noteq> content_hash E (catalog_of g)"
    using hash by (simp add: content_hash_def names_pair [OF names both] none g(1))
  let ?g1 = "snd (notify_if_changed E c sid g)"
  let ?g2 = "snd (registry_step E P (RemoveTool (tl_name t2)) ?g1)"
  have g1: "rg_tools ?g1 = rg_tools g" "rg_prompts ?g1 = []" "rg_resources ?g1 = []" "rg_version ?g1 = rg_version g"
    "hm_get (rg_session_versions ?g1) sid = Some (rg_version g)"
    by (auto simp: notify_if_changed_def Let_def g split: option.split)
  have g2: "rg_tools ?g2 = [(tl_name t1, t1, \<lambda>args ctx. h1 args)]" "rg_version ?g2 = re_hash E [tl_name t1]"
    "rg_session_versions ?g2 = rg_session_versions ?g1"
    using names by (simp_all add: remove_tool_def g1 g(2) recompute_version_def hm_get_def hm_remove_def sorted_keys_def)
  have "dom (ct_tools (catalog_of ?g2)) = {tl_name t1}" by (rule dom_one_tool [OF g2(1)])
  moreover have "fst (notify_if_changed E c' sid ?g2) = []"
    unfolding notify_if_changed_sent g2(2,3) g1(5) g(1) by simp
  ultimately show ?thesis using steps both stale unfolding Let_def by (intro exI conjI)
qed

definition farewell_tool :: mcp_tool where
  "farewell_tool = greeting_tool\<lparr>tl_name := ''part''\<rparr>"

theorem concurrent_changes_leave_a_stale_version_witness:
  "\<exists>g :: sample_registry. rg_version g \<noteq> content_hash sample_registry_env (catalog_of g) \<and>
     dom (ct_tools (catalog_of g)) = {''greet'', ''part''}"
proof -
  have "tl_name greeting_tool \<noteq> tl_name farewell_tool"
    and "re_hash sample_registry_env [tl_name greeting_tool] \<noteq>
      re_hash sample_registry_env (sort [tl_name greeting_tool, tl_name farewell_tool])"
    by (simp_all add: greeting_tool_def farewell_tool_def)
  from concurrent_changes_leave_a_stale_version [OF this, of sample_peers]
  obtain g :: sample_registry where "dom (ct_tools (catalog_of g)) = {tl_name greeting_tool, tl_name farewell_tool}"
    "rg_version g \<noteq> content_hash sample_registry_env (catalog_of g)" by blast
  then show ?thesis by (auto simp: greeting_tool_def farewell_tool_def)
qed

end
