(* ===== verification/Spec2Isabelle.thy ===== *)
theory Spec2Isabelle
  imports Auth_Properties Grant_Properties Session_Properties OAuth_Token_Properties Registration_Properties
    Schema_Properties Protocol_Properties
    Registry_Properties Handler_Properties Metrics_Properties Redis_Properties Runner_Properties
    Http_App_Properties Stdio_Properties Login_Page Concurrency_Properties
begin

text \<open>
  A verification development of the Rust crate \<open>mcp-framework\<close>: an MCP server framework with
  authentication, shared persistence, typed sessions and capabilities that change at run time.

  \<^bold>\<open>The program.\<close> An MCP server behind HTTP. A request passes the protocol middleware
  (\<open>src/transport/protocol.rs\<close>), which repairs the lifecycle of older and newer revisions, and the
  authentication middleware (\<open>src/auth/middleware.rs\<close>), which in one of three token modes decides
  whether the request reaches a handler and under which session. In the proxying modes it works on
  the \<open>TokenStore\<close> (\<open>src/auth/store.rs\<close>): real tokens per session, opaque tokens that stand for them,
  grants, parked authorizations and registered clients; the OAuth endpoints (\<open>src/auth/proxy.rs\<close>,
  \<open>registration.rs\<close>, \<open>routes.rs\<close>, \<open>metadata.rs\<close>) fill that store. Expired tokens are refreshed at the
  authorization server under a distributed lock, and bearers the proxy did not issue are validated
  with the issuer's keys (\<open>src/auth/jwks.rs\<close>) or by introspection. In resource-server mode only the
  keys count, and a table of session bindings (\<open>src/auth/binding.rs\<close>) keeps a protocol session with
  its principal. Behind the middleware the \<open>DynamicHandler\<close> (\<open>src/capability/handler.rs\<close>) answers from the
  capability registry (\<open>registry.rs\<close>) or the application's own handler, after the filters and
  validators (\<open>filter.rs\<close>, \<open>validator.rs\<close>); tool schemas pass a sanitizer (\<open>sanitize.rs\<close>); calls are
  audited (\<open>src/audit\<close>) and counted (\<open>src/metrics\<close>). A loopback client (\<open>src/transport/loopback.rs\<close>) reaches
  the same handler inside the process. Application data lives in the \<open>SessionStore\<close>
  (\<open>src/session/mod.rs\<close>). All stores write through to, and read through from, a \<open>PersistenceBackend\<close>
  (\<open>src/persistence.rs\<close>) that replicas share.

  \<^bold>\<open>Theories, in the order of the code's dependencies.\<close>
  \<^item> \<open>Mcp_Prelude\<close>: hash maps, clocks, strings, JSON values, HTTP answers, and their lemmas.
    \<open>Http_Util\<close>: the errors of \<open>src/http_util\<close> as answers, and the query builder.
  \<^item> \<open>Persistence\<close>: the backend trait as the record \<open>backend_ops\<close>, the \<open>InMemoryBackend\<close>, deadlines as
    Unix timestamps; the locales \<open>kv_backend\<close>, \<open>lock_backend\<close> and \<open>expiring_backend\<close> state what the
    stores rely on, and are interpreted on the \<open>InMemoryBackend\<close> (\<open>im\<close>, \<open>im_lock\<close>, \<open>im_ex\<close>).
    \<open>Redis_Backend\<close>: the \<open>RedisBackend\<close> of \<open>src/persistence_redis.rs\<close> as the commands it sends;
    \<open>Redis_Facts\<close>: on a server that behaves as Redis documents, it satisfies \<open>expiring_backend\<close> for
    every name but the one its index lives under.
  \<^item> \<open>Credential_Identity\<close>, \<open>Auth_Config\<close>, \<open>Jwks\<close>: unverified claims and derived identities, the
    configuration and its boot-time check, the key cache with its fetch cooldown.
  \<^item> \<open>Tokens\<close>, \<open>Token_Store\<close>, \<open>Token_Refresh\<close>, \<open>Token_Restore\<close>, \<open>Bearer_Validation\<close>: the token store, one
    definition per method; \<open>Token_Store_Facts\<close> has its invariant and, inside \<open>kv_backend\<close>, what holds
    across replicas; \<open>Store_Machine\<close> is the store as a step relation with its reachable states.
  \<^item> \<open>Session_Bindings\<close>, \<open>Middleware\<close>, \<open>Middleware_Facts\<close>: the bindings and the middlewares.
  \<^item> \<open>OAuth_State\<close>, \<open>Redirect\<close>, \<open>Registration\<close>, \<open>OAuth_Proxy\<close>, \<open>OAuth_Routes\<close>: the endpoints; \<open>Parking\<close>
    has the laws of parked authorizations over \<open>kv_backend\<close>, \<open>Code_Flow\<close> the authorize and callback
    steps as a relation with its invariant.
  \<^item> \<open>Sessions\<close>, \<open>Session_Facts\<close>: the session store; the locale \<open>coordinated_backend\<close> extends
    \<open>kv_backend\<close> by locks that leave the records alone (interpreted as \<open>im_co\<close>).
  \<^item> \<open>Json_Object\<close>, \<open>Sanitize\<close>: JSON objects as ordered maps and the schema sanitizer;
    \<open>Sanitize_Facts\<close>, \<open>Inline_Facts\<close>, \<open>Flatten_Facts\<close>: what its passes keep and remove.
  \<^item> \<open>Protocol\<close>: revisions, their negotiation, and the lifecycle middleware.
  \<^item> \<open>Capability_Request\<close>: call requests, filters, validators and session ids; \<open>Tool_Audit\<close>: records and
    loggers; \<open>Capability_Registry\<close>, \<open>Registry_Facts\<close>: the registry, its peers and versions;
    \<open>Registry_Concurrency\<close>: its operations cut where another task may run, as a step relation on tasks;
    \<open>Capability_Handler\<close>, \<open>Handler_Facts\<close>: the handler; \<open>Loopback\<close>: the in-process client;
    \<open>Session_Access\<close>: what a tool sees of its session and its credential (\<open>RequestContextExt\<close>).
  \<^item> \<open>Metrics\<close>, \<open>Metrics_Facts\<close>: the histogram, the collector, its configuration, the Prometheus text and
    the endpoint of \<open>src/metrics\<close>.
  \<^item> \<open>Transport_Sessions\<close>: how \<open>rmcp\<close>'s transport sessions are persisted
    (\<open>src/transport/session_persistence.rs\<close>), its lemmas inside \<open>expiring_backend\<close>.
  \<^item> \<open>Runner\<close>: the application builder, its validation and its guard against a diverging loopback endpoint,
    settings (\<open>src/runner.rs\<close>); \<open>Http_App\<close>: the assembly of the HTTP server from these parts
    (\<open>src/transport/http.rs\<close>), a request's way through routes and layers, and the start over HTTP or the
    standard streams (\<open>run_http\<close>, \<open>run_http_mode\<close>, \<open>run_stdio_mode\<close>, \<open>run\<close>); \<open>Login_Page\<close>: the \<open>oauth2\<close> client of a
    configuration and the HTML page of \<open>src/auth/templates.rs\<close>.
  \<^item> \<open>Samples\<close>: concrete parameters for the witnesses. The theories named \<open>..._Properties\<close> hold the
    numbered properties, each after the text that states it, each with a witness where it has
    hypotheses; the unnumbered theorems beside them state further behaviour.

  \<^bold>\<open>How the model corresponds to the code.\<close> A struct is a record with the code's fields, an enum a
  datatype; a method is a function of its arguments, the moment of the call and the state, and
  returns the next state with its result. A \<open>Mutex\<close> or \<open>RwLock\<close> that guards a method makes it one
  step. Where a method waits (for a lock, between polls) it takes a \<^emph>\<open>schedule\<close>: the moments at
  which it wakes up and what the other tasks and replicas did meanwhile; a wait that outlasts its
  schedule has the value \<open>None\<close>, and \<open>get_token_returns\<close> and \<open>session_operations_return\<close> show that a
  schedule which reaches the code's own deadline is always enough. The sanitizer's recursion has
  the code's own depth limit as its fuel. Instants and durations are natural numbers of
  nanoseconds; the monotonic and the wall clock are independent. Timestamps are capped at 64 bits as in
  the code; sums of an \<open>Instant\<close> and a \<open>Duration\<close> do not overflow in the model (the code would panic
  on a server-sent lifetime of about \<open>2 ^ 63\<close> seconds). Errors that the code formats into text are
  structured values. The numbers of the metrics are reals: rounding, and a counter that overflows after
  \<open>2 ^ 64\<close> calls, are left out. Stores that share one backend in the assembled server hold copies of its
  state; their namespaces are disjoint, and the start passes one state from load to load. Application code (handlers, filters, validators, loggers) is a function on a
  world \<open>'w\<close> that it may change.

  \<^bold>\<open>Parameters.\<close> Code that is not in the repository is an argument: \<open>jwt_lib\<close> (\<open>base64\<close>, \<open>serde_json\<close>,
  \<open>sha2\<close>), \<open>jwks_lib\<close> (\<open>jsonwebtoken\<close>, HTTP GET), \<open>http_post\<close>, \<open>url_lib\<close>, \<open>login_lib\<close> (\<open>oauth2\<close>), \<open>proxy_lib\<close>
  (URL and form encoding), \<open>store_serde\<close> (what \<open>serde_json\<close> makes of the persisted records; \<open>serde_ok\<close>:
  what was encoded decodes to itself), \<open>header_lib\<close>, \<open>json_codec\<close>, \<open>peer_lib\<close> (an rmcp peer: its id, whether it
  is closed, what a notification does), the hash of a capability set, the handshake of the loopback client,
  \<open>redis_backend\<close> (the server's answer to a command; \<open>redis_documented\<close>: strings, sets, expiry and
  transactions as Redis documents them), parsing and printing of floats, and in \<open>app_libs\<close> what the
  assembled server uses of \<open>axum\<close> and \<open>url\<close>: whether a path matches a route of the application, the host of a
  URL, which texts are socket addresses.

  \<^bold>\<open>What the properties show.\<close> Safety of the middleware (nothing unauthenticated is forwarded, the
  framework's session header cannot be forged, a resource-server session is not shared, grant
  material is not downgraded); the token store's invariant over all reachable states; revocation,
  rotation, minting and read-through across replicas; refresh that serves live tokens and ends;
  the unknown-bearer policy, the introspection latch and the key-fetch cooldown; the authorization
  code flow (codes only reach sanctioned URIs, an authorization completes once, what a grant
  yields is usable, opaque mode keeps the real tokens in); the session store's updates that
  compose across replicas, purging and restart; the registry as a refinement of a catalog of
  capabilities, and that under every interleaving every live peer hears of the last change; the handler's authorization, the
  identity its tools see, and the agreement of listing with dispatch; the sanitizer's inlining,
  flattening and well-formed results; the confinement of protocol repairs; the assembled server, which
  lets nobody past its layers without the configured credential and as a resource server never holds a
  grant; the builder, which builds only applications whose in-process endpoints agree with them; the
  collector, equal to a count over the records, and its quantiles, which lie in the right bucket;
  transport sessions on Redis, which stay restorable while they are used and do not come back once
  deleted; tools over the standard streams, which see the environment's token. The properties of kind
  error prove behaviours that deviate from what the code's comments or documents promise.

  \<^bold>\<open>Not modelled.\<close> I/O: sockets, the listener and its shutdown, CORS and tracing layers, log lines,
  the command line and \<open>.env\<close>, the connection to Redis, \<open>rmcp\<close>'s loop over the standard streams
  (\<open>src/transport/stdio.rs\<close>) and its tasks over the loopback channels. Timers: a cleanup task is its purge
  step, with the interval it runs at. JSON encodings of the metadata documents, the snapshot and the
  HTTP errors' envelope beyond their fields. Re-exports and string newtypes (\<open>src/lib.rs\<close>, \<open>prelude.rs\<close>, \<open>newtypes.rs\<close>)
  have no behaviour of their own. Error and \<open>Debug\<close> texts that are only logged are structured values.
\<close>

end
